(* ===== verification/Prelude.thy ===== *)
theory Prelude
  imports Complex_Main "HOL-Library.Word" "HOL-Library.AList" "HOL-Library.Char_ord"
    "HOL-Library.List_Lexorder"
begin

text \<open>
  Shared ground of the development: the collections of rewrite rules the component theories
  fill, the string functions of the Go standard library the code calls (package strings, fmt,
  strconv, and the key folding of encoding/json), the 64-bit and 32-bit ranges, and the lemmas on
  tables kept as lists of keyed rows. Strings are byte strings in UTF-8, as Go strings are.
\<close>

named_theorems op_defs "definitions of the operations of a component, unfolded one at a time"
named_theorems row_simps "what an operation leaves unchanged and what it sets"
named_theorems wf_rules "preservation of the well-formedness invariants"

section \<open>Strings of the Go standard library\<close>

definition has_prefix :: "string \<Rightarrow> string \<Rightarrow> bool" where
  "has_prefix p s \<longleftrightarrow> take (length p) s = p"

definition has_suffix :: "string \<Rightarrow> string \<Rightarrow> bool" where
  "has_suffix p s \<longleftrightarrow> has_prefix (rev p) (rev s)"

fun contains_str :: "string \<Rightarrow> string \<Rightarrow> bool" where
  "contains_str sub [] \<longleftrightarrow> sub = []"
| "contains_str sub (c # cs) \<longleftrightarrow> has_prefix sub (c # cs) \<or> contains_str sub cs"

lemma has_prefix_append: "has_prefix p s \<longleftrightarrow> (\<exists>r. s = p @ r)"
  by (auto simp: has_prefix_def) (metis append_take_drop_id)

lemma contains_str_iff: "contains_str sub s \<longleftrightarrow> (\<exists>a b. s = a @ sub @ b)"
proof (induction s)
  case Nil
  then show ?case by simp
next
  case (Cons c cs)
  show ?case
  proof
    assume "contains_str sub (c # cs)"
    then consider "has_prefix sub (c # cs)" | "contains_str sub cs" by auto
    then show "\<exists>a b. c # cs = a @ sub @ b"
    proof cases
      case 1
      then show ?thesis by (auto simp: has_prefix_append intro: exI [of _ "[]"])
    next
      case 2
      with Cons.IH obtain a b where "cs = a @ sub @ b" by blast
      then have "c # cs = (c # a) @ sub @ b" by simp
      then show ?thesis by blast
    qed
  next
    assume "\<exists>a b. c # cs = a @ sub @ b"
    then obtain a b where ab: "c # cs = a @ sub @ b" by blast
    show "contains_str sub (c # cs)"
    proof (cases a)
      case Nil
      with ab have "has_prefix sub (c # cs)" by (simp add: has_prefix_append)
      then show ?thesis by simp
    next
      case (Cons x xs)
      with ab have "cs = xs @ sub @ b" by simp
      with Cons.IH show ?thesis by auto
    qed
  qed
qed

lemma contains_str_append_left: "contains_str sub s \<Longrightarrow> contains_str sub (s @ t)"
  by (fastforce simp: contains_str_iff)

lemma contains_str_append_right: "contains_str sub t \<Longrightarrow> contains_str sub (s @ t)"
proof -
  assume "contains_str sub t"
  then obtain a b where "t = a @ sub @ b" by (auto simp: contains_str_iff)
  then have "s @ t = (s @ a) @ sub @ b" by simp
  then show ?thesis unfolding contains_str_iff by blast
qed

lemma contains_str_char: "contains_str [c] s \<longleftrightarrow> c \<in> set s"
  by (induction s) (auto simp: has_prefix_def)

text \<open>
  strings.TrimSpace drops leading and trailing Unicode white space. The code only compares its
  result with the empty string. White space beyond ASCII is the UTF-8 encoding of U+0085, U+00A0,
  U+1680, U+2000 to U+200A, U+2028, U+2029, U+202F, U+205F and U+3000.
\<close>

definition ascii_space :: "char \<Rightarrow> bool" where
  "ascii_space c \<longleftrightarrow> c \<in> {CHR 0x09, CHR 0x0A, CHR 0x0B, CHR 0x0C, CHR 0x0D, CHR 0x20}"

definition space2 :: "char \<Rightarrow> char \<Rightarrow> bool" where
  "space2 a b \<longleftrightarrow> a = CHR 0xC2 \<and> b \<in> {CHR 0x85, CHR 0xA0}"

definition space3 :: "char \<Rightarrow> char \<Rightarrow> char \<Rightarrow> bool" where
  "space3 a b c \<longleftrightarrow>
     (a = CHR 0xE1 \<and> b = CHR 0x9A \<and> c = CHR 0x80)
   \<or> (a = CHR 0xE2 \<and> b = CHR 0x80 \<and>
        (of_char c \<in> {0x80..(0x8A::nat)} \<or> c \<in> {CHR 0xA8, CHR 0xA9, CHR 0xAF}))
   \<or> (a = CHR 0xE2 \<and> b = CHR 0x81 \<and> c = CHR 0x9F)
   \<or> (a = CHR 0xE3 \<and> b = CHR 0x80 \<and> c = CHR 0x80)"

fun trim_left :: "string \<Rightarrow> string" where
  "trim_left [] = []"
| "trim_left [a] = (if ascii_space a then [] else [a])"
| "trim_left [a, b] =
     (if ascii_space a then trim_left [b] else if space2 a b then [] else [a, b])"
| "trim_left (a # b # c # r) =
     (if ascii_space a then trim_left (b # c # r)
      else if space2 a b then trim_left (c # r)
      else if space3 a b c then trim_left r
      else a # b # c # r)"

fun trim_right :: "string \<Rightarrow> string" where
  "trim_right [] = []"
| "trim_right (c # cs) = (if trim_left (c # cs) = [] then [] else c # trim_right cs)"

definition trim_space :: "string \<Rightarrow> string" where
  "trim_space s = trim_right (trim_left s)"

lemma trim_left_idem [simp]: "trim_left (trim_left s) = trim_left s"
  by (induction s rule: trim_left.induct) auto

lemma trim_space_empty_iff: "trim_space s = [] \<longleftrightarrow> trim_left s = []"
  by (cases "trim_left s") (use trim_left_idem [of s] in \<open>simp_all add: trim_space_def\<close>)

lemma trim_space_nonempty: "trim_space s \<noteq> [] \<Longrightarrow> s \<noteq> []"
  by (auto simp: trim_space_def)

text \<open>Decimal formatting of integers (strconv, the \<open>%d\<close> verb of fmt).\<close>

definition digit_char :: "nat \<Rightarrow> char" where
  "digit_char d = char_of (48 + d)"

fun show_nat :: "nat \<Rightarrow> string" where
  "show_nat n = (if n < 10 then [digit_char n] else show_nat (n div 10) @ [digit_char (n mod 10)])"

declare show_nat.simps [simp del]

definition show_int :: "int \<Rightarrow> string" where
  "show_int i = (if i < 0 then CHR ''-'' # show_nat (nat (- i)) else show_nat (nat i))"

fun join_strings :: "string \<Rightarrow> string list \<Rightarrow> string" where
  "join_strings sep [] = []"
| "join_strings sep [x] = x"
| "join_strings sep (x # y # r) = x @ sep @ join_strings sep (y # r)"

text \<open>
  Key folding of encoding/json: a struct field matches a key that is equal, or equal after
  folding each rune to the least rune of its case orbit. For the ASCII field names of this
  program the runes beyond ASCII that fold into ASCII are U+017F (to S) and U+212A (to K).
\<close>

definition upper_ascii :: "char \<Rightarrow> char" where
  "upper_ascii c =
     (let n = of_char c :: nat in if 97 \<le> n \<and> n \<le> 122 then char_of (n - 32) else c)"

fun fold_name :: "string \<Rightarrow> string" where
  "fold_name [] = []"
| "fold_name [a] = [upper_ascii a]"
| "fold_name [a, b] =
     (if a = CHR 0xC5 \<and> b = CHR 0xBF then ''S'' else upper_ascii a # fold_name [b])"
| "fold_name (a # b # c # r) =
     (if a = CHR 0xC5 \<and> b = CHR 0xBF then CHR ''S'' # fold_name (c # r)
      else if a = CHR 0xE2 \<and> b = CHR 0x84 \<and> c = CHR 0xAA then CHR ''K'' # fold_name r
      else upper_ascii a # fold_name (b # c # r))"

definition match_field :: "string list \<Rightarrow> string \<Rightarrow> string option" where
  "match_field names k =
     (if k \<in> set names then Some k else find (\<lambda>n. fold_name n = fold_name k) names)"

lemma match_field_mem: "match_field names k = Some n \<Longrightarrow> n \<in> set names"
  by (auto simp: match_field_def find_Some_iff split: if_splits)

lemma match_field_exact: "k \<in> set names \<Longrightarrow> match_field names k = Some k"
  by (simp add: match_field_def)

section \<open>Integer ranges\<close>

definition int64_ok :: "int \<Rightarrow> bool" where
  "int64_ok n \<longleftrightarrow> - (2 ^ 63) \<le> n \<and> n < 2 ^ 63"

definition int4_ok :: "int \<Rightarrow> bool" where
  "int4_ok n \<longleftrightarrow> - (2 ^ 31) \<le> n \<and> n < 2 ^ 31"

lemma int4_int64: "int4_ok n \<Longrightarrow> int64_ok n"
  by (simp add: int4_ok_def int64_ok_def)

section \<open>Tables as lists of keyed rows\<close>

definition put_row :: "('a \<Rightarrow> 'k) \<Rightarrow> 'a \<Rightarrow> 'a list \<Rightarrow> 'a list" where
  "put_row key x rows = map (\<lambda>r. if key r = key x then x else r) rows"

lemma map_key_put_row [row_simps]: "map key (put_row key x rows) = map key rows"
  by (auto simp: put_row_def)

lemma length_put_row [row_simps]: "length (put_row key x rows) = length rows"
  by (simp add: put_row_def)

lemma set_put_row: "r \<in> set (put_row key x rows) \<Longrightarrow> r = x \<or> r \<in> set rows"
  by (auto simp: put_row_def split: if_splits)

lemma mem_put_row_other: "r \<in> set rows \<Longrightarrow> key r \<noteq> key x \<Longrightarrow> r \<in> set (put_row key x rows)"
  by (force simp: put_row_def)

lemma put_row_in: "key x \<in> key ` set rows \<Longrightarrow> x \<in> set (put_row key x rows)"
  by (force simp: put_row_def)

lemma find_key_put_row:
  "find (\<lambda>r. key r = k) (put_row key x rows) =
     (if k = key x \<and> k \<in> key ` set rows then Some x else find (\<lambda>r. key r = k) rows)"
  by (induction rows) (auto simp: put_row_def)

lemma find_key_None: "find (\<lambda>r. key r = k) rows = None \<longleftrightarrow> k \<notin> key ` set rows"
  by (auto simp: find_None_iff)

lemma find_key_Some:
  assumes "distinct (map key rows)"
  shows "find (\<lambda>r. key r = k) rows = Some x \<longleftrightarrow> x \<in> set rows \<and> key x = k"
  using assms by (induction rows) auto

lemma find_SomeD: "find P xs = Some x \<Longrightarrow> x \<in> set xs \<and> P x"
  by (auto simp: find_Some_iff)

lemma find_append: "find P (xs @ ys) = (case find P xs of None \<Rightarrow> find P ys | Some x \<Rightarrow> Some x)"
  by (induction xs) auto

lemma find_key_and:
  assumes "distinct (map key rows)"
  shows "find (\<lambda>r. key r = k \<and> P r) rows =
     (case find (\<lambda>r. key r = k) rows of None \<Rightarrow> None | Some r \<Rightarrow> if P r then Some r else None)"
  using assms
proof (induction rows)
  case (Cons a rows)
  show ?case
  proof (cases "key a = k")
    case True
    with Cons.prems have "find (\<lambda>r. key r = k) rows = None"
      by (auto simp: find_None_iff) (metis image_eqI)
    with True Cons show ?thesis by auto
  qed (use Cons in simp)
qed simp

lemma distinct_key_inj:
  "distinct (map key rows) \<Longrightarrow> x \<in> set rows \<Longrightarrow> y \<in> set rows \<Longrightarrow> key x = key y \<Longrightarrow> x = y"
  by (auto simp: distinct_map dest: inj_onD)

lemma put_row_same:
  assumes "distinct (map key rows)" and "x \<in> set rows"
  shows "put_row key x rows = rows"
  unfolding put_row_def by (rule map_idI) (use assms in \<open>auto dest: distinct_key_inj\<close>)

section \<open>Optional values\<close>

lemma case_option_Some_iff: "(case x of None \<Rightarrow> None | Some y \<Rightarrow> f y) = Some z \<longleftrightarrow>
    (\<exists>y. x = Some y \<and> f y = Some z)"
  by (cases x) auto

fun collect_options :: "'a option list \<Rightarrow> 'a list option" where
  "collect_options [] = Some []"
| "collect_options (None # _) = None"
| "collect_options (Some x # xs) = map_option (Cons x) (collect_options xs)"

lemma collect_options_map_Some:
  "(\<And>x. x \<in> set xs \<Longrightarrow> f (g x) = Some x) \<Longrightarrow> collect_options (map f (map g xs)) = Some xs"
  by (induction xs) auto

lemma collect_options_Some_iff: "collect_options os = Some xs \<longleftrightarrow> os = map Some xs"
  by (induction os arbitrary: xs rule: collect_options.induct) auto

text \<open>The bytes of a character of the log messages that is not ASCII.\<close>

definition em_dash :: string where
  "em_dash = [CHR 0xE2, CHR 0x80, CHR 0x94]"

end
