(* ===== verification/Json_Model.thy ===== *)
theory Json_Model
  imports Prelude
begin

text \<open>
  JSON documents and what encoding/json does with them: the decoding of an object into a struct
  (field matching by name, last occurrence wins, null leaves a plain field alone and clears a
  pointer, a value of the wrong kind is an error), the dynamic values a \<open>map[string]any\<close>
  holds, and the marshalling of those values. Request bodies are classified by what the two
  decoders of the code see of them: json.Unmarshal takes the whole body, json.Decoder (behind
  gin's ShouldBindJSON) only the first document.
\<close>

section \<open>Documents\<close>

text \<open>
  A number literal keeps what Go's decoder can tell apart: \<open>JInt\<close> is a literal with neither
  fraction nor exponent, \<open>JDec\<close> any other.
\<close>

datatype jnum = JInt int | JDec rat

datatype json =
    JNull
  | JBool bool
  | JNum jnum
  | JStr string
  | JArr "json list"
  | JObj "(string \<times> json) list"

text \<open>The member of an object that a reader sees: the last one with the key.\<close>

fun jfield :: "string \<Rightarrow> json \<Rightarrow> json option" where
  "jfield k (JObj kvs) = map_of (rev kvs) k"
| "jfield k _ = None"

section \<open>Dynamic values\<close>

text \<open>
  The values of Go's \<open>any\<close> that this program meets. A map is the list of its entries in one
  iteration order, without two entries for a key.
\<close>

datatype go_any =
    ANil
  | ABool bool
  | AStr string
  | AFloat rat
  | AInt int
  | AInt64 int
  | AMap "(string \<times> go_any) list"
  | ASlice "go_any list"

type_synonym go_map = "(string \<times> go_any) list"

definition map_put :: "string \<Rightarrow> 'a \<Rightarrow> (string \<times> 'a) list \<Rightarrow> (string \<times> 'a) list" where
  "map_put k v m = AList.update k v m"

lemma map_of_map_put [simp]: "map_of (map_put k v m) = (map_of m)(k \<mapsto> v)"
  by (simp add: map_put_def update_conv')

lemma distinct_map_put: "distinct (map fst m) \<Longrightarrow> distinct (map fst (map_put k v m))"
  by (simp add: map_put_def distinct_update)

lemma map_put_fresh: "k \<notin> fst ` set m \<Longrightarrow> map_put k v m = m @ [(k, v)]"
  unfolding map_put_def by (induction m) auto

fun map_put_all :: "(string \<times> 'a) list \<Rightarrow> (string \<times> 'a) list \<Rightarrow> (string \<times> 'a) list" where
  "map_put_all m [] = m"
| "map_put_all m ((k, v) # kvs) = map_put_all (map_put k v m) kvs"

lemma distinct_map_put_all: "distinct (map fst m) \<Longrightarrow> distinct (map fst (map_put_all m kvs))"
  by (induction m kvs rule: map_put_all.induct) (auto simp: distinct_map_put)

lemma map_put_all_append:
  "distinct (map fst (m @ kvs)) \<Longrightarrow> map_put_all m kvs = m @ kvs"
proof (induction m kvs rule: map_put_all.induct)
  case (2 m k v kvs)
  then have "map_put k v m = m @ [(k, v)]" by (intro map_put_fresh) auto
  with 2 show ?case by simp
qed simp

text \<open>
  Decoding into \<open>any\<close>. The conversion of a literal to float64 is the argument \<open>f64\<close>
  (strconv.ParseFloat: None where the literal is out of range).
\<close>

fun any_of_json :: "(jnum \<Rightarrow> rat option) \<Rightarrow> json \<Rightarrow> go_any option" where
  "any_of_json f64 JNull = Some ANil"
| "any_of_json f64 (JBool b) = Some (ABool b)"
| "any_of_json f64 (JNum n) = map_option AFloat (f64 n)"
| "any_of_json f64 (JStr s) = Some (AStr s)"
| "any_of_json f64 (JArr js) = map_option ASlice (collect_options (map (any_of_json f64) js))"
| "any_of_json f64 (JObj kvs) =
     map_option (\<lambda>es. AMap (map_put_all [] es))
       (collect_options (map (\<lambda>(k, j). map_option (Pair k) (any_of_json f64 j)) kvs))"

text \<open>
  Marshalling. \<open>fmt\<close> is the literal strconv prints for a float64, the shortest one that reads
  back as the same float64.
\<close>

fun any_to_json :: "(rat \<Rightarrow> jnum) \<Rightarrow> go_any \<Rightarrow> json" where
  "any_to_json fmt ANil = JNull"
| "any_to_json fmt (ABool b) = JBool b"
| "any_to_json fmt (AStr s) = JStr s"
| "any_to_json fmt (AFloat r) = JNum (fmt r)"
| "any_to_json fmt (AInt n) = JNum (JInt n)"
| "any_to_json fmt (AInt64 n) = JNum (JInt n)"
| "any_to_json fmt (AMap m) = JObj (map (\<lambda>(k, a). (k, any_to_json fmt a)) m)"
| "any_to_json fmt (ASlice as) = JArr (map (any_to_json fmt) as)"

text \<open>
  The values that come out of a decoder: no int or int64, every float64 one that is printed and
  read back unchanged, every map without duplicates.
\<close>

fun decoded_any :: "(jnum \<Rightarrow> rat option) \<Rightarrow> (rat \<Rightarrow> jnum) \<Rightarrow> go_any \<Rightarrow> bool" where
  "decoded_any f64 fmt (AFloat r) \<longleftrightarrow> f64 (fmt r) = Some r"
| "decoded_any f64 fmt (AInt n) \<longleftrightarrow> False"
| "decoded_any f64 fmt (AInt64 n) \<longleftrightarrow> False"
| "decoded_any f64 fmt (AMap m) \<longleftrightarrow>
     distinct (map fst m) \<and> list_all (\<lambda>(k, a). decoded_any f64 fmt a) m"
| "decoded_any f64 fmt (ASlice as) \<longleftrightarrow> list_all (decoded_any f64 fmt) as"
| "decoded_any f64 fmt _ \<longleftrightarrow> True"

lemma any_json_roundtrip:
  "decoded_any f64 fmt a \<Longrightarrow> any_of_json f64 (any_to_json fmt a) = Some a"
proof (induction f64 fmt a rule: decoded_any.induct)
  case (4 f64 fmt m)
  have "collect_options (map (\<lambda>(k, j). map_option (Pair k) (any_of_json f64 j))
          (map (\<lambda>(k, a). (k, any_to_json fmt a)) m)) = Some m"
    by (rule collect_options_map_Some) (use 4 in \<open>auto simp: list_all_iff\<close>)
  moreover have "map_put_all [] m = m" by (rule map_put_all_append [of "[]", simplified]) (use 4 in simp)
  ultimately show ?case by simp
next
  case (5 f64 fmt as)
  have "collect_options (map (any_of_json f64) (map (any_to_json fmt) as)) = Some as"
    by (rule collect_options_map_Some) (use 5 in \<open>auto simp: list_all_iff\<close>)
  then show ?case by simp
qed simp_all

lemma collect_options_memD:
  "collect_options (map f xs) = Some ys \<Longrightarrow> y \<in> set ys \<Longrightarrow> \<exists>x \<in> set xs. f x = Some y"
  by (induction xs arbitrary: ys) (auto split: option.splits simp: collect_options_Some_iff)

lemma set_map_put: "(k, v) \<in> set (map_put k' v' m) \<Longrightarrow> (k = k' \<and> v = v') \<or> (k, v) \<in> set m"
  unfolding map_put_def by (induction m) (auto split: if_splits)

lemma set_map_put_all: "(k, v) \<in> set (map_put_all m kvs) \<Longrightarrow> (k, v) \<in> set m \<union> set kvs"
  by (induction m kvs rule: map_put_all.induct) (auto dest: set_map_put)

lemma any_of_json_decoded:
  assumes fmt: "\<And>l r. f64 l = Some r \<Longrightarrow> f64 (fmt r) = Some r"
  shows "any_of_json f64 j = Some a \<Longrightarrow> decoded_any f64 fmt a"
proof (induction j arbitrary: a)
  case (JArr js)
  then show ?case by (fastforce simp: list_all_iff dest: collect_options_memD)
next
  case (JObj kvs)
  then obtain es where es: "collect_options
      (map (\<lambda>(k, j). map_option (Pair k) (any_of_json f64 j)) kvs) = Some es"
    and a: "a = AMap (map_put_all [] es)" by auto
  have "decoded_any f64 fmt v" if "(k, v) \<in> set (map_put_all [] es)" for k v
  proof -
    from that have "(k, v) \<in> set es" using set_map_put_all by fastforce
    with collect_options_memD [OF es] obtain j where "(k, j) \<in> set kvs" "any_of_json f64 j = Some v"
      by fastforce
    with JObj.IH show ?thesis by (force simp: snds.simps)
  qed
  then show ?case by (auto simp: a list_all_iff distinct_map_put_all)
qed (use fmt in auto)

section \<open>Structs\<close>

text \<open>
  One step of decoding per member of the object; a step that fails is a type mismatch. Go
  finishes the object and then returns the first mismatch; the callers drop the half-filled
  struct in that case, so the model stops.
\<close>

fun decode_members :: "(string \<Rightarrow> json \<Rightarrow> 's \<Rightarrow> 's option) \<Rightarrow> (string \<times> json) list \<Rightarrow> 's \<Rightarrow> 's option" where
  "decode_members step [] s = Some s"
| "decode_members step ((k, j) # kvs) s =
     (case step k j s of None \<Rightarrow> None | Some s' \<Rightarrow> decode_members step kvs s')"

definition decode_struct :: "(string \<Rightarrow> json \<Rightarrow> 's \<Rightarrow> 's option) \<Rightarrow> 's \<Rightarrow> json \<Rightarrow> 's option" where
  "decode_struct step s j =
     (case j of JObj kvs \<Rightarrow> decode_members step kvs s | JNull \<Rightarrow> Some s | _ \<Rightarrow> None)"

lemma decode_members_append:
  "decode_members step (xs @ ys) s =
     (case decode_members step xs s of None \<Rightarrow> None | Some t \<Rightarrow> decode_members step ys t)"
  by (induction step xs s rule: decode_members.induct) (auto split: option.splits)

lemma decode_members_inv:
  assumes "\<And>k j s t. step k j s = Some t \<Longrightarrow> P s \<Longrightarrow> P t"
  shows "decode_members step kvs s = Some t \<Longrightarrow> P s \<Longrightarrow> P t"
  using assms by (induction kvs arbitrary: s) (auto split: option.splits)

text \<open>Plain fields: null leaves the current value.\<close>

definition dec_string :: "json \<Rightarrow> string \<Rightarrow> string option" where
  "dec_string j cur = (case j of JNull \<Rightarrow> Some cur | JStr s \<Rightarrow> Some s | _ \<Rightarrow> None)"

definition dec_bool :: "json \<Rightarrow> bool \<Rightarrow> bool option" where
  "dec_bool j cur = (case j of JNull \<Rightarrow> Some cur | JBool b \<Rightarrow> Some b | _ \<Rightarrow> None)"

definition dec_int64 :: "json \<Rightarrow> int \<Rightarrow> int option" where
  "dec_int64 j cur =
     (case j of
        JNull \<Rightarrow> Some cur
      | JNum (JInt n) \<Rightarrow> (if int64_ok n then Some n else None)
      | _ \<Rightarrow> None)"

text \<open>Pointer fields: null is nil.\<close>

definition dec_ptr :: "(json \<Rightarrow> 'a option) \<Rightarrow> json \<Rightarrow> 'a option option" where
  "dec_ptr dec j = (case j of JNull \<Rightarrow> Some None | _ \<Rightarrow> map_option Some (dec j))"

text \<open>
  A \<open>map[string]any\<close> field, None being the nil map: null makes it nil, an object adds its
  members to the map that is there.
\<close>

definition dec_map :: "(jnum \<Rightarrow> rat option) \<Rightarrow> json \<Rightarrow> go_map option \<Rightarrow> go_map option option" where
  "dec_map f64 j cur =
     (case j of
        JNull \<Rightarrow> Some None
      | JObj kvs \<Rightarrow>
          map_option (\<lambda>es. Some (map_put_all (case cur of None \<Rightarrow> [] | Some m \<Rightarrow> m) es))
            (collect_options (map (\<lambda>(k, v). map_option (Pair k) (any_of_json f64 v)) kvs))
      | _ \<Rightarrow> None)"

definition int_ptr_json :: "int option \<Rightarrow> json" where
  "int_ptr_json p = (case p of None \<Rightarrow> JNull | Some n \<Rightarrow> JNum (JInt n))"

definition map_json :: "(rat \<Rightarrow> jnum) \<Rightarrow> go_map option \<Rightarrow> json" where
  "map_json fmt m = (case m of None \<Rightarrow> JNull | Some es \<Rightarrow> any_to_json fmt (AMap es))"

lemmas dec_defs = dec_string_def dec_bool_def dec_int64_def dec_ptr_def dec_map_def

lemma dec_int_ptr_roundtrip:
  "(case p of None \<Rightarrow> True | Some n \<Rightarrow> int64_ok n) \<Longrightarrow>
     dec_ptr (\<lambda>j. dec_int64 j 0) (int_ptr_json p) = Some p"
  by (cases p) (auto simp: dec_ptr_def int_ptr_json_def dec_int64_def)

lemma dec_map_roundtrip:
  assumes "case m of None \<Rightarrow> True | Some es \<Rightarrow> decoded_any f64 fmt (AMap es)"
  shows "dec_map f64 (map_json fmt m) None = Some m"
proof (cases m)
  case None
  then show ?thesis by (simp add: dec_map_def map_json_def)
next
  case (Some es)
  with assms have "any_of_json f64 (any_to_json fmt (AMap es)) = Some (AMap es)"
    by (intro any_json_roundtrip) simp
  with Some show ?thesis by (auto simp: dec_map_def map_json_def)
qed

section \<open>Request bodies\<close>

text \<open>
  What the handler can read of a request body: nothing, bytes that no document starts with, bytes that
  could be the start of a document but end before it is complete because the reader of the body failed
  at 1 MiB (http.MaxBytesReader), or a document, with or without more bytes than white space after it
  among those the reader returns.
\<close>

datatype body_bytes = EmptyBody | BadBody | CutBody | DocBody json bool

definition body_nonempty :: "body_bytes \<Rightarrow> bool" where
  "body_nonempty b \<longleftrightarrow> b \<noteq> EmptyBody"

text \<open>json.Unmarshal of all the bytes; None is a syntax error.\<close>

definition unmarshal_all :: "body_bytes \<Rightarrow> json option" where
  "unmarshal_all b = (case b of DocBody j trailing \<Rightarrow> (if trailing then None else Some j) | _ \<Rightarrow> None)"

text \<open>json.Decoder.Decode, which stops after the first document.\<close>

definition decode_first :: "body_bytes \<Rightarrow> json option" where
  "decode_first b = (case b of DocBody j trailing \<Rightarrow> Some j | _ \<Rightarrow> None)"

lemma unmarshal_all_decode_first: "unmarshal_all b = Some j \<Longrightarrow> decode_first b = Some j"
  by (auto simp: unmarshal_all_def decode_first_def split: body_bytes.splits if_splits)

end
