(* ===== verification/Domain.thy ===== *)
theory Domain
  imports Json_Model
begin

text \<open>
  The core entities and the error catalogue (internal/core/domain), the caller identity
  (pkg/requestctx), and the error values that travel through the layers: a \<open>*DomainError\<close>, an
  error of the database driver, an error of the cache client, or the body reader's size error.
\<close>

section \<open>Error catalogue (errors.go)\<close>

datatype sentinel =
    ErrValidation | ErrMissingIdentity | ErrInsufficientRole | ErrOptimisticLockConflict
  | ErrDependencyUnavailable | ErrNoMutableField | ErrInvalidFeatureValue
  | ErrDepartmentNotFound | ErrPlanNotFound
  | ErrConflict
  | ErrFieldImmutable | ErrSystemNameImmutable | ErrSystemDepartmentCannotBeRetired
  | ErrMethodNotAllowed
  | ErrDBUnavailable | ErrCacheUnavailable

fun sentinel_text :: "sentinel \<Rightarrow> string" where
  "sentinel_text ErrValidation = ''validation_error''"
| "sentinel_text ErrMissingIdentity = ''missing_identity_headers''"
| "sentinel_text ErrInsufficientRole = ''insufficient_role''"
| "sentinel_text ErrOptimisticLockConflict = ''optimistic_lock_conflict''"
| "sentinel_text ErrDependencyUnavailable = ''dependency_unavailable''"
| "sentinel_text ErrNoMutableField = ''no_mutable_field''"
| "sentinel_text ErrInvalidFeatureValue = ''invalid_feature_value''"
| "sentinel_text ErrDepartmentNotFound = ''department_not_found''"
| "sentinel_text ErrPlanNotFound = ''plan_not_found''"
| "sentinel_text ErrConflict = ''conflict''"
| "sentinel_text ErrFieldImmutable = ''field_immutable''"
| "sentinel_text ErrSystemNameImmutable = ''system_name_immutable''"
| "sentinel_text ErrSystemDepartmentCannotBeRetired = ''system_department_cannot_be_retired''"
| "sentinel_text ErrMethodNotAllowed = ''method_not_allowed''"
| "sentinel_text ErrDBUnavailable = ''db_unavailable''"
| "sentinel_text ErrCacheUnavailable = ''cache_unavailable''"

record domain_error =
  de_Code :: string
  de_Message :: string
  de_Cause :: "sentinel option"
  de_Details :: go_map

definition NewError :: "sentinel \<Rightarrow> string \<Rightarrow> domain_error" where
  "NewError s msg =
     \<lparr>de_Code = sentinel_text s, de_Message = msg, de_Cause = Some s, de_Details = []\<rparr>"

definition WithDetails :: "domain_error \<Rightarrow> go_map \<Rightarrow> domain_error" where
  "WithDetails e d = e\<lparr>de_Details := d\<rparr>"

definition DomainError_Error :: "domain_error \<Rightarrow> string" where
  "DomainError_Error e = de_Code e @ '': '' @ de_Message e"

lemma sentinel_text_inj: "sentinel_text s = sentinel_text t \<longleftrightarrow> s = t"
  by (cases s; cases t) simp_all

lemma NewError_simps [simp]:
  "de_Code (NewError s msg) = sentinel_text s"
  "de_Message (NewError s msg) = msg"
  "de_Cause (NewError s msg) = Some s"
  "de_Details (NewError s msg) = []"
  by (simp_all add: NewError_def)

lemma WithDetails_simps [simp]:
  "de_Code (WithDetails e d) = de_Code e"
  "de_Message (WithDetails e d) = de_Message e"
  "de_Cause (WithDetails e d) = de_Cause e"
  "de_Details (WithDetails e d) = d"
  by (simp_all add: WithDetails_def)

section \<open>Error values\<close>

text \<open>
  An error the Postgres server reports (pgconn.PgError): SQLSTATE, severity, message and the name
  of the violated constraint.
\<close>

record pg_error =
  pg_Code :: string
  pg_Severity :: string
  pg_Message :: string
  pg_ConstraintName :: string

datatype driver_error =
    PgErr pg_error
  | ErrNoRows
  | CtxCanceled
  | CtxDeadlineExceeded
  | OtherErr string

datatype go_error =
    EDomain domain_error
  | EDriver driver_error
  | EMaxBytes

text \<open>errors.Is(err, sentinel): the chain is the error and, for a DomainError, its Cause.\<close>

fun errors_Is :: "go_error \<Rightarrow> sentinel \<Rightarrow> bool" where
  "errors_Is (EDomain de) s \<longleftrightarrow> de_Cause de = Some s"
| "errors_Is _ s \<longleftrightarrow> False"

type_synonym 'a res = "go_error + 'a"

section \<open>Entities (department.go, plan.go)\<close>

type_synonym uuid = "128 word"

definition uuid_Nil :: uuid where
  "uuid_Nil = 0"

text \<open>Times are microseconds since the epoch, the resolution of the timestamptz columns.\<close>

record department =
  d_ID :: uuid
  d_Code :: string
  d_Name :: string
  d_IsSystem :: bool
  d_IsActive :: bool
  d_RecordVersion :: int
  d_CreatedAt :: int
  d_UpdatedAt :: int

type_synonym tenant_plan = string
type_synonym branding_level = string

definition PlanStarter :: tenant_plan where
  "PlanStarter = ''starter''"

definition PlanPro :: tenant_plan where
  "PlanPro = ''pro''"

definition PlanEnterprise :: tenant_plan where
  "PlanEnterprise = ''enterprise''"

definition BrandingNone :: branding_level where
  "BrandingNone = ''none''"

definition BrandingLogo :: branding_level where
  "BrandingLogo = ''logo''"

text \<open>A limit of None is unlimited (nil pointer, NULL column). A FeatureSet of None is the nil map.\<close>

record plan =
  p_Code :: tenant_plan
  p_DisplayName :: string
  p_WorkflowTemplateLimit :: "int option"
  p_TenderLimit :: "int option"
  p_TrialDurationDays :: int
  p_SSOEnabled :: bool
  p_CustomBranding :: branding_level
  p_FeatureSet :: "go_map option"
  p_RecordVersion :: int
  p_CreatedAt :: int
  p_UpdatedAt :: int

text \<open>
  In a patch, None is a field that was not sent. The two limits are double pointers: Some None
  sets the column to NULL.
\<close>

record plan_patch =
  pp_DisplayName :: "string option"
  pp_WorkflowTemplateLimit :: "int option option"
  pp_TenderLimit :: "int option option"
  pp_TrialDurationDays :: "int option"
  pp_SSOEnabled :: "bool option"
  pp_CustomBranding :: "branding_level option"
  pp_FeatureSet :: "go_map option"
  pp_RecordVersion :: int

lemmas tier_defs = PlanStarter_def PlanPro_def PlanEnterprise_def

section \<open>Caller identity (pkg/requestctx)\<close>

record request_context =
  rc_UserID :: uuid
  rc_TenantID :: uuid
  rc_Roles :: "string list"
  rc_ClientIP :: string
  rc_UserAgent :: string

fun has_role_in :: "string list \<Rightarrow> string \<Rightarrow> bool" where
  "has_role_in [] role \<longleftrightarrow> False"
| "has_role_in (r # rs) role \<longleftrightarrow> (if r = role then True else has_role_in rs role)"

definition HasRole :: "request_context \<Rightarrow> string \<Rightarrow> bool" where
  "HasRole rc role \<longleftrightarrow> has_role_in (rc_Roles rc) role"

definition IsOperator :: "request_context \<Rightarrow> bool" where
  "IsOperator rc \<longleftrightarrow> HasRole rc ''platform_operator''"

definition IsSystem :: "request_context \<Rightarrow> bool" where
  "IsSystem rc \<longleftrightarrow> HasRole rc ''iam-system''"

lemma has_role_in_iff: "has_role_in rs role \<longleftrightarrow> role \<in> set rs"
  by (induction rs) auto

lemma HasRole_iff: "HasRole rc role \<longleftrightarrow> role \<in> set (rc_Roles rc)"
  by (simp add: HasRole_def has_role_in_iff)

end
