(* ===== verification/Extern.thy ===== *)
theory Extern
  imports Domain
begin

text \<open>
  The code outside the repository that the program calls, as one record of functions that is an
  argument of every definition using it: google/uuid, the collation of the database, strconv's
  float conversions, the time format, and the error helpers of platform-pgcommon and of pgx. What
  the program relies on is \<open>ext_ok\<close>, the documented behaviour of that code; \<open>ext_ref\<close> is a
  concrete instance that satisfies it, used by the witnesses.
\<close>

record ext =
  x_parse_uuid :: "string \<Rightarrow> uuid option"
  x_uuid_string :: "uuid \<Rightarrow> string"
  x_uuid_new :: "nat \<Rightarrow> uuid"
  x_collation :: "string \<Rightarrow> nat list"
  x_parse_float :: "jnum \<Rightarrow> rat option"
  x_format_float :: "rat \<Rightarrow> jnum"
  x_format_time :: "int \<Rightarrow> string"
  x_format_rfc3339 :: "int \<Rightarrow> string"
  x_parse_time :: "string \<Rightarrow> int option"
  x_pg_error_text :: "pg_error \<Rightarrow> string"
  x_IsPgError :: "go_error \<Rightarrow> bool"
  x_IsConnectionException :: "go_error \<Rightarrow> bool"
  x_IsInsufficientResources :: "go_error \<Rightarrow> bool"
  x_IsUniqueViolation :: "go_error \<Rightarrow> bool"
  x_IsCheckViolation :: "go_error \<Rightarrow> bool"
  x_ConstraintName :: "go_error \<Rightarrow> string"
  x_encode_error :: "int \<Rightarrow> driver_error"

text \<open>
  The documented behaviour. The pgcommon helpers look at the SQLSTATE of a PgError (class 08, class
  53, 23505, 23514) and at its constraint name; pgconn prints the SQLSTATE in parentheses at the
  end of the message. An integer that does not fit an int4 parameter is refused by the driver, with
  an error of its own, or by the server, with a PgError of class 22; it is never refused with an
  availability class.
\<close>

fun pg_code_of :: "go_error \<Rightarrow> string option" where
  "pg_code_of (EDriver (PgErr e)) = Some (pg_Code e)"
| "pg_code_of _ = None"

definition pg_class_is :: "string \<Rightarrow> go_error \<Rightarrow> bool" where
  "pg_class_is c e \<longleftrightarrow> (case pg_code_of e of None \<Rightarrow> False | Some s \<Rightarrow> has_prefix c s)"

definition pg_text_ref :: "pg_error \<Rightarrow> string" where
  "pg_text_ref e = pg_Severity e @ '': '' @ pg_Message e @ '' (SQLSTATE '' @ pg_Code e @ '')''"

fun constraint_of :: "go_error \<Rightarrow> string" where
  "constraint_of (EDriver (PgErr e)) = pg_ConstraintName e"
| "constraint_of _ = ''''"

definition encode_error_ok :: "driver_error \<Rightarrow> bool" where
  "encode_error_ok e \<longleftrightarrow>
     (case e of
        PgErr pe \<Rightarrow> has_prefix ''22'' (pg_Code pe) \<and> \<not> contains_str ''SQLSTATE 5'' (pg_text_ref pe)
      | OtherErr _ \<Rightarrow> True
      | _ \<Rightarrow> False)"

definition ext_ok :: "ext \<Rightarrow> bool" where
  "ext_ok X \<longleftrightarrow>
     (\<forall>u. x_parse_uuid X (x_uuid_string X u) = Some u)
   \<and> (\<forall>a b. x_collation X a = x_collation X b \<longleftrightarrow> a = b)
   \<and> (\<forall>l r. x_parse_float X l = Some r \<longrightarrow> x_parse_float X (x_format_float X r) = Some r)
   \<and> (\<forall>t. x_parse_time X (x_format_time X t) = Some t)
   \<and> (\<forall>e. x_pg_error_text X e = pg_text_ref e)
   \<and> (\<forall>e. x_IsPgError X e \<longleftrightarrow> pg_code_of e \<noteq> None)
   \<and> (\<forall>e. x_IsConnectionException X e \<longleftrightarrow> pg_class_is ''08'' e)
   \<and> (\<forall>e. x_IsInsufficientResources X e \<longleftrightarrow> pg_class_is ''53'' e)
   \<and> (\<forall>e. x_IsUniqueViolation X e \<longleftrightarrow> pg_code_of e = Some ''23505'')
   \<and> (\<forall>e. x_IsCheckViolation X e \<longleftrightarrow> pg_code_of e = Some ''23514'')
   \<and> (\<forall>e. x_ConstraintName X e = constraint_of e)
   \<and> (\<forall>n. encode_error_ok (x_encode_error X n))"

lemma ext_okD:
  assumes "ext_ok X"
  shows "x_parse_uuid X (x_uuid_string X u) = Some u"
    and "x_collation X a = x_collation X b \<longleftrightarrow> a = b"
    and "x_parse_float X l = Some r \<Longrightarrow> x_parse_float X (x_format_float X r) = Some r"
    and "x_parse_time X (x_format_time X t) = Some t"
    and "x_pg_error_text X pe = pg_text_ref pe"
    and "x_IsPgError X e \<longleftrightarrow> pg_code_of e \<noteq> None"
    and "x_IsConnectionException X e \<longleftrightarrow> pg_class_is ''08'' e"
    and "x_IsInsufficientResources X e \<longleftrightarrow> pg_class_is ''53'' e"
    and "x_IsUniqueViolation X e \<longleftrightarrow> pg_code_of e = Some ''23505''"
    and "x_IsCheckViolation X e \<longleftrightarrow> pg_code_of e = Some ''23514''"
    and "x_ConstraintName X e = constraint_of e"
    and "encode_error_ok (x_encode_error X n)"
  using assms unfolding ext_ok_def by blast+

section \<open>A concrete instance\<close>

text \<open>
  A UUID prints as 32 hexadecimal digits; the collation is the byte order; a number literal is
  its exact value; a time prints as decimal microseconds with a sign.
\<close>

definition hex_chars :: string where
  "hex_chars = ''0123456789abcdef''"

fun hex_digits :: "nat \<Rightarrow> nat \<Rightarrow> string" where
  "hex_digits 0 n = []"
| "hex_digits (Suc w) n = hex_digits w (n div 16) @ [hex_chars ! (n mod 16)]"

fun index_of :: "'a list \<Rightarrow> 'a \<Rightarrow> nat option" where
  "index_of [] x = None"
| "index_of (y # ys) x = (if x = y then Some 0 else map_option Suc (index_of ys x))"

fun hex_value :: "nat \<Rightarrow> string \<Rightarrow> nat option" where
  "hex_value acc [] = Some acc"
| "hex_value acc (c # cs) =
     (case index_of hex_chars c of None \<Rightarrow> None | Some d \<Rightarrow> hex_value (16 * acc + d) cs)"

lemma index_of_hex: "d < 16 \<Longrightarrow> index_of hex_chars (hex_chars ! d) = Some d"
proof -
  assume d: "d < 16"
  have "list_all (\<lambda>d. index_of hex_chars (hex_chars ! d) = Some d) [0..<16]" by code_simp
  with d show ?thesis by (simp add: list_all_iff)
qed

lemma hex_value_append:
  "hex_value acc (s @ t) = (case hex_value acc s of None \<Rightarrow> None | Some a \<Rightarrow> hex_value a t)"
  by (induction acc s rule: hex_value.induct) (auto split: option.splits)

lemma hex_value_digits: "n < 16 ^ w \<Longrightarrow> hex_value acc (hex_digits w n) = Some (16 ^ w * acc + n)"
proof (induction w n arbitrary: acc rule: hex_digits.induct)
  case (2 w n)
  then have "n div 16 < 16 ^ w" by (simp add: less_mult_imp_div_less mult.commute)
  with 2 show ?case by (simp add: hex_value_append index_of_hex algebra_simps)
qed simp

definition uuid_string_ref :: "uuid \<Rightarrow> string" where
  "uuid_string_ref u = hex_digits 32 (unat u)"

definition parse_uuid_ref :: "string \<Rightarrow> uuid option" where
  "parse_uuid_ref s = (if length s = 32 then map_option of_nat (hex_value 0 s) else None)"

definition digit_value :: "char \<Rightarrow> nat" where
  "digit_value c = of_char c - 48"

fun nat_value :: "string \<Rightarrow> nat" where
  "nat_value [] = 0"
| "nat_value (c # cs) = digit_value c * 10 ^ length cs + nat_value cs"

definition parse_time_ref :: "string \<Rightarrow> int option" where
  "parse_time_ref s =
     (case s of
        [] \<Rightarrow> None
      | c # cs \<Rightarrow> (if c = CHR ''-'' then Some (- int (nat_value cs)) else Some (int (nat_value (c # cs)))))"

lemma nat_value_snoc: "nat_value (s @ [c]) = 10 * nat_value s + digit_value c"
  by (induction s) (auto simp: algebra_simps)

lemma digit_value_char: "d < 10 \<Longrightarrow> digit_value (digit_char d) = d"
  by (simp add: digit_value_def digit_char_def)

lemma nat_value_show: "nat_value (show_nat n) = n"
proof (induction n rule: show_nat.induct)
  case (1 n)
  then show ?case
    by (cases "n < 10") (simp_all add: show_nat.simps [of n] nat_value_snoc digit_value_char)
qed

lemma show_nat_hd: "\<exists>d cs. d < 10 \<and> show_nat n = digit_char d # cs"
proof (induction n rule: show_nat.induct)
  case (1 n)
  then show ?case by (cases "n < 10") (auto simp: show_nat.simps [of n])
qed

lemma digit_char_not_minus: "d < 10 \<Longrightarrow> digit_char d \<noteq> CHR ''-''"
proof -
  assume "d < 10"
  then have "of_char (digit_char d) = 48 + d" by (simp add: digit_char_def)
  then show ?thesis by auto
qed

lemma parse_time_show: "parse_time_ref (show_int t) = Some t"
proof (cases "t < 0")
  case True
  then show ?thesis by (simp add: show_int_def parse_time_ref_def nat_value_show)
next
  case False
  obtain d cs where "d < 10" and s: "show_nat (nat t) = digit_char d # cs"
    using show_nat_hd by blast
  then have "digit_char d \<noteq> CHR ''-''" by (intro digit_char_not_minus)
  moreover have "nat_value (digit_char d # cs) = nat t" using nat_value_show [of "nat t"] s by simp
  ultimately show ?thesis using False s
    by (simp add: show_int_def parse_time_ref_def del: nat_value.simps)
qed

fun jnum_value :: "jnum \<Rightarrow> rat" where
  "jnum_value (JInt n) = of_int n"
| "jnum_value (JDec q) = q"

definition ext_ref :: ext where
  "ext_ref = \<lparr>x_parse_uuid = parse_uuid_ref, x_uuid_string = uuid_string_ref,
     x_uuid_new = (\<lambda>n. of_nat (n + 1000)), x_collation = map of_char,
     x_parse_float = (\<lambda>l. Some (jnum_value l)), x_format_float = JDec,
     x_format_time = show_int, x_format_rfc3339 = show_int, x_parse_time = parse_time_ref,
     x_pg_error_text = pg_text_ref,
     x_IsPgError = (\<lambda>e. pg_code_of e \<noteq> None),
     x_IsConnectionException = pg_class_is ''08'',
     x_IsInsufficientResources = pg_class_is ''53'',
     x_IsUniqueViolation = (\<lambda>e. pg_code_of e = Some ''23505''),
     x_IsCheckViolation = (\<lambda>e. pg_code_of e = Some ''23514''),
     x_ConstraintName = constraint_of,
     x_encode_error = (\<lambda>n. OtherErr (show_int n @ '' is greater than maximum value for int4''))\<rparr>"

lemma length_hex_digits [simp]: "length (hex_digits w n) = w"
  by (induction w n rule: hex_digits.induct) auto

lemma parse_uuid_string_ref: "parse_uuid_ref (uuid_string_ref u) = Some u"
proof -
  have "unat u < 16 ^ 32" using unsigned_less [of u] by simp
  then have "hex_value 0 (hex_digits 32 (unat u)) = Some (unat u)"
    by (simp only: hex_value_digits) simp
  then show ?thesis by (simp add: parse_uuid_ref_def uuid_string_ref_def)
qed

lemma ext_ref_ok: "ext_ok ext_ref"
proof -
  have "map of_char a = (map of_char b :: nat list) \<longleftrightarrow> a = b" for a b :: string
    by (simp add: inj_map_eq_map inj_on_def)
  then show ?thesis
    by (simp add: ext_ok_def ext_ref_def parse_uuid_string_ref parse_time_show encode_error_ok_def)
qed

end
