(* ===== verification/Catalog_Db.thy ===== *)
theory Catalog_Db
  imports Extern
begin

text \<open>
  The database of the service: the two tables of migrations/000001_init_schema.up.sql with their
  CHECK and UNIQUE constraints, their triggers, their seed rows and the grants of the runtime role,
  and the statements the repositories send. A statement is a function of the tables; it returns the
  row it selects or RETURNs (None for no row) or the error of the server or the driver, and the new
  tables. PostgreSQL fires BEFORE triggers in the order of their names and checks CHECK constraints
  in the order of theirs, then unique indexes.
\<close>

section \<open>Tables\<close>

text \<open>The columns of departments are the fields of Department. The jsonb column holds a document.\<close>

record plan_row =
  pr_code :: string
  pr_display_name :: string
  pr_workflow_template_limit :: "int option"
  pr_tender_limit :: "int option"
  pr_trial_duration_days :: int
  pr_sso_enabled :: bool
  pr_custom_branding :: string
  pr_feature_set :: json
  pr_record_version :: int
  pr_created_at :: int
  pr_updated_at :: int

record db =
  t_departments :: "department list"
  t_plans :: "plan_row list"

type_synonym 'r sql_result = "(driver_error + 'r option) \<times> db"

definition pg_raise :: "string \<Rightarrow> string \<Rightarrow> string \<Rightarrow> driver_error" where
  "pg_raise code constraint msg =
     PgErr \<lparr>pg_Code = code, pg_Severity = ''ERROR'', pg_Message = msg, pg_ConstraintName = constraint\<rparr>"

definition check_error :: "string \<Rightarrow> string \<Rightarrow> driver_error" where
  "check_error table c = pg_raise ''23514'' c
     (''new row for relation '' @ table @ '' violates check constraint '' @ c)"

definition unique_error :: "string \<Rightarrow> driver_error" where
  "unique_error c = pg_raise ''23505'' c (''duplicate key value violates unique constraint '' @ c)"

definition tenant_plan_enum :: "string list" where
  "tenant_plan_enum = [''starter'', ''pro'', ''enterprise'']"

definition branding_level_enum :: "string list" where
  "branding_level_enum = [''none'', ''logo'']"

section \<open>Binding of parameters\<close>

text \<open>
  The arguments the Go code passes and the column types of the placeholders. Binding fails before
  the statement runs: an integer that does not fit int4, text with a NUL byte (22021), an unknown
  enum label (22P02), a jsonb document with a NUL in a string (22P05).
\<close>

datatype sql_arg =
    ArgUuid uuid
  | ArgText string
  | ArgBool bool
  | ArgInt int
  | ArgIntPtr "int option"
  | ArgJson json

datatype sql_type = TUuid | TText | TBool | TInt4 | TInt8 | TTenantPlan | TBranding | TJsonb

fun json_has_nul :: "json \<Rightarrow> bool" where
  "json_has_nul (JStr s) \<longleftrightarrow> CHR 0x00 \<in> set s"
| "json_has_nul (JArr js) \<longleftrightarrow> list_ex json_has_nul js"
| "json_has_nul (JObj kvs) \<longleftrightarrow> list_ex (\<lambda>(k, j). CHR 0x00 \<in> set k \<or> json_has_nul j) kvs"
| "json_has_nul _ \<longleftrightarrow> False"

fun encode_arg :: "ext \<Rightarrow> sql_type \<Rightarrow> sql_arg \<Rightarrow> driver_error option" where
  "encode_arg X TInt4 (ArgInt n) = (if int4_ok n then None else Some (x_encode_error X n))"
| "encode_arg X TInt4 (ArgIntPtr (Some n)) = (if int4_ok n then None else Some (x_encode_error X n))"
| "encode_arg X _ _ = None"

fun input_arg :: "sql_type \<Rightarrow> sql_arg \<Rightarrow> driver_error option" where
  "input_arg TText (ArgText s) =
     (if CHR 0x00 \<in> set s then Some (pg_raise ''22021'' '''' ''invalid byte sequence for encoding'') else None)"
| "input_arg TTenantPlan (ArgText s) =
     (if s \<in> set tenant_plan_enum then None else Some (pg_raise ''22P02'' '''' ''invalid input value for enum tenant_plan''))"
| "input_arg TBranding (ArgText s) =
     (if s \<in> set branding_level_enum then None else Some (pg_raise ''22P02'' '''' ''invalid input value for enum branding_level''))"
| "input_arg TJsonb (ArgJson j) =
     (if json_has_nul j then Some (pg_raise ''22P05'' '''' ''unsupported Unicode escape sequence'') else None)"
| "input_arg _ _ = None"

fun first_error :: "'e option list \<Rightarrow> 'e option" where
  "first_error [] = None"
| "first_error (None # es) = first_error es"
| "first_error (Some e # es) = Some e"

lemma first_error_None [simp]: "first_error es = None \<longleftrightarrow> (\<forall>e \<in> set es. e = None)"
  by (induction es rule: first_error.induct) auto

lemma first_error_SomeD: "first_error es = Some e \<Longrightarrow> Some e \<in> set es"
  by (induction es rule: first_error.induct) auto

definition bind_args :: "ext \<Rightarrow> sql_type list \<Rightarrow> sql_arg list \<Rightarrow> driver_error option" where
  "bind_args X tys args =
     (case first_error (map2 (encode_arg X) tys args) of
        Some e \<Rightarrow> Some e
      | None \<Rightarrow> first_error (map2 input_arg tys args))"

section \<open>departments\<close>

definition dept_checks :: "(string \<times> (department \<Rightarrow> bool)) list" where
  "dept_checks =
     [(''chk_system_department_active'', \<lambda>d. \<not> (d_IsSystem d = True \<and> d_IsActive d = False)),
      (''departments_code_not_empty'', \<lambda>d. d_Code d \<noteq> ''''),
      (''departments_name_not_empty'', \<lambda>d. d_Name d \<noteq> ''''),
      (''departments_record_version_positive'', \<lambda>d. d_RecordVersion d > 0)]"

definition failing_check :: "(string \<times> ('r \<Rightarrow> bool)) list \<Rightarrow> 'r \<Rightarrow> string option" where
  "failing_check checks r = map_option fst (find (\<lambda>(_, p). \<not> p r) checks)"

lemma failing_check_None: "failing_check checks r = None \<longleftrightarrow> (\<forall>(c, p) \<in> set checks. p r)"
  by (auto simp: failing_check_def find_None_iff)

definition dept_row_ok :: "department \<Rightarrow> bool" where
  "dept_row_ok d \<longleftrightarrow> failing_check dept_checks d = None"

lemma dept_row_ok_iff: "dept_row_ok d \<longleftrightarrow>
    (d_IsSystem d \<longrightarrow> d_IsActive d) \<and> d_Code d \<noteq> '''' \<and> d_Name d \<noteq> '''' \<and> 0 < d_RecordVersion d"
  by (auto simp: dept_row_ok_def failing_check_None dept_checks_def)

text \<open>INSERT INTO departments (id, code, name, is_system, is_active) VALUES ... RETURNING ...\<close>

definition sql_insert_department ::
  "ext \<Rightarrow> int \<Rightarrow> uuid \<Rightarrow> string \<Rightarrow> string \<Rightarrow> bool \<Rightarrow> bool \<Rightarrow> db \<Rightarrow> department sql_result" where
  "sql_insert_department X now u code name is_system is_active db =
     (let row = \<lparr>d_ID = u, d_Code = code, d_Name = name, d_IsSystem = is_system,
                 d_IsActive = is_active, d_RecordVersion = 1, d_CreatedAt = now, d_UpdatedAt = now\<rparr>
      in case bind_args X [TUuid, TText, TText, TBool, TBool]
                [ArgUuid u, ArgText code, ArgText name, ArgBool is_system, ArgBool is_active] of
           Some e \<Rightarrow> (Inl e, db)
         | None \<Rightarrow>
             (case failing_check dept_checks row of
                Some c \<Rightarrow> (Inl (check_error ''departments'' c), db)
              | None \<Rightarrow>
                  if u \<in> d_ID ` set (t_departments db) then (Inl (unique_error ''departments_pkey''), db)
                  else if code \<in> d_Code ` set (t_departments db)
                  then (Inl (unique_error ''uq_departments_code''), db)
                  else (Inr (Some row), db\<lparr>t_departments := t_departments db @ [row]\<rparr>)))"

text \<open>
  A SET list as the repository builds it: column names with placeholder numbers. The assignment
  refuses a column or an argument it does not know (42804, a type mismatch).
\<close>

type_synonym set_list = "(string \<times> nat) list"

definition placeholder :: "sql_arg list \<Rightarrow> nat \<Rightarrow> sql_arg option" where
  "placeholder args n = (if 1 \<le> n \<and> n \<le> length args then Some (args ! (n - 1)) else None)"

definition assign_dept :: "string \<Rightarrow> sql_arg option \<Rightarrow> department \<Rightarrow> department option" where
  "assign_dept col a r =
     (case a of
        Some (ArgText s) \<Rightarrow>
          (if col = ''name'' then Some (r\<lparr>d_Name := s\<rparr>)
           else if col = ''code'' then Some (r\<lparr>d_Code := s\<rparr>) else None)
      | Some (ArgBool b) \<Rightarrow>
          (if col = ''is_active'' then Some (r\<lparr>d_IsActive := b\<rparr>)
           else if col = ''is_system'' then Some (r\<lparr>d_IsSystem := b\<rparr>) else None)
      | _ \<Rightarrow> None)"

fun assign_all :: "(string \<Rightarrow> sql_arg option \<Rightarrow> 'r \<Rightarrow> 'r option) \<Rightarrow> sql_arg list \<Rightarrow> set_list \<Rightarrow> 'r \<Rightarrow> 'r option" where
  "assign_all assign args [] r = Some r"
| "assign_all assign args ((col, n) # sets) r =
     (case assign col (placeholder args n) r of
        None \<Rightarrow> None
      | Some r' \<Rightarrow> assign_all assign args sets r')"

text \<open>The BEFORE UPDATE triggers, each returning the row to store or raising.\<close>

definition trg_department_code_immutable ::
  "string list \<Rightarrow> department \<Rightarrow> department \<Rightarrow> driver_error + department" where
  "trg_department_code_immutable cols old new =
     (if ''code'' \<in> set cols \<and> d_Code old \<noteq> d_Code new
      then Inl (pg_raise ''P0001'' '''' ''department code is immutable'') else Inr new)"

definition trg_system_department_name_immutable ::
  "string list \<Rightarrow> department \<Rightarrow> department \<Rightarrow> driver_error + department" where
  "trg_system_department_name_immutable cols old new =
     (if ''name'' \<in> set cols \<and> d_IsSystem old \<and> d_Name old \<noteq> d_Name new
      then Inl (pg_raise ''23514'' ''chk_system_department_name_immutable''
                  ''system department name is immutable'')
      else Inr new)"

definition touch_row_department :: "int \<Rightarrow> department \<Rightarrow> department \<Rightarrow> driver_error + department" where
  "touch_row_department now old new =
     (if old = new then Inr new
      else if int64_ok (d_RecordVersion old + 1)
      then Inr (new\<lparr>d_RecordVersion := d_RecordVersion old + 1, d_UpdatedAt := now\<rparr>)
      else Inl (pg_raise ''22003'' '''' ''bigint out of range''))"

definition sum_bind :: "'e + 'a \<Rightarrow> ('a \<Rightarrow> 'e + 'b) \<Rightarrow> 'e + 'b" where
  "sum_bind x f = (case x of Inl e \<Rightarrow> Inl e | Inr a \<Rightarrow> f a)"

lemma sum_bind_simps [simp]: "sum_bind (Inl e) f = Inl e" "sum_bind (Inr a) f = f a"
  by (simp_all add: sum_bind_def)

lemma sum_bind_Inr: "sum_bind x f = Inr b \<longleftrightarrow> (\<exists>a. x = Inr a \<and> f a = Inr b)"
  by (cases x) auto

definition before_update_department ::
  "int \<Rightarrow> string list \<Rightarrow> department \<Rightarrow> department \<Rightarrow> driver_error + department" where
  "before_update_department now cols old new =
     sum_bind (trg_department_code_immutable cols old new) (\<lambda>r1.
     sum_bind (trg_system_department_name_immutable cols old r1) (\<lambda>r2.
     touch_row_department now old r2))"

text \<open>The row an UPDATE stores for an old row, or the error it raises.\<close>

definition update_department_row ::
  "int \<Rightarrow> set_list \<Rightarrow> sql_arg list \<Rightarrow> department \<Rightarrow> driver_error + department" where
  "update_department_row now sets args old =
     (case assign_all assign_dept args sets old of
        None \<Rightarrow> Inl (pg_raise ''42804'' '''' ''column type mismatch'')
      | Some new0 \<Rightarrow>
          sum_bind (before_update_department now (map fst sets) old new0) (\<lambda>new.
            case failing_check dept_checks new of
              Some c \<Rightarrow> Inl (check_error ''departments'' c)
            | None \<Rightarrow> Inr new))"

fun dept_arg_type :: "sql_arg \<Rightarrow> sql_type" where
  "dept_arg_type (ArgUuid _) = TUuid"
| "dept_arg_type (ArgText _) = TText"
| "dept_arg_type (ArgBool _) = TBool"
| "dept_arg_type _ = TInt8"

text \<open>UPDATE departments SET ... WHERE id = $1 AND record_version = $2 RETURNING ...\<close>

definition sql_update_department ::
  "ext \<Rightarrow> int \<Rightarrow> set_list \<Rightarrow> sql_arg list \<Rightarrow> db \<Rightarrow> department sql_result" where
  "sql_update_department X now sets args db =
     (case bind_args X (map dept_arg_type args) args of
        Some e \<Rightarrow> (Inl e, db)
      | None \<Rightarrow>
          (case find (\<lambda>r. placeholder args 1 = Some (ArgUuid (d_ID r))
                        \<and> placeholder args 2 = Some (ArgInt (d_RecordVersion r))) (t_departments db) of
             None \<Rightarrow> (Inr None, db)
           | Some old \<Rightarrow>
               (case update_department_row now sets args old of
                  Inl e \<Rightarrow> (Inl e, db)
                | Inr new \<Rightarrow>
                    (Inr (Some new), db\<lparr>t_departments := put_row d_ID new (t_departments db)\<rparr>))))"

text \<open>SELECT ... FROM departments [WHERE is_active = true] ORDER BY code\<close>

definition sql_select_departments :: "ext \<Rightarrow> bool \<Rightarrow> db \<Rightarrow> department list" where
  "sql_select_departments X active_only db =
     sort_key (\<lambda>d. x_collation X (d_Code d))
       (if active_only then filter d_IsActive (t_departments db) else t_departments db)"

text \<open>SELECT ... FROM departments WHERE id = $1, and SELECT record_version FROM departments WHERE id = $1\<close>

definition sql_select_department :: "uuid \<Rightarrow> db \<Rightarrow> department option" where
  "sql_select_department u db = find (\<lambda>r. d_ID r = u) (t_departments db)"

definition sql_select_department_version :: "uuid \<Rightarrow> db \<Rightarrow> int option" where
  "sql_select_department_version u db = map_option d_RecordVersion (sql_select_department u db)"

text \<open>
  DELETE FROM departments WHERE id = $1 by any role: the runtime role has no DELETE grant (42501),
  and for a role that has one the trigger raises for every row.
\<close>

datatype privilege = PSelect | PInsert | PUpdate | PDelete

definition granted :: "string \<Rightarrow> privilege \<Rightarrow> bool" where
  "granted table p \<longleftrightarrow>
     (table = ''departments'' \<and> p \<in> {PSelect, PInsert, PUpdate})
   \<or> (table = ''plans'' \<and> p \<in> {PSelect, PUpdate})"

definition sql_delete_department :: "bool \<Rightarrow> uuid \<Rightarrow> db \<Rightarrow> department sql_result" where
  "sql_delete_department app_role u db =
     (if app_role \<and> \<not> granted ''departments'' PDelete
      then (Inl (pg_raise ''42501'' '''' ''permission denied for table departments''), db)
      else case find (\<lambda>r. d_ID r = u) (t_departments db) of
             None \<Rightarrow> (Inr None, db)
           | Some r \<Rightarrow> (Inl (pg_raise ''P0001'' '''' ''departments cannot be deleted''), db))"

end
