(* ===== verification/Plans_Db.thy ===== *)
theory Plans_Db
  imports Catalog_Db
begin

text \<open>
  The plans table of the migration: its CHECK constraints, the touch trigger, the UPDATE and SELECT
  statements of the plan repository, and the seed rows of both tables, which give the database the
  service starts on.
\<close>

section \<open>Constraints and assignment\<close>

definition plan_checks :: "(string \<times> (plan_row \<Rightarrow> bool)) list" where
  "plan_checks =
     [(''plans_display_name_not_empty'', \<lambda>p. pr_display_name p \<noteq> ''''),
      (''plans_record_version_positive'', \<lambda>p. pr_record_version p > 0),
      (''plans_tender_limit_nonneg'',
        \<lambda>p. case pr_tender_limit p of None \<Rightarrow> True | Some n \<Rightarrow> n \<ge> 0),
      (''plans_trial_days_nonneg'', \<lambda>p. pr_trial_duration_days p \<ge> 0),
      (''plans_wf_limit_nonneg'',
        \<lambda>p. case pr_workflow_template_limit p of None \<Rightarrow> True | Some n \<Rightarrow> n \<ge> 0)]"

definition opt_nonneg :: "int option \<Rightarrow> bool" where
  "opt_nonneg p \<longleftrightarrow> (case p of None \<Rightarrow> True | Some n \<Rightarrow> n \<ge> 0)"

definition opt_int4 :: "int option \<Rightarrow> bool" where
  "opt_int4 p \<longleftrightarrow> (case p of None \<Rightarrow> True | Some n \<Rightarrow> int4_ok n)"

lemma opt_simps [simp]:
  "opt_nonneg None" "opt_nonneg (Some n) \<longleftrightarrow> n \<ge> 0" "opt_int4 None" "opt_int4 (Some n) \<longleftrightarrow> int4_ok n"
  by (simp_all add: opt_nonneg_def opt_int4_def)

lemma plan_checks_iff: "failing_check plan_checks p = None \<longleftrightarrow>
    pr_display_name p \<noteq> '''' \<and> 0 < pr_record_version p \<and> opt_nonneg (pr_tender_limit p)
  \<and> 0 \<le> pr_trial_duration_days p \<and> opt_nonneg (pr_workflow_template_limit p)"
  by (auto simp: failing_check_None plan_checks_def opt_nonneg_def)

definition plan_col_type :: "string \<Rightarrow> sql_type" where
  "plan_col_type col =
     (if col = ''display_name'' then TText
      else if col \<in> {''workflow_template_limit'', ''tender_limit'', ''trial_duration_days''} then TInt4
      else if col = ''sso_enabled'' then TBool
      else if col = ''custom_branding'' then TBranding
      else if col = ''feature_set'' then TJsonb
      else TText)"

text \<open>
  A jsonb value is a document up to the order of the members of its objects, with the last of two
  members of the same name; it is kept in one order of names. Numbers stay as they were written,
  which is enough: Go prints one literal for one float64.
\<close>

fun jsonb_norm :: "json \<Rightarrow> json" where
  "jsonb_norm (JArr js) = JArr (map jsonb_norm js)"
| "jsonb_norm (JObj kvs) = JObj (sort_key fst (map_put_all [] (map (\<lambda>(k, j). (k, jsonb_norm j)) kvs)))"
| "jsonb_norm j = j"

definition assign_plan :: "string \<Rightarrow> sql_arg option \<Rightarrow> plan_row \<Rightarrow> plan_row option" where
  "assign_plan col a r =
     (case a of
        Some (ArgText s) \<Rightarrow>
          (if col = ''display_name'' then Some (r\<lparr>pr_display_name := s\<rparr>)
           else if col = ''custom_branding'' then Some (r\<lparr>pr_custom_branding := s\<rparr>) else None)
      | Some (ArgIntPtr p) \<Rightarrow>
          (if col = ''workflow_template_limit'' then Some (r\<lparr>pr_workflow_template_limit := p\<rparr>)
           else if col = ''tender_limit'' then Some (r\<lparr>pr_tender_limit := p\<rparr>) else None)
      | Some (ArgInt n) \<Rightarrow>
          (if col = ''trial_duration_days'' then Some (r\<lparr>pr_trial_duration_days := n\<rparr>) else None)
      | Some (ArgBool b) \<Rightarrow>
          (if col = ''sso_enabled'' then Some (r\<lparr>pr_sso_enabled := b\<rparr>) else None)
      | Some (ArgJson j) \<Rightarrow>
          (if col = ''feature_set'' then Some (r\<lparr>pr_feature_set := jsonb_norm j\<rparr>) else None)
      | _ \<Rightarrow> None)"

definition touch_row_plan :: "int \<Rightarrow> plan_row \<Rightarrow> plan_row \<Rightarrow> driver_error + plan_row" where
  "touch_row_plan now old new =
     (if old = new then Inr new
      else if int64_ok (pr_record_version old + 1)
      then Inr (new\<lparr>pr_record_version := pr_record_version old + 1, pr_updated_at := now\<rparr>)
      else Inl (pg_raise ''22003'' '''' ''bigint out of range''))"

definition update_plan_row ::
  "int \<Rightarrow> set_list \<Rightarrow> sql_arg list \<Rightarrow> plan_row \<Rightarrow> driver_error + plan_row" where
  "update_plan_row now sets args old =
     (case assign_all assign_plan args sets old of
        None \<Rightarrow> Inl (pg_raise ''42804'' '''' ''column type mismatch'')
      | Some new0 \<Rightarrow>
          sum_bind (touch_row_plan now old new0) (\<lambda>new.
            case failing_check plan_checks new of
              Some c \<Rightarrow> Inl (check_error ''plans'' c)
            | None \<Rightarrow> Inr new))"

section \<open>Statements\<close>

text \<open>The type of each placeholder: $1 is the code, $2 the version, any other its column's type.\<close>

definition plan_arg_type :: "set_list \<Rightarrow> nat \<Rightarrow> sql_type" where
  "plan_arg_type sets i =
     (if i = 1 then TTenantPlan else if i = 2 then TInt8
      else case find (\<lambda>(c, n). n = i) sets of None \<Rightarrow> TText | Some (c, n) \<Rightarrow> plan_col_type c)"

definition plan_arg_types :: "set_list \<Rightarrow> sql_arg list \<Rightarrow> sql_type list" where
  "plan_arg_types sets args = map (plan_arg_type sets) [1..<Suc (length args)]"

text \<open>UPDATE plans SET ... WHERE code = $1 AND record_version = $2 RETURNING ...\<close>

definition sql_update_plan ::
  "ext \<Rightarrow> int \<Rightarrow> set_list \<Rightarrow> sql_arg list \<Rightarrow> db \<Rightarrow> plan_row sql_result" where
  "sql_update_plan X now sets args db =
     (case bind_args X (plan_arg_types sets args) args of
        Some e \<Rightarrow> (Inl e, db)
      | None \<Rightarrow>
          (case find (\<lambda>r. placeholder args 1 = Some (ArgText (pr_code r))
                        \<and> placeholder args 2 = Some (ArgInt (pr_record_version r))) (t_plans db) of
             None \<Rightarrow> (Inr None, db)
           | Some old \<Rightarrow>
               (case update_plan_row now sets args old of
                  Inl e \<Rightarrow> (Inl e, db)
                | Inr new \<Rightarrow>
                    (Inr (Some new), db\<lparr>t_plans := put_row pr_code new (t_plans db)\<rparr>))))"

text \<open>SELECT ... FROM plans ORDER BY code: an enum sorts in the order of its declaration.\<close>

definition tier_rank :: "string \<Rightarrow> nat" where
  "tier_rank code = (case index_of tenant_plan_enum code of None \<Rightarrow> 3 | Some n \<Rightarrow> n)"

definition sql_select_plans :: "db \<Rightarrow> plan_row list" where
  "sql_select_plans db = sort_key (\<lambda>p. tier_rank (pr_code p)) (t_plans db)"

definition sql_select_plan :: "ext \<Rightarrow> string \<Rightarrow> db \<Rightarrow> driver_error + plan_row option" where
  "sql_select_plan X code db =
     (case bind_args X [TTenantPlan] [ArgText code] of
        Some e \<Rightarrow> Inl e
      | None \<Rightarrow> Inr (find (\<lambda>r. pr_code r = code) (t_plans db)))"

definition sql_select_plan_version :: "ext \<Rightarrow> string \<Rightarrow> db \<Rightarrow> driver_error + int option" where
  "sql_select_plan_version X code db =
     sum_bind (sql_select_plan X code db) (\<lambda>r. Inr (map_option pr_record_version r))"

section \<open>Seed rows\<close>

definition seed_department :: "int \<Rightarrow> uuid \<Rightarrow> string \<Rightarrow> string \<Rightarrow> department" where
  "seed_department now u code name =
     \<lparr>d_ID = u, d_Code = code, d_Name = name, d_IsSystem = True, d_IsActive = True,
      d_RecordVersion = 1, d_CreatedAt = now, d_UpdatedAt = now\<rparr>"

definition seed_departments :: "int \<Rightarrow> (nat \<Rightarrow> uuid) \<Rightarrow> department list" where
  "seed_departments now ids =
     [seed_department now (ids 0) ''ENGINEERING'' ''Engineering'',
      seed_department now (ids 1) ''DESIGN'' ''Design'',
      seed_department now (ids 2) ''PROCUREMENT'' ''Procurement'',
      seed_department now (ids 3) ''FINANCE'' ''Finance'',
      seed_department now (ids 4) ''LEGAL'' ''Legal'']"

definition seed_plan ::
  "int \<Rightarrow> string \<Rightarrow> string \<Rightarrow> int option \<Rightarrow> int option \<Rightarrow> int \<Rightarrow> bool \<Rightarrow> string \<Rightarrow> json \<Rightarrow> plan_row" where
  "seed_plan now code name wfl tender trial sso branding fs =
     \<lparr>pr_code = code, pr_display_name = name, pr_workflow_template_limit = wfl,
      pr_tender_limit = tender, pr_trial_duration_days = trial, pr_sso_enabled = sso,
      pr_custom_branding = branding, pr_feature_set = fs, pr_record_version = 1,
      pr_created_at = now, pr_updated_at = now\<rparr>"

definition seed_plans :: "int \<Rightarrow> plan_row list" where
  "seed_plans now =
     [seed_plan now ''starter'' ''Starter'' (Some 5) (Some 10) 30 False ''none'' (JObj []),
      seed_plan now ''pro'' ''Pro'' (Some 50) (Some 100) 30 False ''logo'' (JObj []),
      seed_plan now ''enterprise'' ''Enterprise'' None None 30 True ''logo''
        (JObj [(''require_mfa_all_users_allowed'', JBool True)])]"

definition migrated_db :: "int \<Rightarrow> (nat \<Rightarrow> uuid) \<Rightarrow> db" where
  "migrated_db now ids = \<lparr>t_departments = seed_departments now ids, t_plans = seed_plans now\<rparr>"

section \<open>Invariant of the tables\<close>

definition departments_ok :: "department list \<Rightarrow> bool" where
  "departments_ok ds \<longleftrightarrow>
     distinct (map d_ID ds) \<and> distinct (map d_Code ds)
   \<and> list_all (\<lambda>d. dept_row_ok d \<and> int64_ok (d_RecordVersion d)) ds"

definition plan_row_ok :: "plan_row \<Rightarrow> bool" where
  "plan_row_ok p \<longleftrightarrow>
     failing_check plan_checks p = None \<and> int64_ok (pr_record_version p)
   \<and> opt_int4 (pr_workflow_template_limit p) \<and> opt_int4 (pr_tender_limit p)
   \<and> int4_ok (pr_trial_duration_days p) \<and> pr_custom_branding p \<in> set branding_level_enum"

definition plans_ok :: "plan_row list \<Rightarrow> bool" where
  "plans_ok ps \<longleftrightarrow> map pr_code ps = tenant_plan_enum \<and> list_all plan_row_ok ps"

definition db_ok :: "db \<Rightarrow> bool" where
  "db_ok db \<longleftrightarrow> departments_ok (t_departments db) \<and> plans_ok (t_plans db)"

lemma migrated_db_ok:
  assumes "distinct (map ids [0, 1, 2, 3, 4])"
  shows "db_ok (migrated_db now ids)"
proof -
  have "distinct (map d_ID (seed_departments now ids))"
    using assms by (simp add: seed_departments_def seed_department_def)
  moreover have "distinct (map d_Code (seed_departments now ids))"
    by (simp add: seed_departments_def seed_department_def)
  moreover have "list_all (\<lambda>d. dept_row_ok d \<and> int64_ok (d_RecordVersion d)) (seed_departments now ids)"
    by (simp add: seed_departments_def seed_department_def dept_row_ok_iff int64_ok_def)
  moreover have "plans_ok (seed_plans now)"
    by (simp add: plans_ok_def seed_plans_def seed_plan_def plan_row_ok_def plan_checks_iff
        int64_ok_def int4_ok_def tenant_plan_enum_def branding_level_enum_def)
  ultimately show ?thesis by (simp add: db_ok_def migrated_db_def departments_ok_def)
qed

section \<open>What the statements keep\<close>

text \<open>Departments: the trigger chain, inverted once.\<close>

lemma before_update_department_Inr:
  assumes "before_update_department now cols old new0 = Inr new"
  shows "(''code'' \<in> set cols \<longrightarrow> d_Code new0 = d_Code old)
       \<and> (''name'' \<in> set cols \<longrightarrow> d_IsSystem old \<longrightarrow> d_Name new0 = d_Name old)
       \<and> (if new0 = old then new = old
          else int64_ok (d_RecordVersion old + 1)
             \<and> new = new0\<lparr>d_RecordVersion := d_RecordVersion old + 1, d_UpdatedAt := now\<rparr>)"
  using assms
  by (auto simp: before_update_department_def trg_department_code_immutable_def
      trg_system_department_name_immutable_def touch_row_department_def split: if_splits)

lemma update_department_row_Inr:
  assumes "update_department_row now sets args old = Inr new"
  obtains new0 where "assign_all assign_dept args sets old = Some new0"
    and "before_update_department now (map fst sets) old new0 = Inr new"
    and "dept_row_ok new"
  using assms
  by (auto simp: update_department_row_def sum_bind_Inr dept_row_ok_def split: option.splits)

lemma sql_insert_department_cases:
  assumes "sql_insert_department X now u code name sys act db = (r, db')"
  obtains (failed) e where "r = Inl e" and "db' = db"
  | (inserted) row where "r = Inr (Some row)"
      and "db' = db\<lparr>t_departments := t_departments db @ [row]\<rparr>"
      and "row = \<lparr>d_ID = u, d_Code = code, d_Name = name, d_IsSystem = sys, d_IsActive = act,
                  d_RecordVersion = 1, d_CreatedAt = now, d_UpdatedAt = now\<rparr>"
      and "dept_row_ok row" and "u \<notin> d_ID ` set (t_departments db)"
      and "code \<notin> d_Code ` set (t_departments db)"
  using assms
  by (auto simp: sql_insert_department_def Let_def dept_row_ok_def split: option.splits if_splits)

lemma sql_insert_department_ok [wf_rules]:
  assumes "sql_insert_department X now u code name sys act db = (r, db')" and "db_ok db"
  shows "db_ok db'"
  using assms(1)
proof (cases rule: sql_insert_department_cases)
  case failed
  with assms show ?thesis by simp
next
  case (inserted row)
  then show ?thesis using assms(2) by (auto simp: db_ok_def departments_ok_def int64_ok_def)
qed

lemma sql_update_department_cases:
  assumes "sql_update_department X now sets args db = (r, db')"
  obtains (failed) e where "r = Inl e" and "db' = db"
  | (absent) "r = Inr None" and "db' = db"
  | (updated) old new where "r = Inr (Some new)"
      and "db' = db\<lparr>t_departments := put_row d_ID new (t_departments db)\<rparr>"
      and "old \<in> set (t_departments db)"
      and "placeholder args 1 = Some (ArgUuid (d_ID old))"
      and "placeholder args 2 = Some (ArgInt (d_RecordVersion old))"
      and "update_department_row now sets args old = Inr new"
  using assms
  by (auto simp: sql_update_department_def split: option.splits sum.splits dest!: find_SomeD)

lemma put_row_departments_ok:
  assumes ok: "departments_ok ds" and old: "old \<in> set ds"
    and new: "d_ID new = d_ID old" "d_Code new = d_Code old" "dept_row_ok new"
      "int64_ok (d_RecordVersion new)"
  shows "departments_ok (put_row d_ID new ds)"
proof -
  have ids: "distinct (map d_ID ds)" using ok by (simp add: departments_ok_def)
  have "map d_Code (put_row d_ID new ds) = map d_Code ds"
    unfolding put_row_def using distinct_key_inj [OF ids _ old] new by auto
  moreover have "list_all (\<lambda>d. dept_row_ok d \<and> int64_ok (d_RecordVersion d)) (put_row d_ID new ds)"
    using ok new by (auto simp: departments_ok_def list_all_iff dest: set_put_row)
  ultimately show ?thesis using ok by (simp add: departments_ok_def row_simps)
qed

text \<open>Plans: the same shape, without the department triggers.\<close>

lemma update_plan_row_Inr:
  assumes "update_plan_row now sets args old = Inr new"
  obtains new0 where "assign_all assign_plan args sets old = Some new0"
    and "if new0 = old then new = old
         else int64_ok (pr_record_version old + 1)
            \<and> new = new0\<lparr>pr_record_version := pr_record_version old + 1, pr_updated_at := now\<rparr>"
    and "failing_check plan_checks new = None"
  using assms
  by (auto simp: update_plan_row_def sum_bind_Inr touch_row_plan_def split: option.splits if_splits)

lemma sql_update_plan_cases:
  assumes "sql_update_plan X now sets args db = (r, db')"
  obtains (failed) e where "r = Inl e" and "db' = db"
  | (absent) "r = Inr None" and "db' = db"
  | (updated) old new where "r = Inr (Some new)"
      and "db' = db\<lparr>t_plans := put_row pr_code new (t_plans db)\<rparr>"
      and "old \<in> set (t_plans db)"
      and "placeholder args 1 = Some (ArgText (pr_code old))"
      and "placeholder args 2 = Some (ArgInt (pr_record_version old))"
      and "bind_args X (plan_arg_types sets args) args = None"
      and "update_plan_row now sets args old = Inr new"
  using assms
  by (auto simp: sql_update_plan_def split: option.splits sum.splits dest!: find_SomeD)

lemma put_row_plans_ok:
  assumes ok: "plans_ok ps" and new: "plan_row_ok new"
  shows "plans_ok (put_row pr_code new ps)"
  using assms by (auto simp: plans_ok_def row_simps list_all_iff dest: set_put_row)

lemma plans_ok_distinct: "plans_ok ps \<Longrightarrow> distinct (map pr_code ps)"
  by (simp add: plans_ok_def tenant_plan_enum_def)

lemma sql_select_departments_set:
  "set (sql_select_departments X b db) = {d \<in> set (t_departments db). b \<longrightarrow> d_IsActive d}"
  by (auto simp: sql_select_departments_def)

lemma sql_select_departments_filter:
  "sql_select_departments X True db = filter d_IsActive (sql_select_departments X False db)"
  by (simp add: sql_select_departments_def filter_sort)

lemma sql_delete_department_unchanged: "snd (sql_delete_department app_role u db) = db"
  by (auto simp: sql_delete_department_def split: option.splits)

end
