(* ===== verification/Metrics.thy ===== *)
theory Metrics
  imports Prelude
begin

text \<open>
  The business counters of internal/adapter/outbound/metrics: one series per metric name and label
  values. A series exists once its labels have been asked for, and counts from 0. The histogram of
  request durations is a counter for each of its buckets, and one for the sum, in nanoseconds.
\<close>

datatype metric =
    CacheHits string
  | CacheMisses string
  | WritesTotal string string
  | OptimisticLockConflicts string
  | RequestsTotal string string
  | RequestDurationBucket string nat
  | RequestDurationSum string

type_synonym counters = "metric \<rightharpoonup> nat"

definition WithLabelValues :: "metric \<Rightarrow> counters \<Rightarrow> counters" where
  "WithLabelValues m c = (case c m of None \<Rightarrow> c(m \<mapsto> 0) | Some _ \<Rightarrow> c)"

definition Inc :: "metric \<Rightarrow> counters \<Rightarrow> counters" where
  "Inc m c = c(m \<mapsto> (case c m of None \<Rightarrow> 1 | Some n \<Rightarrow> Suc n))"

text \<open>What a scrape adds up: a series that does not exist counts nothing.\<close>

definition count :: "counters \<Rightarrow> metric \<Rightarrow> nat" where
  "count c m = (case c m of None \<Rightarrow> 0 | Some n \<Rightarrow> n)"

lemma count_Inc [row_simps]: "count (Inc m c) m' = (if m' = m then Suc (count c m) else count c m')"
  by (simp add: count_def Inc_def split: option.splits)

lemma count_WithLabelValues [row_simps]: "count (WithLabelValues m c) m' = count c m'"
  by (auto simp: count_def WithLabelValues_def split: option.splits)

lemma dom_WithLabelValues: "dom (WithLabelValues m c) = insert m (dom c)"
  by (auto simp: WithLabelValues_def split: option.splits)

section \<open>The histogram of request durations\<close>

text \<open>
  The upper bounds of the buckets, given in seconds in the code, in nanoseconds; the bucket past the
  last one is +Inf. An observation falls into the first bucket whose bound it does not exceed. What
  Prometheus exports for a bound is cumulative: all observations up to it.
\<close>

definition duration_buckets :: "nat list" where
  "duration_buckets =
     [5000000, 10000000, 15000000, 20000000, 30000000, 40000000, 50000000, 75000000, 100000000, 250000000,
      500000000, 1000000000, 2500000000]"

definition bucket_of :: "nat \<Rightarrow> nat" where
  "bucket_of ns = length (takeWhile (\<lambda>b. b < ns) duration_buckets)"

definition add_to :: "metric \<Rightarrow> nat \<Rightarrow> counters \<Rightarrow> counters" where
  "add_to m n c = c(m \<mapsto> (case c m of None \<Rightarrow> n | Some k \<Rightarrow> k + n))"

definition Observe :: "string \<Rightarrow> nat \<Rightarrow> counters \<Rightarrow> counters" where
  "Observe route ns c =
     add_to (RequestDurationSum route) ns (Inc (RequestDurationBucket route (bucket_of ns)) c)"

definition cumulative :: "counters \<Rightarrow> string \<Rightarrow> nat \<Rightarrow> nat" where
  "cumulative c route i = sum_list (map (\<lambda>j. count c (RequestDurationBucket route j)) [0..<Suc i])"

lemma count_add_to [row_simps]: "count (add_to m n c) m' = (if m' = m then count c m + n else count c m')"
  by (simp add: count_def add_to_def split: option.splits)

text \<open>The bounds increase, so an observation is below a bound iff its bucket is not past it.\<close>

lemma sorted_takeWhile_less:
  "sorted bs \<Longrightarrow> i < length bs \<Longrightarrow> length (takeWhile (\<lambda>b. b < (ns :: nat)) bs) \<le> i \<longleftrightarrow> ns \<le> bs ! i"
proof (induction bs arbitrary: i)
  case (Cons b bs)
  show ?case
  proof (cases i)
    case (Suc j)
    have "b \<le> bs ! j" using Cons.prems Suc by simp
    then have "\<not> b < ns \<Longrightarrow> ns \<le> bs ! j" by simp
    then show ?thesis using Cons Suc by (cases "b < ns") simp_all
  qed simp
qed simp

lemma bucket_of_le:
  "i < length duration_buckets \<Longrightarrow> bucket_of ns \<le> i \<longleftrightarrow> ns \<le> duration_buckets ! i"
  unfolding bucket_of_def by (rule sorted_takeWhile_less) (simp_all add: duration_buckets_def)

lemma count_Observe_bucket:
  "count (Observe r ns c) (RequestDurationBucket route j) =
     (if route = r \<and> j = bucket_of ns then 1 else 0) + count c (RequestDurationBucket route j)"
  by (simp add: Observe_def row_simps)

lemma sum_list_indicator:
  "sum_list (map (\<lambda>j. (if j = k then 1 else 0) + f j) [0..<n]) = (if k < n then 1 else 0) + sum_list (map f [0..<n])"
  for n :: nat and f :: "nat \<Rightarrow> nat"
  by (induction n) auto

lemma cumulative_Observe:
  "cumulative (Observe r ns c) route i = (if route = r \<and> bucket_of ns \<le> i then 1 else 0) + cumulative c route i"
proof (cases "route = r")
  case True
  then show ?thesis
    unfolding cumulative_def count_Observe_bucket
    using sum_list_indicator [of "bucket_of ns" "\<lambda>j. count c (RequestDurationBucket route j)" "Suc i"]
    by (simp add: less_Suc_eq_le del: upt_Suc)
qed (simp add: cumulative_def count_Observe_bucket del: upt_Suc)

section \<open>The collectors\<close>

text \<open>
  A collector is a vector of series under one name: its label names, the constant labels that all its
  series carry, and for a histogram the bounds of its buckets. The record is that of the package
  variables, and \<open>build\<close> assigns each of them.
\<close>

type_synonym labels = "(string \<times> string) list"

record collector =
  co_Name :: string
  co_ConstLabels :: labels
  co_labels :: "string list"
  co_Buckets :: "nat list"

record collectors =
  cv_CacheHits :: collector
  cv_CacheMisses :: collector
  cv_WritesTotal :: collector
  cv_OptimisticLockConflicts :: collector
  cv_RequestsTotal :: collector
  cv_RequestDuration :: collector

definition counter_vec :: "string \<Rightarrow> labels \<Rightarrow> string list \<Rightarrow> collector" where
  "counter_vec name constLabels ls =
     \<lparr>co_Name = name, co_ConstLabels = constLabels, co_labels = ls, co_Buckets = []\<rparr>"

definition build :: "labels \<Rightarrow> collectors" where
  "build constLabels =
     \<lparr>cv_CacheHits = counter_vec ''catalog_admin_cache_hits_total'' constLabels [''key''],
      cv_CacheMisses = counter_vec ''catalog_admin_cache_misses_total'' constLabels [''key''],
      cv_WritesTotal = counter_vec ''catalog_admin_writes_total'' constLabels [''table'', ''op''],
      cv_OptimisticLockConflicts = counter_vec ''catalog_admin_optimistic_lock_conflicts_total'' constLabels [''table''],
      cv_RequestsTotal = counter_vec ''catalog_admin_requests_total'' constLabels [''route'', ''status''],
      cv_RequestDuration = \<lparr>co_Name = ''catalog_admin_request_duration_seconds'', co_ConstLabels = constLabels,
                            co_labels = [''route''], co_Buckets = duration_buckets\<rparr>\<rparr>"

text \<open>The collectors in the order in which they are handed to the registry.\<close>

definition collector_list :: "collectors \<Rightarrow> collector list" where
  "collector_list v =
     [cv_CacheHits v, cv_CacheMisses v, cv_WritesTotal v, cv_OptimisticLockConflicts v, cv_RequestsTotal v,
      cv_RequestDuration v]"

text \<open>
  The collector a series belongs to, and the values of its labels. Asking a vector for a series panics
  when the number of values is not the number of its labels; the series of this model always have it.
\<close>

definition series_of :: "collectors \<Rightarrow> metric \<Rightarrow> collector \<times> string list" where
  "series_of v m =
     (case m of
        CacheHits key \<Rightarrow> (cv_CacheHits v, [key])
      | CacheMisses key \<Rightarrow> (cv_CacheMisses v, [key])
      | WritesTotal table op \<Rightarrow> (cv_WritesTotal v, [table, op])
      | OptimisticLockConflicts table \<Rightarrow> (cv_OptimisticLockConflicts v, [table])
      | RequestsTotal route status \<Rightarrow> (cv_RequestsTotal v, [route, status])
      | RequestDurationBucket route _ \<Rightarrow> (cv_RequestDuration v, [route])
      | RequestDurationSum route \<Rightarrow> (cv_RequestDuration v, [route]))"

lemma series_labelled:
  "case series_of (build cl) m of (c, vs) \<Rightarrow> c \<in> set (collector_list (build cl)) \<and> length vs = length (co_labels c)"
  by (simp add: series_of_def collector_list_def build_def counter_vec_def split: metric.split)

lemma collector_names_distinct: "distinct (map co_Name (collector_list (build cl)))"
  by (simp add: collector_list_def build_def counter_vec_def)

lemma collectors_const_labels: "c \<in> set (collector_list (build cl)) \<Longrightarrow> co_ConstLabels c = cl"
  by (auto simp: collector_list_def build_def counter_vec_def)

text \<open>Two series of the model that are one series in Prometheus are parts of one histogram.\<close>

lemma series_of_inj:
  assumes "series_of (build cl) m = series_of (build cl) m'"
  shows "m = m' \<or> cv_RequestDuration (build cl) = fst (series_of (build cl) m)"
  using assms by (cases m; cases m') (simp_all add: series_of_def build_def counter_vec_def)

section \<open>Registration\<close>

text \<open>A fresh build has no series; registration asks for the known label values, so they count from 0.\<close>

definition known_label_values :: "counters \<Rightarrow> counters" where
  "known_label_values c =
     (let c1 = foldl (\<lambda>c key. WithLabelValues (CacheMisses key) (WithLabelValues (CacheHits key) c))
                 c [''cat:departments'', ''cat:plans''];
          c2 = foldl (\<lambda>c table. WithLabelValues (OptimisticLockConflicts table) c)
                 c1 [''departments'', ''plans'']
      in WithLabelValues (WritesTotal ''plans'' ''update'')
           (WithLabelValues (WritesTotal ''departments'' ''update'')
              (WithLabelValues (WritesTotal ''departments'' ''insert'') c2)))"

text \<open>
  The registry of Prometheus is the argument \<open>MustRegister\<close>, None where it panics, which is documented
  for a collector that is already there. The state is the package variables with their series.
\<close>

type_synonym 'reg metrics_state = "collectors \<times> counters \<times> 'reg"

definition registerOnto ::
  "('reg \<Rightarrow> collector list \<Rightarrow> 'reg option) \<Rightarrow> labels \<Rightarrow> 'reg metrics_state \<Rightarrow> 'reg metrics_state option" where
  "registerOnto MustRegister constLabels s =
     (case s of (_, _, reg) \<Rightarrow>
        (case MustRegister reg (collector_list (build constLabels)) of
           None \<Rightarrow> None
         | Some reg' \<Rightarrow> Some (build constLabels, known_label_values Map.empty, reg')))"

text \<open>Register runs its body once per process (sync.Once); the flag says whether it has run.\<close>

definition Register ::
  "('reg \<Rightarrow> collector list \<Rightarrow> 'reg option) \<Rightarrow> labels \<Rightarrow> bool \<times> 'reg metrics_state \<Rightarrow> (bool \<times> 'reg metrics_state) option" where
  "Register MustRegister constLabels s =
     (case s of (done_before, st) \<Rightarrow>
        if done_before then Some (True, st)
        else (case registerOnto MustRegister constLabels st of None \<Rightarrow> None | Some st' \<Rightarrow> Some (True, st')))"

definition known_series :: "metric set" where
  "known_series =
     {CacheHits ''cat:departments'', CacheMisses ''cat:departments'',
      CacheHits ''cat:plans'', CacheMisses ''cat:plans'',
      OptimisticLockConflicts ''departments'', OptimisticLockConflicts ''plans'',
      WritesTotal ''departments'' ''insert'', WritesTotal ''departments'' ''update'',
      WritesTotal ''plans'' ''update''}"

lemma dom_known_label_values: "dom (known_label_values Map.empty) = known_series"
  by (auto simp: known_label_values_def dom_WithLabelValues known_series_def)

lemma count_known_label_values [row_simps]: "count (known_label_values c) m = count c m"
  by (simp add: known_label_values_def row_simps)

lemma count_empty [simp]: "count Map.empty m = 0"
  by (simp add: count_def)

text \<open>
  A second call of Register changes nothing and cannot panic, whatever labels it brings; without the
  flag it would, on a registry that refuses names it has.
\<close>

lemma Register_once: "Register mr cl s = Some s' \<Longrightarrow> Register mr' cl' s' = Some s'"
  by (auto simp: Register_def split: prod.splits if_splits option.splits)

lemma registerOnto_twice:
  assumes refuses: "\<And>reg cs reg' ds. mr reg cs = Some reg' \<Longrightarrow> co_Name ` set cs \<inter> co_Name ` set ds \<noteq> {} \<Longrightarrow> mr reg' ds = None"
    and "registerOnto mr cl s = Some s'"
  shows "registerOnto mr cl' s' = None"
proof -
  obtain v c reg reg' where s: "s = (v, c, reg)" and mr: "mr reg (collector_list (build cl)) = Some reg'"
    and s': "s' = (build cl, known_label_values Map.empty, reg')"
    using assms(2) by (cases s) (auto simp: registerOnto_def split: option.splits)
  have "co_Name ` set (collector_list (build cl)) \<inter> co_Name ` set (collector_list (build cl')) \<noteq> {}"
    by (simp add: collector_list_def build_def counter_vec_def)
  then show ?thesis using refuses [OF mr] by (simp add: registerOnto_def s')
qed

end
