(* ===== verification/World.thy ===== *)
theory World
  imports Plans_Db Metrics
begin

text \<open>
  The state the running service acts on: the database, the Valkey keyspace, the clock, the supply
  of random UUIDs, the metrics, the log, and the faults the environment has in store. A fault is
  consumed by the next transaction or cache call; an exhausted list means no fault, so every
  theorem that quantifies over the state quantifies over the failures of its surroundings.
\<close>

text \<open>
  What pgcommon.RunInTx and the server do to one transaction besides running the body: refuse to
  begin, fail its first or second statement, or fail the commit. A commit whose acknowledgement is
  lost reports an error although it took effect (the flag).
\<close>

record tx_fate =
  tf_begin :: "driver_error option"
  tf_stmt :: "driver_error option"
  tf_probe :: "driver_error option"
  tf_commit :: "(driver_error \<times> bool) option"

definition tx_ok :: tx_fate where
  "tx_ok = \<lparr>tf_begin = None, tf_stmt = None, tf_probe = None, tf_commit = None\<rparr>"

text \<open>A cache call fails with an error; the flag says whether the server executed it all the same.\<close>

datatype cache_fate = CacheFine | CacheFails driver_error bool

type_synonym duration = "64 word"

record store_entry =
  se_value :: body_bytes
  se_expiry :: "int option"

datatype log_line = LogError string | LogWarn string

record world =
  w_db :: db
  w_store :: "string \<rightharpoonup> store_entry"
  w_now :: int
  w_uuids :: nat
  w_metrics :: counters
  w_log :: "log_line list"
  w_tx :: "tx_fate list"
  w_cache :: "cache_fate list"

text \<open>The clock counts nanoseconds; \<open>now()\<close> of the database has microseconds.\<close>

definition db_now :: "world \<Rightarrow> int" where
  "db_now w = w_now w div 1000"

definition next_tx :: "world \<Rightarrow> tx_fate" where
  "next_tx w = (case w_tx w of [] \<Rightarrow> tx_ok | t # _ \<Rightarrow> t)"

definition pop_tx :: "world \<Rightarrow> world" where
  "pop_tx w = w\<lparr>w_tx := tl (w_tx w)\<rparr>"

definition next_cache :: "world \<Rightarrow> cache_fate" where
  "next_cache w = (case w_cache w of [] \<Rightarrow> CacheFine | f # _ \<Rightarrow> f)"

definition pop_cache :: "world \<Rightarrow> world" where
  "pop_cache w = w\<lparr>w_cache := tl (w_cache w)\<rparr>"

definition inc_metric :: "metric \<Rightarrow> world \<Rightarrow> world" where
  "inc_metric m w = w\<lparr>w_metrics := Inc m (w_metrics w)\<rparr>"

definition add_log :: "log_line \<Rightarrow> world \<Rightarrow> world" where
  "add_log l w = w\<lparr>w_log := w_log w @ [l]\<rparr>"

definition set_db :: "db \<Rightarrow> world \<Rightarrow> world" where
  "set_db db w = w\<lparr>w_db := db\<rparr>"

lemma pop_simps [simp]:
  "w_db (pop_tx w) = w_db w" "w_store (pop_tx w) = w_store w" "w_now (pop_tx w) = w_now w"
  "w_uuids (pop_tx w) = w_uuids w" "w_metrics (pop_tx w) = w_metrics w"
  "w_cache (pop_tx w) = w_cache w" "w_log (pop_tx w) = w_log w" "w_tx (pop_tx w) = tl (w_tx w)"
  "w_db (pop_cache w) = w_db w" "w_store (pop_cache w) = w_store w" "w_now (pop_cache w) = w_now w"
  "w_uuids (pop_cache w) = w_uuids w" "w_metrics (pop_cache w) = w_metrics w"
  "w_tx (pop_cache w) = w_tx w" "w_log (pop_cache w) = w_log w"
  "w_cache (pop_cache w) = tl (w_cache w)"
  by (simp_all add: pop_tx_def pop_cache_def)

lemma inc_simps [simp]:
  "w_db (inc_metric m w) = w_db w" "w_store (inc_metric m w) = w_store w"
  "w_now (inc_metric m w) = w_now w" "w_uuids (inc_metric m w) = w_uuids w"
  "w_cache (inc_metric m w) = w_cache w" "w_tx (inc_metric m w) = w_tx w"
  "w_log (inc_metric m w) = w_log w"
  "w_metrics (inc_metric m w) = Inc m (w_metrics w)"
  by (simp_all add: inc_metric_def)

lemma add_log_simps [simp]:
  "w_db (add_log l w) = w_db w" "w_store (add_log l w) = w_store w"
  "w_now (add_log l w) = w_now w" "w_uuids (add_log l w) = w_uuids w"
  "w_cache (add_log l w) = w_cache w" "w_tx (add_log l w) = w_tx w"
  "w_metrics (add_log l w) = w_metrics w"
  by (simp_all add: add_log_def)

lemma set_db_simps [simp]:
  "w_db (set_db db w) = db" "w_store (set_db db w) = w_store w" "w_now (set_db db w) = w_now w"
  "w_uuids (set_db db w) = w_uuids w" "w_metrics (set_db db w) = w_metrics w"
  "w_cache (set_db db w) = w_cache w" "w_tx (set_db db w) = w_tx w" "w_log (set_db db w) = w_log w"
  by (simp_all add: set_db_def)

lemma tx_ok_simps [simp]:
  "tf_begin tx_ok = None" "tf_stmt tx_ok = None" "tf_probe tx_ok = None" "tf_commit tx_ok = None"
  by (simp_all add: tx_ok_def)

lemma next_tx_Nil [simp]: "w_tx w = [] \<Longrightarrow> next_tx w = tx_ok"
  by (simp add: next_tx_def)

lemma next_cache_Nil [simp]: "w_cache w = [] \<Longrightarrow> next_cache w = CacheFine"
  by (simp add: next_cache_def)

text \<open>The next commit takes effect but reports an error.\<close>

definition lost_ack :: "world \<Rightarrow> bool" where
  "lost_ack w \<longleftrightarrow> (case tf_commit (next_tx w) of Some (_, applied) \<Rightarrow> applied | None \<Rightarrow> False)"

text \<open>The entry a read of the keyspace finds: one that has not expired.\<close>

definition live_value :: "world \<Rightarrow> string \<Rightarrow> body_bytes option" where
  "live_value w key =
     (case w_store w key of
        None \<Rightarrow> None
      | Some e \<Rightarrow>
          (case se_expiry e of
             None \<Rightarrow> Some (se_value e)
           | Some t \<Rightarrow> (if w_now w < t then Some (se_value e) else None)))"

lemma live_value_cong:
  "w_store w' = w_store w \<Longrightarrow> w_now w' = w_now w \<Longrightarrow> live_value w' = live_value w"
  by (rule HOL.ext) (simp add: live_value_def split: option.split)

end
