(* ===== verification/Pg_Adapter.thy ===== *)
theory Pg_Adapter
  imports World
begin

text \<open>
  internal/adapter/outbound/postgres/db.go: the transaction wrapper every repository method goes
  through and the translation of database errors.
\<close>

section \<open>Error translation\<close>

fun err_text :: "ext \<Rightarrow> go_error \<Rightarrow> string" where
  "err_text X (EDomain de) = DomainError_Error de"
| "err_text X (EDriver (PgErr e)) = x_pg_error_text X e"
| "err_text X (EDriver ErrNoRows) = ''no rows in result set''"
| "err_text X (EDriver CtxCanceled) = ''context canceled''"
| "err_text X (EDriver CtxDeadlineExceeded) = ''context deadline exceeded''"
| "err_text X (EDriver (OtherErr s)) = s"
| "err_text X EMaxBytes = ''http: request body too large''"

definition isOperatorOrSystemErrorSQLState :: "ext \<Rightarrow> go_error \<Rightarrow> bool" where
  "isOperatorOrSystemErrorSQLState X e =
     (if \<not> x_IsPgError X e then False
      else contains_str ''SQLSTATE 57'' (err_text X e) \<or> contains_str ''SQLSTATE 58'' (err_text X e))"

definition wrapConnErr :: "ext \<Rightarrow> go_error \<Rightarrow> go_error" where
  "wrapConnErr X e =
     (case e of
        EDomain _ \<Rightarrow> e
      | _ \<Rightarrow>
          if x_IsConnectionException X e \<or> x_IsInsufficientResources X e
             \<or> isOperatorOrSystemErrorSQLState X e
          then EDomain (NewError ErrDBUnavailable ''database unavailable'')
          else if x_IsPgError X e then e
          else if e = EDriver ErrNoRows then e
          else if e = EDriver CtxCanceled \<or> e = EDriver CtxDeadlineExceeded then e
          else EDomain (NewError ErrDependencyUnavailable ''database unavailable''))"

section \<open>Transactions\<close>

text \<open>
  The body gets the fate of its statements and the state; an error rolls the tables back and leaves
  everything else the body did (metrics are not transactional).
\<close>

definition RunInTx :: "(tx_fate \<Rightarrow> world \<Rightarrow> 'a res \<times> world) \<Rightarrow> world \<Rightarrow> 'a res \<times> world" where
  "RunInTx fn w =
     (let t = next_tx w; w1 = pop_tx w
      in case tf_begin t of
           Some e \<Rightarrow> (Inl (EDriver e), w1)
         | None \<Rightarrow>
             (case fn t w1 of
                (Inl e, w2) \<Rightarrow> (Inl e, set_db (w_db w) w2)
              | (Inr x, w2) \<Rightarrow>
                  (case tf_commit t of
                     None \<Rightarrow> (Inr x, w2)
                   | Some (e, applied) \<Rightarrow>
                       (Inl (EDriver e), if applied then w2 else set_db (w_db w) w2))))"

definition withPool :: "ext \<Rightarrow> (tx_fate \<Rightarrow> world \<Rightarrow> 'a res \<times> world) \<Rightarrow> world \<Rightarrow> 'a res \<times> world" where
  "withPool X fn w =
     (case RunInTx fn w of
        (Inl e, w') \<Rightarrow> (Inl (wrapConnErr X e), w')
      | (Inr x, w') \<Rightarrow> (Inr x, w'))"

text \<open>A statement of the body, subject to its fault.\<close>

definition exec :: "driver_error option \<Rightarrow> (db \<Rightarrow> (driver_error + 'r) \<times> db) \<Rightarrow> world \<Rightarrow> (driver_error + 'r) \<times> world" where
  "exec fault stmt w =
     (case fault of
        Some e \<Rightarrow> (Inl e, w)
      | None \<Rightarrow> (case stmt (w_db w) of (r, db') \<Rightarrow> (r, set_db db' w)))"

definition query :: "driver_error option \<Rightarrow> (db \<Rightarrow> driver_error + 'r) \<Rightarrow> world \<Rightarrow> driver_error + 'r" where
  "query fault q w = (case fault of Some e \<Rightarrow> Inl e | None \<Rightarrow> q (w_db w))"

section \<open>Facts\<close>

lemma set_db_id [simp]: "set_db (w_db w) w = w"
  by (simp add: set_db_def)

text \<open>
  Everything the callers need of a transaction: either it succeeded, its body ran and returned that
  value; or it failed, and the tables are the old ones unless the acknowledgement was lost.
\<close>

lemma withPool_Inr:
  assumes "withPool X fn w = (Inr x, w')"
  shows "tf_begin (next_tx w) = None \<and> fn (next_tx w) (pop_tx w) = (Inr x, w')
       \<and> tf_commit (next_tx w) = None"
  using assms
  by (auto simp: withPool_def RunInTx_def Let_def split: option.splits prod.splits sum.splits if_splits)

lemma withPool_Inl:
  assumes "withPool X fn w = (Inl e, w')"
  obtains (refused) e0 where "tf_begin (next_tx w) = Some e0" and "w' = pop_tx w"
      and "e = wrapConnErr X (EDriver e0)"
  | (body) e0 w2 where "tf_begin (next_tx w) = None" and "fn (next_tx w) (pop_tx w) = (Inl e0, w2)"
      and "w' = set_db (w_db w) w2" and "e = wrapConnErr X e0"
  | (commit) x e0 applied w2 where "tf_begin (next_tx w) = None"
      and "fn (next_tx w) (pop_tx w) = (Inr x, w2)"
      and "tf_commit (next_tx w) = Some (e0, applied)"
      and "w' = (if applied then w2 else set_db (w_db w) w2)" and "e = wrapConnErr X (EDriver e0)"
  using assms
  by (auto simp: withPool_def RunInTx_def Let_def split: option.splits prod.splits sum.splits if_splits)

lemma withPool_error_db:
  assumes "withPool X fn w = (Inl e, w')" and "\<not> lost_ack w"
  shows "w_db w' = w_db w"
  using assms(1) by (cases rule: withPool_Inl) (use assms(2) in \<open>auto simp: lost_ack_def\<close>)

lemma withPool_no_fault:
  assumes "next_tx w = tx_ok"
  shows "withPool X fn w =
     (case fn tx_ok (pop_tx w) of
        (Inl e, w2) \<Rightarrow> (Inl (wrapConnErr X e), set_db (w_db w) w2)
      | (Inr x, w2) \<Rightarrow> (Inr x, w2))"
  using assms by (auto simp: withPool_def RunInTx_def Let_def split: sum.splits prod.splits)

text \<open>A frame rule: what the body keeps, the transaction keeps, if it does not depend on the tables.\<close>

lemma withPool_frame:
  assumes "withPool X fn w = (r, w')"
    and "\<And>t v r v'. fn t v = (r, v') \<Longrightarrow> f v' = f v"
    and "\<And>v db. f (set_db db v) = f v" and "f (pop_tx w) = f w"
  shows "f w' = f w"
proof (cases r)
  case (Inl e)
  with assms(1) have "withPool X fn w = (Inl e, w')" by simp
  then show ?thesis
  proof (cases rule: withPool_Inl)
    case (body e0 w2)
    then show ?thesis using assms(2) [OF body(2)] assms(3,4) by simp
  next
    case (commit x e0 applied w2)
    then show ?thesis using assms(2) [OF commit(2)] assms(3,4) by simp
  qed (use assms(4) in simp)
next
  case (Inr x)
  with assms(1) have "fn (next_tx w) (pop_tx w) = (Inr x, w')" using withPool_Inr by fastforce
  then show ?thesis using assms(2,4) by fastforce
qed

text \<open>An invariant of the tables that the body keeps is kept by the transaction, faults included.\<close>

lemma withPool_db_inv:
  assumes "withPool X fn w = (r, w')" and "P (w_db w)"
    and "\<And>t v r v'. fn t v = (r, v') \<Longrightarrow> P (w_db v) \<Longrightarrow> P (w_db v')"
  shows "P (w_db w')"
proof (cases r)
  case (Inl e)
  with assms(1) have "withPool X fn w = (Inl e, w')" by simp
  then show ?thesis
  proof (cases rule: withPool_Inl)
    case (commit x e0 applied w2)
    then show ?thesis using assms(2) assms(3) [OF commit(2)] by simp
  qed (use assms(2) in auto)
next
  case (Inr x)
  with assms(1) have "fn (next_tx w) (pop_tx w) = (Inr x, w')" using withPool_Inr by fastforce
  then show ?thesis using assms(2,3) by fastforce
qed

lemma wrapConnErr_domain [simp]: "wrapConnErr X (EDomain de) = EDomain de"
  by (simp add: wrapConnErr_def)

lemma exec_frame:
  "exec fault stmt w = (r, w') \<Longrightarrow>
     w_store w' = w_store w \<and> w_now w' = w_now w \<and> w_uuids w' = w_uuids w
   \<and> w_metrics w' = w_metrics w \<and> w_cache w' = w_cache w \<and> w_tx w' = w_tx w"
  by (auto simp: exec_def split: option.splits prod.splits)

end
