(* ===== verification/Ports.thy ===== *)
theory Ports
  imports Domain
begin

text \<open>
  The port interfaces (internal/core/port) as records of functions over a state \<open>'w\<close>: what a Go
  interface value is to the service that holds it. The contracts the services rely on are locales:
  a repository as seen by the cache read-through (the rows it serves, and when an error may hide a
  write), and the cache as an advisory key-value store. The services prove their caching lemmas
  inside these locales; the Postgres and Valkey adapters interpret them.
\<close>

record 'w department_repository =
  repo_List :: "bool \<Rightarrow> 'w \<Rightarrow> department list res \<times> 'w"
  repo_FindByID :: "uuid \<Rightarrow> 'w \<Rightarrow> department res \<times> 'w"
  repo_Insert :: "department \<Rightarrow> 'w \<Rightarrow> department res \<times> 'w"
  repo_Update :: "uuid \<Rightarrow> string option \<Rightarrow> bool option \<Rightarrow> int \<Rightarrow> 'w \<Rightarrow> department res \<times> 'w"

record 'w plan_repository =
  prepo_List :: "'w \<Rightarrow> plan list res \<times> 'w"
  prepo_FindByCode :: "tenant_plan \<Rightarrow> 'w \<Rightarrow> plan res \<times> 'w"
  prepo_Update :: "tenant_plan \<Rightarrow> plan_patch option \<Rightarrow> 'w \<Rightarrow> plan res \<times> 'w"

record 'w cache_port =
  cache_Get :: "string \<Rightarrow> 'w \<Rightarrow> body_bytes option res \<times> 'w"
  cache_Set :: "string \<Rightarrow> body_bytes \<Rightarrow> 64 word \<Rightarrow> 'w \<Rightarrow> unit res \<times> 'w"
  cache_Delete :: "string list \<Rightarrow> 'w \<Rightarrow> unit res \<times> 'w"
  cache_Health :: "'w \<Rightarrow> unit res \<times> 'w"

section \<open>The advisory cache\<close>

text \<open>
  \<open>cached w k\<close> is what a read of the key can return. A read returns it or nothing or an
  error, a write takes effect or not, and no call invents a value. While \<open>healthy\<close> holds a
  deletion takes effect.
\<close>

locale advisory_cache =
  fixes cache :: "'w cache_port"
    and cached :: "'w \<Rightarrow> string \<Rightarrow> body_bytes option"
    and healthy :: "'w \<Rightarrow> bool"
  assumes Get_value: "cache_Get cache k w = (Inr (Some v), w') \<Longrightarrow> cached w k = Some v"
    and Get_frame: "cache_Get cache k w = (rg, w') \<Longrightarrow> cached w' = cached w"
    and Set_effect: "cache_Set cache k v ttl w = (rs, w') \<Longrightarrow>
          cached w' j = (if j = k then Some v else cached w j) \<or> cached w' j = cached w j"
    and Delete_effect: "cache_Delete cache ks w = (rd, w') \<Longrightarrow>
          cached w' j = cached w j \<or> (j \<in> set ks \<and> cached w' j = None)"
    and Delete_healthy: "healthy w \<Longrightarrow> cache_Delete cache ks w = (rd, w') \<Longrightarrow> j \<in> set ks \<Longrightarrow>
          cached w' j = None"
begin

lemma Set_value:
  assumes "cache_Set cache k v ttl w = (r, w')" and "cached w' j = Some x"
  shows "(j = k \<and> x = v) \<or> cached w j = Some x"
  using Set_effect [OF assms(1), of j] assms(2) by (auto split: if_splits)

lemma Delete_value:
  assumes "cache_Delete cache ks w = (r, w')" and "cached w' j = Some x"
  shows "cached w j = Some x"
  using Delete_effect [OF assms(1), of j] assms(2) by auto

end

section \<open>A snapshot behind a cache\<close>

text \<open>
  The read-through and the invalidating write of the two services, abstractly: a snapshot of type
  \<open>'a\<close> kept under one key, encoded by \<open>enc\<close> and decoded by \<open>dec\<close>. The services' own
  definitions are shown to be instances.
\<close>

definition read_through ::
  "'w cache_port option \<Rightarrow> string \<Rightarrow> (body_bytes \<Rightarrow> 'a option) \<Rightarrow> ('a \<Rightarrow> body_bytes) \<Rightarrow> 64 word
     \<Rightarrow> ('w \<Rightarrow> 'a res \<times> 'w) \<Rightarrow> 'w \<Rightarrow> 'a res \<times> 'w" where
  "read_through cache key dec enc ttl fetch w =
     (case cache of
        None \<Rightarrow> fetch w
      | Some c \<Rightarrow>
          (case cache_Get c key w of
             (r, w1) \<Rightarrow>
               (case (case r of Inr (Some raw) \<Rightarrow> dec raw | _ \<Rightarrow> None) of
                  Some a \<Rightarrow> (Inr a, w1)
                | None \<Rightarrow>
                    (case fetch w1 of
                       (Inl e, w2) \<Rightarrow> (Inl e, w2)
                     | (Inr a, w2) \<Rightarrow> (Inr a, snd (cache_Set c key (enc a) ttl w2))))))"

definition write_then_invalidate ::
  "'w cache_port option \<Rightarrow> string \<Rightarrow> ('w \<Rightarrow> 'b res \<times> 'w) \<Rightarrow> 'w \<Rightarrow> 'b res \<times> 'w" where
  "write_then_invalidate cache key f w =
     (case f w of
        (Inl e, w1) \<Rightarrow> (Inl e, w1)
      | (Inr b, w1) \<Rightarrow>
          (Inr b, case cache of None \<Rightarrow> w1 | Some c \<Rightarrow> snd (cache_Delete c [key] w1)))"

text \<open>The cache never disagrees with the truth: a decodable entry is the current snapshot.\<close>

definition coherent ::
  "('w \<Rightarrow> string \<Rightarrow> body_bytes option) \<Rightarrow> string \<Rightarrow> (body_bytes \<Rightarrow> 'a option) \<Rightarrow> ('w \<Rightarrow> 'a) \<Rightarrow> 'w \<Rightarrow> bool" where
  "coherent cached key dec truth w \<longleftrightarrow>
     (case cached w key of
        None \<Rightarrow> True
      | Some raw \<Rightarrow> (case dec raw of None \<Rightarrow> True | Some a \<Rightarrow> a = truth w))"

lemma coherentI:
  "(\<And>raw a. cached w key = Some raw \<Longrightarrow> dec raw = Some a \<Longrightarrow> a = truth w) \<Longrightarrow>
     coherent cached key dec truth w"
  by (auto simp: coherent_def split: option.splits)

lemma coherentD:
  "coherent cached key dec truth w \<Longrightarrow> cached w key = Some raw \<Longrightarrow> dec raw = Some a \<Longrightarrow> a = truth w"
  by (simp add: coherent_def)

locale snapshot_cache = advisory_cache cache cached healthy
  for cache :: "'w cache_port" and cached :: "'w \<Rightarrow> string \<Rightarrow> body_bytes option"
    and healthy :: "'w \<Rightarrow> bool" +
  fixes key :: string
    and dec :: "body_bytes \<Rightarrow> 'a option"
    and enc :: "'a \<Rightarrow> body_bytes"
    and truth :: "'w \<Rightarrow> 'a"
    and sound :: "'w \<Rightarrow> bool"
    and fetch :: "'w \<Rightarrow> 'a res \<times> 'w"
  assumes Get_truth: "cache_Get cache k w = (rg, w') \<Longrightarrow> truth w' = truth w \<and> (sound w \<longrightarrow> sound w')"
    and Set_truth: "cache_Set cache k v ttl w = (rs, w') \<Longrightarrow> truth w' = truth w"
    and Delete_truth: "cache_Delete cache ks w = (rd, w') \<Longrightarrow> truth w' = truth w"
    and fetch_truth: "fetch w = (rf, w') \<Longrightarrow> truth w' = truth w \<and> cached w' = cached w"
    and fetch_result: "sound w \<Longrightarrow> fetch w = (Inr a, w') \<Longrightarrow> a = truth w"
    and enc_dec: "sound w \<Longrightarrow> dec (enc (truth w)) = Some (truth w)"
begin

lemma coherent_cong:
  "truth w' = truth w \<Longrightarrow> cached w' = cached w \<Longrightarrow>
     coherent cached key dec truth w' = coherent cached key dec truth w"
  by (simp add: coherent_def split: option.split)

text \<open>A coherent cache makes the read-through return the truth or an error of the source.\<close>

lemma read_through_truth:
  assumes "coherent cached key dec truth w" and "sound w"
    and "read_through (Some cache) key dec enc ttl fetch w = (Inr a, w')"
  shows "a = truth w"
proof -
  obtain r w1 where get: "cache_Get cache key w = (r, w1)" by force
  note t1 = Get_truth [OF get]
  show ?thesis
  proof (cases "case r of Inr (Some raw) \<Rightarrow> dec raw | _ \<Rightarrow> None")
    case None
    with assms(3) get obtain w2 where "fetch w1 = (Inr a, w2)"
      by (auto simp: read_through_def split: sum.splits prod.splits)
    then show ?thesis using fetch_result t1 assms(2) by metis
  next
    case (Some b)
    then obtain raw where r: "r = Inr (Some raw)" and raw: "dec raw = Some b"
      by (auto split: sum.splits option.splits)
    from get r have "cached w key = Some raw" by (simp add: Get_value)
    from coherentD [OF assms(1) this raw] have "b = truth w" .
    moreover have "a = b" using assms(3) get Some by (simp add: read_through_def)
    ultimately show ?thesis by simp
  qed
qed

lemma read_through_coherent:
  assumes co: "coherent cached key dec truth w" and "sound w"
    and rt: "read_through (Some cache) key dec enc ttl fetch w = (res, w')"
  shows "coherent cached key dec truth w' \<and> truth w' = truth w"
proof -
  obtain r w1 where get: "cache_Get cache key w = (r, w1)" by force
  note t1 = Get_truth [OF get] and c1 = Get_frame [OF get]
  have co1: "coherent cached key dec truth w1" using co t1 c1 coherent_cong by blast
  show ?thesis
  proof (cases "case r of Inr (Some raw) \<Rightarrow> dec raw | _ \<Rightarrow> None")
    case (Some b)
    then have "w' = w1" using rt get by (simp add: read_through_def)
    then show ?thesis using co1 t1 by simp
  next
    case None
    obtain rf w2 where f: "fetch w1 = (rf, w2)" by force
    note t2 = fetch_truth [OF f]
    show ?thesis
    proof (cases rf)
      case (Inl e)
      then have "w' = w2" using rt get None f by (simp add: read_through_def)
      then show ?thesis using co1 t1 t2 coherent_cong [of w2 w1] by simp
    next
      case (Inr a)
      obtain rs w3 where s: "cache_Set cache key (enc a) ttl w2 = (rs, w3)" by force
      have w': "w' = w3" using rt get None f Inr s by (simp add: read_through_def)
      have a: "a = truth w" using fetch_result f Inr t1 assms(2) by metis
      have "coherent cached key dec truth w3"
      proof (rule coherentI)
        fix raw b assume raw: "cached w3 key = Some raw" and b: "dec raw = Some b"
        from Set_value [OF s raw] show "b = truth w3"
        proof
          assume "key = key \<and> raw = enc a"
          then show ?thesis using b a enc_dec [OF assms(2)] t1 t2 Set_truth [OF s] by simp
        next
          assume "cached w2 key = Some raw"
          then show ?thesis using coherentD [OF co1] b t2 Set_truth [OF s] by metis
        qed
      qed
      then show ?thesis using w' t1 t2 Set_truth [OF s] by simp
    qed
  qed
qed

text \<open>
  A write that reports success is followed by an invalidation that takes effect; one that reports
  an error must have left the truth alone.
\<close>

lemma write_coherent:
  assumes co: "coherent cached key dec truth w"
    and f: "f w = (r, w1)" and frame: "cached w1 = cached w" and "healthy w1"
    and error: "\<And>e. r = Inl e \<Longrightarrow> truth w1 = truth w"
    and wi: "write_then_invalidate (Some cache) key f w = (res, w')"
  shows "coherent cached key dec truth w'"
proof (cases r)
  case (Inl e)
  then have "w' = w1" using wi f by (simp add: write_then_invalidate_def)
  then show ?thesis using co coherent_cong [OF error [OF Inl] frame] by simp
next
  case (Inr b)
  obtain rd w2 where d: "cache_Delete cache [key] w1 = (rd, w2)" by force
  then have "cached w2 key = None" using Delete_healthy [OF \<open>healthy w1\<close> d] by simp
  moreover have "w' = w2" using wi f Inr d by (simp add: write_then_invalidate_def)
  ultimately show ?thesis by (simp add: coherent_def)
qed

text \<open>Whatever the cache does, a read-through that bypasses it (miss, error, garbage) is the fetch.\<close>

lemma read_through_bypass:
  assumes get: "cache_Get cache key w = (r, w1)"
    and miss: "\<And>raw. r = Inr (Some raw) \<Longrightarrow> dec raw = None"
  shows "fst (read_through (Some cache) key dec enc ttl fetch w) = fst (fetch w1)"
proof -
  have "(case r of Inr (Some raw) \<Rightarrow> dec raw | _ \<Rightarrow> None) = None"
    using miss by (auto split: sum.splits option.splits)
  then show ?thesis using get by (auto simp: read_through_def split: sum.splits prod.splits)
qed

end

end
