(* ===== verification/Department_Repo.thy ===== *)
theory Department_Repo
  imports Pg_Adapter Ports
begin

text \<open>
  internal/adapter/outbound/postgres/department_repository.go over the departments table. The
  dynamic UPDATE is built as the code builds it (arguments appended one by one, placeholders
  numbered by their count) and shown to be the direct update of the row.
\<close>

section \<open>The repository\<close>

definition scanDepartment :: "driver_error + department option \<Rightarrow> department res" where
  "scanDepartment r =
     (case r of
        Inl e \<Rightarrow> Inl (EDriver e)
      | Inr None \<Rightarrow> Inl (EDriver ErrNoRows)
      | Inr (Some d) \<Rightarrow> Inr d)"

definition deptListFromTx :: "ext \<Rightarrow> bool \<Rightarrow> tx_fate \<Rightarrow> world \<Rightarrow> department list res \<times> world" where
  "deptListFromTx X activeOnly t w =
     (case query (tf_stmt t) (\<lambda>db. Inr (sql_select_departments X activeOnly db)) w of
        Inl e \<Rightarrow> (Inl (EDriver e), w)
      | Inr ds \<Rightarrow> (Inr ds, w))"

definition DepartmentRepository_List :: "ext \<Rightarrow> bool \<Rightarrow> world \<Rightarrow> department list res \<times> world" where
  "DepartmentRepository_List X activeOnly = withPool X (deptListFromTx X activeOnly)"

definition deptFindByIDFromTx :: "uuid \<Rightarrow> tx_fate \<Rightarrow> world \<Rightarrow> department res \<times> world" where
  "deptFindByIDFromTx u t w =
     (case scanDepartment (query (tf_stmt t) (\<lambda>db. Inr (sql_select_department u db)) w) of
        Inl e \<Rightarrow>
          (if e = EDriver ErrNoRows
           then (Inl (EDomain (NewError ErrDepartmentNotFound ''department not found'')), w)
           else (Inl e, w))
      | Inr d \<Rightarrow> (Inr d, w))"

definition DepartmentRepository_FindByID :: "ext \<Rightarrow> uuid \<Rightarrow> world \<Rightarrow> department res \<times> world" where
  "DepartmentRepository_FindByID X u = withPool X (deptFindByIDFromTx u)"

text \<open>
  The insert body counts the write once the row is scanned, before the commit. uuid.New draws from
  the supply when the caller left the id nil.
\<close>

definition deptInsertFromTx :: "ext \<Rightarrow> department \<Rightarrow> tx_fate \<Rightarrow> world \<Rightarrow> department res \<times> world" where
  "deptInsertFromTx X d t w =
     (case exec (tf_stmt t)
             (sql_insert_department X (db_now w) (d_ID d) (d_Code d) (d_Name d) (d_IsSystem d) (d_IsActive d)) w of
        (r, w1) \<Rightarrow>
          (case scanDepartment r of
             Inl scanErr \<Rightarrow>
               (if x_IsUniqueViolation X scanErr
                then (Inl (EDomain (WithDetails (NewError ErrConflict ''department code already exists'')
                             [(''code'', AStr ''duplicate_code'')])), w1)
                else (Inl scanErr, w1))
           | Inr created \<Rightarrow> (Inr created, inc_metric (WritesTotal ''departments'' ''insert'') w1)))"

definition DepartmentRepository_Insert :: "ext \<Rightarrow> department \<Rightarrow> world \<Rightarrow> department res \<times> world" where
  "DepartmentRepository_Insert X d w =
     (let (d', w') = (if d_ID d = uuid_Nil
                      then (d\<lparr>d_ID := x_uuid_new X (w_uuids w)\<rparr>, w\<lparr>w_uuids := Suc (w_uuids w)\<rparr>)
                      else (d, w))
      in withPool X (deptInsertFromTx X d') w')"

definition dept_update_sql ::
  "uuid \<Rightarrow> string option \<Rightarrow> bool option \<Rightarrow> int \<Rightarrow> set_list \<times> sql_arg list" where
  "dept_update_sql u name isActive expectedVersion =
     (let args0 = [ArgUuid u, ArgInt expectedVersion];
          (set1, args1) = (case name of
             None \<Rightarrow> ([], args0)
           | Some n \<Rightarrow> (let args = args0 @ [ArgText n] in ([(''name'', length args)], args)));
          (set2, args2) = (case isActive of
             None \<Rightarrow> (set1, args1)
           | Some b \<Rightarrow> (let args = args1 @ [ArgBool b] in (set1 @ [(''is_active'', length args)], args)))
      in (set2, args2))"

definition deptUpdateFromTx ::
  "ext \<Rightarrow> uuid \<Rightarrow> set_list \<Rightarrow> sql_arg list \<Rightarrow> tx_fate \<Rightarrow> world \<Rightarrow> department res \<times> world" where
  "deptUpdateFromTx X u sets args t w =
     (case exec (tf_stmt t) (sql_update_department X (db_now w) sets args) w of
        (r, w1) \<Rightarrow>
          (case scanDepartment r of
             Inr updated \<Rightarrow> (Inr updated, w1)
           | Inl e \<Rightarrow>
               if e = EDriver ErrNoRows then
                 (case query (tf_probe t) (\<lambda>db. Inr (sql_select_department_version u db)) w1 of
                    Inl perr \<Rightarrow>
                      (if perr = ErrNoRows
                       then (Inl (EDomain (NewError ErrDepartmentNotFound ''department not found'')), w1)
                       else (Inl (EDriver perr), w1))
                  | Inr None \<Rightarrow> (Inl (EDomain (NewError ErrDepartmentNotFound ''department not found'')), w1)
                  | Inr (Some currentVersion) \<Rightarrow>
                      (Inl (EDomain (WithDetails (NewError ErrOptimisticLockConflict ''record version conflict'')
                              [(''record_version'', AInt64 currentVersion)])), w1))
               else (Inl e, w1)))"

definition deptUpdateBody ::
  "ext \<Rightarrow> uuid \<Rightarrow> set_list \<Rightarrow> sql_arg list \<Rightarrow> tx_fate \<Rightarrow> world \<Rightarrow> department res \<times> world" where
  "deptUpdateBody X u sets args t w =
     (case deptUpdateFromTx X u sets args t w of
        (Inl e, w1) \<Rightarrow>
          (Inl e, if errors_Is e ErrOptimisticLockConflict
                  then inc_metric (OptimisticLockConflicts ''departments'') w1 else w1)
      | (Inr updated, w1) \<Rightarrow> (Inr updated, inc_metric (WritesTotal ''departments'' ''update'') w1))"

definition DepartmentRepository_Update ::
  "ext \<Rightarrow> uuid \<Rightarrow> string option \<Rightarrow> bool option \<Rightarrow> int \<Rightarrow> world \<Rightarrow> department res \<times> world" where
  "DepartmentRepository_Update X u name isActive expectedVersion w =
     (if name = None \<and> isActive = None then DepartmentRepository_FindByID X u w
      else (case dept_update_sql u name isActive expectedVersion of
              (sets, args) \<Rightarrow> withPool X (deptUpdateBody X u sets args) w))"

definition NewDepartmentRepository :: "ext \<Rightarrow> world department_repository" where
  "NewDepartmentRepository X =
     \<lparr>repo_List = DepartmentRepository_List X, repo_FindByID = DepartmentRepository_FindByID X,
      repo_Insert = DepartmentRepository_Insert X, repo_Update = DepartmentRepository_Update X\<rparr>"

section \<open>The dynamic UPDATE\<close>

text \<open>What the SET list does to the row, written directly.\<close>

definition dept_patched :: "string option \<Rightarrow> bool option \<Rightarrow> department \<Rightarrow> department" where
  "dept_patched name isActive d =
     d\<lparr>d_Name := (case name of None \<Rightarrow> d_Name d | Some n \<Rightarrow> n),
       d_IsActive := (case isActive of None \<Rightarrow> d_IsActive d | Some b \<Rightarrow> b)\<rparr>"

lemma dept_patched_simps [simp]:
  "d_ID (dept_patched n a d) = d_ID d" "d_Code (dept_patched n a d) = d_Code d"
  "d_IsSystem (dept_patched n a d) = d_IsSystem d"
  "d_RecordVersion (dept_patched n a d) = d_RecordVersion d"
  "d_CreatedAt (dept_patched n a d) = d_CreatedAt d"
  "d_UpdatedAt (dept_patched n a d) = d_UpdatedAt d"
  "d_Name (dept_patched n a d) = (case n of None \<Rightarrow> d_Name d | Some x \<Rightarrow> x)"
  "d_IsActive (dept_patched n a d) = (case a of None \<Rightarrow> d_IsActive d | Some b \<Rightarrow> b)"
  by (simp_all add: dept_patched_def)

lemma assign_all_dept_update_sql:
  assumes "dept_update_sql u name isActive v = (sets, args)"
  shows "assign_all assign_dept args sets d = Some (dept_patched name isActive d)"
  using assms
  by (auto simp: dept_update_sql_def Let_def assign_dept_def placeholder_def dept_patched_def
      nth_append split: option.splits)

lemma dept_update_sql_where:
  assumes "dept_update_sql u name isActive v = (sets, args)"
  shows "placeholder args 1 = Some (ArgUuid u)" and "placeholder args 2 = Some (ArgInt v)"
    and "''name'' \<in> set (map fst sets) \<longleftrightarrow> name \<noteq> None"
    and "''code'' \<notin> set (map fst sets)"
  using assms by (auto simp: dept_update_sql_def Let_def placeholder_def nth_append split: option.splits)

text \<open>The row the database stores for a patch, or the error it raises: the specification of CAT-2.\<close>

definition dept_update_spec ::
  "int \<Rightarrow> string option \<Rightarrow> bool option \<Rightarrow> department \<Rightarrow> driver_error + department" where
  "dept_update_spec now name isActive old =
     (let new0 = dept_patched name isActive old in
      if d_IsSystem old \<and> d_Name new0 \<noteq> d_Name old
      then Inl (pg_raise ''23514'' ''chk_system_department_name_immutable''
                  ''system department name is immutable'')
      else if new0 \<noteq> old \<and> \<not> int64_ok (d_RecordVersion old + 1)
      then Inl (pg_raise ''22003'' '''' ''bigint out of range'')
      else let new = (if new0 = old then old
                      else new0\<lparr>d_RecordVersion := d_RecordVersion old + 1, d_UpdatedAt := now\<rparr>)
           in case failing_check dept_checks new of
                Some c \<Rightarrow> Inl (check_error ''departments'' c)
              | None \<Rightarrow> Inr new)"

lemma update_department_row_spec:
  assumes "dept_update_sql u name isActive v = (sets, args)"
  shows "update_department_row now sets args old = dept_update_spec now name isActive old"
  unfolding update_department_row_def dept_update_spec_def Let_def
    assign_all_dept_update_sql [OF assms] before_update_department_def
    trg_department_code_immutable_def trg_system_department_name_immutable_def touch_row_department_def
  using dept_update_sql_where(3,4) [OF assms]
  by (auto split: option.splits simp: dept_patched_def)


lemma dept_update_spec_row:
  assumes "dept_update_spec now name isActive old = Inr new"
  shows "dept_row_ok new" and "d_IsSystem old \<Longrightarrow> d_Name (dept_patched name isActive old) = d_Name old"
    and "new = (if dept_patched name isActive old = old then old
                else (dept_patched name isActive old)\<lparr>d_RecordVersion := d_RecordVersion old + 1, d_UpdatedAt := now\<rparr>)"
    and "dept_patched name isActive old = old \<or> int64_ok (d_RecordVersion old + 1)"
  using assms unfolding dept_update_spec_def Let_def dept_row_ok_def
  by (auto simp del: dept_patched_simps split: if_splits option.splits)

lemma dept_update_spec_Inr:
  assumes upd: "dept_update_spec now name isActive old = Inr new"
  shows "d_ID new = d_ID old" "d_Code new = d_Code old" "d_IsSystem new = d_IsSystem old"
    "d_CreatedAt new = d_CreatedAt old" "dept_row_ok new"
    "d_Name new = (case name of None \<Rightarrow> d_Name old | Some n \<Rightarrow> n)"
    "d_IsActive new = (case isActive of None \<Rightarrow> d_IsActive old | Some b \<Rightarrow> b)"
    "d_IsSystem old \<Longrightarrow> d_Name new = d_Name old"
    "new = old \<or> (d_RecordVersion new = d_RecordVersion old + 1 \<and> int64_ok (d_RecordVersion new)
                  \<and> d_UpdatedAt new = now)"
    "new = old \<longleftrightarrow> dept_patched name isActive old = old"
proof -
  let ?p = "dept_patched name isActive old"
  have fields: "d_Name new = d_Name ?p \<and> d_IsActive new = d_IsActive ?p \<and> d_ID new = d_ID ?p
      \<and> d_Code new = d_Code ?p \<and> d_IsSystem new = d_IsSystem ?p \<and> d_CreatedAt new = d_CreatedAt ?p"
    using dept_update_spec_row(3) [OF upd] by (cases "?p = old") (simp_all del: dept_patched_simps)
  then show "d_ID new = d_ID old" "d_Code new = d_Code old" "d_IsSystem new = d_IsSystem old"
    "d_CreatedAt new = d_CreatedAt old"
    "d_Name new = (case name of None \<Rightarrow> d_Name old | Some n \<Rightarrow> n)"
    "d_IsActive new = (case isActive of None \<Rightarrow> d_IsActive old | Some b \<Rightarrow> b)"
    by (simp_all cong: option.case_cong)
  show "dept_row_ok new" by (rule dept_update_spec_row(1) [OF upd])
  show "d_Name new = d_Name old" if "d_IsSystem old"
    using dept_update_spec_row(2) [OF upd that] fields by metis
  show "new = old \<or> (d_RecordVersion new = d_RecordVersion old + 1 \<and> int64_ok (d_RecordVersion new)
                  \<and> d_UpdatedAt new = now)"
    using dept_update_spec_row(3,4) [OF upd] by (cases "?p = old") simp_all
  show "new = old \<longleftrightarrow> ?p = old"
  proof (cases "?p = old")
    case False
    then have "d_RecordVersion new = d_RecordVersion old + 1"
      using dept_update_spec_row(3) [OF upd] by simp
    with False show ?thesis by auto
  qed (use dept_update_spec_row(3) [OF upd] in simp)
qed

section \<open>Frames\<close>

text \<open>A body that only touches the tables and the metrics leaves the cache side alone.\<close>

definition cache_side :: "world \<Rightarrow> (string \<rightharpoonup> store_entry) \<times> int \<times> cache_fate list" where
  "cache_side w = (w_store w, w_now w, w_cache w)"

lemma cache_side_simps [simp]:
  "cache_side (pop_tx w) = cache_side w" "cache_side (set_db db w) = cache_side w"
  "cache_side (inc_metric m w) = cache_side w" "cache_side (w\<lparr>w_uuids := n\<rparr>) = cache_side w"
  by (simp_all add: cache_side_def)

lemma cache_side_live: "cache_side w' = cache_side w \<Longrightarrow> live_value w' = live_value w"
  by (auto simp: cache_side_def intro: live_value_cong)

lemma exec_cache_side: "exec fault stmt w = (r, w') \<Longrightarrow> cache_side w' = cache_side w"
  by (auto simp: cache_side_def dest: exec_frame)

lemma deptUpdateFromTx_frame:
  "deptUpdateFromTx X u sets args t w = (r, w') \<Longrightarrow> cache_side w' = cache_side w"
  by (auto simp: deptUpdateFromTx_def split: prod.splits sum.splits option.splits if_splits
      dest: exec_cache_side)

lemma deptUpdateBody_frame:
  "deptUpdateBody X u sets args t w = (r, w') \<Longrightarrow> cache_side w' = cache_side w"
  by (auto simp: deptUpdateBody_def split: prod.splits sum.splits if_splits dest: deptUpdateFromTx_frame)

lemma deptInsertFromTx_frame:
  "deptInsertFromTx X d t w = (r, w') \<Longrightarrow> cache_side w' = cache_side w"
  by (auto simp: deptInsertFromTx_def split: prod.splits sum.splits if_splits dest: exec_cache_side)

lemma withPool_cache_side:
  assumes "withPool X fn w = (r, w')"
    and "\<And>t v r v'. fn t v = (r, v') \<Longrightarrow> cache_side v' = cache_side v"
  shows "cache_side w' = cache_side w"
  by (rule withPool_frame [OF assms(1), of cache_side]) (use assms(2) in auto)

lemma DepartmentRepository_List_frame:
  assumes "DepartmentRepository_List X b w = (r, w')"
  shows "cache_side w' = cache_side w \<and> w_db w' = w_db w"
proof
  show "cache_side w' = cache_side w"
    using assms unfolding DepartmentRepository_List_def
    by (rule withPool_cache_side) (auto simp: deptListFromTx_def split: sum.splits)
  show "w_db w' = w_db w"
    using assms unfolding DepartmentRepository_List_def
    by (rule withPool_db_inv [where P = "\<lambda>db. db = w_db w"])
       (auto simp: deptListFromTx_def split: sum.splits)
qed

lemma DepartmentRepository_List_result:
  assumes "DepartmentRepository_List X b w = (Inr ds, w')"
  shows "ds = sql_select_departments X b (w_db w)"
proof -
  from assms have "deptListFromTx X b (next_tx w) (pop_tx w) = (Inr ds, w')"
    unfolding DepartmentRepository_List_def by (auto dest: withPool_Inr)
  then show ?thesis by (auto simp: deptListFromTx_def query_def split: sum.splits option.splits)
qed

lemma DepartmentRepository_FindByID_frame:
  assumes "DepartmentRepository_FindByID X u w = (r, w')"
  shows "cache_side w' = cache_side w \<and> w_db w' = w_db w"
proof
  show "cache_side w' = cache_side w"
    using assms unfolding DepartmentRepository_FindByID_def
    by (rule withPool_cache_side) (auto simp: deptFindByIDFromTx_def split: sum.splits if_splits)
  show "w_db w' = w_db w"
    using assms unfolding DepartmentRepository_FindByID_def
    by (rule withPool_db_inv [where P = "\<lambda>db. db = w_db w"])
       (auto simp: deptFindByIDFromTx_def split: sum.splits if_splits)
qed

lemma DepartmentRepository_Insert_frame:
  assumes "DepartmentRepository_Insert X d w = (r, w')"
  shows "cache_side w' = cache_side w"
proof -
  have 1: "cache_side w' = cache_side v" if "withPool X (deptInsertFromTx X d') v = (r, w')" for d' v
    using that by (rule withPool_cache_side) (rule deptInsertFromTx_frame)
  show ?thesis using assms 1
    by (cases "d_ID d = uuid_Nil") (fastforce simp: DepartmentRepository_Insert_def Let_def)+
qed

lemma DepartmentRepository_Update_frame:
  assumes "DepartmentRepository_Update X u name isActive v w = (r, w')"
  shows "cache_side w' = cache_side w"
proof (cases "name = None \<and> isActive = None")
  case True
  with assms show ?thesis
    by (auto simp: DepartmentRepository_Update_def dest: DepartmentRepository_FindByID_frame)
next
  case False
  obtain sets args where "dept_update_sql u name isActive v = (sets, args)" by force
  with assms False have "withPool X (deptUpdateBody X u sets args) w = (r, w')"
    by (auto simp: DepartmentRepository_Update_def)
  then show ?thesis by (rule withPool_cache_side) (rule deptUpdateBody_frame)
qed

section \<open>Invariant of the tables\<close>

lemma exec_db_ok:
  assumes "exec fault stmt w = (r, w')" and "db_ok (w_db w)"
    and "\<And>q db'. stmt (w_db w) = (q, db') \<Longrightarrow> db_ok db'"
  shows "db_ok (w_db w')"
  using assms by (cases fault) (auto simp: exec_def split: prod.splits)

lemma sql_update_department_ok:
  assumes sets: "dept_update_sql u name isActive v = (sets, args)"
    and upd: "sql_update_department X now sets args db = (r, db')" and ok: "db_ok db"
  shows "db_ok db'"
  using upd
proof (cases rule: sql_update_department_cases)
  case (updated old new)
  from updated(6) have new: "dept_update_spec now name isActive old = Inr new"
    by (simp add: update_department_row_spec [OF sets])
  have "int64_ok (d_RecordVersion old)"
    using ok updated(3) by (auto simp: db_ok_def departments_ok_def list_all_iff)
  then have "int64_ok (d_RecordVersion new)" using dept_update_spec_Inr(9) [OF new] by auto
  then have "departments_ok (put_row d_ID new (t_departments db))"
    using put_row_departments_ok [OF _ updated(3)] dept_update_spec_Inr [OF new] ok
    by (simp add: db_ok_def)
  then show ?thesis using ok updated(2) by (simp add: db_ok_def)
qed (use ok in auto)

lemma DepartmentRepository_Insert_ok [wf_rules]:
  assumes "DepartmentRepository_Insert X d w = (r, w')" and "db_ok (w_db w)"
  shows "db_ok (w_db w')"
proof -
  have body: "db_ok (w_db v')" if "deptInsertFromTx X d' t v = (q, v')" "db_ok (w_db v)" for d' t v q v'
    using that by (auto simp: deptInsertFromTx_def split: prod.splits sum.splits if_splits
        elim!: exec_db_ok dest: sql_insert_department_ok)
  have pool: "db_ok (w_db w')" if "withPool X (deptInsertFromTx X d') v = (r, w')" "db_ok (w_db v)" for d' v
    by (rule withPool_db_inv [where P = db_ok, OF that]) (rule body)
  show ?thesis
  proof (cases "d_ID d = uuid_Nil")
    case True
    with assms(1) have "withPool X (deptInsertFromTx X (d\<lparr>d_ID := x_uuid_new X (w_uuids w)\<rparr>))
        (w\<lparr>w_uuids := Suc (w_uuids w)\<rparr>) = (r, w')"
      by (simp add: DepartmentRepository_Insert_def)
    then show ?thesis by (rule pool) (use assms(2) in simp)
  next
    case False
    with assms show ?thesis by (auto simp: DepartmentRepository_Insert_def intro: pool)
  qed
qed

lemma DepartmentRepository_Update_ok [wf_rules]:
  assumes "DepartmentRepository_Update X u name isActive v w = (r, w')" and "db_ok (w_db w)"
  shows "db_ok (w_db w')"
proof (cases "name = None \<and> isActive = None")
  case True
  with assms show ?thesis
    by (auto simp: DepartmentRepository_Update_def dest: DepartmentRepository_FindByID_frame)
next
  case False
  obtain sets args where sets: "dept_update_sql u name isActive v = (sets, args)" by force
  have body: "db_ok (w_db s')" if "deptUpdateBody X u sets args t s = (q, s')" "db_ok (w_db s)" for t s q s'
    using that by (auto simp: deptUpdateBody_def deptUpdateFromTx_def
        split: prod.splits sum.splits if_splits option.splits
        elim!: exec_db_ok dest: sql_update_department_ok [OF sets])
  from assms(1) False sets have "withPool X (deptUpdateBody X u sets args) w = (r, w')"
    by (auto simp: DepartmentRepository_Update_def)
  then show ?thesis by (rule withPool_db_inv [where P = db_ok]) (use assms(2) body in auto)
qed

section \<open>The update as a whole\<close>

text \<open>
  What CAT-2's update does to the tables in one undisturbed transaction: not found, conflict with
  the current version, the error of a constraint, or the new row in place of the old one.
\<close>

definition dept_not_found :: go_error where
  "dept_not_found = EDomain (NewError ErrDepartmentNotFound ''department not found'')"

definition version_conflict :: "int \<Rightarrow> go_error" where
  "version_conflict v = EDomain (WithDetails (NewError ErrOptimisticLockConflict ''record version conflict'')
     [(''record_version'', AInt64 v)])"

definition has_nul :: "string \<Rightarrow> bool" where
  "has_nul s \<longleftrightarrow> CHR 0x00 \<in> set s"

definition nul_error :: driver_error where
  "nul_error = pg_raise ''22021'' '''' ''invalid byte sequence for encoding''"

definition dept_update_abs ::
  "int \<Rightarrow> uuid \<Rightarrow> string option \<Rightarrow> bool option \<Rightarrow> int \<Rightarrow> db \<Rightarrow> department res \<times> db" where
  "dept_update_abs now u name isActive v db =
     (if name \<noteq> None \<and> has_nul (the name) then (Inl (EDriver nul_error), db)
      else case find (\<lambda>r. d_ID r = u) (t_departments db) of
        None \<Rightarrow> (Inl dept_not_found, db)
      | Some old \<Rightarrow>
          if d_RecordVersion old \<noteq> v then (Inl (version_conflict (d_RecordVersion old)), db)
          else if name = None \<and> isActive = None then (Inr old, db)
          else case dept_update_spec now name isActive old of
                 Inl e \<Rightarrow> (Inl (EDriver e), db)
               | Inr new \<Rightarrow> (Inr new, db\<lparr>t_departments := put_row d_ID new (t_departments db)\<rparr>))"

lemma dept_bind_args:
  assumes "dept_update_sql u name isActive v = (sets, args)"
  shows "bind_args X (map dept_arg_type args) args =
           (if name \<noteq> None \<and> has_nul (the name) then Some nul_error else None)"
  using assms
  by (auto simp: dept_update_sql_def Let_def bind_args_def has_nul_def nul_error_def split: option.splits)

lemma sql_update_department_abs:
  assumes sets: "dept_update_sql u name isActive v = (sets, args)"
    and ids: "distinct (map d_ID (t_departments db))"
  shows "sql_update_department X now sets args db =
     (if name \<noteq> None \<and> has_nul (the name) then (Inl nul_error, db)
      else case find (\<lambda>r. d_ID r = u) (t_departments db) of
        None \<Rightarrow> (Inr None, db)
      | Some old \<Rightarrow>
          if d_RecordVersion old \<noteq> v then (Inr None, db)
          else case dept_update_spec now name isActive old of
                 Inl e \<Rightarrow> (Inl e, db)
               | Inr new \<Rightarrow> (Inr (Some new), db\<lparr>t_departments := put_row d_ID new (t_departments db)\<rparr>))"
proof -
  have eq: "(\<lambda>r. placeholder args 1 = Some (ArgUuid (d_ID r)) \<and> placeholder args 2 = Some (ArgInt (d_RecordVersion r)))
      = (\<lambda>r. d_ID r = u \<and> v = d_RecordVersion r)"
    using dept_update_sql_where(1,2) [OF sets] by auto
  show ?thesis
    unfolding sql_update_department_def dept_bind_args [OF sets] update_department_row_spec [OF sets] eq
      find_key_and [OF ids]
    by (auto split: option.split)
qed

lemma pg_raise_not_ErrNoRows [simp]: "pg_raise c n m \<noteq> ErrNoRows" "check_error t c \<noteq> ErrNoRows"
  "nul_error \<noteq> ErrNoRows" "ErrNoRows \<noteq> pg_raise c n m"
  by (simp_all add: pg_raise_def check_error_def nul_error_def)

lemma dept_update_spec_error: "dept_update_spec now name isActive old = Inl e \<Longrightarrow> e \<noteq> ErrNoRows"
  by (auto simp: dept_update_spec_def Let_def split: if_splits option.splits)

lemma deptUpdateBody_abs:
  assumes sets: "dept_update_sql u name isActive v = (sets, args)"
    and ids: "distinct (map d_ID (t_departments (w_db w)))" and some: "name \<noteq> None \<or> isActive \<noteq> None"
  shows "deptUpdateBody X u sets args tx_ok w =
     (case dept_update_abs (db_now w) u name isActive v (w_db w) of
        (r, db') \<Rightarrow>
          (r, (case r of
                 Inr _ \<Rightarrow> inc_metric (WritesTotal ''departments'' ''update'') (set_db db' w)
               | Inl e \<Rightarrow> if errors_Is e ErrOptimisticLockConflict
                          then inc_metric (OptimisticLockConflicts ''departments'') w else w)))"
proof (cases "name \<noteq> None \<and> has_nul (the name)")
  case True
  then show ?thesis
    by (simp add: deptUpdateBody_def deptUpdateFromTx_def exec_def sql_update_department_abs [OF sets ids]
        scanDepartment_def dept_update_abs_def)
next
  case False
  show ?thesis
  proof (cases "find (\<lambda>r. d_ID r = u) (t_departments (w_db w))")
    case None
    then show ?thesis using False
      by (auto simp: deptUpdateBody_def deptUpdateFromTx_def exec_def sql_update_department_abs [OF sets ids]
          scanDepartment_def dept_update_abs_def query_def sql_select_department_version_def
          sql_select_department_def dept_not_found_def)
  next
    case (Some old)
    show ?thesis
    proof (cases "d_RecordVersion old = v")
      case False
      then show ?thesis using Some \<open>\<not> (name \<noteq> None \<and> has_nul (the name))\<close>
        by (auto simp: deptUpdateBody_def deptUpdateFromTx_def exec_def sql_update_department_abs [OF sets ids]
            scanDepartment_def dept_update_abs_def query_def sql_select_department_version_def
            sql_select_department_def version_conflict_def)
    next
      case True
      then show ?thesis using Some some \<open>\<not> (name \<noteq> None \<and> has_nul (the name))\<close>
        by (auto simp: deptUpdateBody_def deptUpdateFromTx_def exec_def sql_update_department_abs [OF sets ids]
            scanDepartment_def dept_update_abs_def dest: dept_update_spec_error split: sum.split)
    qed
  qed
qed

text \<open>The repository method is the abstract update, its errors translated, the metrics aside.\<close>

lemma DepartmentRepository_Update_abs:
  assumes ids: "distinct (map d_ID (t_departments (w_db w)))" and ok: "next_tx w = tx_ok"
    and some: "name \<noteq> None \<or> isActive \<noteq> None"
  shows "DepartmentRepository_Update X u name isActive v w =
     (case dept_update_abs (db_now w) u name isActive v (w_db w) of
        (Inr d, db') \<Rightarrow> (Inr d, inc_metric (WritesTotal ''departments'' ''update'') (set_db db' (pop_tx w)))
      | (Inl e, db') \<Rightarrow> (Inl (wrapConnErr X e),
           if errors_Is e ErrOptimisticLockConflict
           then inc_metric (OptimisticLockConflicts ''departments'') (pop_tx w) else pop_tx w))"
proof -
  obtain sets args where sets: "dept_update_sql u name isActive v = (sets, args)" by force
  obtain r db' where abs: "dept_update_abs (db_now w) u name isActive v (w_db w) = (r, db')" by force
  have "db_now (pop_tx w) = db_now w" by (simp add: db_now_def)
  then have body: "deptUpdateBody X u sets args tx_ok (pop_tx w) =
      (r, (case r of
             Inr _ \<Rightarrow> inc_metric (WritesTotal ''departments'' ''update'') (set_db db' (pop_tx w))
           | Inl e \<Rightarrow> if errors_Is e ErrOptimisticLockConflict
                      then inc_metric (OptimisticLockConflicts ''departments'') (pop_tx w) else pop_tx w))"
    using deptUpdateBody_abs [OF sets, of "pop_tx w" X] ids some abs by simp
  have same: "set_db (w_db w) (inc_metric m (pop_tx w)) = inc_metric m (pop_tx w)"
    "set_db (w_db w) (pop_tx w) = pop_tx w" for m
    by (simp_all add: set_db_def inc_metric_def pop_tx_def)
  show ?thesis using some sets abs
    by (auto simp: DepartmentRepository_Update_def withPool_no_fault [OF ok] body same split: sum.split)
qed

end
