(* ===== verification/Valkey_Cache.thy ===== *)
theory Valkey_Cache
  imports World Ports
begin

text \<open>
  internal/adapter/outbound/valkey/cache.go: the cache adapter over the keyspace of the server, with
  the hit and miss counters and the log line of a failed invalidation. The server's commands GET,
  SET with an expiry, DEL and PING are those of its documentation; a call can fail, with or without
  having been executed. The adapter is an interpretation of the advisory cache of Ports.
\<close>

definition DepartmentsKey :: string where
  "DepartmentsKey = ''cat:departments''"

definition PlansKey :: string where
  "PlansKey = ''cat:plans''"

section \<open>Construction\<close>

record redis_options =
  ro_Addr :: string
  ro_DialTimeout :: duration
  ro_ReadTimeout :: duration
  ro_WriteTimeout :: duration

definition milliseconds :: "nat \<Rightarrow> duration" where
  "milliseconds n = of_nat (n * 1000000)"

text \<open>redis.ParseURL is the argument; a plain host:port does not parse and is taken as the address.\<close>

definition Cache_New :: "(string \<Rightarrow> redis_options option) \<Rightarrow> string \<Rightarrow> redis_options" where
  "Cache_New ParseURL addr =
     (let opts = (case ParseURL addr of
                    None \<Rightarrow> \<lparr>ro_Addr = addr, ro_DialTimeout = 0, ro_ReadTimeout = 0, ro_WriteTimeout = 0\<rparr>
                  | Some o' \<Rightarrow> o');
          opts1 = (if ro_DialTimeout opts = 0 then opts\<lparr>ro_DialTimeout := milliseconds 100\<rparr> else opts);
          opts2 = (if ro_ReadTimeout opts1 = 0 then opts1\<lparr>ro_ReadTimeout := milliseconds 50\<rparr> else opts1)
      in if ro_WriteTimeout opts2 = 0 then opts2\<lparr>ro_WriteTimeout := milliseconds 50\<rparr> else opts2)"

lemma Cache_New_timeouts:
  "ro_DialTimeout (Cache_New p a) \<noteq> 0 \<and> ro_ReadTimeout (Cache_New p a) \<noteq> 0
   \<and> ro_WriteTimeout (Cache_New p a) \<noteq> 0"
proof -
  have "milliseconds 100 \<noteq> 0" "milliseconds 50 \<noteq> 0" by (simp_all add: milliseconds_def)
  then show ?thesis by (simp add: Cache_New_def Let_def)
qed

section \<open>Operations\<close>

definition Cache_Get :: "string \<Rightarrow> world \<Rightarrow> body_bytes option res \<times> world" where
  "Cache_Get key w =
     (case next_cache w of
        CacheFails e applied \<Rightarrow> (Inl (EDriver e), pop_cache w)
      | CacheFine \<Rightarrow>
          (case live_value w key of
             None \<Rightarrow> (Inr None, inc_metric (CacheMisses key) (pop_cache w))
           | Some val \<Rightarrow> (Inr (Some val), inc_metric (CacheHits key) (pop_cache w))))"

text \<open>
  Valkey keeps the time of expiry. It is exact here; go-redis sends a time to live as a whole number of
  milliseconds, one at least, which is the same for the times to live main composes, whole seconds, unless
  their product overflows.
\<close>

definition store_set :: "string \<Rightarrow> body_bytes \<Rightarrow> duration \<Rightarrow> world \<Rightarrow> world" where
  "store_set key val ttl w =
     w\<lparr>w_store := (w_store w)(key \<mapsto>
        \<lparr>se_value = val, se_expiry = (if 0 < sint ttl then Some (w_now w + sint ttl) else None)\<rparr>)\<rparr>"

definition Cache_Set :: "string \<Rightarrow> body_bytes \<Rightarrow> duration \<Rightarrow> world \<Rightarrow> unit res \<times> world" where
  "Cache_Set key val ttl w =
     (case next_cache w of
        CacheFine \<Rightarrow> (Inr (), store_set key val ttl (pop_cache w))
      | CacheFails e applied \<Rightarrow>
          (Inl (EDriver e), if applied then store_set key val ttl (pop_cache w) else pop_cache w))"

definition store_del :: "string list \<Rightarrow> world \<Rightarrow> world" where
  "store_del keys w = w\<lparr>w_store := (\<lambda>k. if k \<in> set keys then None else w_store w k)\<rparr>"

definition Cache_Delete :: "string list \<Rightarrow> world \<Rightarrow> unit res \<times> world" where
  "Cache_Delete keys w =
     (if length keys = 0 then (Inr (), w)
      else case next_cache w of
             CacheFine \<Rightarrow> (Inr (), store_del keys (pop_cache w))
           | CacheFails e applied \<Rightarrow>
               (Inl (EDriver e),
                add_log (LogError ''cache invalidation failed'')
                  (if applied then store_del keys (pop_cache w) else pop_cache w)))"

definition Cache_Health :: "world \<Rightarrow> unit res \<times> world" where
  "Cache_Health w =
     (case next_cache w of
        CacheFine \<Rightarrow> (Inr (), pop_cache w)
      | CacheFails e applied \<Rightarrow> (Inl (EDriver e), pop_cache w))"

definition valkey_port :: "world cache_port" where
  "valkey_port = \<lparr>cache_Get = Cache_Get, cache_Set = Cache_Set, cache_Delete = Cache_Delete,
                  cache_Health = Cache_Health\<rparr>"

section \<open>Effects on the keyspace\<close>

lemma live_value_pop [simp]: "live_value (pop_cache w) = live_value w"
  "live_value (inc_metric m w) = live_value w" "live_value (add_log l w) = live_value w"
  "live_value (pop_tx w) = live_value w" "live_value (set_db db w) = live_value w"
  by (rule live_value_cong; simp)+

lemma live_value_store_set: "live_value (store_set key val ttl w) j =
    (if j = key then Some val else live_value w j)"
  by (simp add: live_value_def store_set_def split: option.split)

lemma live_value_store_del: "live_value (store_del ks w) j = (if j \<in> set ks then None else live_value w j)"
  by (simp add: live_value_def store_del_def split: option.split)

lemma store_simps [simp]:
  "w_db (store_set key val ttl w) = w_db w" "w_db (store_del ks w) = w_db w"
  "w_now (store_set key val ttl w) = w_now w" "w_now (store_del ks w) = w_now w"
  "w_cache (store_set key val ttl w) = w_cache w" "w_cache (store_del ks w) = w_cache w"
  "w_tx (store_set key val ttl w) = w_tx w" "w_tx (store_del ks w) = w_tx w"
  "w_uuids (store_set key val ttl w) = w_uuids w" "w_uuids (store_del ks w) = w_uuids w"
  "w_metrics (store_set key val ttl w) = w_metrics w" "w_metrics (store_del ks w) = w_metrics w"
  by (simp_all add: store_set_def store_del_def)

definition valkey_healthy :: "world \<Rightarrow> bool" where
  "valkey_healthy w \<longleftrightarrow> next_cache w = CacheFine"

text \<open>The tables, the pending transactions and the clock are none of the cache's business.\<close>

definition db_side :: "world \<Rightarrow> db \<times> tx_fate list \<times> int \<times> nat" where
  "db_side w = (w_db w, w_tx w, w_now w, w_uuids w)"

lemma Cache_db_side:
  "Cache_Get k w = (rg, w') \<Longrightarrow> db_side w' = db_side w"
  "Cache_Set k v ttl w = (rs, w') \<Longrightarrow> db_side w' = db_side w"
  "Cache_Delete ks w = (rd, w') \<Longrightarrow> db_side w' = db_side w"
  "Cache_Health w = (rh, w') \<Longrightarrow> db_side w' = db_side w"
  by (auto simp: Cache_Get_def Cache_Set_def Cache_Delete_def Cache_Health_def db_side_def
      split: cache_fate.splits option.splits if_splits)

lemma valkey_port_simps [simp]:
  "cache_Get valkey_port = Cache_Get" "cache_Set valkey_port = Cache_Set"
  "cache_Delete valkey_port = Cache_Delete" "cache_Health valkey_port = Cache_Health"
  by (simp_all add: valkey_port_def)

interpretation valkey: advisory_cache valkey_port live_value valkey_healthy
proof
  fix k w v w' assume "cache_Get valkey_port k w = (Inr (Some v), w')"
  then show "live_value w k = Some v"
    by (auto simp: Cache_Get_def split: cache_fate.splits option.splits)
next
  fix k w rg w' assume "cache_Get valkey_port k w = (rg, w')"
  then show "live_value w' = live_value w"
    by (auto simp: Cache_Get_def split: cache_fate.splits option.splits)
next
  fix k v ttl w rs w' j assume "cache_Set valkey_port k v ttl w = (rs, w')"
  then show "live_value w' j = (if j = k then Some v else live_value w j) \<or> live_value w' j = live_value w j"
    by (auto simp: Cache_Set_def live_value_store_set split: cache_fate.splits if_splits)
next
  fix ks w rd w' j assume "cache_Delete valkey_port ks w = (rd, w')"
  then show "live_value w' j = live_value w j \<or> (j \<in> set ks \<and> live_value w' j = None)"
    by (auto simp: Cache_Delete_def live_value_store_del split: cache_fate.splits if_splits)
next
  fix w ks rd w' j assume "valkey_healthy w" "cache_Delete valkey_port ks w = (rd, w')" "j \<in> set ks"
  then show "live_value w' j = None"
    by (auto simp: Cache_Delete_def valkey_healthy_def live_value_store_del split: if_splits)
qed

text \<open>An entry written with a positive time to live is gone when that time has passed.\<close>

lemma live_value_expired:
  assumes "0 < sint ttl" and "w_store w' key = w_store (store_set key val ttl w) key"
    and "w_now w + sint ttl \<le> w_now w'"
  shows "live_value w' key = None"
  using assms by (simp add: live_value_def store_set_def)

end
