(* ===== verification/Snapshots.thy ===== *)
theory Snapshots
  imports Extern
begin

text \<open>
  The catalogs as they are cached: json.Marshal of a slice of the untagged structs Department and
  Plan (field names as keys, UUIDs and times through their text marshallers, a nil slice as null)
  and json.Unmarshal into a fresh slice. Both round trips are proved for the values that come out of
  the database.
\<close>

text \<open>UUID and time fields: null leaves them alone, a string goes through the type's own parser.\<close>

definition dec_text :: "(string \<Rightarrow> 'a option) \<Rightarrow> json \<Rightarrow> 'a \<Rightarrow> 'a option" where
  "dec_text parse j cur = (case j of JNull \<Rightarrow> Some cur | JStr s \<Rightarrow> parse s | _ \<Rightarrow> None)"

lemma dec_text_Str [simp]: "dec_text parse (JStr s) cur = parse s"
  by (simp add: dec_text_def)

lemma dec_plain_simps [simp]:
  "dec_string (JStr s) cur = Some s" "dec_bool (JBool b) c = Some b"
  "dec_int64 (JNum (JInt n)) d = (if int64_ok n then Some n else None)"
  by (simp_all add: dec_string_def dec_bool_def dec_int64_def)

section \<open>Departments\<close>

definition department_fields :: "string list" where
  "department_fields = [''ID'', ''Code'', ''Name'', ''IsSystem'', ''IsActive'', ''RecordVersion'',
     ''CreatedAt'', ''UpdatedAt'']"

definition zero_department :: department where
  "zero_department = \<lparr>d_ID = uuid_Nil, d_Code = '''', d_Name = '''', d_IsSystem = False,
     d_IsActive = False, d_RecordVersion = 0, d_CreatedAt = 0, d_UpdatedAt = 0\<rparr>"

definition department_json :: "ext \<Rightarrow> department \<Rightarrow> json" where
  "department_json X d =
     JObj [(''ID'', JStr (x_uuid_string X (d_ID d))), (''Code'', JStr (d_Code d)),
           (''Name'', JStr (d_Name d)), (''IsSystem'', JBool (d_IsSystem d)),
           (''IsActive'', JBool (d_IsActive d)), (''RecordVersion'', JNum (JInt (d_RecordVersion d))),
           (''CreatedAt'', JStr (x_format_time X (d_CreatedAt d))),
           (''UpdatedAt'', JStr (x_format_time X (d_UpdatedAt d)))]"

definition department_member :: "ext \<Rightarrow> string \<Rightarrow> json \<Rightarrow> department \<Rightarrow> department option" where
  "department_member X k j d =
     (case match_field department_fields k of
        None \<Rightarrow> Some d
      | Some f \<Rightarrow>
          if f = ''ID'' then map_option (\<lambda>v. d\<lparr>d_ID := v\<rparr>) (dec_text (x_parse_uuid X) j (d_ID d))
          else if f = ''Code'' then map_option (\<lambda>v. d\<lparr>d_Code := v\<rparr>) (dec_string j (d_Code d))
          else if f = ''Name'' then map_option (\<lambda>v. d\<lparr>d_Name := v\<rparr>) (dec_string j (d_Name d))
          else if f = ''IsSystem'' then map_option (\<lambda>v. d\<lparr>d_IsSystem := v\<rparr>) (dec_bool j (d_IsSystem d))
          else if f = ''IsActive'' then map_option (\<lambda>v. d\<lparr>d_IsActive := v\<rparr>) (dec_bool j (d_IsActive d))
          else if f = ''RecordVersion''
          then map_option (\<lambda>v. d\<lparr>d_RecordVersion := v\<rparr>) (dec_int64 j (d_RecordVersion d))
          else if f = ''CreatedAt''
          then map_option (\<lambda>v. d\<lparr>d_CreatedAt := v\<rparr>) (dec_text (x_parse_time X) j (d_CreatedAt d))
          else map_option (\<lambda>v. d\<lparr>d_UpdatedAt := v\<rparr>) (dec_text (x_parse_time X) j (d_UpdatedAt d)))"

definition decode_slice :: "(json \<Rightarrow> 'a option) \<Rightarrow> json \<Rightarrow> 'a list option" where
  "decode_slice dec j =
     (case j of JNull \<Rightarrow> Some [] | JArr js \<Rightarrow> collect_options (map dec js) | _ \<Rightarrow> None)"

definition encode_slice :: "('a \<Rightarrow> json) \<Rightarrow> 'a list \<Rightarrow> json" where
  "encode_slice enc xs = (if xs = [] then JNull else JArr (map enc xs))"

lemma decode_encode_slice:
  assumes "\<And>x. x \<in> set xs \<Longrightarrow> dec (enc x) = Some x"
  shows "decode_slice dec (encode_slice enc xs) = Some xs"
  using assms by (simp add: decode_slice_def encode_slice_def collect_options_map_Some del: map_map)

definition encode_departments :: "ext \<Rightarrow> department list \<Rightarrow> body_bytes" where
  "encode_departments X ds = DocBody (encode_slice (department_json X) ds) False"

definition decode_departments :: "ext \<Rightarrow> body_bytes \<Rightarrow> department list option" where
  "decode_departments X raw =
     (case unmarshal_all raw of
        None \<Rightarrow> None
      | Some j \<Rightarrow> decode_slice (decode_struct (department_member X) zero_department) j)"

lemma match_department_fields [simp]:
  "k \<in> set department_fields \<Longrightarrow> match_field department_fields k = Some k"
  by (rule match_field_exact)

lemma department_json_roundtrip:
  assumes "ext_ok X" and "int64_ok (d_RecordVersion d)"
  shows "decode_struct (department_member X) zero_department (department_json X d) = Some d"
  using assms(2)
  by (simp add: decode_struct_def department_json_def department_member_def zero_department_def
      department_fields_def match_field_def ext_okD [OF assms(1)])

lemma departments_snapshot_roundtrip:
  assumes "ext_ok X" and "\<And>d. d \<in> set ds \<Longrightarrow> int64_ok (d_RecordVersion d)"
  shows "decode_departments X (encode_departments X ds) = Some ds"
  using decode_encode_slice [OF department_json_roundtrip [OF assms(1) assms(2)]]
  by (simp add: decode_departments_def encode_departments_def unmarshal_all_def)

section \<open>Plans\<close>

definition plan_field_names :: "string list" where
  "plan_field_names = [''Code'', ''DisplayName'', ''WorkflowTemplateLimit'', ''TenderLimit'',
     ''TrialDurationDays'', ''SSOEnabled'', ''CustomBranding'', ''FeatureSet'', ''RecordVersion'',
     ''CreatedAt'', ''UpdatedAt'']"

definition zero_plan :: plan where
  "zero_plan = \<lparr>p_Code = '''', p_DisplayName = '''', p_WorkflowTemplateLimit = None,
     p_TenderLimit = None, p_TrialDurationDays = 0, p_SSOEnabled = False, p_CustomBranding = '''',
     p_FeatureSet = None, p_RecordVersion = 0, p_CreatedAt = 0, p_UpdatedAt = 0\<rparr>"

definition plan_json :: "ext \<Rightarrow> plan \<Rightarrow> json" where
  "plan_json X p =
     JObj [(''Code'', JStr (p_Code p)), (''DisplayName'', JStr (p_DisplayName p)),
           (''WorkflowTemplateLimit'', int_ptr_json (p_WorkflowTemplateLimit p)),
           (''TenderLimit'', int_ptr_json (p_TenderLimit p)),
           (''TrialDurationDays'', JNum (JInt (p_TrialDurationDays p))),
           (''SSOEnabled'', JBool (p_SSOEnabled p)), (''CustomBranding'', JStr (p_CustomBranding p)),
           (''FeatureSet'', map_json (x_format_float X) (p_FeatureSet p)),
           (''RecordVersion'', JNum (JInt (p_RecordVersion p))),
           (''CreatedAt'', JStr (x_format_time X (p_CreatedAt p))),
           (''UpdatedAt'', JStr (x_format_time X (p_UpdatedAt p)))]"

definition plan_member :: "ext \<Rightarrow> string \<Rightarrow> json \<Rightarrow> plan \<Rightarrow> plan option" where
  "plan_member X k j p =
     (case match_field plan_field_names k of
        None \<Rightarrow> Some p
      | Some f \<Rightarrow>
          if f = ''Code'' then map_option (\<lambda>v. p\<lparr>p_Code := v\<rparr>) (dec_string j (p_Code p))
          else if f = ''DisplayName'' then map_option (\<lambda>v. p\<lparr>p_DisplayName := v\<rparr>) (dec_string j (p_DisplayName p))
          else if f = ''WorkflowTemplateLimit''
          then map_option (\<lambda>v. p\<lparr>p_WorkflowTemplateLimit := v\<rparr>) (dec_ptr (\<lambda>j. dec_int64 j 0) j)
          else if f = ''TenderLimit''
          then map_option (\<lambda>v. p\<lparr>p_TenderLimit := v\<rparr>) (dec_ptr (\<lambda>j. dec_int64 j 0) j)
          else if f = ''TrialDurationDays''
          then map_option (\<lambda>v. p\<lparr>p_TrialDurationDays := v\<rparr>) (dec_int64 j (p_TrialDurationDays p))
          else if f = ''SSOEnabled'' then map_option (\<lambda>v. p\<lparr>p_SSOEnabled := v\<rparr>) (dec_bool j (p_SSOEnabled p))
          else if f = ''CustomBranding''
          then map_option (\<lambda>v. p\<lparr>p_CustomBranding := v\<rparr>) (dec_string j (p_CustomBranding p))
          else if f = ''FeatureSet''
          then map_option (\<lambda>v. p\<lparr>p_FeatureSet := v\<rparr>) (dec_map (x_parse_float X) j (p_FeatureSet p))
          else if f = ''RecordVersion''
          then map_option (\<lambda>v. p\<lparr>p_RecordVersion := v\<rparr>) (dec_int64 j (p_RecordVersion p))
          else if f = ''CreatedAt''
          then map_option (\<lambda>v. p\<lparr>p_CreatedAt := v\<rparr>) (dec_text (x_parse_time X) j (p_CreatedAt p))
          else map_option (\<lambda>v. p\<lparr>p_UpdatedAt := v\<rparr>) (dec_text (x_parse_time X) j (p_UpdatedAt p)))"

definition encode_plans :: "ext \<Rightarrow> plan list \<Rightarrow> body_bytes" where
  "encode_plans X ps = DocBody (encode_slice (plan_json X) ps) False"

definition decode_plans :: "ext \<Rightarrow> body_bytes \<Rightarrow> plan list option" where
  "decode_plans X raw =
     (case unmarshal_all raw of
        None \<Rightarrow> None
      | Some j \<Rightarrow> decode_slice (decode_struct (plan_member X) zero_plan) j)"

text \<open>The plans that survive the cache: 64-bit numbers, a feature set that came out of a decoder.\<close>

definition opt_int64 :: "int option \<Rightarrow> bool" where
  "opt_int64 v \<longleftrightarrow> (case v of None \<Rightarrow> True | Some n \<Rightarrow> int64_ok n)"

definition cacheable_plan :: "ext \<Rightarrow> plan \<Rightarrow> bool" where
  "cacheable_plan X p \<longleftrightarrow>
     opt_int64 (p_WorkflowTemplateLimit p) \<and> opt_int64 (p_TenderLimit p)
   \<and> int64_ok (p_TrialDurationDays p) \<and> int64_ok (p_RecordVersion p)
   \<and> (case p_FeatureSet p of None \<Rightarrow> True
      | Some m \<Rightarrow> decoded_any (x_parse_float X) (x_format_float X) (AMap m))"

lemma plan_json_roundtrip:
  assumes X: "ext_ok X" and p: "cacheable_plan X p"
  shows "decode_struct (plan_member X) zero_plan (plan_json X p) = Some p"
proof -
  have "dec_ptr (\<lambda>j. dec_int64 j 0) (int_ptr_json (p_WorkflowTemplateLimit p)) = Some (p_WorkflowTemplateLimit p)"
    "dec_ptr (\<lambda>j. dec_int64 j 0) (int_ptr_json (p_TenderLimit p)) = Some (p_TenderLimit p)"
    using p by (simp_all add: dec_int_ptr_roundtrip cacheable_plan_def opt_int64_def)
  moreover have "dec_map (x_parse_float X) (map_json (x_format_float X) (p_FeatureSet p)) None = Some (p_FeatureSet p)"
    by (rule dec_map_roundtrip) (use p in \<open>simp add: cacheable_plan_def split: option.splits\<close>)
  ultimately show ?thesis using p
    by (simp add: decode_struct_def plan_json_def plan_member_def zero_plan_def
        plan_field_names_def match_field_def ext_okD [OF X] cacheable_plan_def)
qed

lemma plans_snapshot_roundtrip:
  assumes "ext_ok X" and "\<And>p. p \<in> set ps \<Longrightarrow> cacheable_plan X p"
  shows "decode_plans X (encode_plans X ps) = Some ps"
  using decode_encode_slice [OF plan_json_roundtrip [OF assms(1) assms(2)]]
  by (simp add: decode_plans_def encode_plans_def unmarshal_all_def)

end
