(* ===== verification/Department_Service.thy ===== *)
theory Department_Service
  imports Department_Repo Valkey_Cache Snapshots
begin

text \<open>
  internal/core/service/department_service.go, over any repository and any cache (the port records).
  The listing is an instance of the read-through of Ports, the writes are instances of the
  invalidating write; on the Postgres and Valkey adapters they inherit the coherence lemmas of the
  snapshot locale.
\<close>

section \<open>The service\<close>

record 'w department_service =
  ds_repo :: "'w department_repository"
  ds_cache :: "'w cache_port option"
  ds_cacheTTL :: duration

definition seconds :: "nat \<Rightarrow> duration" where
  "seconds n = of_nat (n * 1000000000)"

definition defaultDepartmentsCacheTTL :: duration where
  "defaultDepartmentsCacheTTL = seconds 60"

definition NewDepartmentService ::
  "'w department_repository \<Rightarrow> 'w cache_port option \<Rightarrow> 'w department_service" where
  "NewDepartmentService repo cache =
     \<lparr>ds_repo = repo, ds_cache = cache, ds_cacheTTL = defaultDepartmentsCacheTTL\<rparr>"

definition DepartmentService_WithCacheTTL :: "'w department_service \<Rightarrow> duration \<Rightarrow> 'w department_service" where
  "DepartmentService_WithCacheTTL s d = (if sint d > 0 then s\<lparr>ds_cacheTTL := d\<rparr> else s)"

definition departments_hit ::
  "ext \<Rightarrow> 'w department_service \<Rightarrow> 'w \<Rightarrow> department list option \<times> 'w" where
  "departments_hit X s w =
     (case ds_cache s of
        None \<Rightarrow> (None, w)
      | Some c \<Rightarrow>
          (case cache_Get c ''cat:departments'' w of
             (Inr (Some raw), w1) \<Rightarrow> (decode_departments X raw, w1)
           | (_, w1) \<Rightarrow> (None, w1)))"

definition DepartmentService_listAllCached ::
  "ext \<Rightarrow> 'w department_service \<Rightarrow> 'w \<Rightarrow> department list res \<times> 'w" where
  "DepartmentService_listAllCached X s w =
     (case departments_hit X s w of
        (Some cached, w1) \<Rightarrow> (Inr cached, w1)
      | (None, w1) \<Rightarrow>
          (case repo_List (ds_repo s) False w1 of
             (Inl e, w2) \<Rightarrow> (Inl e, w2)
           | (Inr all, w2) \<Rightarrow>
               (case ds_cache s of
                  None \<Rightarrow> (Inr all, w2)
                | Some c \<Rightarrow>
                    (Inr all,
                     snd (cache_Set c ''cat:departments'' (encode_departments X all) (ds_cacheTTL s) w2)))))"

fun active_departments :: "department list \<Rightarrow> department list" where
  "active_departments [] = []"
| "active_departments (d # ds) =
     (if d_IsActive d then d # active_departments ds else active_departments ds)"

definition DepartmentService_List ::
  "ext \<Rightarrow> 'w department_service \<Rightarrow> bool \<Rightarrow> 'w \<Rightarrow> department list res \<times> 'w" where
  "DepartmentService_List X s activeOnly w =
     (case DepartmentService_listAllCached X s w of
        (Inl e, w1) \<Rightarrow> (Inl e, w1)
      | (Inr all, w1) \<Rightarrow>
          if \<not> activeOnly then (Inr all, w1) else (Inr (active_departments all), w1))"

definition DepartmentService_Get ::
  "'w department_service \<Rightarrow> uuid \<Rightarrow> 'w \<Rightarrow> department res \<times> 'w" where
  "DepartmentService_Get s u w = repo_FindByID (ds_repo s) u w"

definition DepartmentService_invalidateCache :: "'w department_service \<Rightarrow> 'w \<Rightarrow> 'w" where
  "DepartmentService_invalidateCache s w =
     (case ds_cache s of
        None \<Rightarrow> w
      | Some c \<Rightarrow> snd (cache_Delete c [''cat:departments''] w))"

definition DepartmentService_Create ::
  "'w department_service \<Rightarrow> string \<Rightarrow> string \<Rightarrow> bool \<Rightarrow> 'w \<Rightarrow> department res \<times> 'w" where
  "DepartmentService_Create s code name isSystem w =
     (if trim_space code = '''' \<or> trim_space name = ''''
      then (Inl (EDomain (NewError ErrValidation ''code and name are required'')), w)
      else case repo_Insert (ds_repo s)
                  (zero_department\<lparr>d_Code := code, d_Name := name, d_IsSystem := isSystem, d_IsActive := True\<rparr>) w of
             (Inl e, w1) \<Rightarrow> (Inl e, w1)
           | (Inr d, w1) \<Rightarrow> (Inr d, DepartmentService_invalidateCache s w1))"

text \<open>The translation of the two CHECK violations a system department can raise.\<close>

definition patch_error :: "ext \<Rightarrow> go_error \<Rightarrow> go_error" where
  "patch_error X e =
     (if x_IsCheckViolation X e then
        (if x_ConstraintName X e = ''chk_system_department_active''
         then EDomain (NewError ErrSystemDepartmentCannotBeRetired ''system department cannot be retired'')
         else if x_ConstraintName X e = ''chk_system_department_name_immutable''
         then EDomain (WithDetails (NewError ErrSystemNameImmutable ''system department name is immutable'')
                [(''field'', AStr ''name'')])
         else e)
      else e)"

definition DepartmentService_Patch ::
  "ext \<Rightarrow> 'w department_service \<Rightarrow> uuid \<Rightarrow> string option \<Rightarrow> bool option \<Rightarrow> int \<Rightarrow> 'w \<Rightarrow> department res \<times> 'w" where
  "DepartmentService_Patch X s u name isActive expectedVersion w =
     (if name = None \<and> isActive = None
      then (Inl (EDomain (WithDetails (NewError ErrNoMutableField
                    ''at least one of name or is_active must be provided'')
                    [(''code'', AStr ''no_mutable_field'')])), w)
      else if name \<noteq> None \<and> trim_space (the name) = ''''
      then (Inl (EDomain (NewError ErrValidation ''name must not be empty'')), w)
      else case repo_Update (ds_repo s) u name isActive expectedVersion w of
             (Inl e, w1) \<Rightarrow> (Inl (patch_error X e), w1)
           | (Inr d, w1) \<Rightarrow> (Inr d, DepartmentService_invalidateCache s w1))"

definition DepartmentService_DeleteBlocked :: "unit res" where
  "DepartmentService_DeleteBlocked =
     Inl (EDomain (NewError ErrMethodNotAllowed
       ''departments cannot be deleted; retire via is_active=false''))"

section \<open>Instances of the port patterns\<close>

lemma active_departments_filter: "active_departments ds = filter d_IsActive ds"
  by (induction ds) auto

lemma listAllCached_read_through:
  "DepartmentService_listAllCached X s w =
     read_through (ds_cache s) ''cat:departments'' (decode_departments X) (encode_departments X)
       (ds_cacheTTL s) (repo_List (ds_repo s) False) w"
proof (cases "ds_cache s")
  case None
  then show ?thesis
    by (auto simp: DepartmentService_listAllCached_def departments_hit_def read_through_def
        split: prod.split sum.split)
next
  case (Some c)
  then show ?thesis
    by (auto simp: DepartmentService_listAllCached_def departments_hit_def read_through_def
        split: prod.split sum.split option.split)
qed

lemma Create_write_then_invalidate:
  assumes "trim_space code \<noteq> ''''" and "trim_space name \<noteq> ''''"
  shows "DepartmentService_Create s code name isSystem w =
     write_then_invalidate (ds_cache s) ''cat:departments''
       (repo_Insert (ds_repo s)
          (zero_department\<lparr>d_Code := code, d_Name := name, d_IsSystem := isSystem, d_IsActive := True\<rparr>)) w"
  using assms
  by (auto simp: DepartmentService_Create_def write_then_invalidate_def
      DepartmentService_invalidateCache_def split: prod.split sum.split option.split)

lemma Patch_write_then_invalidate:
  assumes "name \<noteq> None \<or> isActive \<noteq> None" and "name = None \<or> trim_space (the name) \<noteq> ''''"
  shows "DepartmentService_Patch X s u name isActive v w =
     (case write_then_invalidate (ds_cache s) ''cat:departments''
             (repo_Update (ds_repo s) u name isActive v) w of
        (Inl e, w') \<Rightarrow> (Inl (patch_error X e), w')
      | (Inr d, w') \<Rightarrow> (Inr d, w'))"
  using assms
  by (auto simp: DepartmentService_Patch_def write_then_invalidate_def
      DepartmentService_invalidateCache_def split: prod.split sum.split option.split)

section \<open>On Postgres and Valkey\<close>

definition departments_truth :: "ext \<Rightarrow> world \<Rightarrow> department list" where
  "departments_truth X w = sql_select_departments X False (w_db w)"

definition departments_sound :: "ext \<Rightarrow> world \<Rightarrow> bool" where
  "departments_sound X w \<longleftrightarrow> ext_ok X \<and> departments_ok (t_departments (w_db w))"

lemma departments_truth_cong: "w_db w' = w_db w \<Longrightarrow> departments_truth X w' = departments_truth X w"
  by (simp add: departments_truth_def)

lemma departments_sound_cong: "w_db w' = w_db w \<Longrightarrow> departments_sound X w' = departments_sound X w"
  by (simp add: departments_sound_def)

lemma db_sideD: "db_side w' = db_side w \<Longrightarrow> w_db w' = w_db w \<and> w_tx w' = w_tx w \<and> w_now w' = w_now w"
  by (simp add: db_side_def)

lemma departments_truth_int64:
  "departments_sound X w \<Longrightarrow> d \<in> set (departments_truth X w) \<Longrightarrow> int64_ok (d_RecordVersion d)"
  by (auto simp: departments_sound_def departments_truth_def sql_select_departments_set
      departments_ok_def list_all_iff)

interpretation dept_snapshot: snapshot_cache valkey_port live_value valkey_healthy
  "''cat:departments''" "decode_departments X" "encode_departments X" "departments_truth X"
  "departments_sound X" "DepartmentRepository_List X False"
  for X :: Extern.ext
proof
  fix k w rg w' assume "cache_Get valkey_port k w = (rg, w')"
  then have "w_db w' = w_db w" by (auto dest!: Cache_db_side db_sideD)
  then show "departments_truth X w' = departments_truth X w \<and> (departments_sound X w \<longrightarrow> departments_sound X w')"
    using departments_truth_cong departments_sound_cong by blast
next
  fix k v ttl w rs w' assume "cache_Set valkey_port k v ttl w = (rs, w')"
  then have "w_db w' = w_db w" by (auto dest!: Cache_db_side db_sideD)
  then show "departments_truth X w' = departments_truth X w" by (rule departments_truth_cong)
next
  fix ks w rd w' assume "cache_Delete valkey_port ks w = (rd, w')"
  then have "w_db w' = w_db w" by (auto dest!: Cache_db_side db_sideD)
  then show "departments_truth X w' = departments_truth X w" by (rule departments_truth_cong)
next
  fix w rf w' assume "DepartmentRepository_List X False w = (rf, w')"
  then show "departments_truth X w' = departments_truth X w \<and> live_value w' = live_value w"
    by (auto dest!: DepartmentRepository_List_frame intro: departments_truth_cong cache_side_live)
next
  fix w a w' assume "DepartmentRepository_List X False w = (Inr a, w')"
  then show "a = departments_truth X w"
    by (auto dest: DepartmentRepository_List_result simp: departments_truth_def)
next
  fix w assume s: "departments_sound X w"
  show "decode_departments X (encode_departments X (departments_truth X w)) = Some (departments_truth X w)"
  proof (rule departments_snapshot_roundtrip)
    show "ext_ok X" using s by (simp add: departments_sound_def)
    show "int64_ok (d_RecordVersion d)" if "d \<in> set (departments_truth X w)" for d
      using s that by (rule departments_truth_int64)
  qed
qed

text \<open>The service as main.go wires it, with a cache.\<close>

definition pg_department_service :: "ext \<Rightarrow> duration \<Rightarrow> world department_service" where
  "pg_department_service X ttl =
     DepartmentService_WithCacheTTL
       (NewDepartmentService (NewDepartmentRepository X) (Some valkey_port)) ttl"

lemma pg_department_service_simps [simp]:
  "ds_repo (pg_department_service X ttl) = NewDepartmentRepository X"
  "ds_cache (pg_department_service X ttl) = Some valkey_port"
  by (simp_all add: pg_department_service_def DepartmentService_WithCacheTTL_def NewDepartmentService_def)

lemma NewDepartmentRepository_simps [simp]:
  "repo_List (NewDepartmentRepository X) = DepartmentRepository_List X"
  "repo_FindByID (NewDepartmentRepository X) = DepartmentRepository_FindByID X"
  "repo_Insert (NewDepartmentRepository X) = DepartmentRepository_Insert X"
  "repo_Update (NewDepartmentRepository X) = DepartmentRepository_Update X"
  by (simp_all add: NewDepartmentRepository_def)

abbreviation departments_coherent :: "ext \<Rightarrow> world \<Rightarrow> bool" where
  "departments_coherent X \<equiv> coherent live_value ''cat:departments'' (decode_departments X) (departments_truth X)"

end
