(* ===== verification/Plan_Repo.thy ===== *)
theory Plan_Repo
  imports Department_Repo
begin

text \<open>
  internal/adapter/outbound/postgres/plan_repository.go over the plans table: the scan of a row
  with its jsonb feature set, the two reads, and the UPDATE whose SET list is built field by field.
  The builder's statement is shown to be the direct patch of the row.
\<close>

section \<open>The repository\<close>

definition plan_of_row :: "plan_row \<Rightarrow> go_map option \<Rightarrow> plan" where
  "plan_of_row r fs =
     \<lparr>p_Code = pr_code r, p_DisplayName = pr_display_name r,
      p_WorkflowTemplateLimit = pr_workflow_template_limit r, p_TenderLimit = pr_tender_limit r,
      p_TrialDurationDays = pr_trial_duration_days r, p_SSOEnabled = pr_sso_enabled r,
      p_CustomBranding = pr_custom_branding r, p_FeatureSet = fs,
      p_RecordVersion = pr_record_version r, p_CreatedAt = pr_created_at r,
      p_UpdatedAt = pr_updated_at r\<rparr>"

text \<open>The feature set of a row; None is the error of json.Unmarshal.\<close>

definition scan_feature_set :: "ext \<Rightarrow> json \<Rightarrow> go_map option" where
  "scan_feature_set X j =
     (case (if j \<noteq> JNull then dec_map (x_parse_float X) j None else Some None) of
        None \<Rightarrow> None
      | Some None \<Rightarrow> Some []
      | Some (Some m) \<Rightarrow> Some m)"

definition scanPlan :: "ext \<Rightarrow> driver_error + plan_row option \<Rightarrow> plan res" where
  "scanPlan X r =
     (case r of
        Inl e \<Rightarrow> Inl (EDriver e)
      | Inr None \<Rightarrow> Inl (EDriver ErrNoRows)
      | Inr (Some row) \<Rightarrow>
          (case scan_feature_set X (pr_feature_set row) of
             None \<Rightarrow> Inl (EDriver (OtherErr ''json: cannot unmarshal into map[string]interface {}''))
           | Some m \<Rightarrow> Inr (plan_of_row row (Some m))))"

fun scan_rows :: "ext \<Rightarrow> plan_row list \<Rightarrow> plan list res" where
  "scan_rows X [] = Inr []"
| "scan_rows X (r # rs) =
     sum_bind (scanPlan X (Inr (Some r))) (\<lambda>p. sum_bind (scan_rows X rs) (\<lambda>ps. Inr (p # ps)))"

definition planListFromTx :: "ext \<Rightarrow> tx_fate \<Rightarrow> world \<Rightarrow> plan list res \<times> world" where
  "planListFromTx X t w =
     (case query (tf_stmt t) (\<lambda>db. Inr (sql_select_plans db)) w of
        Inl e \<Rightarrow> (Inl (EDriver e), w)
      | Inr rows \<Rightarrow> (scan_rows X rows, w))"

definition PlanRepository_List :: "ext \<Rightarrow> world \<Rightarrow> plan list res \<times> world" where
  "PlanRepository_List X = withPool X (planListFromTx X)"

definition planFindFromTx :: "ext \<Rightarrow> tenant_plan \<Rightarrow> tx_fate \<Rightarrow> world \<Rightarrow> plan res \<times> world" where
  "planFindFromTx X code t w =
     (case scanPlan X (query (tf_stmt t) (sql_select_plan X code) w) of
        Inl e \<Rightarrow>
          (if e = EDriver ErrNoRows then (Inl (EDomain (NewError ErrPlanNotFound ''plan not found'')), w)
           else (Inl e, w))
      | Inr p \<Rightarrow> (Inr p, w))"

definition PlanRepository_FindByCode :: "ext \<Rightarrow> tenant_plan \<Rightarrow> world \<Rightarrow> plan res \<times> world" where
  "PlanRepository_FindByCode X code = withPool X (planFindFromTx X code)"

text \<open>
  The closure \<open>next\<close> of Update appends an argument and returns its placeholder; a field that was
  sent appends a column to the SET list. json.Marshal of the feature set cannot fail on decoded
  values.
\<close>

definition set_next ::
  "string \<Rightarrow> ('v \<Rightarrow> sql_arg) \<Rightarrow> 'v option \<Rightarrow> set_list \<times> sql_arg list \<Rightarrow> set_list \<times> sql_arg list" where
  "set_next col mk v st =
     (case v of
        None \<Rightarrow> st
      | Some x \<Rightarrow>
          (let args = snd st @ [mk x] in (fst st @ [(col, length args)], args)))"

definition plan_update_sql :: "ext \<Rightarrow> tenant_plan \<Rightarrow> plan_patch \<Rightarrow> set_list \<times> sql_arg list" where
  "plan_update_sql X code patch =
     (let s0 = ([], [ArgText code, ArgInt (pp_RecordVersion patch)]);
          s1 = set_next ''display_name'' ArgText (pp_DisplayName patch) s0;
          s2 = set_next ''workflow_template_limit'' ArgIntPtr (pp_WorkflowTemplateLimit patch) s1;
          s3 = set_next ''tender_limit'' ArgIntPtr (pp_TenderLimit patch) s2;
          s4 = set_next ''trial_duration_days'' ArgInt (pp_TrialDurationDays patch) s3;
          s5 = set_next ''sso_enabled'' ArgBool (pp_SSOEnabled patch) s4;
          s6 = set_next ''custom_branding'' ArgText (pp_CustomBranding patch) s5
      in set_next ''feature_set'' (\<lambda>m. ArgJson (any_to_json (x_format_float X) (AMap m)))
           (pp_FeatureSet patch) s6)"

definition planUpdateFromTx ::
  "ext \<Rightarrow> tenant_plan \<Rightarrow> set_list \<Rightarrow> sql_arg list \<Rightarrow> tx_fate \<Rightarrow> world \<Rightarrow> plan res \<times> world" where
  "planUpdateFromTx X code sets args t w =
     (case exec (tf_stmt t) (sql_update_plan X (db_now w) sets args) w of
        (r, w1) \<Rightarrow>
          (case scanPlan X r of
             Inr p \<Rightarrow> (Inr p, w1)
           | Inl e \<Rightarrow>
               if e = EDriver ErrNoRows then
                 (case query (tf_probe t) (sql_select_plan_version X code) w1 of
                    Inl perr \<Rightarrow>
                      (if perr = ErrNoRows
                       then (Inl (EDomain (NewError ErrPlanNotFound ''plan not found'')), w1)
                       else (Inl (EDriver perr), w1))
                  | Inr None \<Rightarrow> (Inl (EDomain (NewError ErrPlanNotFound ''plan not found'')), w1)
                  | Inr (Some v) \<Rightarrow>
                      (Inl (EDomain (WithDetails (NewError ErrOptimisticLockConflict ''record version conflict'')
                              [(''record_version'', AInt64 v)])), w1))
               else (Inl e, w1)))"

definition planUpdateBody ::
  "ext \<Rightarrow> tenant_plan \<Rightarrow> set_list \<Rightarrow> sql_arg list \<Rightarrow> tx_fate \<Rightarrow> world \<Rightarrow> plan res \<times> world" where
  "planUpdateBody X code sets args t w =
     (case planUpdateFromTx X code sets args t w of
        (Inl e, w1) \<Rightarrow>
          (Inl e, if errors_Is e ErrOptimisticLockConflict
                  then inc_metric (OptimisticLockConflicts ''plans'') w1 else w1)
      | (Inr p, w1) \<Rightarrow> (Inr p, inc_metric (WritesTotal ''plans'' ''update'') w1))"

definition PlanRepository_Update ::
  "ext \<Rightarrow> tenant_plan \<Rightarrow> plan_patch option \<Rightarrow> world \<Rightarrow> plan res \<times> world" where
  "PlanRepository_Update X code patch w =
     (case patch of
        None \<Rightarrow> (Inl (EDomain (NewError ErrValidation ''patch is required'')), w)
      | Some p \<Rightarrow>
          (case plan_update_sql X code p of
             (sets, args) \<Rightarrow>
               if length sets = 0
               then (Inl (EDomain (NewError ErrNoMutableField ''at least one field must be provided'')), w)
               else withPool X (planUpdateBody X code sets args) w))"

definition NewPlanRepository :: "ext \<Rightarrow> world plan_repository" where
  "NewPlanRepository X =
     \<lparr>prepo_List = PlanRepository_List X, prepo_FindByCode = PlanRepository_FindByCode X,
      prepo_Update = PlanRepository_Update X\<rparr>"

section \<open>The SET list in normal form\<close>

text \<open>
  The columns and values a patch sends, in order. The builder renders them: the placeholders are
  numbered from 3, the arguments follow the code and the version.
\<close>

definition opt_field :: "string \<Rightarrow> ('v \<Rightarrow> sql_arg) \<Rightarrow> 'v option \<Rightarrow> (string \<times> sql_arg) list" where
  "opt_field col mk v = (case v of None \<Rightarrow> [] | Some x \<Rightarrow> [(col, mk x)])"

definition plan_fields :: "ext \<Rightarrow> plan_patch \<Rightarrow> (string \<times> sql_arg) list" where
  "plan_fields X patch =
     opt_field ''display_name'' ArgText (pp_DisplayName patch)
   @ opt_field ''workflow_template_limit'' ArgIntPtr (pp_WorkflowTemplateLimit patch)
   @ opt_field ''tender_limit'' ArgIntPtr (pp_TenderLimit patch)
   @ opt_field ''trial_duration_days'' ArgInt (pp_TrialDurationDays patch)
   @ opt_field ''sso_enabled'' ArgBool (pp_SSOEnabled patch)
   @ opt_field ''custom_branding'' ArgText (pp_CustomBranding patch)
   @ opt_field ''feature_set'' (\<lambda>m. ArgJson (any_to_json (x_format_float X) (AMap m))) (pp_FeatureSet patch)"

fun numbered :: "nat \<Rightarrow> (string \<times> sql_arg) list \<Rightarrow> set_list" where
  "numbered n [] = []"
| "numbered n ((col, v) # fs) = (col, n) # numbered (Suc n) fs"

lemma numbered_append: "numbered n (fs @ gs) = numbered n fs @ numbered (n + length fs) gs"
  by (induction n fs rule: numbered.induct) simp_all

definition rendered :: "sql_arg list \<Rightarrow> (string \<times> sql_arg) list \<Rightarrow> set_list \<times> sql_arg list" where
  "rendered args fs = (numbered (Suc (length args)) fs, args @ map snd fs)"

lemma set_next_rendered:
  "set_next col mk v (rendered args fs) = rendered args (fs @ opt_field col mk v)"
  by (cases v) (simp_all add: set_next_def rendered_def opt_field_def Let_def numbered_append)

lemma plan_update_sql_rendered:
  "plan_update_sql X code patch =
     rendered [ArgText code, ArgInt (pp_RecordVersion patch)] (plan_fields X patch)"
proof -
  have "([], args) = rendered args []" for args by (simp add: rendered_def)
  then show ?thesis
    by (simp only: plan_update_sql_def Let_def set_next_rendered plan_fields_def append_Nil append_assoc)
qed

fun assign_fields :: "(string \<Rightarrow> sql_arg option \<Rightarrow> 'r \<Rightarrow> 'r option) \<Rightarrow> (string \<times> sql_arg) list \<Rightarrow> 'r \<Rightarrow> 'r option" where
  "assign_fields assign [] r = Some r"
| "assign_fields assign ((col, v) # fs) r =
     (case assign col (Some v) r of None \<Rightarrow> None | Some r' \<Rightarrow> assign_fields assign fs r')"

lemma assign_all_rendered:
  "assign_all assign (snd (rendered args fs)) (fst (rendered args fs)) r = assign_fields assign fs r"
proof (induction fs arbitrary: args r)
  case Nil
  then show ?case by (simp add: rendered_def)
next
  case (Cons f fs)
  obtain col v where f: "f = (col, v)" by force
  have "fst (rendered args (f # fs)) = (col, Suc (length args)) # fst (rendered (args @ [v]) fs)"
    and "snd (rendered args (f # fs)) = snd (rendered (args @ [v]) fs)"
    by (simp_all add: rendered_def f)
  moreover have "placeholder (snd (rendered (args @ [v]) fs)) (Suc (length args)) = Some v"
    by (simp add: rendered_def placeholder_def nth_append)
  ultimately show ?case using Cons.IH by (simp add: f split: option.split)
qed

lemma sets_empty_iff: "fst (rendered args fs) = [] \<longleftrightarrow> fs = []"
  by (cases fs) (auto simp: rendered_def)

text \<open>The placeholder types are those of the columns.\<close>

lemma find_numbered:
  "i < length fs \<Longrightarrow> find (\<lambda>(c, n). n = s + i) (numbered s fs) = Some (fst (fs ! i), s + i)"
proof (induction s fs arbitrary: i rule: numbered.induct)
  case (2 s col v fs)
  then show ?case by (cases i) force+
qed simp

lemma plan_arg_types_rendered:
  assumes "rendered [a, b] fs = (sets, args)"
  shows "plan_arg_types sets args = [TTenantPlan, TInt8] @ map (\<lambda>(c, v). plan_col_type c) fs"
proof (rule nth_equalityI)
  have args: "args = [a, b] @ map snd fs" and sets: "sets = numbered 3 fs"
    using assms by (simp_all add: rendered_def numeral_3_eq_3)
  show len: "length (plan_arg_types sets args) = length ([TTenantPlan, TInt8] @ map (\<lambda>(c, v). plan_col_type c) fs)"
    by (simp add: plan_arg_types_def args del: upt_Suc)
  fix i assume i: "i < length (plan_arg_types sets args)"
  consider "i = 0" | "i = 1" | j where "i = 2 + j" by (metis One_nat_def add_2_eq_Suc less_2_cases_iff le_Suc_ex not_less)
  then show "plan_arg_types sets args ! i = ([TTenantPlan, TInt8] @ map (\<lambda>(c, v). plan_col_type c) fs) ! i"
  proof cases
    case (3 j)
    with i have j: "j < length fs" by (simp add: plan_arg_types_def args del: upt_Suc)
    then have "find (\<lambda>(c, n). n = Suc (Suc (Suc j))) (numbered 3 fs) = Some (fst (fs ! j), Suc (Suc (Suc j)))"
      using find_numbered [of j fs 3] by (simp add: numeral_3_eq_3)
    then show ?thesis using 3 j
      by (simp add: plan_arg_types_def plan_arg_type_def args sets nth_append case_prod_beta del: upt_Suc)
  qed (simp_all add: plan_arg_types_def plan_arg_type_def args del: upt_Suc)
qed

lemma bind_args_rendered:
  assumes r: "rendered [a, b] fs = (sets, args)"
    and b: "bind_args X (plan_arg_types sets args) args = None" and f: "(c, v) \<in> set fs"
  shows "encode_arg X (plan_col_type c) v = None \<and> input_arg (plan_col_type c) v = None"
proof -
  have args: "args = [a, b] @ map snd fs" using r by (simp add: rendered_def)
  have "(plan_col_type c, v) \<in> set (zip (map (\<lambda>(c, v). plan_col_type c) fs) (map snd fs))"
    using f by (force simp: set_zip in_set_conv_nth)
  then have "(plan_col_type c, v) \<in> set (zip (plan_arg_types sets args) args)"
    unfolding plan_arg_types_rendered [OF r] by (simp add: args)
  then show ?thesis using b by (fastforce simp: bind_args_def split: option.splits)
qed

section \<open>What a patch does to a row\<close>

definition plan_patched :: "ext \<Rightarrow> plan_patch \<Rightarrow> plan_row \<Rightarrow> plan_row" where
  "plan_patched X patch r =
     r\<lparr>pr_display_name := (case pp_DisplayName patch of None \<Rightarrow> pr_display_name r | Some v \<Rightarrow> v),
       pr_workflow_template_limit :=
         (case pp_WorkflowTemplateLimit patch of None \<Rightarrow> pr_workflow_template_limit r | Some v \<Rightarrow> v),
       pr_tender_limit := (case pp_TenderLimit patch of None \<Rightarrow> pr_tender_limit r | Some v \<Rightarrow> v),
       pr_trial_duration_days :=
         (case pp_TrialDurationDays patch of None \<Rightarrow> pr_trial_duration_days r | Some v \<Rightarrow> v),
       pr_sso_enabled := (case pp_SSOEnabled patch of None \<Rightarrow> pr_sso_enabled r | Some v \<Rightarrow> v),
       pr_custom_branding := (case pp_CustomBranding patch of None \<Rightarrow> pr_custom_branding r | Some v \<Rightarrow> v),
       pr_feature_set := (case pp_FeatureSet patch of None \<Rightarrow> pr_feature_set r
                          | Some m \<Rightarrow> jsonb_norm (any_to_json (x_format_float X) (AMap m)))\<rparr>"

lemma plan_patched_simps [simp]:
  "pr_code (plan_patched X p r) = pr_code r"
  "pr_record_version (plan_patched X p r) = pr_record_version r"
  "pr_created_at (plan_patched X p r) = pr_created_at r"
  "pr_updated_at (plan_patched X p r) = pr_updated_at r"
  "pr_display_name (plan_patched X p r) =
     (case pp_DisplayName p of None \<Rightarrow> pr_display_name r | Some v \<Rightarrow> v)"
  "pr_workflow_template_limit (plan_patched X p r) =
     (case pp_WorkflowTemplateLimit p of None \<Rightarrow> pr_workflow_template_limit r | Some v \<Rightarrow> v)"
  "pr_tender_limit (plan_patched X p r) = (case pp_TenderLimit p of None \<Rightarrow> pr_tender_limit r | Some v \<Rightarrow> v)"
  "pr_trial_duration_days (plan_patched X p r) =
     (case pp_TrialDurationDays p of None \<Rightarrow> pr_trial_duration_days r | Some v \<Rightarrow> v)"
  "pr_sso_enabled (plan_patched X p r) = (case pp_SSOEnabled p of None \<Rightarrow> pr_sso_enabled r | Some v \<Rightarrow> v)"
  "pr_custom_branding (plan_patched X p r) =
     (case pp_CustomBranding p of None \<Rightarrow> pr_custom_branding r | Some v \<Rightarrow> v)"
  "pr_feature_set (plan_patched X p r) =
     (case pp_FeatureSet p of None \<Rightarrow> pr_feature_set r
      | Some m \<Rightarrow> jsonb_norm (any_to_json (x_format_float X) (AMap m)))"
  by (simp_all add: plan_patched_def)

lemma assign_fields_opt:
  assumes "\<And>v r. assign col (Some (mk v)) r = Some (upd v r)"
  shows "assign_fields assign (opt_field col mk v @ fs) r =
           assign_fields assign fs (case v of None \<Rightarrow> r | Some x \<Rightarrow> upd x r)"
  using assms by (cases v) (simp_all add: opt_field_def)

lemma assign_fields_last:
  assumes "\<And>v r. assign col (Some (mk v)) r = Some (upd v r)"
  shows "assign_fields assign (opt_field col mk v) r = Some (case v of None \<Rightarrow> r | Some x \<Rightarrow> upd x r)"
  using assms by (cases v) (simp_all add: opt_field_def)

lemma assign_plan_fields:
  "assign_fields assign_plan (plan_fields X patch) r = Some (plan_patched X patch r)"
proof -
  have 1: "assign_plan ''display_name'' (Some (ArgText v)) r = Some (r\<lparr>pr_display_name := v\<rparr>)" for v r
    by (simp add: assign_plan_def)
  have 2: "assign_plan ''workflow_template_limit'' (Some (ArgIntPtr v)) r =
      Some (r\<lparr>pr_workflow_template_limit := v\<rparr>)" for v r by (simp add: assign_plan_def)
  have 3: "assign_plan ''tender_limit'' (Some (ArgIntPtr v)) r = Some (r\<lparr>pr_tender_limit := v\<rparr>)" for v r
    by (simp add: assign_plan_def)
  have 4: "assign_plan ''trial_duration_days'' (Some (ArgInt v)) r =
      Some (r\<lparr>pr_trial_duration_days := v\<rparr>)" for v r by (simp add: assign_plan_def)
  have 5: "assign_plan ''sso_enabled'' (Some (ArgBool v)) r = Some (r\<lparr>pr_sso_enabled := v\<rparr>)" for v r
    by (simp add: assign_plan_def)
  have 6: "assign_plan ''custom_branding'' (Some (ArgText v)) r = Some (r\<lparr>pr_custom_branding := v\<rparr>)" for v r
    by (simp add: assign_plan_def)
  have 7: "assign_plan ''feature_set'' (Some (ArgJson (any_to_json (x_format_float X) (AMap m)))) r =
      Some (r\<lparr>pr_feature_set := jsonb_norm (any_to_json (x_format_float X) (AMap m))\<rparr>)" for m r
    by (simp add: assign_plan_def)
  show ?thesis
    unfolding plan_fields_def assign_fields_opt [where assign = assign_plan, OF 1]
      assign_fields_opt [where assign = assign_plan, OF 2] assign_fields_opt [where assign = assign_plan, OF 3]
      assign_fields_opt [where assign = assign_plan, OF 4] assign_fields_opt [where assign = assign_plan, OF 5]
      assign_fields_opt [where assign = assign_plan, OF 6] assign_fields_last [where assign = assign_plan, OF 7]
      option.inject
    by (rule plan_row.equality) (simp_all split: option.split)
qed

text \<open>The row the database stores for a patch, or the error it raises.\<close>

definition plan_update_spec :: "ext \<Rightarrow> int \<Rightarrow> plan_patch \<Rightarrow> plan_row \<Rightarrow> driver_error + plan_row" where
  "plan_update_spec X now patch old =
     (let new0 = plan_patched X patch old in
      if new0 \<noteq> old \<and> \<not> int64_ok (pr_record_version old + 1)
      then Inl (pg_raise ''22003'' '''' ''bigint out of range'')
      else let new = (if new0 = old then old
                      else new0\<lparr>pr_record_version := pr_record_version old + 1, pr_updated_at := now\<rparr>)
           in case failing_check plan_checks new of
                Some c \<Rightarrow> Inl (check_error ''plans'' c)
              | None \<Rightarrow> Inr new)"

lemma update_plan_row_spec:
  assumes "plan_update_sql X code patch = (sets, args)"
  shows "update_plan_row now sets args old = plan_update_spec X now patch old"
proof -
  from assms have r: "rendered [ArgText code, ArgInt (pp_RecordVersion patch)] (plan_fields X patch) = (sets, args)"
    by (simp add: plan_update_sql_rendered)
  have "assign_all assign_plan args sets old = Some (plan_patched X patch old)"
    using assign_all_rendered [of assign_plan _ "plan_fields X patch" old] assign_plan_fields r
    by (metis fst_conv snd_conv)
  then show ?thesis
    by (auto simp: update_plan_row_def plan_update_spec_def Let_def touch_row_plan_def simp del: plan_patched_simps)
qed

lemma plan_update_spec_row:
  assumes "plan_update_spec X now patch old = Inr new"
  shows "failing_check plan_checks new = None"
    and "new = (if plan_patched X patch old = old then old
                else (plan_patched X patch old)\<lparr>pr_record_version := pr_record_version old + 1, pr_updated_at := now\<rparr>)"
    and "plan_patched X patch old = old \<or> int64_ok (pr_record_version old + 1)"
  using assms unfolding plan_update_spec_def Let_def
  by (auto simp del: plan_patched_simps split: if_splits option.splits)

section \<open>Frames and invariants\<close>

lemma planUpdateFromTx_frame:
  "planUpdateFromTx X code sets args t w = (r, w') \<Longrightarrow> cache_side w' = cache_side w"
  by (auto simp: planUpdateFromTx_def split: prod.splits sum.splits option.splits if_splits
      dest: exec_cache_side)

lemma planUpdateBody_frame:
  "planUpdateBody X code sets args t w = (r, w') \<Longrightarrow> cache_side w' = cache_side w"
  by (auto simp: planUpdateBody_def split: prod.splits sum.splits if_splits dest: planUpdateFromTx_frame)

lemma PlanRepository_List_frame:
  assumes "PlanRepository_List X w = (r, w')"
  shows "cache_side w' = cache_side w \<and> w_db w' = w_db w"
proof
  show "cache_side w' = cache_side w"
    using assms unfolding PlanRepository_List_def
    by (rule withPool_cache_side) (auto simp: planListFromTx_def split: sum.splits)
  show "w_db w' = w_db w"
    using assms unfolding PlanRepository_List_def
    by (rule withPool_db_inv [where P = "\<lambda>db. db = w_db w"])
       (auto simp: planListFromTx_def split: sum.splits)
qed

lemma PlanRepository_List_result:
  assumes "PlanRepository_List X w = (Inr ps, w')"
  shows "scan_rows X (sql_select_plans (w_db w)) = Inr ps"
proof -
  from assms have "planListFromTx X (next_tx w) (pop_tx w) = (Inr ps, w')"
    unfolding PlanRepository_List_def by (auto dest: withPool_Inr)
  then show ?thesis by (auto simp: planListFromTx_def query_def split: sum.splits option.splits)
qed

lemma PlanRepository_FindByCode_frame:
  assumes "PlanRepository_FindByCode X code w = (r, w')"
  shows "cache_side w' = cache_side w \<and> w_db w' = w_db w"
proof
  show "cache_side w' = cache_side w"
    using assms unfolding PlanRepository_FindByCode_def
    by (rule withPool_cache_side) (auto simp: planFindFromTx_def split: sum.splits if_splits)
  show "w_db w' = w_db w"
    using assms unfolding PlanRepository_FindByCode_def
    by (rule withPool_db_inv [where P = "\<lambda>db. db = w_db w"])
       (auto simp: planFindFromTx_def split: sum.splits if_splits)
qed

lemma PlanRepository_Update_cases:
  assumes "PlanRepository_Update X code patch w = (r, w')"
  obtains (refused) e where "r = Inl e" and "w' = w"
  | (ran) p sets args where "patch = Some p" and "plan_update_sql X code p = (sets, args)"
      and "withPool X (planUpdateBody X code sets args) w = (r, w')"
  using assms by (auto simp: PlanRepository_Update_def split: option.splits prod.splits if_splits)

lemma PlanRepository_Update_frame:
  assumes "PlanRepository_Update X code patch w = (r, w')"
  shows "cache_side w' = cache_side w"
  using assms
proof (cases rule: PlanRepository_Update_cases)
  case (ran p sets args)
  from ran(3) show ?thesis by (rule withPool_cache_side) (rule planUpdateBody_frame)
qed simp

text \<open>What binding checked makes the new row well formed.\<close>

lemma opt_field_mem: "v = Some x \<Longrightarrow> (col, mk x) \<in> set (opt_field col mk v)"
  by (simp add: opt_field_def)

lemma bound_plan_fields:
  assumes "\<And>c v. (c, v) \<in> set (plan_fields X patch) \<Longrightarrow>
             encode_arg X (plan_col_type c) v = None \<and> input_arg (plan_col_type c) v = None"
  shows "pp_WorkflowTemplateLimit patch = Some l1 \<Longrightarrow> opt_int4 l1"
    and "pp_TenderLimit patch = Some l2 \<Longrightarrow> opt_int4 l2"
    and "pp_TrialDurationDays patch = Some d \<Longrightarrow> int4_ok d"
    and "pp_CustomBranding patch = Some b \<Longrightarrow> b \<in> set branding_level_enum"
proof -
  have mem: "(''workflow_template_limit'', ArgIntPtr l) \<in> set (plan_fields X patch)"
    if "pp_WorkflowTemplateLimit patch = Some l" for l using that by (simp add: plan_fields_def opt_field_def)
  have mem2: "(''tender_limit'', ArgIntPtr l) \<in> set (plan_fields X patch)"
    if "pp_TenderLimit patch = Some l" for l using that by (simp add: plan_fields_def opt_field_def)
  have mem3: "(''trial_duration_days'', ArgInt n) \<in> set (plan_fields X patch)"
    if "pp_TrialDurationDays patch = Some n" for n using that by (simp add: plan_fields_def opt_field_def)
  have mem4: "(''custom_branding'', ArgText s) \<in> set (plan_fields X patch)"
    if "pp_CustomBranding patch = Some s" for s using that by (simp add: plan_fields_def opt_field_def)
  show "opt_int4 l1" if "pp_WorkflowTemplateLimit patch = Some l1"
    using assms [OF mem [OF that]] by (cases l1) (auto simp: plan_col_type_def split: if_splits)
  show "opt_int4 l2" if "pp_TenderLimit patch = Some l2"
    using assms [OF mem2 [OF that]] by (cases l2) (auto simp: plan_col_type_def split: if_splits)
  show "int4_ok d" if "pp_TrialDurationDays patch = Some d"
    using assms [OF mem3 [OF that]] by (auto simp: plan_col_type_def split: if_splits)
  show "b \<in> set branding_level_enum" if "pp_CustomBranding patch = Some b"
    using assms [OF mem4 [OF that]] by (auto simp: plan_col_type_def split: if_splits)
qed

lemma plan_update_spec_ok:
  assumes upd: "plan_update_spec X now patch old = Inr new" and old: "plan_row_ok old"
    and bound: "\<And>l. pp_WorkflowTemplateLimit patch = Some l \<Longrightarrow> opt_int4 l"
      "\<And>l. pp_TenderLimit patch = Some l \<Longrightarrow> opt_int4 l"
      "\<And>d. pp_TrialDurationDays patch = Some d \<Longrightarrow> int4_ok d"
      "\<And>b. pp_CustomBranding patch = Some b \<Longrightarrow> b \<in> set branding_level_enum"
  shows "plan_row_ok new"
proof (cases "plan_patched X patch old = old")
  case True
  with plan_update_spec_row [OF upd] old show ?thesis by simp
next
  case False
  note row = plan_update_spec_row [OF upd]
  from False row(2) have new: "new = (plan_patched X patch old)\<lparr>pr_record_version := pr_record_version old + 1, pr_updated_at := now\<rparr>"
    by simp
  with row(1,3) False bound old show ?thesis
    by (auto simp: plan_row_ok_def split: option.split)
qed

lemma sql_update_plan_ok:
  assumes sets: "plan_update_sql X code patch = (sets, args)"
    and upd: "sql_update_plan X now sets args db = (r, db')" and ok: "db_ok db"
  shows "db_ok db'"
  using upd
proof (cases rule: sql_update_plan_cases)
  case (updated old new)
  from sets have rend: "rendered [ArgText code, ArgInt (pp_RecordVersion patch)] (plan_fields X patch) = (sets, args)"
    by (simp add: plan_update_sql_rendered)
  note bound = bound_plan_fields [OF bind_args_rendered [OF rend updated(6)]]
  have old: "plan_row_ok old" using ok updated(3) by (auto simp: db_ok_def plans_ok_def list_all_iff)
  from updated(7) have upd: "plan_update_spec X now patch old = Inr new"
    by (simp add: update_plan_row_spec [OF sets])
  have "plan_row_ok new" by (rule plan_update_spec_ok [OF upd old bound])
  then show ?thesis using ok updated(2) put_row_plans_ok by (simp add: db_ok_def)
qed (use ok in auto)

lemma PlanRepository_Update_ok [wf_rules]:
  assumes "PlanRepository_Update X code patch w = (r, w')" and "db_ok (w_db w)"
  shows "db_ok (w_db w')"
  using assms(1)
proof (cases rule: PlanRepository_Update_cases)
  case (ran p sets args)
  have body: "db_ok (w_db s')" if "planUpdateBody X code sets args t s = (q, s')" "db_ok (w_db s)" for t s q s'
    using that by (auto simp: planUpdateBody_def planUpdateFromTx_def
        split: prod.splits sum.splits if_splits option.splits
        elim!: exec_db_ok dest: sql_update_plan_ok [OF ran(2)])
  from ran(3) show ?thesis by (rule withPool_db_inv [where P = db_ok]) (use assms(2) body in auto)
qed (use assms(2) in simp)

section \<open>Rows that scan\<close>

text \<open>
  A row scans when its document decodes into a map. The rows the service writes do, since the
  feature set of a patch came out of a decoder.
\<close>

definition row_scans :: "ext \<Rightarrow> plan_row \<Rightarrow> bool" where
  "row_scans X r \<longleftrightarrow> scan_feature_set X (pr_feature_set r) \<noteq> None"

definition plans_scan :: "ext \<Rightarrow> db \<Rightarrow> bool" where
  "plans_scan X db \<longleftrightarrow> list_all (row_scans X) (t_plans db)"

definition plan_of :: "ext \<Rightarrow> plan_row \<Rightarrow> plan" where
  "plan_of X r = plan_of_row r (scan_feature_set X (pr_feature_set r))"

definition patch_decoded :: "ext \<Rightarrow> plan_patch \<Rightarrow> bool" where
  "patch_decoded X patch \<longleftrightarrow>
     (case pp_FeatureSet patch of
        None \<Rightarrow> True
      | Some m \<Rightarrow> decoded_any (x_parse_float X) (x_format_float X) (AMap m))"

lemma scanPlan_row: "row_scans X r \<Longrightarrow> scanPlan X (Inr (Some r)) = Inr (plan_of X r)"
  by (auto simp: scanPlan_def row_scans_def plan_of_def)

lemma scan_rows_ok: "list_all (row_scans X) rows \<Longrightarrow> scan_rows X rows = Inr (map (plan_of X) rows)"
  by (induction rows) (simp_all add: scanPlan_row)

lemma set_sql_select_plans: "set (sql_select_plans db) = set (t_plans db)"
  by (simp add: sql_select_plans_def)

lemma collect_options_not_None: "collect_options (map f xs) \<noteq> None \<longleftrightarrow> (\<forall>x \<in> set xs. f x \<noteq> None)"
proof (induction xs)
  case (Cons a xs)
  then show ?case by (cases "f a") auto
qed simp

lemma any_of_json_norm:
  "any_of_json f64 j \<noteq> None \<Longrightarrow> any_of_json f64 (jsonb_norm j) \<noteq> None"
proof (induction j)
  case (JArr js)
  then have "collect_options (map (any_of_json f64) js) \<noteq> None" by auto
  then have "\<forall>j \<in> set js. any_of_json f64 (jsonb_norm j) \<noteq> None"
    using JArr.IH unfolding collect_options_not_None by blast
  then have "collect_options (map (any_of_json f64 \<circ> jsonb_norm) js) \<noteq> None"
    unfolding collect_options_not_None by simp
  then show ?case by auto
next
  case (JObj kvs)
  let ?dec = "\<lambda>(k, j). map_option (Pair k) (any_of_json f64 j)"
  let ?kvs = "map_put_all [] (map (\<lambda>(k, j). (k, jsonb_norm j)) kvs)"
  have ok: "\<forall>(k, j) \<in> set kvs. any_of_json f64 j \<noteq> None"
    using JObj.prems collect_options_not_None [of ?dec kvs] by fastforce
  have "any_of_json f64 j \<noteq> None" if "(k, j) \<in> set ?kvs" for k j
  proof -
    from set_map_put_all [OF that] obtain j' where "(k, j') \<in> set kvs" "j = jsonb_norm j'" by auto
    with ok JObj.IH show ?thesis by (force simp: snds.simps)
  qed
  then have "\<forall>x \<in> set (sort_key fst ?kvs). ?dec x \<noteq> None" by force
  then have "collect_options (map ?dec (sort_key fst ?kvs)) \<noteq> None"
    unfolding collect_options_not_None .
  then show ?case by auto
qed auto

lemma scan_feature_set_object:
  "scan_feature_set X (JObj kvs) \<noteq> None \<longleftrightarrow> any_of_json (x_parse_float X) (JObj kvs) \<noteq> None"
  by (auto simp: scan_feature_set_def dec_map_def split: option.splits)

lemma plan_patched_scans:
  assumes "row_scans X old" and "patch_decoded X patch"
  shows "row_scans X (plan_patched X patch old)"
proof (cases "pp_FeatureSet patch")
  case None
  with assms(1) show ?thesis by (simp add: row_scans_def)
next
  case (Some m)
  let ?j = "any_to_json (x_format_float X) (AMap m)"
  have "any_of_json (x_parse_float X) ?j = Some (AMap m)"
    using assms(2) Some by (intro any_json_roundtrip) (simp add: patch_decoded_def)
  then have "any_of_json (x_parse_float X) (jsonb_norm ?j) \<noteq> None"
    by (intro any_of_json_norm) (simp del: any_to_json.simps any_of_json.simps)
  moreover obtain kvs where kvs: "jsonb_norm ?j = JObj kvs" by simp
  ultimately have "scan_feature_set X (jsonb_norm ?j) \<noteq> None" using scan_feature_set_object by metis
  with Some show ?thesis by (simp add: row_scans_def del: jsonb_norm.simps any_to_json.simps)
qed

lemma plan_update_spec_scans:
  assumes "plan_update_spec X now patch old = Inr new" and "row_scans X old" and "patch_decoded X patch"
  shows "row_scans X new"
proof (cases "plan_patched X patch old = old")
  case False
  then have "pr_feature_set new = pr_feature_set (plan_patched X patch old)"
    using plan_update_spec_row(2) [OF assms(1)] by (simp del: plan_patched_simps)
  with plan_patched_scans [OF assms(2,3)] show ?thesis by (simp add: row_scans_def del: plan_patched_simps)
qed (use plan_update_spec_row(2) [OF assms(1)] assms(2) in simp)

section \<open>The update as a whole\<close>

definition plan_not_found :: go_error where
  "plan_not_found = EDomain (NewError ErrPlanNotFound ''plan not found'')"

text \<open>What the driver or the server refuses before looking at a row.\<close>

definition plan_bind_error :: "ext \<Rightarrow> tenant_plan \<Rightarrow> plan_patch \<Rightarrow> driver_error option" where
  "plan_bind_error X code patch =
     bind_args X ([TTenantPlan, TInt8] @ map (\<lambda>(c, v). plan_col_type c) (plan_fields X patch))
       ([ArgText code, ArgInt (pp_RecordVersion patch)] @ map snd (plan_fields X patch))"

definition plan_update_abs ::
  "ext \<Rightarrow> int \<Rightarrow> tenant_plan \<Rightarrow> plan_patch \<Rightarrow> db \<Rightarrow> plan res \<times> db" where
  "plan_update_abs X now code patch db =
     (case plan_bind_error X code patch of
        Some e \<Rightarrow> (Inl (EDriver e), db)
      | None \<Rightarrow>
          (case find (\<lambda>r. pr_code r = code) (t_plans db) of
             None \<Rightarrow> (Inl plan_not_found, db)
           | Some old \<Rightarrow>
               if pr_record_version old \<noteq> pp_RecordVersion patch
               then (Inl (version_conflict (pr_record_version old)), db)
               else case plan_update_spec X now patch old of
                      Inl e \<Rightarrow> (Inl (EDriver e), db)
                    | Inr new \<Rightarrow> (Inr (plan_of X new), db\<lparr>t_plans := put_row pr_code new (t_plans db)\<rparr>)))"

lemma plan_update_sql_where:
  assumes "plan_update_sql X code patch = (sets, args)"
  shows "placeholder args 1 = Some (ArgText code)"
    and "placeholder args 2 = Some (ArgInt (pp_RecordVersion patch))"
    and "bind_args X (plan_arg_types sets args) args = plan_bind_error X code patch"
proof -
  have r: "rendered [ArgText code, ArgInt (pp_RecordVersion patch)] (plan_fields X patch) = (sets, args)"
    using assms by (simp add: plan_update_sql_rendered)
  then have args: "args = [ArgText code, ArgInt (pp_RecordVersion patch)] @ map snd (plan_fields X patch)"
    by (simp add: rendered_def)
  then show "placeholder args 1 = Some (ArgText code)"
    "placeholder args 2 = Some (ArgInt (pp_RecordVersion patch))"
    by (simp_all add: placeholder_def)
  show "bind_args X (plan_arg_types sets args) args = plan_bind_error X code patch"
    unfolding plan_arg_types_rendered [OF r] plan_bind_error_def by (simp only: args)
qed

lemma sql_update_plan_abs:
  assumes sets: "plan_update_sql X code patch = (sets, args)"
    and codes: "distinct (map pr_code (t_plans db))"
  shows "sql_update_plan X now sets args db =
     (case plan_bind_error X code patch of
        Some e \<Rightarrow> (Inl e, db)
      | None \<Rightarrow>
          (case find (\<lambda>r. pr_code r = code) (t_plans db) of
             None \<Rightarrow> (Inr None, db)
           | Some old \<Rightarrow>
               if pr_record_version old \<noteq> pp_RecordVersion patch then (Inr None, db)
               else case plan_update_spec X now patch old of
                      Inl e \<Rightarrow> (Inl e, db)
                    | Inr new \<Rightarrow> (Inr (Some new), db\<lparr>t_plans := put_row pr_code new (t_plans db)\<rparr>)))"
proof -
  have eq: "(\<lambda>r. placeholder args 1 = Some (ArgText (pr_code r)) \<and> placeholder args 2 = Some (ArgInt (pr_record_version r)))
      = (\<lambda>r. pr_code r = code \<and> pp_RecordVersion patch = pr_record_version r)"
    using plan_update_sql_where(1,2) [OF sets] by auto
  show ?thesis
    unfolding sql_update_plan_def plan_update_sql_where(3) [OF sets] update_plan_row_spec [OF sets] eq
      find_key_and [OF codes]
    by (auto split: option.split)
qed

lemma plan_update_spec_error: "plan_update_spec X now patch old = Inl e \<Longrightarrow> e \<noteq> ErrNoRows"
  by (auto simp: plan_update_spec_def Let_def split: if_splits option.splits)

lemma input_arg_error: "input_arg ty a = Some e \<Longrightarrow> e \<noteq> ErrNoRows"
  by (induction ty a rule: input_arg.induct) (auto split: if_splits)

lemma x_encode_error_not_NoRows: "ext_ok X \<Longrightarrow> x_encode_error X n \<noteq> ErrNoRows"
  using ext_okD(12) [of X n] by (auto simp: encode_error_ok_def)

lemma encode_arg_error: "ext_ok X \<Longrightarrow> encode_arg X ty a = Some e \<Longrightarrow> e \<noteq> ErrNoRows"
  by (induction X ty a rule: encode_arg.induct) (auto split: if_splits dest: x_encode_error_not_NoRows)

lemma bind_args_error:
  assumes "ext_ok X" and "bind_args X tys args = Some e"
  shows "e \<noteq> ErrNoRows"
proof -
  from assms(2) consider "first_error (map2 (encode_arg X) tys args) = Some e"
    | "first_error (map2 input_arg tys args) = Some e"
    by (auto simp: bind_args_def split: option.splits)
  then show ?thesis
  proof cases
    case 1
    from first_error_SomeD [OF this] obtain ty a where "encode_arg X ty a = Some e" by force
    with assms(1) show ?thesis by (rule encode_arg_error)
  next
    case 2
    from first_error_SomeD [OF this] obtain ty a where "input_arg ty a = Some e" by force
    then show ?thesis by (rule input_arg_error)
  qed
qed

lemma plan_bind_code: "plan_bind_error X code patch = None \<Longrightarrow> code \<in> set tenant_plan_enum"
  by (auto simp: plan_bind_error_def bind_args_def split: option.splits if_splits)

lemma probe_bind: "code \<in> set tenant_plan_enum \<Longrightarrow> bind_args X [TTenantPlan] [ArgText code] = None"
  by (simp add: bind_args_def)

lemma planUpdateBody_abs:
  assumes X: "ext_ok X" and sets: "plan_update_sql X code patch = (sets, args)"
    and codes: "distinct (map pr_code (t_plans (w_db w)))"
    and scans: "plans_scan X (w_db w)" and dec: "patch_decoded X patch"
  shows "planUpdateBody X code sets args tx_ok w =
     (case plan_update_abs X (db_now w) code patch (w_db w) of
        (r, db') \<Rightarrow>
          (r, (case r of
                 Inr _ \<Rightarrow> inc_metric (WritesTotal ''plans'' ''update'') (set_db db' w)
               | Inl e \<Rightarrow> if errors_Is e ErrOptimisticLockConflict
                          then inc_metric (OptimisticLockConflicts ''plans'') w else w)))"
proof (cases "plan_bind_error X code patch")
  case (Some e)
  then have "bind_args X ([TTenantPlan, TInt8] @ map (\<lambda>(c, v). plan_col_type c) (plan_fields X patch))
       ([ArgText code, ArgInt (pp_RecordVersion patch)] @ map snd (plan_fields X patch)) = Some e"
    by (simp add: plan_bind_error_def)
  then have "e \<noteq> ErrNoRows" by (rule bind_args_error [OF X])
  with Some show ?thesis
    by (simp add: planUpdateBody_def planUpdateFromTx_def exec_def sql_update_plan_abs [OF sets codes]
        scanPlan_def plan_update_abs_def)
next
  case bind: None
  note code = plan_bind_code [OF bind]
  show ?thesis
  proof (cases "find (\<lambda>r. pr_code r = code) (t_plans (w_db w))")
    case None
    then show ?thesis using bind
      by (simp add: planUpdateBody_def planUpdateFromTx_def exec_def sql_update_plan_abs [OF sets codes]
          scanPlan_def plan_update_abs_def query_def sql_select_plan_version_def sql_select_plan_def
          probe_bind [OF code] plan_not_found_def)
  next
    case (Some old)
    show ?thesis
    proof (cases "pr_record_version old = pp_RecordVersion patch")
      case False
      then show ?thesis using Some bind
        by (simp add: planUpdateBody_def planUpdateFromTx_def exec_def sql_update_plan_abs [OF sets codes]
            scanPlan_def plan_update_abs_def query_def sql_select_plan_version_def sql_select_plan_def
            probe_bind [OF code] version_conflict_def)
    next
      case True
      show ?thesis
      proof (cases "plan_update_spec X (db_now w) patch old")
        case (Inl e)
        then show ?thesis using Some bind True plan_update_spec_error [OF Inl]
          by (simp add: planUpdateBody_def planUpdateFromTx_def exec_def sql_update_plan_abs [OF sets codes]
              scanPlan_def plan_update_abs_def)
      next
        case (Inr new)
        have "row_scans X old" using scans find_SomeD [OF Some] by (auto simp: plans_scan_def list_all_iff)
        then have "row_scans X new" using plan_update_spec_scans [OF Inr] dec by blast
        then show ?thesis using Some bind True Inr
          by (simp add: planUpdateBody_def planUpdateFromTx_def exec_def sql_update_plan_abs [OF sets codes]
              scanPlan_row plan_update_abs_def)
      qed
    qed
  qed
qed

lemma plan_update_sql_nonempty:
  "plan_update_sql X code p = (sets, args) \<Longrightarrow> sets = [] \<longleftrightarrow> plan_fields X p = []"
  by (metis fst_conv plan_update_sql_rendered sets_empty_iff)

text \<open>The repository method is the abstract update, its errors translated, the metrics aside.\<close>

lemma PlanRepository_Update_abs:
  assumes X: "ext_ok X" and ok: "next_tx w = tx_ok" and some: "plan_fields X p \<noteq> []"
    and codes: "distinct (map pr_code (t_plans (w_db w)))"
    and scans: "plans_scan X (w_db w)" and dec: "patch_decoded X p"
  shows "PlanRepository_Update X code (Some p) w =
     (case plan_update_abs X (db_now w) code p (w_db w) of
        (Inr d, db') \<Rightarrow> (Inr d, inc_metric (WritesTotal ''plans'' ''update'') (set_db db' (pop_tx w)))
      | (Inl e, db') \<Rightarrow> (Inl (wrapConnErr X e),
           if errors_Is e ErrOptimisticLockConflict
           then inc_metric (OptimisticLockConflicts ''plans'') (pop_tx w) else pop_tx w))"
proof -
  obtain sets args where sets: "plan_update_sql X code p = (sets, args)" by force
  obtain r db' where abs: "plan_update_abs X (db_now w) code p (w_db w) = (r, db')" by force
  have "db_now (pop_tx w) = db_now w" by (simp add: db_now_def)
  then have body: "planUpdateBody X code sets args tx_ok (pop_tx w) =
      (r, (case r of
             Inr _ \<Rightarrow> inc_metric (WritesTotal ''plans'' ''update'') (set_db db' (pop_tx w))
           | Inl e \<Rightarrow> if errors_Is e ErrOptimisticLockConflict
                      then inc_metric (OptimisticLockConflicts ''plans'') (pop_tx w) else pop_tx w))"
    using planUpdateBody_abs [OF X sets, of "pop_tx w"] codes scans dec abs by simp
  have same: "set_db (w_db w) (inc_metric m (pop_tx w)) = inc_metric m (pop_tx w)"
    "set_db (w_db w) (pop_tx w) = pop_tx w" for m
    by (simp_all add: set_db_def inc_metric_def pop_tx_def)
  show ?thesis using some sets abs plan_update_sql_nonempty [OF sets]
    by (auto simp: PlanRepository_Update_def withPool_no_fault [OF ok] body same split: sum.split)
qed

lemma plan_update_spec_Inr:
  assumes "plan_update_spec X now patch old = Inr new"
  shows "pr_code new = pr_code old" "pr_created_at new = pr_created_at old"
    "new = old \<or> (pr_record_version new = pr_record_version old + 1 \<and> pr_updated_at new = now
                  \<and> int64_ok (pr_record_version new))"
    "new = old \<longleftrightarrow> plan_patched X patch old = old"
    "failing_check plan_checks new = None"
proof -
  note row = plan_update_spec_row [OF assms]
  show "pr_code new = pr_code old" "pr_created_at new = pr_created_at old"
    using row(2) by (cases "plan_patched X patch old = old"; simp)+
  show "new = old \<or> (pr_record_version new = pr_record_version old + 1 \<and> pr_updated_at new = now
                  \<and> int64_ok (pr_record_version new))"
    using row(2,3) by (cases "plan_patched X patch old = old") simp_all
  show "new = old \<longleftrightarrow> plan_patched X patch old = old"
  proof (cases "plan_patched X patch old = old")
    case False
    then have "pr_record_version new = pr_record_version old + 1" using row(2) by simp
    with False show ?thesis by auto
  qed (use row(2) in simp)
  show "failing_check plan_checks new = None" by (rule row(1))
qed

lemma planUpdateBody_scans:
  assumes sets: "plan_update_sql X code p = (sets, args)" and dec: "patch_decoded X p"
    and b: "planUpdateBody X code sets args t s = (q, s')" and ok: "plans_scan X (w_db s)"
  shows "plans_scan X (w_db s')"
proof -
  have upd: "plans_scan X db'" if "sql_update_plan X now sets args db = (r, db')" "plans_scan X db" for now db r db'
    using that(1)
  proof (cases rule: sql_update_plan_cases)
    case (updated old new)
    then have "row_scans X new"
      using plan_update_spec_scans [OF _ _ dec] that(2) update_plan_row_spec [OF sets]
      by (auto simp: plans_scan_def list_all_iff)
    then show ?thesis using updated(2) that(2)
      by (auto simp: plans_scan_def list_all_iff dest: set_put_row)
  qed (use that in auto)
  obtain r w1 where ex: "exec (tf_stmt t) (sql_update_plan X (db_now s) sets args) s = (r, w1)" by force
  then have "plans_scan X (w_db w1)"
    using ok upd by (cases "tf_stmt t") (auto simp: exec_def split: prod.splits)
  then show ?thesis using b ex
    by (auto simp: planUpdateBody_def planUpdateFromTx_def split: prod.splits sum.splits if_splits option.splits)
qed

lemma PlanRepository_Update_scans [wf_rules]:
  assumes "PlanRepository_Update X code patch w = (r, w')" and "plans_scan X (w_db w)"
    and "\<And>p. patch = Some p \<Longrightarrow> patch_decoded X p"
  shows "plans_scan X (w_db w')"
  using assms(1)
proof (cases rule: PlanRepository_Update_cases)
  case (ran p sets args)
  from ran(3) show ?thesis
    by (rule withPool_db_inv [where P = "plans_scan X"])
       (use assms(2) planUpdateBody_scans [OF ran(2) assms(3) [OF ran(1)]] in auto)
qed (use assms(2) in simp)

end
