(* ===== verification/Plan_Service.thy ===== *)
theory Plan_Service
  imports Plan_Repo Department_Service
begin

text \<open>
  internal/core/service/plan_service.go: the plan catalog behind its cache key, the fixed set of
  tiers, and the validation of a patch, which mirrors the constraints of the table.
\<close>

section \<open>The service\<close>

record 'w plan_service =
  ps_repo :: "'w plan_repository"
  ps_cache :: "'w cache_port option"
  ps_cacheTTL :: duration

definition defaultPlansCacheTTL :: duration where
  "defaultPlansCacheTTL = seconds 60"

definition NewPlanService :: "'w plan_repository \<Rightarrow> 'w cache_port option \<Rightarrow> 'w plan_service" where
  "NewPlanService repo cache =
     \<lparr>ps_repo = repo, ps_cache = cache, ps_cacheTTL = defaultPlansCacheTTL\<rparr>"

definition PlanService_WithCacheTTL :: "'w plan_service \<Rightarrow> duration \<Rightarrow> 'w plan_service" where
  "PlanService_WithCacheTTL s d = (if sint d > 0 then s\<lparr>ps_cacheTTL := d\<rparr> else s)"

definition plans_hit :: "ext \<Rightarrow> 'w plan_service \<Rightarrow> 'w \<Rightarrow> plan list option \<times> 'w" where
  "plans_hit X s w =
     (case ps_cache s of
        None \<Rightarrow> (None, w)
      | Some c \<Rightarrow>
          (case cache_Get c ''cat:plans'' w of
             (Inr (Some raw), w1) \<Rightarrow> (decode_plans X raw, w1)
           | (_, w1) \<Rightarrow> (None, w1)))"

definition PlanService_List :: "ext \<Rightarrow> 'w plan_service \<Rightarrow> 'w \<Rightarrow> plan list res \<times> 'w" where
  "PlanService_List X s w =
     (case plans_hit X s w of
        (Some cached, w1) \<Rightarrow> (Inr cached, w1)
      | (None, w1) \<Rightarrow>
          (case prepo_List (ps_repo s) w1 of
             (Inl e, w2) \<Rightarrow> (Inl e, w2)
           | (Inr all, w2) \<Rightarrow>
               (case ps_cache s of
                  None \<Rightarrow> (Inr all, w2)
                | Some c \<Rightarrow>
                    (Inr all, snd (cache_Set c ''cat:plans'' (encode_plans X all) (ps_cacheTTL s) w2)))))"

definition known_tier :: "tenant_plan \<Rightarrow> bool" where
  "known_tier code \<longleftrightarrow> code = PlanStarter \<or> code = PlanPro \<or> code = PlanEnterprise"

definition PlanService_GetByCode :: "'w plan_service \<Rightarrow> tenant_plan \<Rightarrow> 'w \<Rightarrow> plan res \<times> 'w" where
  "PlanService_GetByCode s code w =
     (if \<not> known_tier code then (Inl (EDomain (NewError ErrPlanNotFound ''plan not found'')), w)
      else prepo_FindByCode (ps_repo s) code w)"

text \<open>The type switch over a feature value.\<close>

fun scalar_value :: "go_any \<Rightarrow> bool" where
  "scalar_value (AStr _) = True"
| "scalar_value (ABool _) = True"
| "scalar_value (AFloat _) = True"
| "scalar_value (AInt _) = True"
| "scalar_value (AInt64 _) = True"
| "scalar_value ANil = True"
| "scalar_value _ = False"

text \<open>
  Go ranges over a map in an order of its own, the list of the model has one of them. Whether a map is
  refused does not depend on it (\<open>check_features_order\<close>), the key that is reported can: it is the key of
  some value that is not a scalar (\<open>check_features_Some\<close>).
\<close>

fun check_features :: "go_map \<Rightarrow> domain_error option" where
  "check_features [] = None"
| "check_features ((k, v) # m) =
     (if scalar_value v then check_features m
      else Some (WithDetails (NewError ErrInvalidFeatureValue ''feature_set values must be scalars'')
             [(''key'', AStr k)]))"

definition empty_patch :: "plan_patch \<Rightarrow> bool" where
  "empty_patch p \<longleftrightarrow>
     pp_DisplayName p = None \<and> pp_WorkflowTemplateLimit p = None \<and> pp_TenderLimit p = None
   \<and> pp_TrialDurationDays p = None \<and> pp_SSOEnabled p = None \<and> pp_CustomBranding p = None
   \<and> pp_FeatureSet p = None"

definition negative_limit :: "int option option \<Rightarrow> bool" where
  "negative_limit l \<longleftrightarrow> (case l of Some (Some n) \<Rightarrow> n < 0 | _ \<Rightarrow> False)"

text \<open>Everything Patch checks before it calls the repository, in the order of the code.\<close>

definition check_patch :: "tenant_plan \<Rightarrow> plan_patch \<Rightarrow> domain_error option" where
  "check_patch code p =
     (if \<not> known_tier code then Some (NewError ErrPlanNotFound ''plan not found'')
      else if empty_patch p
      then Some (WithDetails (NewError ErrNoMutableField ''at least one field must be provided'')
             [(''code'', AStr ''no_mutable_field'')])
      else if pp_DisplayName p \<noteq> None \<and> trim_space (the (pp_DisplayName p)) = ''''
      then Some (NewError ErrValidation ''display_name must not be empty'')
      else if negative_limit (pp_WorkflowTemplateLimit p)
      then Some (NewError ErrValidation ''workflow_template_limit must be >= 0'')
      else if negative_limit (pp_TenderLimit p)
      then Some (NewError ErrValidation ''tender_limit must be >= 0'')
      else if pp_TrialDurationDays p \<noteq> None \<and> the (pp_TrialDurationDays p) < 0
      then Some (NewError ErrValidation ''trial_duration_days must be >= 0'')
      else if pp_CustomBranding p \<noteq> None
              \<and> \<not> (the (pp_CustomBranding p) = BrandingNone \<or> the (pp_CustomBranding p) = BrandingLogo)
      then Some (NewError ErrValidation ''custom_branding must be one of: none, logo'')
      else check_features (case pp_FeatureSet p of None \<Rightarrow> [] | Some m \<Rightarrow> m))"

definition PlanService_Patch ::
  "'w plan_service \<Rightarrow> tenant_plan \<Rightarrow> plan_patch \<Rightarrow> 'w \<Rightarrow> plan res \<times> 'w" where
  "PlanService_Patch s code patch w =
     (case check_patch code patch of
        Some de \<Rightarrow> (Inl (EDomain de), w)
      | None \<Rightarrow>
          (case prepo_Update (ps_repo s) code (Some patch) w of
             (Inl e, w1) \<Rightarrow> (Inl e, w1)
           | (Inr p, w1) \<Rightarrow>
               (Inr p, case ps_cache s of None \<Rightarrow> w1 | Some c \<Rightarrow> snd (cache_Delete c [''cat:plans''] w1))))"

section \<open>Validation\<close>

lemma known_tier_enum: "known_tier code \<longleftrightarrow> code \<in> set tenant_plan_enum"
  by (simp add: known_tier_def tier_defs tenant_plan_enum_def)

lemma check_features_None: "check_features m = None \<longleftrightarrow> list_all (\<lambda>(k, v). scalar_value v) m"
  by (induction m rule: check_features.induct) auto

lemma check_features_order: "set m = set m' \<Longrightarrow> check_features m = None \<longleftrightarrow> check_features m' = None"
  by (simp add: check_features_None list_all_iff)

lemma check_features_Some:
  "check_features m = Some de \<Longrightarrow> \<exists>k v. (k, v) \<in> set m \<and> \<not> scalar_value v
     \<and> de = WithDetails (NewError ErrInvalidFeatureValue ''feature_set values must be scalars'') [(''key'', AStr k)]"
  by (induction m rule: check_features.induct) (auto split: if_splits)

lemma check_patch_None:
  "check_patch code p = None \<longleftrightarrow>
     known_tier code \<and> \<not> empty_patch p
   \<and> (\<forall>n. pp_DisplayName p = Some n \<longrightarrow> trim_space n \<noteq> '''')
   \<and> (\<forall>l. pp_WorkflowTemplateLimit p = Some l \<longrightarrow> opt_nonneg l)
   \<and> (\<forall>l. pp_TenderLimit p = Some l \<longrightarrow> opt_nonneg l)
   \<and> (\<forall>d. pp_TrialDurationDays p = Some d \<longrightarrow> 0 \<le> d)
   \<and> (\<forall>b. pp_CustomBranding p = Some b \<longrightarrow> b \<in> set branding_level_enum)
   \<and> (\<forall>m. pp_FeatureSet p = Some m \<longrightarrow> list_all (\<lambda>(k, v). scalar_value v) m)"
proof -
  have neg: "negative_limit l \<longleftrightarrow> \<not> (\<forall>x. l = Some x \<longrightarrow> opt_nonneg x)" for l
    by (auto simp: negative_limit_def opt_nonneg_def split: option.splits)
  have feat: "check_features (case pp_FeatureSet p of None \<Rightarrow> [] | Some m \<Rightarrow> m) = None
      \<longleftrightarrow> (\<forall>m. pp_FeatureSet p = Some m \<longrightarrow> list_all (\<lambda>(k, v). scalar_value v) m)"
    by (simp add: check_features_None split: option.split)
  show ?thesis
    unfolding check_patch_def neg
    by (auto simp: feat branding_level_enum_def BrandingNone_def BrandingLogo_def)
qed

lemma empty_patch_fields: "empty_patch p \<longleftrightarrow> plan_fields X p = []"
  by (auto simp: empty_patch_def plan_fields_def opt_field_def split: option.splits)

text \<open>A patch that passed the service can violate no CHECK constraint of the table.\<close>

lemma checked_patch_checks:
  assumes "check_patch code p = None" and "plan_row_ok old"
  shows "failing_check plan_checks (plan_patched X p old) = None"
proof -
  have nm: "n \<noteq> ''''" if "pp_DisplayName p = Some n" for n
    using assms(1) that trim_space_nonempty unfolding check_patch_None by blast
  show ?thesis
    using assms nm unfolding check_patch_None plan_row_ok_def plan_checks_iff
    by (auto split: option.split)
qed

lemma checked_patch_update:
  assumes "check_patch code p = None" and "plan_row_ok old" and "int64_ok (pr_record_version old + 1)"
  shows "\<exists>new. plan_update_spec X now p old = Inr new"
proof -
  let ?new = "plan_patched X p old"
  have "0 < pr_record_version old" using assms(2) by (simp add: plan_row_ok_def plan_checks_iff)
  then have "failing_check plan_checks (?new\<lparr>pr_record_version := pr_record_version old + 1, pr_updated_at := now\<rparr>) = None"
    using checked_patch_checks [OF assms(1,2), of X] unfolding plan_checks_iff by simp
  moreover have "failing_check plan_checks old = None" using assms(2) by (simp add: plan_row_ok_def)
  ultimately show ?thesis
    using assms(3) by (simp add: plan_update_spec_def Let_def del: plan_patched_simps)
qed

section \<open>Instances of the port patterns\<close>

lemma PlanService_List_read_through:
  "PlanService_List X s w =
     read_through (ps_cache s) ''cat:plans'' (decode_plans X) (encode_plans X) (ps_cacheTTL s)
       (prepo_List (ps_repo s)) w"
  by (cases "ps_cache s")
     (auto simp: PlanService_List_def plans_hit_def read_through_def
        split: prod.split sum.split option.split)

lemma PlanService_Patch_write_then_invalidate:
  assumes "check_patch code p = None"
  shows "PlanService_Patch s code p w =
     write_then_invalidate (ps_cache s) ''cat:plans'' (prepo_Update (ps_repo s) code (Some p)) w"
  using assms
  by (auto simp: PlanService_Patch_def write_then_invalidate_def split: prod.split sum.split option.split)

section \<open>On Postgres and Valkey\<close>

definition plans_truth :: "ext \<Rightarrow> world \<Rightarrow> plan list" where
  "plans_truth X w = map (plan_of X) (sql_select_plans (w_db w))"

definition plans_sound :: "ext \<Rightarrow> world \<Rightarrow> bool" where
  "plans_sound X w \<longleftrightarrow> ext_ok X \<and> plans_ok (t_plans (w_db w)) \<and> plans_scan X (w_db w)"

lemma plans_truth_cong: "w_db w' = w_db w \<Longrightarrow> plans_truth X w' = plans_truth X w"
  by (simp add: plans_truth_def)

lemma plans_sound_cong: "w_db w' = w_db w \<Longrightarrow> plans_sound X w' = plans_sound X w"
  by (simp add: plans_sound_def)

lemma scan_feature_set_decoded:
  assumes "ext_ok X" and "scan_feature_set X j = Some m"
  shows "decoded_any (x_parse_float X) (x_format_float X) (AMap m)"
proof (cases j)
  case (JObj kvs)
  then have "any_of_json (x_parse_float X) j = Some (AMap m)"
    using assms(2) by (auto simp: scan_feature_set_def dec_map_def split: option.splits)
  then show ?thesis by (rule any_of_json_decoded [OF ext_okD(3) [OF assms(1)], rotated])
qed (use assms(2) in \<open>auto simp: scan_feature_set_def dec_map_def\<close>)

lemma cacheable_plan_of:
  assumes "ext_ok X" and "plan_row_ok r" and "row_scans X r"
  shows "cacheable_plan X (plan_of X r)"
proof -
  obtain m where m: "scan_feature_set X (pr_feature_set r) = Some m"
    using assms(3) by (auto simp: row_scans_def)
  have "opt_int64 v" if "opt_int4 v" for v
    using that by (cases v) (auto simp: opt_int64_def int4_int64)
  then show ?thesis
    using assms(2) scan_feature_set_decoded [OF assms(1) m] m
    by (simp add: cacheable_plan_def plan_of_def plan_of_row_def plan_row_ok_def int4_int64)
qed

lemma plans_truth_cacheable:
  "plans_sound X w \<Longrightarrow> p \<in> set (plans_truth X w) \<Longrightarrow> cacheable_plan X p"
  unfolding plans_sound_def plans_truth_def plans_ok_def plans_scan_def list_all_iff set_map
    set_sql_select_plans
  using cacheable_plan_of by blast

interpretation plan_snapshot: snapshot_cache valkey_port live_value valkey_healthy
  "''cat:plans''" "decode_plans X" "encode_plans X" "plans_truth X" "plans_sound X"
  "PlanRepository_List X"
  for X :: Extern.ext
proof
  fix k w rg w' assume "cache_Get valkey_port k w = (rg, w')"
  then have "w_db w' = w_db w" by (auto dest!: Cache_db_side db_sideD)
  then show "plans_truth X w' = plans_truth X w \<and> (plans_sound X w \<longrightarrow> plans_sound X w')"
    using plans_truth_cong plans_sound_cong by blast
next
  fix k v ttl w rs w' assume "cache_Set valkey_port k v ttl w = (rs, w')"
  then have "w_db w' = w_db w" by (auto dest!: Cache_db_side db_sideD)
  then show "plans_truth X w' = plans_truth X w" by (rule plans_truth_cong)
next
  fix ks w rd w' assume "cache_Delete valkey_port ks w = (rd, w')"
  then have "w_db w' = w_db w" by (auto dest!: Cache_db_side db_sideD)
  then show "plans_truth X w' = plans_truth X w" by (rule plans_truth_cong)
next
  fix w rf w' assume "PlanRepository_List X w = (rf, w')"
  then show "plans_truth X w' = plans_truth X w \<and> live_value w' = live_value w"
    by (auto dest!: PlanRepository_List_frame intro: plans_truth_cong cache_side_live)
next
  fix w a w' assume s: "plans_sound X w" and l: "PlanRepository_List X w = (Inr a, w')"
  have "list_all (row_scans X) (sql_select_plans (w_db w))"
    using s by (simp add: plans_sound_def plans_scan_def list_all_iff set_sql_select_plans)
  from scan_rows_ok [OF this] PlanRepository_List_result [OF l] show "a = plans_truth X w"
    by (simp add: plans_truth_def)
next
  fix w assume s: "plans_sound X w"
  show "decode_plans X (encode_plans X (plans_truth X w)) = Some (plans_truth X w)"
  proof (rule plans_snapshot_roundtrip)
    show "ext_ok X" using s by (simp add: plans_sound_def)
    show "cacheable_plan X p" if "p \<in> set (plans_truth X w)" for p
      using s that by (rule plans_truth_cacheable)
  qed
qed

definition pg_plan_service :: "ext \<Rightarrow> duration \<Rightarrow> world plan_service" where
  "pg_plan_service X ttl =
     PlanService_WithCacheTTL (NewPlanService (NewPlanRepository X) (Some valkey_port)) ttl"

lemma pg_plan_service_simps [simp]:
  "ps_repo (pg_plan_service X ttl) = NewPlanRepository X"
  "ps_cache (pg_plan_service X ttl) = Some valkey_port"
  by (simp_all add: pg_plan_service_def PlanService_WithCacheTTL_def NewPlanService_def)

lemma NewPlanRepository_simps [simp]:
  "prepo_List (NewPlanRepository X) = PlanRepository_List X"
  "prepo_FindByCode (NewPlanRepository X) = PlanRepository_FindByCode X"
  "prepo_Update (NewPlanRepository X) = PlanRepository_Update X"
  by (simp_all add: NewPlanRepository_def)

abbreviation plans_coherent :: "ext \<Rightarrow> world \<Rightarrow> bool" where
  "plans_coherent X \<equiv> coherent live_value ''cat:plans'' (decode_plans X) (plans_truth X)"

end
