(* ===== verification/Http_Core.thy ===== *)
theory Http_Core
  imports Department_Service Plan_Service
begin

text \<open>
  Requests, responses and the error path of the inbound adapter: errors.go (newErrorResponse),
  dto.go (ErrorResponse) and the helpers of middleware.go (HandleError, errorResponseWithDetails,
  domainErrorStatus, parseUUIDParam, requireOperator, requireSystem).
\<close>

section \<open>Requests and responses\<close>

text \<open>
  What gincommon's auth middleware leaves in the context, and a request as a handler sees it: the
  route parameters and the query of gin, the first 1 MiB of the body, the request context once the
  identity bridge has set it, and the trace and request ids gincommon keeps in the context and in its
  request and response headers.
\<close>

record platform_identity =
  pi_UserID :: string
  pi_TenantID :: string
  pi_Roles :: "string list"
  pi_ClientIP :: string

record request =
  q_method :: string
  q_path :: string
  q_route :: string
  q_params :: "(string \<times> string) list"
  q_query :: "(string \<times> string) list"
  q_headers :: "(string \<times> string) list"
  q_content_length :: int
  q_content_type :: string
  q_body :: body_bytes
  q_identity :: "platform_identity option"
  q_context :: "request_context option"
  q_trace_id :: string
  q_request_id :: string
  q_request_id_header :: string
  q_response_request_id :: string

definition lookup_or_empty :: "string \<Rightarrow> (string \<times> string) list \<Rightarrow> string" where
  "lookup_or_empty k kvs = (case map_of kvs k of None \<Rightarrow> '''' | Some v \<Rightarrow> v)"

datatype resp_body = RNone | RJson json | RText string

record response =
  rs_status :: nat
  rs_body :: resp_body

definition json_response :: "nat \<Rightarrow> json \<Rightarrow> response" where
  "json_response status j = \<lparr>rs_status = status, rs_body = RJson j\<rparr>"

lemma json_response_simps [simp]:
  "rs_status (json_response s j) = s" "rs_body (json_response s j) = RJson j"
  by (simp_all add: json_response_def)

type_synonym handler = "request \<Rightarrow> world \<Rightarrow> response \<times> world"

section \<open>The error envelope\<close>

record error_response =
  er_Error :: string
  er_Status :: nat
  er_TraceID :: string
  er_RequestID :: string
  er_Code :: string
  er_Message :: string

definition newErrorResponse :: "request option \<Rightarrow> string \<Rightarrow> string \<Rightarrow> error_response" where
  "newErrorResponse c code message =
     (let er = \<lparr>er_Error = code, er_Status = 0, er_TraceID = '''', er_RequestID = '''',
                er_Code = code, er_Message = message\<rparr>
      in case c of
           None \<Rightarrow> er
         | Some q \<Rightarrow>
             (let er1 = (if q_trace_id q \<noteq> '''' then er\<lparr>er_TraceID := q_trace_id q\<rparr> else er)
              in if q_request_id q \<noteq> '''' then er1\<lparr>er_RequestID := q_request_id q\<rparr>
                 else if q_request_id_header q \<noteq> ''''
                 then er1\<lparr>er_RequestID := q_request_id_header q\<rparr>
                 else if q_response_request_id q \<noteq> ''''
                 then er1\<lparr>er_RequestID := q_response_request_id q\<rparr>
                 else er1))"

definition omit_empty :: "string \<Rightarrow> string \<Rightarrow> (string \<times> json) list" where
  "omit_empty k v = (if v = '''' then [] else [(k, JStr v)])"

definition error_response_json :: "error_response \<Rightarrow> json" where
  "error_response_json er =
     JObj ([(''error'', JStr (er_Error er)), (''status'', JNum (JInt (int (er_Status er))))]
         @ omit_empty ''trace_id'' (er_TraceID er) @ omit_empty ''request_id'' (er_RequestID er)
         @ [(''code'', JStr (er_Code er)), (''message'', JStr (er_Message er))])"

definition error_reply :: "request \<Rightarrow> nat \<Rightarrow> string \<Rightarrow> string \<Rightarrow> response" where
  "error_reply q status code message =
     json_response status
       (error_response_json ((newErrorResponse (Some q) code message)\<lparr>er_Status := status\<rparr>))"

definition errorResponseWithDetails :: "error_response \<Rightarrow> go_map \<Rightarrow> go_map" where
  "errorResponseWithDetails er details =
     (let out0 = [(''error'', AStr (er_Error er)), (''code'', AStr (er_Code er)),
                  (''status'', AInt (int (er_Status er))), (''message'', AStr (er_Message er))];
          out1 = (if er_TraceID er \<noteq> '''' then map_put ''trace_id'' (AStr (er_TraceID er)) out0 else out0);
          out2 = (if er_RequestID er \<noteq> '''' then map_put ''request_id'' (AStr (er_RequestID er)) out1 else out1);
          out3 = map_put_all out2 details
      in case map_of out3 ''code'' of
           None \<Rightarrow> out3
         | Some code \<Rightarrow> map_put ''error'' code out3)"

definition domainErrorStatus :: "domain_error \<Rightarrow> nat" where
  "domainErrorStatus de =
     (let is = (\<lambda>s. de_Cause de = Some s) in
      if is ErrValidation \<or> is ErrNoMutableField \<or> is ErrInvalidFeatureValue then 400
      else if is ErrMissingIdentity then 401
      else if is ErrInsufficientRole then 403
      else if is ErrDepartmentNotFound \<or> is ErrPlanNotFound then 404
      else if is ErrOptimisticLockConflict \<or> is ErrConflict then 409
      else if is ErrDBUnavailable \<or> is ErrCacheUnavailable \<or> is ErrDependencyUnavailable then 503
      else if is ErrMethodNotAllowed then 405
      else 422)"

definition http_isOperatorOrSystemErrorSQLState :: "ext \<Rightarrow> go_error \<Rightarrow> bool" where
  "http_isOperatorOrSystemErrorSQLState X e =
     (if \<not> x_IsPgError X e then False
      else let msg = err_text X e
           in contains_str ''SQLSTATE 57'' msg \<or> contains_str ''SQLSTATE 58'' msg)"

definition HandleError :: "ext \<Rightarrow> request \<Rightarrow> go_error \<Rightarrow> world \<Rightarrow> response \<times> world" where
  "HandleError X c e w =
     (case e of
        EMaxBytes \<Rightarrow> (error_reply c 413 ''request_entity_too_large'' ''request body must not exceed 1 MB'', w)
      | EDomain de \<Rightarrow>
          (let status = domainErrorStatus de;
               body = (newErrorResponse (Some c) (de_Code de) (de_Message de))\<lparr>er_Status := status\<rparr>
           in (json_response status
                 (any_to_json (x_format_float X) (AMap (errorResponseWithDetails body (de_Details de)))), w))
      | EDriver d \<Rightarrow>
          (if x_IsConnectionException X e \<or> x_IsInsufficientResources X e
              \<or> http_isOperatorOrSystemErrorSQLState X e
           then (error_reply c 503 (sentinel_text ErrDBUnavailable) ''database unavailable'', w)
           else (error_reply c 500 ''internal_error'' ''an unexpected error occurred'',
                 add_log (LogError ''unhandled 500 error'') w)))"

section \<open>Parameters and roles\<close>

definition parseUUIDParam :: "ext \<Rightarrow> request \<Rightarrow> string \<Rightarrow> uuid res" where
  "parseUUIDParam X c name =
     (let raw = lookup_or_empty name (q_params c) in
      if raw = ''''
      then Inl (EDomain (WithDetails (NewError ErrValidation (name @ '' is required''))
                  [(''code'', AStr ''invalid_uuid'')]))
      else case x_parse_uuid X raw of
             None \<Rightarrow> Inl (EDomain (WithDetails (NewError ErrValidation (name @ '' is not a valid UUID''))
                       [(''code'', AStr ''invalid_uuid'')]))
           | Some u \<Rightarrow> Inr u)"

definition requireOperator :: "request \<Rightarrow> go_error option" where
  "requireOperator c =
     (case q_context c of
        None \<Rightarrow> Some (EDomain (NewError ErrMissingIdentity ''missing identity''))
      | Some rc \<Rightarrow>
          (if \<not> IsOperator rc
           then Some (EDomain (NewError ErrInsufficientRole ''platform_operator required''))
           else None))"

definition requireSystem :: "request \<Rightarrow> go_error option" where
  "requireSystem c =
     (case q_context c of
        None \<Rightarrow> Some (EDomain (NewError ErrMissingIdentity ''missing identity''))
      | Some rc \<Rightarrow>
          (if \<not> IsSystem rc
           then Some (EDomain (NewError ErrInsufficientRole ''iam-system required''))
           else None))"

section \<open>Facts of the error path\<close>

lemma newErrorResponse_simps [simp]:
  "er_Error (newErrorResponse c code msg) = code" "er_Code (newErrorResponse c code msg) = code"
  "er_Message (newErrorResponse c code msg) = msg" "er_Status (newErrorResponse c code msg) = 0"
  by (simp_all add: newErrorResponse_def Let_def split: option.split)

lemma error_reply_status [simp]: "rs_status (error_reply q s code msg) = s"
  by (simp add: error_reply_def)

text \<open>The member of a JSON body a client reads, for bodies that are objects.\<close>

definition body_field :: "string \<Rightarrow> response \<Rightarrow> json option" where
  "body_field k r = (case rs_body r of RJson j \<Rightarrow> jfield k j | _ \<Rightarrow> None)"

lemma HandleError_world:
  "HandleError X c e w = (r, w') \<Longrightarrow>
     w_db w' = w_db w \<and> w_store w' = w_store w \<and> w_now w' = w_now w \<and> w_metrics w' = w_metrics w
   \<and> w_cache w' = w_cache w \<and> w_tx w' = w_tx w"
  by (auto simp: HandleError_def Let_def split: go_error.splits if_splits)

lemma HandleError_domain:
  "HandleError X c (EDomain de) w =
     (json_response (domainErrorStatus de)
        (any_to_json (x_format_float X)
           (AMap (errorResponseWithDetails
              ((newErrorResponse (Some c) (de_Code de) (de_Message de))\<lparr>er_Status := domainErrorStatus de\<rparr>)
              (de_Details de)))), w)"
  by (simp add: HandleError_def Let_def)

lemma map_of_map_put_all:
  "distinct (map fst kvs) \<Longrightarrow>
     map_of (map_put_all m kvs) x = (case map_of kvs x of None \<Rightarrow> map_of m x | Some v \<Rightarrow> Some v)"
proof (induction m kvs rule: map_put_all.induct)
  case (2 m k v kvs)
  then have "map_of kvs k = None" by (simp add: map_of_eq_None_iff)
  with 2 show ?case by (auto split: option.split)
qed simp

lemma map_put_all_keeps: "map_of m k \<noteq> None \<Longrightarrow> map_of (map_put_all m kvs) k \<noteq> None"
  by (induction m kvs rule: map_put_all.induct) (auto split: if_splits)

lemma distinct_errorResponseWithDetails: "distinct (map fst (errorResponseWithDetails er d))"
proof -
  have put: "distinct (map fst m) \<Longrightarrow> distinct (map fst (if b then map_put k v m else m))"
    for b k v and m :: go_map by (simp add: distinct_map_put)
  show ?thesis unfolding errorResponseWithDetails_def Let_def
    by (auto intro!: distinct_map_put distinct_map_put_all put split: option.split)
qed

lemma jfield_object:
  "distinct (map fst m) \<Longrightarrow> jfield k (any_to_json fmt (AMap m)) = map_option (any_to_json fmt) (map_of m k)"
proof -
  assume d: "distinct (map fst m)"
  let ?m = "map (\<lambda>(k, a). (k, any_to_json fmt a)) m"
  have keys: "map fst ?m = map fst m" by (induction m) auto
  then have "distinct (map fst ?m)" using d by (simp only:)
  then have "map_of (rev ?m) = map_of ?m" by (intro map_of_inject_set [THEN iffD2]) (auto simp: rev_map [symmetric])
  moreover have "map_of ?m k = map_option (any_to_json fmt) (map_of m k)" by (induction m) auto
  ultimately show ?thesis by simp
qed

text \<open>In every body of the error path, \<open>error\<close> and \<open>code\<close> agree.\<close>

definition error_base :: "error_response \<Rightarrow> go_map" where
  "error_base er =
     (let out0 = [(''error'', AStr (er_Error er)), (''code'', AStr (er_Code er)),
                  (''status'', AInt (int (er_Status er))), (''message'', AStr (er_Message er))];
          out1 = (if er_TraceID er \<noteq> '''' then map_put ''trace_id'' (AStr (er_TraceID er)) out0 else out0)
      in if er_RequestID er \<noteq> '''' then map_put ''request_id'' (AStr (er_RequestID er)) out1 else out1)"

lemma error_base_simps [simp]:
  "map_of (error_base er) ''error'' = Some (AStr (er_Error er))"
  "map_of (error_base er) ''code'' = Some (AStr (er_Code er))"
  "map_of (error_base er) ''status'' = Some (AInt (int (er_Status er)))"
  "map_of (error_base er) ''message'' = Some (AStr (er_Message er))"
  by (simp_all add: error_base_def Let_def)

lemma errorResponse_base:
  "errorResponseWithDetails er d =
     map_put ''error'' (the (map_of (map_put_all (error_base er) d) ''code'')) (map_put_all (error_base er) d)"
proof -
  have "map_of (map_put_all (error_base er) d) ''code'' \<noteq> None" by (rule map_put_all_keeps) simp
  then show ?thesis
    by (auto simp: errorResponseWithDetails_def Let_def error_base_def split: option.split)
qed

lemma errorResponse_code_error:
  "map_of (errorResponseWithDetails er d) ''error'' = map_of (errorResponseWithDetails er d) ''code''"
proof -
  have "map_of (map_put_all (error_base er) d) ''code'' \<noteq> None" by (rule map_put_all_keeps) simp
  then show ?thesis by (auto simp: errorResponse_base)
qed

lemma errorResponse_fields:
  assumes "distinct (map fst d)"
  shows "map_of (errorResponseWithDetails er d) ''status'' =
           (case map_of d ''status'' of None \<Rightarrow> Some (AInt (int (er_Status er))) | Some v \<Rightarrow> Some v)"
    and "map_of (errorResponseWithDetails er d) ''code'' =
           (case map_of d ''code'' of None \<Rightarrow> Some (AStr (er_Code er)) | Some v \<Rightarrow> Some v)"
    and "map_of (errorResponseWithDetails er d) ''message'' =
           (case map_of d ''message'' of None \<Rightarrow> Some (AStr (er_Message er)) | Some v \<Rightarrow> Some v)"
  by (simp_all add: errorResponse_base map_of_map_put_all [OF assms] cong: option.case_cong)

lemma error_reply_fields:
  "body_field ''code'' (error_reply q s code msg) = Some (JStr code)"
  "body_field ''error'' (error_reply q s code msg) = Some (JStr code)"
  "body_field ''status'' (error_reply q s code msg) = Some (JNum (JInt (int s)))"
  "body_field ''message'' (error_reply q s code msg) = Some (JStr msg)"
  by (auto simp: body_field_def error_reply_def error_response_json_def omit_empty_def map_add_def)

end
