(* ===== verification/Middleware.thy ===== *)
theory Middleware
  imports Http_Core
begin

text \<open>
  The middleware of internal/adapter/inbound/http/middleware.go. A middleware is a function on
  handlers; one that aborts does not call the rest of the chain. A response of status 0 is one
  nobody has written to yet, as in the buffered writer of NormalizeAuthErrors.
\<close>

definition unwritten :: response where
  "unwritten = \<lparr>rs_status = 0, rs_body = RNone\<rparr>"

section \<open>Identity\<close>

definition bridge_identity :: "ext \<Rightarrow> request \<Rightarrow> platform_identity \<Rightarrow> response + request_context" where
  "bridge_identity X c pident =
     (case (if pi_UserID pident = ''iam-system'' then Some uuid_Nil else x_parse_uuid X (pi_UserID pident)) of
        None \<Rightarrow> Inl (error_reply c 401 ''missing_identity_headers'' ''x-user-id header is not a valid UUID'')
      | Some userID \<Rightarrow>
          (case x_parse_uuid X (pi_TenantID pident) of
             None \<Rightarrow>
               Inl (error_reply c 401 ''missing_identity_headers'' ''x-tenant-id header is not a valid UUID'')
           | Some tenantID \<Rightarrow>
               Inr \<lparr>rc_UserID = userID, rc_TenantID = tenantID, rc_Roles = pi_Roles pident,
                    rc_ClientIP = pi_ClientIP pident,
                    rc_UserAgent = lookup_or_empty ''User-Agent'' (q_headers c)\<rparr>))"

definition IdentityBridgeMiddleware :: "ext \<Rightarrow> handler \<Rightarrow> handler" where
  "IdentityBridgeMiddleware X next c w =
     (case q_identity c of
        None \<Rightarrow> next c w
      | Some pident \<Rightarrow>
          (case bridge_identity X c pident of
             Inl r \<Rightarrow> (r, w)
           | Inr rc \<Rightarrow> next (c\<lparr>q_context := Some rc\<rparr>) w))"

section \<open>Gates\<close>

definition RequireJSONContentType :: "handler \<Rightarrow> handler" where
  "RequireJSONContentType next c w =
     (if q_method c \<notin> {''POST'', ''PUT'', ''PATCH''} then next c w
      else if q_content_length c = 0 then next c w
      else if q_content_type c \<noteq> ''application/json''
      then (error_reply c 415 ''unsupported_media_type'' ''Content-Type must be application/json'', w)
      else next c w)"

definition RequireSystemRole :: "handler \<Rightarrow> handler" where
  "RequireSystemRole next c w =
     (case q_context c of
        None \<Rightarrow> (error_reply c 403 ''insufficient_role'' ''internal route requires iam-system role'', w)
      | Some rc \<Rightarrow>
          (if \<not> HasRole rc ''iam-system''
           then (error_reply c 403 ''insufficient_role'' ''internal route requires iam-system role'', w)
           else next c w))"

definition RequireOperatorRole :: "handler \<Rightarrow> handler" where
  "RequireOperatorRole next c w =
     (case q_context c of
        None \<Rightarrow> (error_reply c 403 ''insufficient_role'' ''operator route requires platform_operator role'', w)
      | Some rc \<Rightarrow>
          (if \<not> IsOperator rc
           then (error_reply c 403 ''insufficient_role'' ''operator route requires platform_operator role'', w)
           else next c w))"

section \<open>Normalizing 401 responses\<close>

text \<open>
  The buffered writer keeps what the rest of the chain writes: the status, and the chunks in the order
  of the calls. Until something is written its status is the one gin has set on the underlying writer.
\<close>

record buffered_writer =
  bw_status :: nat
  bw_buf :: "resp_body list"

definition new_bufferedWriter :: buffered_writer where
  "new_bufferedWriter = \<lparr>bw_status = 0, bw_buf = []\<rparr>"

definition bufferedWriter_WriteHeader :: "nat \<Rightarrow> buffered_writer \<Rightarrow> buffered_writer" where
  "bufferedWriter_WriteHeader code b = b\<lparr>bw_status := code\<rparr>"

definition bufferedWriter_Write :: "resp_body \<Rightarrow> buffered_writer \<Rightarrow> buffered_writer" where
  "bufferedWriter_Write chunk b =
     (let b1 = (if bw_status b = 0 then b\<lparr>bw_status := 200\<rparr> else b) in b1\<lparr>bw_buf := bw_buf b1 @ [chunk]\<rparr>)"

definition bufferedWriter_WriteString :: "string \<Rightarrow> buffered_writer \<Rightarrow> buffered_writer" where
  "bufferedWriter_WriteString s b = bufferedWriter_Write (RText s) b"

definition bufferedWriter_Status :: "nat \<Rightarrow> buffered_writer \<Rightarrow> nat" where
  "bufferedWriter_Status underlying b = (if bw_status b = 0 then underlying else bw_status b)"

definition no_bytes :: "resp_body \<Rightarrow> bool" where
  "no_bytes chunk \<longleftrightarrow> chunk = RNone \<or> chunk = RText ''''"

definition bufferedWriter_Written :: "buffered_writer \<Rightarrow> bool" where
  "bufferedWriter_Written b \<longleftrightarrow> \<not> list_all no_bytes (bw_buf b) \<or> bw_status b \<noteq> 0"

text \<open>
  How a response of the chain gets there: gin renders it with one header and, unless it has no body,
  one write. A chain that answers nothing writes nothing.
\<close>

definition buffered :: "response \<Rightarrow> buffered_writer" where
  "buffered r =
     (let b0 = (if rs_status r = 0 then new_bufferedWriter else bufferedWriter_WriteHeader (rs_status r) new_bufferedWriter)
      in if rs_body r = RNone then b0 else bufferedWriter_Write (rs_body r) b0)"

definition buffered_body :: "buffered_writer \<Rightarrow> resp_body" where
  "buffered_body b = (case bw_buf b of [] \<Rightarrow> RNone | chunk # _ \<Rightarrow> chunk)"

lemma buffered_body_buffered [simp]: "buffered_body (buffered r) = rs_body r"
  by (simp add: buffered_def buffered_body_def bufferedWriter_Write_def bufferedWriter_WriteHeader_def
      new_bufferedWriter_def Let_def)

lemma bw_status_buffered:
  "bw_status (buffered r) = (if rs_status r = 0 \<and> rs_body r \<noteq> RNone then 200 else rs_status r)"
  by (simp add: buffered_def bufferedWriter_Write_def bufferedWriter_WriteHeader_def new_bufferedWriter_def Let_def)

lemma bw_status_buffered_written [simp]: "rs_status r \<noteq> 0 \<Longrightarrow> bw_status (buffered r) = rs_status r"
  by (simp add: bw_status_buffered)

text \<open>A response is written at most once, so one chunk is all there is to flush.\<close>

lemma buffered_one_chunk: "length (bw_buf (buffered r)) \<le> 1"
  by (simp add: buffered_def bufferedWriter_Write_def bufferedWriter_WriteHeader_def new_bufferedWriter_def Let_def)

lemma buffered_Written: "bufferedWriter_Written (buffered r) \<longleftrightarrow> rs_status r \<noteq> 0 \<or> rs_body r \<noteq> RNone"
  by (auto simp: bufferedWriter_Written_def bw_status_buffered)
     (simp add: buffered_def new_bufferedWriter_def bufferedWriter_WriteHeader_def split: if_splits)

text \<open>
  What reaches the client: the 401 bodies without a code get one. Assigning into the nil map that a
  body of \<open>null\<close> leaves behind panics (None).
\<close>

definition flush_buffer :: "nat \<Rightarrow> response \<Rightarrow> response" where
  "flush_buffer underlying r =
     \<lparr>rs_status = bufferedWriter_Status underlying (buffered r), rs_body = buffered_body (buffered r)\<rparr>"

definition NormalizeAuthErrors :: "ext \<Rightarrow> nat \<Rightarrow> response \<Rightarrow> response option" where
  "NormalizeAuthErrors X underlying r =
     (if bw_status (buffered r) = 401 then
        (case buffered_body (buffered r) of
           RJson JNull \<Rightarrow> None
         | RJson (JObj kvs) \<Rightarrow>
             (case any_of_json (x_parse_float X) (JObj kvs) of
                Some (AMap raw) \<Rightarrow>
                  (if map_of raw ''code'' = None
                   then Some (json_response 401 (any_to_json (x_format_float X)
                          (AMap (map_put ''error'' (AStr ''missing_identity_headers'')
                                  (map_put ''code'' (AStr ''missing_identity_headers'') raw)))))
                   else Some (flush_buffer underlying r))
              | _ \<Rightarrow> Some (flush_buffer underlying r))
         | _ \<Rightarrow> Some (flush_buffer underlying r))
      else Some (flush_buffer underlying r))"

section \<open>Facts\<close>

lemma gate_pass:
  "q_context c = Some rc \<Longrightarrow> IsOperator rc \<Longrightarrow> RequireOperatorRole next c w = next c w"
  "q_context c = Some rc \<Longrightarrow> IsSystem rc \<Longrightarrow> RequireSystemRole next c w = next c w"
  by (simp_all add: RequireOperatorRole_def RequireSystemRole_def IsSystem_def)

lemma gate_stop:
  "\<not> (\<exists>rc. q_context c = Some rc \<and> IsOperator rc) \<Longrightarrow>
     \<exists>r. RequireOperatorRole next c w = (r, w) \<and> rs_status r = 403"
  "\<not> (\<exists>rc. q_context c = Some rc \<and> IsSystem rc) \<Longrightarrow>
     \<exists>r. RequireSystemRole next c w = (r, w) \<and> rs_status r = 403"
  by (auto simp: RequireOperatorRole_def RequireSystemRole_def IsSystem_def split: option.split)

text \<open>What passes through: everything but a 401 body without a code.\<close>

lemma NormalizeAuthErrors_other:
  "rs_status r \<noteq> 401 \<Longrightarrow> NormalizeAuthErrors X u r = Some (flush_buffer u r)"
  by (simp add: NormalizeAuthErrors_def bw_status_buffered)

lemma NormalizeAuthErrors_status:
  "NormalizeAuthErrors X u r = Some r' \<Longrightarrow> rs_status r' = bufferedWriter_Status u (buffered r)"
  by (auto simp: NormalizeAuthErrors_def flush_buffer_def bufferedWriter_Status_def
      split: if_splits resp_body.splits json.splits option.splits go_any.splits)

lemma NormalizeAuthErrors_panic:
  "NormalizeAuthErrors X u r = None \<longleftrightarrow> rs_status r = 401 \<and> rs_body r = RJson JNull"
  by (auto simp: NormalizeAuthErrors_def bw_status_buffered
      split: if_splits resp_body.splits json.splits option.splits go_any.splits)

end
