(* ===== verification/Department_Handler.thy ===== *)
theory Department_Handler
  imports Http_Core
begin

text \<open>
  internal/adapter/inbound/http/department_handler.go and the department DTOs of dto.go: CAT-6 and
  CAT-7 (reads), CAT-1 (create), CAT-2 (patch) and CAT-3 (the blocked delete).
\<close>

section \<open>DTOs\<close>

record department_response =
  dr_ID :: string
  dr_Code :: string
  dr_Name :: string
  dr_IsSystem :: bool
  dr_IsActive :: bool
  dr_RecordVersion :: int

definition departmentToResponse :: "ext \<Rightarrow> department \<Rightarrow> department_response" where
  "departmentToResponse X d =
     \<lparr>dr_ID = x_uuid_string X (d_ID d), dr_Code = d_Code d, dr_Name = d_Name d,
      dr_IsSystem = d_IsSystem d, dr_IsActive = d_IsActive d, dr_RecordVersion = d_RecordVersion d\<rparr>"

definition department_response_json :: "department_response \<Rightarrow> json" where
  "department_response_json r =
     JObj [(''id'', JStr (dr_ID r)), (''code'', JStr (dr_Code r)), (''name'', JStr (dr_Name r)),
           (''is_system'', JBool (dr_IsSystem r)), (''is_active'', JBool (dr_IsActive r)),
           (''record_version'', JNum (JInt (dr_RecordVersion r)))]"

record department_create_request =
  cr_Code :: string
  cr_Name :: string
  cr_IsSystem :: bool

definition create_member ::
  "string \<Rightarrow> json \<Rightarrow> department_create_request \<Rightarrow> department_create_request option" where
  "create_member k j r =
     (case match_field [''code'', ''name'', ''is_system''] k of
        None \<Rightarrow> Some r
      | Some f \<Rightarrow>
          if f = ''code'' then map_option (\<lambda>v. r\<lparr>cr_Code := v\<rparr>) (dec_string j (cr_Code r))
          else if f = ''name'' then map_option (\<lambda>v. r\<lparr>cr_Name := v\<rparr>) (dec_string j (cr_Name r))
          else map_option (\<lambda>v. r\<lparr>cr_IsSystem := v\<rparr>) (dec_bool j (cr_IsSystem r)))"

record department_patch_request =
  dpr_Name :: "string option"
  dpr_IsActive :: "bool option"
  dpr_RecordVersion :: int

definition dept_patch_member ::
  "string \<Rightarrow> json \<Rightarrow> department_patch_request \<Rightarrow> department_patch_request option" where
  "dept_patch_member k j r =
     (case match_field [''name'', ''is_active'', ''record_version''] k of
        None \<Rightarrow> Some r
      | Some f \<Rightarrow>
          if f = ''name'' then map_option (\<lambda>v. r\<lparr>dpr_Name := v\<rparr>) (dec_ptr (\<lambda>j. dec_string j '''') j)
          else if f = ''is_active''
          then map_option (\<lambda>v. r\<lparr>dpr_IsActive := v\<rparr>) (dec_ptr (\<lambda>j. dec_bool j False) j)
          else map_option (\<lambda>v. r\<lparr>dpr_RecordVersion := v\<rparr>) (dec_int64 j (dpr_RecordVersion r)))"

text \<open>
  gin's ShouldBindJSON: decode the first document of the body into the zero struct, then check the
  binding tags (\<open>required\<close> wants a value other than the zero of its type). The decoder passes on the
  error of the reader if it needs more bytes than the reader returns; its own errors and those of the
  validation differ in their text only.
\<close>

definition binding_error :: "body_bytes \<Rightarrow> go_error" where
  "binding_error b = (if b = CutBody then EMaxBytes else EDriver (OtherErr ''binding''))"

definition ShouldBindJSON ::
  "(string \<Rightarrow> json \<Rightarrow> 's \<Rightarrow> 's option) \<Rightarrow> 's \<Rightarrow> ('s \<Rightarrow> bool) \<Rightarrow> body_bytes \<Rightarrow> 's res" where
  "ShouldBindJSON member zero valid b =
     (case decode_first b of
        None \<Rightarrow> Inl (binding_error b)
      | Some j \<Rightarrow>
          (case decode_struct member zero j of
             None \<Rightarrow> Inl (binding_error b)
           | Some s \<Rightarrow> (if valid s then Inr s else Inl (binding_error b))))"

definition bind_create :: "body_bytes \<Rightarrow> department_create_request res" where
  "bind_create b = ShouldBindJSON create_member \<lparr>cr_Code = '''', cr_Name = '''', cr_IsSystem = False\<rparr>
     (\<lambda>r. cr_Code r \<noteq> '''' \<and> cr_Name r \<noteq> '''') b"

definition bind_dept_patch :: "body_bytes \<Rightarrow> department_patch_request res" where
  "bind_dept_patch b = ShouldBindJSON dept_patch_member
     \<lparr>dpr_Name = None, dpr_IsActive = None, dpr_RecordVersion = 0\<rparr> (\<lambda>r. True) b"

section \<open>Handlers\<close>

definition invalid_body :: go_error where
  "invalid_body = EDomain (NewError ErrValidation ''invalid request body'')"

definition DepartmentHandler_List :: "ext \<Rightarrow> world department_service \<Rightarrow> handler" where
  "DepartmentHandler_List X svc c w =
     (let activeOnly = (lookup_or_empty ''active_only'' (q_query c) = ''true'')
      in case DepartmentService_List X svc activeOnly w of
           (Inl e, w1) \<Rightarrow> HandleError X c e w1
         | (Inr depts, w1) \<Rightarrow>
             (json_response 200
                (JObj [(''items'', JArr (map (\<lambda>d. department_response_json (departmentToResponse X d)) depts))]), w1))"

definition DepartmentHandler_Get :: "ext \<Rightarrow> world department_service \<Rightarrow> handler" where
  "DepartmentHandler_Get X svc c w =
     (case parseUUIDParam X c ''id'' of
        Inl e \<Rightarrow> HandleError X c e w
      | Inr u \<Rightarrow>
          (case DepartmentService_Get svc u w of
             (Inl e, w1) \<Rightarrow> HandleError X c e w1
           | (Inr d, w1) \<Rightarrow>
               (json_response 200 (department_response_json (departmentToResponse X d)), w1)))"

definition DepartmentHandler_Create :: "ext \<Rightarrow> world department_service \<Rightarrow> handler" where
  "DepartmentHandler_Create X svc c w =
     (case requireOperator c of
        Some e \<Rightarrow> HandleError X c e w
      | None \<Rightarrow>
          (case bind_create (q_body c) of
             Inl err \<Rightarrow> HandleError X c invalid_body w
           | Inr req \<Rightarrow>
               (case DepartmentService_Create svc (cr_Code req) (cr_Name req) (cr_IsSystem req) w of
                  (Inl e, w1) \<Rightarrow> HandleError X c e w1
                | (Inr d, w1) \<Rightarrow>
                    (json_response 201 (department_response_json (departmentToResponse X d)),
                     inc_metric (WritesTotal ''departments'' ''insert'') w1))))"

definition field_immutable :: "string \<Rightarrow> go_error" where
  "field_immutable field =
     EDomain (WithDetails (NewError ErrFieldImmutable (field @ '' is immutable''))
       [(''code'', AStr ''field_immutable''), (''field'', AStr field)])"

text \<open>
  The pre-check of CAT-2 reads the body, drops the error of the reader if there is one, and decodes
  what it has read into a map of raw members; null and an empty body give
  the nil map, in which nothing is present.
\<close>

definition raw_members :: "body_bytes \<Rightarrow> (string \<times> json) list option" where
  "raw_members b =
     (if body_nonempty b then
        (case unmarshal_all b of
           Some (JObj kvs) \<Rightarrow> Some kvs
         | Some JNull \<Rightarrow> Some []
         | _ \<Rightarrow> None)
      else Some [])"

definition DepartmentHandler_Patch :: "ext \<Rightarrow> world department_service \<Rightarrow> handler" where
  "DepartmentHandler_Patch X svc c w =
     (case requireOperator c of
        Some e \<Rightarrow> HandleError X c e w
      | None \<Rightarrow>
          (case parseUUIDParam X c ''id'' of
             Inl e \<Rightarrow> HandleError X c e w
           | Inr u \<Rightarrow>
               (case raw_members (q_body c) of
                  None \<Rightarrow> HandleError X c invalid_body w
                | Some raw \<Rightarrow>
                    if map_of raw ''code'' \<noteq> None then HandleError X c (field_immutable ''code'') w
                    else if map_of raw ''is_system'' \<noteq> None
                    then HandleError X c (field_immutable ''is_system'') w
                    else case bind_dept_patch (q_body c) of
                           Inl err \<Rightarrow> HandleError X c invalid_body w
                         | Inr req \<Rightarrow>
                             (case DepartmentService_Patch X svc u (dpr_Name req) (dpr_IsActive req)
                                     (dpr_RecordVersion req) w of
                                (Inl e, w1) \<Rightarrow>
                                  HandleError X c e
                                    (if errors_Is e ErrOptimisticLockConflict
                                     then inc_metric (OptimisticLockConflicts ''departments'') w1 else w1)
                              | (Inr d, w1) \<Rightarrow>
                                  (json_response 200 (department_response_json (departmentToResponse X d)),
                                   inc_metric (WritesTotal ''departments'' ''update'') w1)))))"

definition DepartmentHandler_DeleteBlocked :: "ext \<Rightarrow> handler" where
  "DepartmentHandler_DeleteBlocked X c w =
     (case requireOperator c of
        Some e \<Rightarrow> HandleError X c e w
      | None \<Rightarrow>
          (case DepartmentService_DeleteBlocked of
             Inl e \<Rightarrow> HandleError X c e w
           | Inr () \<Rightarrow> (\<lparr>rs_status = 200, rs_body = RNone\<rparr>, w)))"

end
