(* ===== verification/Plan_Handler.thy ===== *)
theory Plan_Handler
  imports Department_Handler
begin

text \<open>
  internal/adapter/inbound/http/plan_handler.go and internal_handler.go with their DTOs: CAT-4 and
  CAT-5 for operators, and the two bulk reads CAT-I1 and CAT-I2.
\<close>

section \<open>DTOs\<close>

record plan_response =
  plr_Code :: string
  plr_DisplayName :: string
  plr_WorkflowTemplateLimit :: "int option"
  plr_TenderLimit :: "int option"
  plr_TrialDurationDays :: int
  plr_SSOEnabled :: bool
  plr_CustomBranding :: string
  plr_FeatureSet :: "go_map option"
  plr_RecordVersion :: int

definition planToResponse :: "plan \<Rightarrow> plan_response" where
  "planToResponse p =
     \<lparr>plr_Code = p_Code p, plr_DisplayName = p_DisplayName p,
      plr_WorkflowTemplateLimit = p_WorkflowTemplateLimit p, plr_TenderLimit = p_TenderLimit p,
      plr_TrialDurationDays = p_TrialDurationDays p, plr_SSOEnabled = p_SSOEnabled p,
      plr_CustomBranding = p_CustomBranding p, plr_FeatureSet = p_FeatureSet p,
      plr_RecordVersion = p_RecordVersion p\<rparr>"

definition plan_response_json :: "ext \<Rightarrow> plan_response \<Rightarrow> json" where
  "plan_response_json X r =
     JObj [(''code'', JStr (plr_Code r)), (''display_name'', JStr (plr_DisplayName r)),
           (''workflow_template_limit'', int_ptr_json (plr_WorkflowTemplateLimit r)),
           (''tender_limit'', int_ptr_json (plr_TenderLimit r)),
           (''trial_duration_days'', JNum (JInt (plr_TrialDurationDays r))),
           (''sso_enabled'', JBool (plr_SSOEnabled r)),
           (''custom_branding'', JStr (plr_CustomBranding r)),
           (''feature_set'', map_json (x_format_float X) (plr_FeatureSet r)),
           (''record_version'', JNum (JInt (plr_RecordVersion r)))]"

text \<open>
  The local struct of Patch. A \<open>json.RawMessage\<close> keeps the value as it was sent, null included;
  None is a member that was not sent.
\<close>

record plan_patch_body =
  pb_DisplayName :: "string option"
  pb_WorkflowTemplateLimit :: "json option"
  pb_TenderLimit :: "json option"
  pb_TrialDurationDays :: "int option"
  pb_SSOEnabled :: "bool option"
  pb_CustomBranding :: "string option"
  pb_FeatureSet :: "go_map option"
  pb_RecordVersion :: int

definition zero_patch_body :: plan_patch_body where
  "zero_patch_body =
     \<lparr>pb_DisplayName = None, pb_WorkflowTemplateLimit = None, pb_TenderLimit = None,
      pb_TrialDurationDays = None, pb_SSOEnabled = None, pb_CustomBranding = None,
      pb_FeatureSet = None, pb_RecordVersion = 0\<rparr>"

definition patch_field_names :: "string list" where
  "patch_field_names = [''display_name'', ''workflow_template_limit'', ''tender_limit'',
     ''trial_duration_days'', ''sso_enabled'', ''custom_branding'', ''feature_set'', ''record_version'']"

definition plan_patch_member :: "ext \<Rightarrow> string \<Rightarrow> json \<Rightarrow> plan_patch_body \<Rightarrow> plan_patch_body option" where
  "plan_patch_member X k j r =
     (case match_field patch_field_names k of
        None \<Rightarrow> Some r
      | Some f \<Rightarrow>
          if f = ''display_name''
          then map_option (\<lambda>v. r\<lparr>pb_DisplayName := v\<rparr>) (dec_ptr (\<lambda>j. dec_string j '''') j)
          else if f = ''workflow_template_limit'' then Some (r\<lparr>pb_WorkflowTemplateLimit := Some j\<rparr>)
          else if f = ''tender_limit'' then Some (r\<lparr>pb_TenderLimit := Some j\<rparr>)
          else if f = ''trial_duration_days''
          then map_option (\<lambda>v. r\<lparr>pb_TrialDurationDays := v\<rparr>) (dec_ptr (\<lambda>j. dec_int64 j 0) j)
          else if f = ''sso_enabled''
          then map_option (\<lambda>v. r\<lparr>pb_SSOEnabled := v\<rparr>) (dec_ptr (\<lambda>j. dec_bool j False) j)
          else if f = ''custom_branding''
          then map_option (\<lambda>v. r\<lparr>pb_CustomBranding := v\<rparr>) (dec_ptr (\<lambda>j. dec_string j '''') j)
          else if f = ''feature_set''
          then map_option (\<lambda>v. r\<lparr>pb_FeatureSet := v\<rparr>) (dec_map (x_parse_float X) j (pb_FeatureSet r))
          else map_option (\<lambda>v. r\<lparr>pb_RecordVersion := v\<rparr>) (dec_int64 j (pb_RecordVersion r)))"

definition bind_plan_patch :: "ext \<Rightarrow> body_bytes \<Rightarrow> plan_patch_body res" where
  "bind_plan_patch X b = ShouldBindJSON (plan_patch_member X) zero_patch_body (\<lambda>r. True) b"

text \<open>Absent, null or a number: the double pointer of PlanPatch.\<close>

definition parseLimit :: "json option \<Rightarrow> string \<Rightarrow> int option option res" where
  "parseLimit raw field =
     (case raw of
        None \<Rightarrow> Inr None
      | Some JNull \<Rightarrow> Inr (Some None)
      | Some j \<Rightarrow>
          (case dec_int64 j 0 of
             None \<Rightarrow> Inl (EDomain (NewError ErrValidation (field @ '' must be an integer or null'')))
           | Some v \<Rightarrow> Inr (Some (Some v))))"

section \<open>Operator handlers\<close>

definition PlanHandler_List :: "ext \<Rightarrow> world plan_service \<Rightarrow> handler" where
  "PlanHandler_List X svc c w =
     (case requireOperator c of
        Some e \<Rightarrow> HandleError X c e w
      | None \<Rightarrow>
          (case PlanService_List X svc w of
             (Inl e, w1) \<Rightarrow> HandleError X c e w1
           | (Inr ps, w1) \<Rightarrow>
               (json_response 200
                  (JObj [(''items'', JArr (map (\<lambda>p. plan_response_json X (planToResponse p)) ps))]), w1)))"

definition PlanHandler_Get :: "ext \<Rightarrow> world plan_service \<Rightarrow> handler" where
  "PlanHandler_Get X svc c w =
     (case requireOperator c of
        Some e \<Rightarrow> HandleError X c e w
      | None \<Rightarrow>
          (case PlanService_GetByCode svc (lookup_or_empty ''code'' (q_params c)) w of
             (Inl e, w1) \<Rightarrow> HandleError X c e w1
           | (Inr p, w1) \<Rightarrow> (json_response 200 (plan_response_json X (planToResponse p)), w1)))"

definition patch_of_body :: "plan_patch_body \<Rightarrow> plan_patch" where
  "patch_of_body body =
     \<lparr>pp_DisplayName = pb_DisplayName body, pp_WorkflowTemplateLimit = None, pp_TenderLimit = None,
      pp_TrialDurationDays = pb_TrialDurationDays body, pp_SSOEnabled = pb_SSOEnabled body,
      pp_CustomBranding = None, pp_FeatureSet = pb_FeatureSet body,
      pp_RecordVersion = pb_RecordVersion body\<rparr>"

definition parse_patch :: "plan_patch_body \<Rightarrow> plan_patch res" where
  "parse_patch body =
     (case parseLimit (pb_WorkflowTemplateLimit body) ''workflow_template_limit'' of
        Inl e \<Rightarrow> Inl e
      | Inr wfl \<Rightarrow>
          (case parseLimit (pb_TenderLimit body) ''tender_limit'' of
             Inl e \<Rightarrow> Inl e
           | Inr tndl \<Rightarrow>
               Inr ((patch_of_body body)\<lparr>pp_WorkflowTemplateLimit := wfl, pp_TenderLimit := tndl,
                      pp_CustomBranding := pb_CustomBranding body\<rparr>)))"

definition PlanHandler_Patch :: "ext \<Rightarrow> world plan_service \<Rightarrow> handler" where
  "PlanHandler_Patch X svc c w =
     (case requireOperator c of
        Some e \<Rightarrow> HandleError X c e w
      | None \<Rightarrow>
          (case bind_plan_patch X (q_body c) of
             Inl err \<Rightarrow> HandleError X c invalid_body w
           | Inr body \<Rightarrow>
               (case parse_patch body of
                  Inl e \<Rightarrow> HandleError X c e w
                | Inr patch \<Rightarrow>
                    (case PlanService_Patch svc (lookup_or_empty ''code'' (q_params c)) patch w of
                       (Inl e, w1) \<Rightarrow>
                         HandleError X c e
                           (if errors_Is e ErrOptimisticLockConflict
                            then inc_metric (OptimisticLockConflicts ''plans'') w1 else w1)
                     | (Inr p, w1) \<Rightarrow>
                         (json_response 200 (plan_response_json X (planToResponse p)),
                          inc_metric (WritesTotal ''plans'' ''update'') w1)))))"

section \<open>Internal handlers\<close>

definition InternalHandler_Departments :: "ext \<Rightarrow> world department_service \<Rightarrow> handler" where
  "InternalHandler_Departments X svc c w =
     (case requireSystem c of
        Some e \<Rightarrow> HandleError X c e w
      | None \<Rightarrow>
          (case DepartmentService_List X svc False w of
             (Inl e, w1) \<Rightarrow> HandleError X c e w1
           | (Inr depts, w1) \<Rightarrow>
               (json_response 200
                  (JObj [(''departments'',
                          JArr (map (\<lambda>d. department_response_json (departmentToResponse X d)) depts)),
                         (''as_of'', JStr (x_format_rfc3339 X (w_now w1 div 1000000000)))]), w1)))"

definition plan_versions :: "plan list \<Rightarrow> (string \<times> int) list" where
  "plan_versions ps = foldl (\<lambda>m p. map_put (p_Code p) (p_RecordVersion p) m) [] ps"

definition InternalHandler_Plans :: "ext \<Rightarrow> world plan_service \<Rightarrow> handler" where
  "InternalHandler_Plans X svc c w =
     (case requireSystem c of
        Some e \<Rightarrow> HandleError X c e w
      | None \<Rightarrow>
          (case PlanService_List X svc w of
             (Inl e, w1) \<Rightarrow> HandleError X c e w1
           | (Inr ps, w1) \<Rightarrow>
               (json_response 200
                  (JObj [(''plans'', JArr (map (\<lambda>p. plan_response_json X (planToResponse p)) ps)),
                         (''record_versions'',
                          JObj (map (\<lambda>(k, v). (k, JNum (JInt v))) (plan_versions ps)))]), w1)))"

end
