(* ===== verification/Router.thy ===== *)
theory Router
  imports Middleware Plan_Handler
begin

text \<open>
  internal/adapter/inbound/http/router.go: the route table, the chain of middleware each group of
  routes runs through, the body cap, the probes, the docs surface and the request counter. gin's
  matcher, gincommon's auth and health handlers, its panic recovery and the Swagger UI are arguments.
  Response headers are modelled where the code sets them, on the docs surface. The timeout and the
  observability middleware, which only pass requests through, are left out.
\<close>

section \<open>Surroundings and configuration\<close>

datatype gin_match = Matched string "(string \<times> string) list" | WrongMethod | NoRoute

record gin_env =
  g_match :: "(string \<times> string) list \<Rightarrow> string \<Rightarrow> string \<Rightarrow> gin_match"
  g_auth :: "request \<Rightarrow> response + platform_identity option"
  g_recovered :: response
  g_health :: response
  g_pool_healthy :: "world \<Rightarrow> bool"
  g_elapsed :: "request \<Rightarrow> world \<Rightarrow> nat"
  g_themeCSS :: string
  g_initializerJS :: string
  g_std_swagger :: "request \<Rightarrow> response \<times> (string \<times> string) list"

record docs_config =
  dc_Environment :: string
  dc_Enabled :: bool
  dc_AuthToken :: string

definition DocsConfig_active :: "docs_config \<Rightarrow> bool" where
  "DocsConfig_active d \<longleftrightarrow> dc_Environment d \<noteq> ''production'' \<or> dc_Enabled d"

record router_config =
  rt_Docs :: docs_config
  rt_Departments :: "world department_service"
  rt_Plans :: "world plan_service"
  rt_Cache :: "world cache_port"

section \<open>Routes\<close>

datatype endpoint =
    EDeptList | EDeptGet | EDeptCreate | EDeptPatch | EDeptDelete
  | EPlanList | EPlanGet | EPlanPatch | EInternalDepartments | EInternalPlans
  | EHealthz | EReadyz | ESwagger

definition docs_routes :: "docs_config \<Rightarrow> (string \<times> string \<times> endpoint) list" where
  "docs_routes d = (if DocsConfig_active d then [(''GET'', ''/swagger/*any'', ESwagger)] else [])"

definition infra_routes :: "(string \<times> string \<times> endpoint) list" where
  "infra_routes = [(''GET'', ''/healthz'', EHealthz), (''GET'', ''/readyz'', EReadyz)]"

definition api_routes :: "(string \<times> string \<times> endpoint) list" where
  "api_routes =
     [(''GET'', ''/api/v1/departments'', EDeptList),
      (''GET'', ''/api/v1/departments/:id'', EDeptGet),
      (''POST'', ''/api/v1/operator/departments'', EDeptCreate),
      (''PATCH'', ''/api/v1/operator/departments/:id'', EDeptPatch),
      (''DELETE'', ''/api/v1/operator/departments/:id'', EDeptDelete),
      (''GET'', ''/api/v1/operator/plans'', EPlanList),
      (''GET'', ''/api/v1/operator/plans/:code'', EPlanGet),
      (''PATCH'', ''/api/v1/operator/plans/:code'', EPlanPatch),
      (''GET'', ''/api/v1/internal/departments'', EInternalDepartments),
      (''GET'', ''/api/v1/internal/plans'', EInternalPlans)]"

definition routes :: "docs_config \<Rightarrow> (string \<times> string \<times> endpoint) list" where
  "routes d = docs_routes d @ infra_routes @ api_routes"

definition route_endpoint :: "docs_config \<Rightarrow> string \<Rightarrow> string \<Rightarrow> endpoint option" where
  "route_endpoint d method template =
     map_option (\<lambda>(_, _, e). e) (find (\<lambda>(m, t, _). m = method \<and> t = template) (routes d))"

section \<open>Middleware of the router\<close>

definition too_large_reply :: response where
  "too_large_reply =
     json_response 413
       (JObj [(''error'', JStr ''request_entity_too_large''), (''code'', JStr ''request_entity_too_large''),
              (''message'', JStr ''request body must not exceed 1 MB''), (''status'', JNum (JInt 413))])"

definition body_cap :: "handler \<Rightarrow> handler" where
  "body_cap next c w = (if q_content_length c > 2 ^ 20 then (too_large_reply, w) else next c w)"

definition NoMethod :: handler where
  "NoMethod c w =
     (json_response 405
        (JObj [(''error'', JStr ''method_not_allowed''), (''code'', JStr ''method_not_allowed''),
               (''message'', JStr (q_method c @ '' is not allowed on this endpoint'')),
               (''status'', JNum (JInt 405))]), w)"

text \<open>
  The counter of requests and the histogram of their durations: how long the rest of the chain took is
  an argument, as the clock of the model stands still during a request. A handler of the model always
  answers; one that panicked would skip the lines after c.Next and not be counted.
\<close>

definition count_request :: "string \<Rightarrow> string \<Rightarrow> nat \<Rightarrow> world \<Rightarrow> world" where
  "count_request route status ns w =
     w\<lparr>w_metrics := Observe route ns (Inc (RequestsTotal route status) (w_metrics w))\<rparr>"

lemma count_request_simps [simp]:
  "w_db (count_request r s d w) = w_db w" "w_store (count_request r s d w) = w_store w"
  "w_now (count_request r s d w) = w_now w" "w_uuids (count_request r s d w) = w_uuids w"
  "w_cache (count_request r s d w) = w_cache w" "w_tx (count_request r s d w) = w_tx w"
  "w_log (count_request r s d w) = w_log w"
  "w_metrics (count_request r s d w) = Observe r d (Inc (RequestsTotal r s) (w_metrics w))"
  by (simp_all add: count_request_def)

definition requestMetricsMiddleware :: "gin_env \<Rightarrow> handler \<Rightarrow> handler" where
  "requestMetricsMiddleware G next c w =
     (case next c w of
        (r, w1) \<Rightarrow>
          (let route = (if q_route c = '''' then q_path c else q_route c);
               status = show_nat (bufferedWriter_Status 200 (buffered r))
           in (r, count_request route status (g_elapsed G c w) w1)))"

definition ProtectedMiddlewares :: "gin_env \<Rightarrow> handler \<Rightarrow> handler" where
  "ProtectedMiddlewares G next c w =
     (case g_auth G c of Inl r \<Rightarrow> (r, w) | Inr pident \<Rightarrow> next (c\<lparr>q_identity := pident\<rparr>) w)"

definition readyz :: "gin_env \<Rightarrow> router_config \<Rightarrow> handler" where
  "readyz G cfg c w =
     (if \<not> g_pool_healthy G w
      then (json_response 503 (JObj [(''database'', JStr ''down''), (''status'', JStr ''not ready'')]), w)
      else case cache_Health (rt_Cache cfg) w of
             (Inl e, w1) \<Rightarrow>
               (json_response 503 (JObj [(''cache'', JStr ''down''), (''status'', JStr ''not ready'')]), w1)
           | (Inr _, w1) \<Rightarrow> (json_response 200 (JObj [(''status'', JStr ''ready'')]), w1))"

section \<open>Docs\<close>

text \<open>crypto/subtle.ConstantTimeCompare: 1 iff both have the same length and no byte differs.\<close>

unbundle bit_operations_syntax

definition ConstantTimeCompare :: "string \<Rightarrow> string \<Rightarrow> nat" where
  "ConstantTimeCompare x y =
     (if length x \<noteq> length y then 0
      else if foldl (\<lambda>v (a, b). v OR (of_char a XOR of_char b)) (0 :: 8 word) (zip x y) = 0 then 1 else 0)"

definition docs_auth :: "docs_config \<Rightarrow> request \<Rightarrow> bool" where
  "docs_auth d c =
     (if dc_Environment d = ''production'' \<and> dc_AuthToken d \<noteq> '''' then
        (let wantAuth = ''Bearer '' @ dc_AuthToken d;
             got = lookup_or_empty ''Authorization'' (q_headers c)
         in length got = length wantAuth \<and> ConstantTimeCompare got wantAuth = 1)
      else True)"

text \<open>
  The answers of the docs surface with the headers that the code sets on them. The two handlers of the
  overridden assets serve fixed texts, which are arguments.
\<close>

record docs_reply =
  dr_response :: response
  dr_headers :: "(string \<times> string) list"

definition sec_headers :: "(string \<times> string) list" where
  "sec_headers =
     [(''X-Frame-Options'', ''DENY''), (''X-Content-Type-Options'', ''nosniff''),
      (''Content-Security-Policy'',
         ''default-src 'self'; script-src 'self' 'unsafe-inline' 'unsafe-eval'; ''
       @ ''style-src 'self' 'unsafe-inline'; img-src 'self' data:; font-src 'self' data:; connect-src 'self'' @ [CHR 0x27])]"

definition secHeaders :: "(request \<Rightarrow> docs_reply) \<Rightarrow> request \<Rightarrow> docs_reply" where
  "secHeaders next c = (let r = next c in r\<lparr>dr_headers := sec_headers @ dr_headers r\<rparr>)"

definition asset_reply :: "string \<Rightarrow> string \<Rightarrow> docs_reply" where
  "asset_reply content_type body =
     \<lparr>dr_response = \<lparr>rs_status = 200, rs_body = RText body\<rparr>,
      dr_headers = [(''Content-Type'', content_type), (''Cache-Control'', ''no-cache'')]\<rparr>"

definition SwaggerThemeHandler :: "gin_env \<Rightarrow> docs_reply" where
  "SwaggerThemeHandler G = asset_reply ''text/css; charset=utf-8'' (g_themeCSS G)"

definition SwaggerInitializerHandler :: "gin_env \<Rightarrow> docs_reply" where
  "SwaggerInitializerHandler G = asset_reply ''application/javascript; charset=utf-8'' (g_initializerJS G)"

definition docs_refusal :: docs_reply where
  "docs_refusal =
     \<lparr>dr_response = json_response 401 (JObj [(''code'', JStr ''unauthorized''),
        (''message'', JStr ''docs require Authorization: Bearer <DOCS_AUTH_TOKEN>'')]),
      dr_headers = [(''Content-Type'', ''application/json; charset=utf-8'')]\<rparr>"

definition docs_page :: "gin_env \<Rightarrow> request \<Rightarrow> docs_reply" where
  "docs_page G c =
     (if has_suffix ''/index.css'' (q_path c) then SwaggerThemeHandler G
      else if has_suffix ''/swagger-initializer.js'' (q_path c) then SwaggerInitializerHandler G
      else (case g_std_swagger G c of (r, hs) \<Rightarrow> \<lparr>dr_response = r, dr_headers = hs\<rparr>))"

definition docs_chain :: "gin_env \<Rightarrow> docs_config \<Rightarrow> request \<Rightarrow> docs_reply" where
  "docs_chain G d = secHeaders (\<lambda>c. if \<not> docs_auth d c then docs_refusal else docs_page G c)"

definition docs_handler :: "gin_env \<Rightarrow> docs_config \<Rightarrow> handler" where
  "docs_handler G d c w = (dr_response (docs_chain G d c), w)"

text \<open>What the registration of the routes logs: docs that are open to everyone in production.\<close>

definition docs_warnings :: "docs_config \<Rightarrow> string list" where
  "docs_warnings d =
     (if DocsConfig_active d \<and> dc_Environment d = ''production'' \<and> dc_AuthToken d = ''''
      then [''DOCS_ENABLED in production without DOCS_AUTH_TOKEN '' @ em_dash @ '' API surface is unauthenticated'']
      else [])"

section \<open>The server\<close>

definition api_handler :: "ext \<Rightarrow> router_config \<Rightarrow> endpoint \<Rightarrow> handler" where
  "api_handler X cfg e =
     (case e of
        EDeptList \<Rightarrow> DepartmentHandler_List X (rt_Departments cfg)
      | EDeptGet \<Rightarrow> DepartmentHandler_Get X (rt_Departments cfg)
      | EDeptCreate \<Rightarrow> RequireOperatorRole (DepartmentHandler_Create X (rt_Departments cfg))
      | EDeptPatch \<Rightarrow> RequireOperatorRole (DepartmentHandler_Patch X (rt_Departments cfg))
      | EDeptDelete \<Rightarrow> RequireOperatorRole (DepartmentHandler_DeleteBlocked X)
      | EPlanList \<Rightarrow> RequireOperatorRole (PlanHandler_List X (rt_Plans cfg))
      | EPlanGet \<Rightarrow> RequireOperatorRole (PlanHandler_Get X (rt_Plans cfg))
      | EPlanPatch \<Rightarrow> RequireOperatorRole (PlanHandler_Patch X (rt_Plans cfg))
      | EInternalDepartments \<Rightarrow> RequireSystemRole (InternalHandler_Departments X (rt_Departments cfg))
      | EInternalPlans \<Rightarrow> RequireSystemRole (InternalHandler_Plans X (rt_Plans cfg))
      | _ \<Rightarrow> (\<lambda>c w. (unwritten, w)))"

definition api_chain :: "gin_env \<Rightarrow> ext \<Rightarrow> router_config \<Rightarrow> endpoint \<Rightarrow> handler" where
  "api_chain G X cfg e =
     requestMetricsMiddleware G (ProtectedMiddlewares G (IdentityBridgeMiddleware X
       (RequireJSONContentType (api_handler X cfg e))))"

definition normalized :: "gin_env \<Rightarrow> ext \<Rightarrow> nat \<Rightarrow> handler \<Rightarrow> handler" where
  "normalized G X underlying next c w =
     (case next c w of
        (r, w1) \<Rightarrow> (case NormalizeAuthErrors X underlying r of None \<Rightarrow> g_recovered G | Some r' \<Rightarrow> r', w1))"

definition endpoint_handler :: "gin_env \<Rightarrow> ext \<Rightarrow> router_config \<Rightarrow> endpoint \<Rightarrow> handler" where
  "endpoint_handler G X cfg e =
     (case e of
        ESwagger \<Rightarrow> docs_handler G (rt_Docs cfg)
      | EHealthz \<Rightarrow> body_cap (normalized G X 200 (\<lambda>c w. (g_health G, w)))
      | EReadyz \<Rightarrow> body_cap (normalized G X 200 (readyz G cfg))
      | _ \<Rightarrow> body_cap (normalized G X 200 (api_chain G X cfg e)))"

definition serve :: "gin_env \<Rightarrow> ext \<Rightarrow> router_config \<Rightarrow> handler" where
  "serve G X cfg c w =
     (case g_match G (map (\<lambda>(m, t, e). (m, t)) (routes (rt_Docs cfg))) (q_method c) (q_path c) of
        NoRoute \<Rightarrow> body_cap (normalized G X 404 (\<lambda>c w. (unwritten, w))) c w
      | WrongMethod \<Rightarrow> body_cap (normalized G X 405 NoMethod) c w
      | Matched template params \<Rightarrow>
          (case route_endpoint (rt_Docs cfg) (q_method c) template of
             None \<Rightarrow> body_cap (normalized G X 404 (\<lambda>c w. (unwritten, w))) c w
           | Some e \<Rightarrow>
               endpoint_handler G X cfg e
                 (c\<lparr>q_route := template, q_params := params, q_context := None\<rparr>) w))"

end
