(* ===== verification/Config.thy ===== *)
theory Config
  imports Router
begin

text \<open>
  Configuration: the environment helpers and the composition root of cmd/catalog-admin-config/main.go,
  and the DSN functions of internal/adapter/outbound/postgres/db.go. The environment is a function that answers the empty string for an unset
  variable (os.Getenv). pgcommon.ConfigFromEnv is an argument. time.ParseDuration and strconv.Atoi
  are modelled; a decimal fraction of a unit is computed exactly where Go uses float64.
\<close>

type_synonym environ = "string \<Rightarrow> string"

definition envOr :: "environ \<Rightarrow> string \<Rightarrow> string \<Rightarrow> string" where
  "envOr env key def = (if env key \<noteq> '''' then env key else def)"

section \<open>Numbers of the standard library\<close>

definition is_digit :: "char \<Rightarrow> bool" where
  "is_digit c \<longleftrightarrow> (let n = of_char c :: nat in 48 \<le> n \<and> n \<le> 57)"

definition Atoi :: "string \<Rightarrow> int option" where
  "Atoi s =
     (let (neg, ds) = (case s of
            [] \<Rightarrow> (False, [])
          | c # cs \<Rightarrow> (if c = CHR ''-'' then (True, cs) else if c = CHR ''+'' then (False, cs) else (False, s)))
      in if ds = [] \<or> \<not> list_all is_digit ds then None
         else let n = (if neg then - int (nat_value ds) else int (nat_value ds))
              in if int64_ok n then Some n else None)"

definition unit_map :: "(string \<times> nat) list" where
  "unit_map =
     [(''ns'', 1), (''us'', 1000), ([CHR 0xC2, CHR 0xB5, CHR ''s''], 1000),
      ([CHR 0xCE, CHR 0xBC, CHR ''s''], 1000), (''ms'', 1000000), (''s'', 1000000000),
      (''m'', 60000000000), (''h'', 3600000000000)]"

text \<open>One number and its unit: digits, an optional fraction, and a unit up to the next number.\<close>

definition fraction_of :: "string \<Rightarrow> string \<times> string" where
  "fraction_of r =
     (case r of
        [] \<Rightarrow> ([], [])
      | c # cs \<Rightarrow> (if c = CHR ''.'' then (takeWhile is_digit cs, dropWhile is_digit cs) else ([], r)))"

definition unit_char :: "char \<Rightarrow> bool" where
  "unit_char c \<longleftrightarrow> c \<noteq> CHR ''.'' \<and> \<not> is_digit c"

definition duration_part :: "string \<Rightarrow> (nat \<times> string) option" where
  "duration_part s =
     (case fraction_of (dropWhile is_digit s) of
        (fr, r) \<Rightarrow>
          let ds = takeWhile is_digit s
          in if ds = [] \<and> fr = [] then None
             else case map_of unit_map (takeWhile unit_char r) of
                    None \<Rightarrow> None
                  | Some unit \<Rightarrow>
                      (let v = nat_value ds * unit + (nat_value fr * unit) div 10 ^ length fr
                       in if v > 2 ^ 63 then None else Some (v, dropWhile unit_char r)))"

lemma length_dropWhile_take: "takeWhile P xs \<noteq> [] \<Longrightarrow> length (dropWhile P xs) < length xs"
  by (cases xs) (auto simp: length_dropWhile_le less_Suc_eq_le split: if_splits)

lemma fraction_of_length:
  "fraction_of s = (fr, r) \<Longrightarrow> length r \<le> length s \<and> (fr \<noteq> [] \<longrightarrow> length r < length s)"
  by (auto simp: fraction_of_def length_dropWhile_le less_Suc_eq_le le_SucI split: list.splits if_splits)

lemma duration_part_shorter:
  assumes "duration_part s = Some (v, r)"
  shows "length r < length s"
proof -
  obtain fr r2 where fr: "fraction_of (dropWhile is_digit s) = (fr, r2)" by (rule prod.exhaust)
  have r: "r = dropWhile unit_char r2" and ne: "takeWhile is_digit s \<noteq> [] \<or> fr \<noteq> []"
    using assms by (auto simp: duration_part_def fr Let_def split: if_splits option.splits)
  have "length r \<le> length r2" unfolding r by (rule length_dropWhile_le)
  moreover have "length (dropWhile is_digit s) \<le> length s" by (rule length_dropWhile_le)
  moreover have "takeWhile is_digit s \<noteq> [] \<longrightarrow> length (dropWhile is_digit s) < length s"
    using length_dropWhile_take by blast
  ultimately show ?thesis using ne fraction_of_length [OF fr] by linarith
qed

function duration_parts :: "nat \<Rightarrow> string \<Rightarrow> nat option" where
  "duration_parts d s =
     (if s = [] then Some d
      else case duration_part s of
             None \<Rightarrow> None
           | Some (v, r) \<Rightarrow> (if d + v > 2 ^ 63 then None else duration_parts (d + v) r))"
  by pat_completeness auto
termination by (relation "measure (\<lambda>(d, s). length s)") (auto dest: duration_part_shorter)

declare duration_parts.simps [simp del]

definition ParseDuration :: "string \<Rightarrow> int option" where
  "ParseDuration s =
     (let (neg, r) = (case s of
            [] \<Rightarrow> (False, [])
          | c # cs \<Rightarrow> (if c = CHR ''-'' then (True, cs) else if c = CHR ''+'' then (False, cs) else (False, s)))
      in if r = ''0'' then Some 0
         else if r = [] then None
         else case duration_parts 0 r of
                None \<Rightarrow> None
              | Some d \<Rightarrow>
                  (if neg then Some (- int d) else if d > 2 ^ 63 - 1 then None else Some (int d)))"

section \<open>Connection strings\<close>

definition statement_timeout_option :: "int \<Rightarrow> string" where
  "statement_timeout_option d =
     ''options=-c'' @ [CHR 0x25] @ ''20statement_timeout'' @ [CHR 0x25] @ ''3D'' @ show_int (d div 1000000)"

definition ApplyStatementTimeout :: "environ \<Rightarrow> string \<Rightarrow> string" where
  "ApplyStatementTimeout env dsn =
     (if dsn = '''' then dsn
      else let t = env ''PG_STATEMENT_TIMEOUT'' in
           if t \<noteq> '''' then
             (case ParseDuration t of
                None \<Rightarrow> dsn
              | Some d \<Rightarrow>
                  if d > 0 then
                    (if contains_str ''statement_timeout'' dsn then dsn
                     else dsn @ (if \<not> contains_str ''?'' dsn then ''?'' else ''&'') @ statement_timeout_option d)
                  else dsn)
           else dsn)"

record config_warning =
  cw_Key :: string
  cw_Reason :: string

type_synonym config_from_env = "environ \<Rightarrow> string \<times> config_warning list"

definition DSNFromEnv :: "config_from_env \<Rightarrow> environ \<Rightarrow> string" where
  "DSNFromEnv ConfigFromEnv env =
     (if env ''DATABASE_URL'' \<noteq> '''' then fst (ConfigFromEnv env)
      else ApplyStatementTimeout env (fst (ConfigFromEnv env)))"

definition MigrationDSNFromEnv :: "config_from_env \<Rightarrow> environ \<Rightarrow> string" where
  "MigrationDSNFromEnv ConfigFromEnv env =
     (if env ''MIGRATION_DATABASE_URL'' \<noteq> ''''
      then ApplyStatementTimeout env (env ''MIGRATION_DATABASE_URL'')
      else DSNFromEnv ConfigFromEnv env)"

section \<open>Startup checks\<close>

definition is_prod :: "string \<Rightarrow> bool" where
  "is_prod appEnv \<longleftrightarrow> appEnv = ''production'' \<or> appEnv = ''staging''"

definition missing_env :: "environ \<Rightarrow> string \<Rightarrow> string list" where
  "missing_env env appEnv =
     (if env ''VALKEY_URL'' = '''' then [''VALKEY_URL: Valkey address is required for caching''] else [])
   @ (if env ''MIGRATION_DATABASE_URL'' = '''' \<and> env ''PG_BOUNCER_MODE'' = ''true'' \<and> env ''DATABASE_URL'' = ''''
      then [''MIGRATION_DATABASE_URL: required when PG_BOUNCER_MODE=true '' @ em_dash
              @ '' migrations must bypass PgBouncer''] else [])
   @ (if is_prod appEnv \<and> env ''VALKEY_URL'' \<noteq> '''' \<and> \<not> has_prefix ''rediss://'' (env ''VALKEY_URL'')
      then [''VALKEY_URL: must use rediss:// in production/staging''] else [])"

definition panic_message :: "string list \<Rightarrow> string" where
  "panic_message missing =
     ''startup aborted '' @ em_dash @ '' required env vars missing or misconfigured:'' @ [CHR 0x0A]
   @ concat (map (\<lambda>m. ''  '' @ [CHR 0xE2, CHR 0x80, CHR 0xA2] @ '' '' @ m @ [CHR 0x0A]) missing)"

text \<open>The message of the panic, or None where the function returns.\<close>

definition validateRequiredEnv :: "environ \<Rightarrow> string \<Rightarrow> string option" where
  "validateRequiredEnv env appEnv =
     (let missing = missing_env env appEnv in if length missing > 0 then Some (panic_message missing) else None)"

definition missing_postgres :: "string \<Rightarrow> string \<Rightarrow> config_warning list \<Rightarrow> string list" where
  "missing_postgres appEnv dsn warnings =
     (if dsn = '''' then [''DATABASE_URL (or PG_USER + PG_DBNAME): PostgreSQL connection required '' @ em_dash
                         @ '' no DSN could be built''] else [])
   @ (if is_prod appEnv
      then concat (map (\<lambda>w. if cw_Key w = ''PG_SSLMODE'' \<or> cw_Key w = ''DATABASE_URL''
                           then [cw_Key w @ '': '' @ cw_Reason w @ '' (insecure in production/staging)'']
                           else []) warnings)
      else [])"

definition validatePostgresConfig :: "string \<Rightarrow> string \<Rightarrow> config_warning list \<Rightarrow> string option" where
  "validatePostgresConfig appEnv dsn warnings =
     (let missing = missing_postgres appEnv dsn warnings
      in if length missing > 0 then Some (panic_message missing) else None)"

section \<open>Composition\<close>

text \<open>
  CATALOG_TTL_SECONDS: a malformed value is logged and replaced; the product with time.Second is one
  of 64-bit integers.
\<close>

definition catalogTTLSeconds :: "environ \<Rightarrow> int \<times> log_line list" where
  "catalogTTLSeconds env =
     (case Atoi (envOr env ''CATALOG_TTL_SECONDS'' ''60'') of
        Some n \<Rightarrow> (n, [])
      | None \<Rightarrow> (60, [LogWarn ''invalid CATALOG_TTL_SECONDS, falling back to 60s default'']))"

definition catalogTTL :: "environ \<Rightarrow> duration" where
  "catalogTTL env = word_of_int (fst (catalogTTLSeconds env)) * seconds 1"

definition docs_from_env :: "environ \<Rightarrow> docs_config" where
  "docs_from_env env =
     \<lparr>dc_Environment = envOr env ''APP_ENV'' ''dev'', dc_Enabled = (env ''DOCS_ENABLED'' = ''true''),
      dc_AuthToken = env ''DOCS_AUTH_TOKEN''\<rparr>"

definition compose :: "ext \<Rightarrow> environ \<Rightarrow> router_config" where
  "compose X env =
     \<lparr>rt_Docs = docs_from_env env,
      rt_Departments = pg_department_service X (catalogTTL env),
      rt_Plans = pg_plan_service X (catalogTTL env),
      rt_Cache = valkey_port\<rparr>"

text \<open>The startup of main up to serving: the message of the first panic, or the router.\<close>

definition startup :: "ext \<Rightarrow> config_from_env \<Rightarrow> environ \<Rightarrow> string + router_config" where
  "startup X ConfigFromEnv env =
     (let appEnv = envOr env ''APP_ENV'' ''dev'' in
      case validateRequiredEnv env appEnv of
        Some msg \<Rightarrow> Inl msg
      | None \<Rightarrow>
          (case validatePostgresConfig appEnv (DSNFromEnv ConfigFromEnv env) (snd (ConfigFromEnv env)) of
             Some msg \<Rightarrow> Inl msg
           | None \<Rightarrow> Inr (compose X env)))"

end
