(* ===== verification/Evolution.thy ===== *)
theory Evolution
  imports Department_Service Plan_Service
begin

text \<open>
  The abstract machine of the catalogs: the only ways the tables can change. A department is added
  with a fresh id and code, one department row is replaced by what CAT-2 makes of it, or one plan row
  by what CAT-5 makes of it. Every repository and service operation, under every fault, is one such
  step or none; what follows for the rows is proved once here.
\<close>

inductive db_evolves :: "ext \<Rightarrow> db \<Rightarrow> db \<Rightarrow> bool" for X :: ext where
  unchanged: "db_evolves X db db"
| inserted: "dept_row_ok row \<Longrightarrow> d_RecordVersion row = 1 \<Longrightarrow> d_ID row \<notin> d_ID ` set (t_departments db) \<Longrightarrow>
    d_Code row \<notin> d_Code ` set (t_departments db) \<Longrightarrow>
    db_evolves X db (db\<lparr>t_departments := t_departments db @ [row]\<rparr>)"
| dept_updated: "old \<in> set (t_departments db) \<Longrightarrow> dept_update_spec now name isActive old = Inr new \<Longrightarrow>
    db_evolves X db (db\<lparr>t_departments := put_row d_ID new (t_departments db)\<rparr>)"
| plan_updated: "old \<in> set (t_plans db) \<Longrightarrow> plan_update_spec X now patch old = Inr new \<Longrightarrow>
    plan_bind_error X (pr_code old) patch = None \<Longrightarrow> patch_decoded X patch \<Longrightarrow>
    db_evolves X db (db\<lparr>t_plans := put_row pr_code new (t_plans db)\<rparr>)"

inductive_cases db_evolvesE: "db_evolves X db db'"

section \<open>The repositories evolve the tables\<close>

lemma withPool_db_step:
  assumes pool: "withPool X fn w = (r, w')" and "Q (w_db w)"
    and body: "\<And>t q v'. fn t (pop_tx w) = (q, v') \<Longrightarrow> Q (w_db v')"
  shows "Q (w_db w')"
proof (cases r)
  case (Inl e)
  with pool have "withPool X fn w = (Inl e, w')" by simp
  then show ?thesis
    by (cases rule: withPool_Inl) (use assms(2) body in auto)
next
  case (Inr x)
  with pool withPool_Inr show ?thesis by (metis body)
qed

lemma exec_db_step:
  assumes "exec fault stmt w = (r, w')" and "Q (w_db w)" and "\<And>q db'. stmt (w_db w) = (q, db') \<Longrightarrow> Q db'"
  shows "Q (w_db w')"
  using assms by (cases fault) (auto simp: exec_def split: prod.splits)

lemma sql_insert_department_evolves:
  "sql_insert_department X now u code name sys act db = (r, db') \<Longrightarrow> db_evolves X db db'"
  by (erule sql_insert_department_cases) (auto intro: db_evolves.intros)

lemma sql_update_department_evolves:
  assumes "dept_update_sql u name isActive v = (sets, args)"
    and "sql_update_department X now sets args db = (r, db')"
  shows "db_evolves X db db'"
  using assms(2)
  by (cases rule: sql_update_department_cases)
     (auto intro: db_evolves.intros simp: update_department_row_spec [OF assms(1)])

lemma sql_update_plan_evolves:
  assumes sets: "plan_update_sql X code patch = (sets, args)" and "patch_decoded X patch"
    and upd: "sql_update_plan X now sets args db = (r, db')"
  shows "db_evolves X db db'"
  using upd
proof (cases rule: sql_update_plan_cases)
  case (updated old new)
  have "code = pr_code old" using updated(4) plan_update_sql_where(1) [OF sets] by simp
  then show ?thesis
    using updated assms(2) plan_update_sql_where(3) [OF sets]
    by (auto intro!: db_evolves.plan_updated simp: update_plan_row_spec [OF sets])
qed (auto intro: db_evolves.intros)

lemma DepartmentRepository_Insert_evolves:
  assumes "DepartmentRepository_Insert X d w = (r, w')"
  shows "db_evolves X (w_db w) (w_db w')"
proof -
  have body: "db_evolves X (w_db v) (w_db v')" if "deptInsertFromTx X d' t (pop_tx v) = (q, v')" for d' t v q v'
  proof -
    obtain r1 w1 where ex: "exec (tf_stmt t) (sql_insert_department X (db_now (pop_tx v)) (d_ID d')
        (d_Code d') (d_Name d') (d_IsSystem d') (d_IsActive d')) (pop_tx v) = (r1, w1)" by force
    have "db_evolves X (w_db v) (w_db w1)"
      by (rule exec_db_step [OF ex, where Q = "db_evolves X (w_db v)"])
         (auto intro: db_evolves.unchanged sql_insert_department_evolves)
    then show ?thesis using that ex
      by (auto simp: deptInsertFromTx_def split: sum.splits if_splits)
  qed
  have pool: "db_evolves X (w_db v) (w_db w')" if "withPool X (deptInsertFromTx X d') v = (r, w')" for d' v
    by (rule withPool_db_step [OF that, where Q = "db_evolves X (w_db v)"])
       (auto intro: db_evolves.unchanged body)
  show ?thesis
  proof (cases "d_ID d = uuid_Nil")
    case True
    with assms have "withPool X (deptInsertFromTx X (d\<lparr>d_ID := x_uuid_new X (w_uuids w)\<rparr>))
        (w\<lparr>w_uuids := Suc (w_uuids w)\<rparr>) = (r, w')"
      by (simp add: DepartmentRepository_Insert_def)
    from pool [OF this] show ?thesis by simp
  next
    case False
    with assms show ?thesis by (auto simp: DepartmentRepository_Insert_def intro: pool)
  qed
qed

lemma DepartmentRepository_Update_evolves:
  assumes "DepartmentRepository_Update X u name isActive v w = (r, w')"
  shows "db_evolves X (w_db w) (w_db w')"
proof (cases "name = None \<and> isActive = None")
  case True
  with assms have "DepartmentRepository_FindByID X u w = (r, w')"
    by (auto simp: DepartmentRepository_Update_def)
  from DepartmentRepository_FindByID_frame [OF this] show ?thesis by (simp add: db_evolves.unchanged)
next
  case False
  obtain sets args where sets: "dept_update_sql u name isActive v = (sets, args)" by force
  have body: "db_evolves X (w_db w) (w_db v')" if "deptUpdateBody X u sets args t (pop_tx w) = (q, v')" for t q v'
  proof -
    obtain r1 w1 where ex: "exec (tf_stmt t) (sql_update_department X (db_now (pop_tx w)) sets args) (pop_tx w) = (r1, w1)"
      by force
    have "db_evolves X (w_db w) (w_db w1)"
      by (rule exec_db_step [OF ex, where Q = "db_evolves X (w_db w)"])
         (auto intro: db_evolves.unchanged sql_update_department_evolves [OF sets])
    then show ?thesis using that ex
      by (auto simp: deptUpdateBody_def deptUpdateFromTx_def split: prod.splits sum.splits if_splits option.splits)
  qed
  from assms False sets have "withPool X (deptUpdateBody X u sets args) w = (r, w')"
    by (auto simp: DepartmentRepository_Update_def)
  then show ?thesis
    by (rule withPool_db_step [where Q = "db_evolves X (w_db w)"]) (auto intro: db_evolves.unchanged body)
qed

lemma PlanRepository_Update_evolves:
  assumes "PlanRepository_Update X code patch w = (r, w')"
    and dec: "\<And>p. patch = Some p \<Longrightarrow> patch_decoded X p"
  shows "db_evolves X (w_db w) (w_db w')"
  using assms(1)
proof (cases rule: PlanRepository_Update_cases)
  case (ran p sets args)
  have body: "db_evolves X (w_db w) (w_db v')" if "planUpdateBody X code sets args t (pop_tx w) = (q, v')" for t q v'
  proof -
    obtain r1 w1 where ex: "exec (tf_stmt t) (sql_update_plan X (db_now (pop_tx w)) sets args) (pop_tx w) = (r1, w1)"
      by force
    have "db_evolves X (w_db w) (w_db w1)"
      by (rule exec_db_step [OF ex, where Q = "db_evolves X (w_db w)"])
         (auto intro: db_evolves.unchanged sql_update_plan_evolves [OF ran(2) dec [OF ran(1)]])
    then show ?thesis using that ex
      by (auto simp: planUpdateBody_def planUpdateFromTx_def split: prod.splits sum.splits if_splits option.splits)
  qed
  from ran(3) show ?thesis
    by (rule withPool_db_step [where Q = "db_evolves X (w_db w)"]) (auto intro: db_evolves.unchanged body)
qed (auto intro: db_evolves.unchanged)

section \<open>What a step keeps\<close>

lemma db_evolves_plans_ok:
  assumes "db_evolves X db db'" and "db_ok db"
  shows "db_ok db'"
  using assms(1)
proof (cases rule: db_evolves.cases)
  case (inserted row)
  then show ?thesis using assms(2) by (auto simp: db_ok_def departments_ok_def int64_ok_def)
next
  case (dept_updated old now name isActive new)
  have "int64_ok (d_RecordVersion old)"
    using assms(2) dept_updated(2) by (auto simp: db_ok_def departments_ok_def list_all_iff)
  then have "departments_ok (put_row d_ID new (t_departments db))"
    using put_row_departments_ok [OF _ dept_updated(2)] dept_update_spec_Inr [OF dept_updated(3)] assms(2)
    by (auto simp: db_ok_def)
  then show ?thesis using dept_updated(1) assms(2) by (simp add: db_ok_def)
next
  case (plan_updated old now patch new)
  have old: "plan_row_ok old"
    using assms(2) plan_updated(2) by (auto simp: db_ok_def plans_ok_def list_all_iff)
  obtain sets args where rend: "rendered [ArgText (pr_code old), ArgInt (pp_RecordVersion patch)] (plan_fields X patch) = (sets, args)"
    by force
  then have "plan_update_sql X (pr_code old) patch = (sets, args)" by (simp add: plan_update_sql_rendered)
  then have "bind_args X (plan_arg_types sets args) args = None"
    using plan_update_sql_where(3) plan_updated(4) by metis
  note bound = bound_plan_fields [OF bind_args_rendered [OF rend this]]
  have "plan_row_ok new" by (rule plan_update_spec_ok [OF plan_updated(3) old bound])
  then show ?thesis using plan_updated(1) assms(2) put_row_plans_ok by (simp add: db_ok_def)
qed (use assms(2) in simp)

text \<open>
  One row descends from another: same identity, a version that never falls, and the same version
  only for the same content.
\<close>

definition dept_descends :: "department \<Rightarrow> department \<Rightarrow> bool" where
  "dept_descends d d' \<longleftrightarrow>
     d_ID d' = d_ID d \<and> d_Code d' = d_Code d \<and> d_IsSystem d' = d_IsSystem d \<and> d_CreatedAt d' = d_CreatedAt d
   \<and> d_RecordVersion d \<le> d_RecordVersion d' \<and> (d_RecordVersion d' = d_RecordVersion d \<longrightarrow> d' = d)
   \<and> (d_IsSystem d \<longrightarrow> d_Name d' = d_Name d)"

definition plan_descends :: "plan_row \<Rightarrow> plan_row \<Rightarrow> bool" where
  "plan_descends r r' \<longleftrightarrow>
     pr_code r' = pr_code r \<and> pr_created_at r' = pr_created_at r
   \<and> pr_record_version r \<le> pr_record_version r' \<and> (pr_record_version r' = pr_record_version r \<longrightarrow> r' = r)"

lemma dept_descends_refl [simp]: "dept_descends d d"
  by (simp add: dept_descends_def)

lemma plan_descends_refl [simp]: "plan_descends r r"
  by (simp add: plan_descends_def)

lemma dept_descends_trans: "dept_descends a b \<Longrightarrow> dept_descends b c \<Longrightarrow> dept_descends a c"
  unfolding dept_descends_def by (metis order_antisym order_trans)

lemma plan_descends_trans: "plan_descends a b \<Longrightarrow> plan_descends b c \<Longrightarrow> plan_descends a c"
  unfolding plan_descends_def by (metis order_antisym order_trans)

lemma dept_update_descends: "dept_update_spec now name isActive old = Inr new \<Longrightarrow> dept_descends old new"
  using dept_update_spec_Inr [of now name isActive old new] unfolding dept_descends_def by auto

lemma plan_update_descends: "plan_update_spec X now patch old = Inr new \<Longrightarrow> plan_descends old new"
  using plan_update_spec_Inr [of X now patch old new] unfolding plan_descends_def by auto

lemma db_evolves_department:
  assumes "db_evolves X db db'" and ok: "db_ok db" and d: "d \<in> set (t_departments db)"
  shows "\<exists>d' \<in> set (t_departments db'). dept_descends d d'"
  using assms(1)
proof (cases rule: db_evolves.cases)
  case (dept_updated old now name isActive new)
  have ids: "distinct (map d_ID (t_departments db))" using ok by (simp add: db_ok_def departments_ok_def)
  note desc = dept_update_descends [OF dept_updated(3)]
  show ?thesis
  proof (cases "d_ID d = d_ID old")
    case True
    then have "d = old" using distinct_key_inj [OF ids d dept_updated(2)] by blast
    moreover have "new \<in> set (put_row d_ID new (t_departments db))"
      using desc dept_updated(2) by (intro put_row_in) (auto simp: dept_descends_def)
    ultimately show ?thesis using desc dept_updated(1) by auto
  next
    case False
    then have "d \<in> set (put_row d_ID new (t_departments db))"
      using d desc by (intro mem_put_row_other) (auto simp: dept_descends_def)
    then show ?thesis using dept_updated(1) by (auto intro: bexI [of _ d])
  qed
qed (use d in \<open>auto intro: bexI [of _ d]\<close>)

lemma db_evolves_plan:
  assumes "db_evolves X db db'" and ok: "db_ok db" and r: "r \<in> set (t_plans db)"
  shows "\<exists>r' \<in> set (t_plans db'). plan_descends r r'"
  using assms(1)
proof (cases rule: db_evolves.cases)
  case (plan_updated old now patch new)
  have codes: "distinct (map pr_code (t_plans db))" using ok plans_ok_distinct by (simp add: db_ok_def)
  note desc = plan_update_descends [OF plan_updated(3)]
  show ?thesis
  proof (cases "pr_code r = pr_code old")
    case True
    then have "r = old" using distinct_key_inj [OF codes r plan_updated(2)] by blast
    moreover have "new \<in> set (put_row pr_code new (t_plans db))"
      using desc plan_updated(2) by (intro put_row_in) (auto simp: plan_descends_def)
    ultimately show ?thesis using desc plan_updated(1) by auto
  next
    case False
    then have "r \<in> set (put_row pr_code new (t_plans db))"
      using r desc by (intro mem_put_row_other) (auto simp: plan_descends_def)
    then show ?thesis using plan_updated(1) by (auto intro: bexI [of _ r])
  qed
qed (use r in \<open>auto intro: bexI [of _ r]\<close>)

lemma db_evolves_scans:
  assumes "db_evolves X db db'" and "plans_scan X db"
  shows "plans_scan X db'"
  using assms(1)
proof (cases rule: db_evolves.cases)
  case (plan_updated old now patch new)
  then have "row_scans X new"
    using plan_update_spec_scans assms(2) by (auto simp: plans_scan_def list_all_iff)
  then show ?thesis using plan_updated(1) assms(2)
    by (auto simp: plans_scan_def list_all_iff dest: set_put_row)
qed (use assms(2) in \<open>auto simp: plans_scan_def\<close>)

section \<open>Any number of steps\<close>

lemma evolution_ok: "(db_evolves X)\<^sup>*\<^sup>* db db' \<Longrightarrow> db_ok db \<Longrightarrow> db_ok db'"
  by (induction rule: rtranclp_induct) (auto intro: db_evolves_plans_ok)

lemma evolution_scans: "(db_evolves X)\<^sup>*\<^sup>* db db' \<Longrightarrow> plans_scan X db \<Longrightarrow> plans_scan X db'"
  by (induction rule: rtranclp_induct) (auto intro: db_evolves_scans)

lemma evolution_department:
  assumes "(db_evolves X)\<^sup>*\<^sup>* db db'" and ok: "db_ok db" and d: "d \<in> set (t_departments db)"
  shows "\<exists>d' \<in> set (t_departments db'). dept_descends d d'"
  using assms(1)
proof (induction rule: rtranclp_induct)
  case base
  show ?case using d by (intro bexI [of _ d]) simp_all
next
  case (step y z)
  then obtain d1 where "d1 \<in> set (t_departments y)" "dept_descends d d1" by blast
  with db_evolves_department [OF step(2) evolution_ok [OF step(1) ok]] dept_descends_trans
  show ?case by blast
qed

lemma evolution_plan:
  assumes "(db_evolves X)\<^sup>*\<^sup>* db db'" and ok: "db_ok db" and r: "r \<in> set (t_plans db)"
  shows "\<exists>r' \<in> set (t_plans db'). plan_descends r r'"
  using assms(1)
proof (induction rule: rtranclp_induct)
  case base
  show ?case using r by (intro bexI [of _ r]) simp_all
next
  case (step y z)
  then obtain r1 where "r1 \<in> set (t_plans y)" "plan_descends r r1" by blast
  with db_evolves_plan [OF step(2) evolution_ok [OF step(1) ok]] plan_descends_trans
  show ?case by blast
qed

text \<open>Rows are found by their id, so the descendant is the row with that id.\<close>

lemma evolution_department_unique:
  assumes ev: "(db_evolves X)\<^sup>*\<^sup>* db db'" and ok: "db_ok db" and d: "d \<in> set (t_departments db)"
    and d': "d' \<in> set (t_departments db')" and same: "d_ID d' = d_ID d"
  shows "dept_descends d d'"
proof -
  obtain e where e: "e \<in> set (t_departments db')" "dept_descends d e"
    using evolution_department [OF ev ok d] by blast
  have "distinct (map d_ID (t_departments db'))"
    using evolution_ok [OF ev ok] by (simp add: db_ok_def departments_ok_def)
  then have "d' = e" using distinct_key_inj e d' same by (metis dept_descends_def)
  with e show ?thesis by simp
qed

lemma evolution_plan_unique:
  assumes ev: "(db_evolves X)\<^sup>*\<^sup>* db db'" and ok: "db_ok db" and r: "r \<in> set (t_plans db)"
    and r': "r' \<in> set (t_plans db')" and same: "pr_code r' = pr_code r"
  shows "plan_descends r r'"
proof -
  obtain e where e: "e \<in> set (t_plans db')" "plan_descends r e"
    using evolution_plan [OF ev ok r] by blast
  have "distinct (map pr_code (t_plans db'))"
    using evolution_ok [OF ev ok] plans_ok_distinct by (simp add: db_ok_def)
  then have "r' = e" using distinct_key_inj e r' same by (metis plan_descends_def)
  with e show ?thesis by simp
qed

end
