(* ===== verification/Handler_Contracts.thy ===== *)
theory Handler_Contracts
  imports Config Evolution
begin

text \<open>
  What every request keeps. A relation between the state before and after a request that the error
  path and the counters respect is a contract; if the service operations satisfy it, so does the
  server with its whole chain of middleware. Interpretations: the tables only evolve as the abstract
  machine allows, and the cached catalogs stay coherent while the surroundings are steady.
\<close>

definition handler_keeps :: "(world \<Rightarrow> world \<Rightarrow> bool) \<Rightarrow> handler \<Rightarrow> bool" where
  "handler_keeps Q h \<longleftrightarrow> (\<forall>c w r w'. h c w = (r, w') \<longrightarrow> Q w w')"

lemma handler_keepsI: "(\<And>c w r w'. h c w = (r, w') \<Longrightarrow> Q w w') \<Longrightarrow> handler_keeps Q h"
  by (simp add: handler_keeps_def)

lemma handler_keepsD: "handler_keeps Q h \<Longrightarrow> h c w = (r, w') \<Longrightarrow> Q w w'"
  by (simp add: handler_keeps_def)

section \<open>Decoded patches\<close>

lemma dec_map_decoded:
  assumes "ext_ok X" and "dec_map (x_parse_float X) j cur = Some (Some m)"
    and "\<And>m0. cur = Some m0 \<Longrightarrow> decoded_any (x_parse_float X) (x_format_float X) (AMap m0)"
  shows "decoded_any (x_parse_float X) (x_format_float X) (AMap m)"
proof -
  obtain kvs where j: "j = JObj kvs" using assms(2) by (cases j) (auto simp: dec_map_def)
  obtain es where es: "collect_options (map (\<lambda>(k, v). map_option (Pair k) (any_of_json (x_parse_float X) v)) kvs) = Some es"
    and m: "m = map_put_all (case cur of None \<Rightarrow> [] | Some m \<Rightarrow> m) es"
    using assms(2) j by (auto simp: dec_map_def split: option.splits)
  let ?m0 = "case cur of None \<Rightarrow> [] | Some m \<Rightarrow> m"
  have m0: "distinct (map fst ?m0)" "\<And>k v. (k, v) \<in> set ?m0 \<Longrightarrow> decoded_any (x_parse_float X) (x_format_float X) v"
    using assms(3) by (auto split: option.splits simp: list_all_iff)
  have "decoded_any (x_parse_float X) (x_format_float X) v" if "(k, v) \<in> set m" for k v
  proof -
    from that m have "(k, v) \<in> set ?m0 \<union> set es" using set_map_put_all by metis
    then show ?thesis
    proof
      assume "(k, v) \<in> set es"
      with collect_options_memD [OF es] obtain k' j' where "any_of_json (x_parse_float X) j' = Some v"
        by fastforce
      then show ?thesis by (rule any_of_json_decoded [OF ext_okD(3) [OF assms(1)], rotated])
    qed (use m0 in blast)
  qed
  moreover have "distinct (map fst m)" unfolding m by (rule distinct_map_put_all) (rule m0(1))
  ultimately show ?thesis by (auto simp: list_all_iff)
qed

definition body_decoded :: "ext \<Rightarrow> plan_patch_body \<Rightarrow> bool" where
  "body_decoded X b \<longleftrightarrow>
     (case pb_FeatureSet b of
        None \<Rightarrow> True
      | Some m \<Rightarrow> decoded_any (x_parse_float X) (x_format_float X) (AMap m))"

lemma plan_patch_member_decoded:
  assumes X: "ext_ok X" and "plan_patch_member X k j s = Some t" and "body_decoded X s"
  shows "body_decoded X t"
proof -
  have feat: "body_decoded X (s\<lparr>pb_FeatureSet := v\<rparr>)" if "dec_map (x_parse_float X) j (pb_FeatureSet s) = Some v" for v
  proof (cases v)
    case (Some m)
    have "decoded_any (x_parse_float X) (x_format_float X) (AMap m)"
      by (rule dec_map_decoded [OF X that [unfolded Some]]) (use assms(3) in \<open>simp add: body_decoded_def\<close>)
    then show ?thesis by (simp add: body_decoded_def Some)
  qed (simp add: body_decoded_def)
  show ?thesis using assms(2,3) feat
    by (auto simp: plan_patch_member_def body_decoded_def split: option.splits if_splits)
qed

lemma bind_plan_patch_decoded:
  assumes X: "ext_ok X" and "bind_plan_patch X b = Inr body"
  shows "body_decoded X body"
proof -
  obtain j where "decode_struct (plan_patch_member X) zero_patch_body j = Some body"
    using assms(2) by (auto simp: bind_plan_patch_def ShouldBindJSON_def split: option.splits)
  moreover have zero: "body_decoded X zero_patch_body" by (simp add: body_decoded_def zero_patch_body_def)
  ultimately show ?thesis
    using decode_members_inv [where P = "body_decoded X" and step = "plan_patch_member X"]
      plan_patch_member_decoded [OF X]
    by (fastforce simp: decode_struct_def split: json.splits)
qed

lemma parse_patch_decoded:
  "parse_patch body = Inr p \<Longrightarrow> body_decoded X body \<Longrightarrow> patch_decoded X p"
  by (auto simp: parse_patch_def patch_of_body_def body_decoded_def patch_decoded_def split: sum.splits)

section \<open>Contracts\<close>

definition business_metric :: "metric \<Rightarrow> bool" where
  "business_metric m \<longleftrightarrow> (case m of RequestsTotal _ _ \<Rightarrow> False | RequestDurationBucket _ _ \<Rightarrow> False | RequestDurationSum _ \<Rightarrow> False | _ \<Rightarrow> True)"

lemma business_metric_simps [simp]:
  "business_metric (CacheHits k)" "business_metric (CacheMisses k)" "business_metric (WritesTotal t p)"
  "business_metric (OptimisticLockConflicts t)" "\<not> business_metric (RequestsTotal r s)"
  by (simp_all add: business_metric_def)

locale handler_contract =
  fixes Q :: "world \<Rightarrow> world \<Rightarrow> bool"
  assumes Q_refl: "Q w w"
    and Q_inc: "Q w w' \<Longrightarrow> business_metric m \<Longrightarrow> Q w (inc_metric m w')"
    and Q_log: "Q w w' \<Longrightarrow> Q w (add_log l w')"
begin

lemma keeps_HandleError: "HandleError X c e v = (r, w') \<Longrightarrow> Q w v \<Longrightarrow> Q w w'"
  by (auto simp: HandleError_def Let_def intro: Q_log split: go_error.splits if_splits)

lemma keeps_return: "handler_keeps Q (\<lambda>c w. (f c, w))"
  by (simp add: handler_keeps_def Q_refl)

lemma keeps_body_cap: "handler_keeps Q h \<Longrightarrow> handler_keeps Q (body_cap h)"
  by (auto simp: handler_keeps_def body_cap_def Q_refl split: if_splits)

lemma keeps_Protected: "handler_keeps Q h \<Longrightarrow> handler_keeps Q (ProtectedMiddlewares G h)"
  by (auto simp: handler_keeps_def ProtectedMiddlewares_def Q_refl split: sum.splits)

lemma keeps_IdentityBridge: "handler_keeps Q h \<Longrightarrow> handler_keeps Q (IdentityBridgeMiddleware X h)"
  by (auto simp: handler_keeps_def IdentityBridgeMiddleware_def Q_refl split: option.splits sum.splits)

lemma keeps_JSON: "handler_keeps Q h \<Longrightarrow> handler_keeps Q (RequireJSONContentType h)"
  by (auto simp: handler_keeps_def RequireJSONContentType_def Q_refl split: if_splits)

lemma keeps_System: "handler_keeps Q h \<Longrightarrow> handler_keeps Q (RequireSystemRole h)"
  by (auto simp: handler_keeps_def RequireSystemRole_def Q_refl split: option.splits if_splits)

lemma keeps_Operator: "handler_keeps Q h \<Longrightarrow> handler_keeps Q (RequireOperatorRole h)"
  by (auto simp: handler_keeps_def RequireOperatorRole_def Q_refl split: option.splits if_splits)

lemma keeps_normalized: "handler_keeps Q h \<Longrightarrow> handler_keeps Q (normalized G X u h)"
  by (auto simp: handler_keeps_def normalized_def split: prod.splits)

lemma keeps_NoMethod: "handler_keeps Q NoMethod"
  by (simp add: handler_keeps_def NoMethod_def Q_refl)

lemma keeps_docs: "handler_keeps Q (docs_handler G d)"
  by (auto simp: handler_keeps_def docs_handler_def Q_refl split: if_splits)

lemmas keeps_gates = keeps_body_cap keeps_normalized keeps_Protected keeps_IdentityBridge keeps_JSON keeps_System
  keeps_Operator

end

text \<open>The same for a relation that also allows the request itself to be counted.\<close>

locale chain_contract = handler_contract Q for Q :: "world \<Rightarrow> world \<Rightarrow> bool" +
  assumes Q_request: "Q w w' \<Longrightarrow> Q w (count_request route status d w')"
begin

lemma keeps_requestMetrics: "handler_keeps Q h \<Longrightarrow> handler_keeps Q (requestMetricsMiddleware G h)"
  by (auto simp: handler_keeps_def requestMetricsMiddleware_def Let_def intro: Q_request split: prod.splits)

lemma keeps_api_chain: "handler_keeps Q (api_handler X cfg e) \<Longrightarrow> handler_keeps Q (api_chain G X cfg e)"
  unfolding api_chain_def by (intro keeps_requestMetrics keeps_gates)

end

locale service_contract = handler_contract Q for Q :: "world \<Rightarrow> world \<Rightarrow> bool" +
  fixes X :: ext and cfg :: router_config
  assumes Q_dept_List: "DepartmentService_List X (rt_Departments cfg) b w = (rl, w') \<Longrightarrow> Q w w'"
    and Q_dept_Get: "DepartmentService_Get (rt_Departments cfg) u w = (rd, w') \<Longrightarrow> Q w w'"
    and Q_dept_Create: "DepartmentService_Create (rt_Departments cfg) cd nm sy w = (rd, w') \<Longrightarrow> Q w w'"
    and Q_dept_Patch: "DepartmentService_Patch X (rt_Departments cfg) u nmo ac v w = (rd, w') \<Longrightarrow> Q w w'"
    and Q_plan_List: "PlanService_List X (rt_Plans cfg) w = (rpl, w') \<Longrightarrow> Q w w'"
    and Q_plan_Get: "PlanService_GetByCode (rt_Plans cfg) cd w = (rp, w') \<Longrightarrow> Q w w'"
    and Q_plan_Patch: "PlanService_Patch (rt_Plans cfg) cd p w = (rp, w') \<Longrightarrow>
          (ext_ok X \<Longrightarrow> patch_decoded X p) \<Longrightarrow> Q w w'"
    and Q_Health: "cache_Health (rt_Cache cfg) w = (rh, w') \<Longrightarrow> Q w w'"
begin

lemma keeps_readyz: "handler_keeps Q (readyz G cfg)"
  by (auto simp: handler_keeps_def readyz_def Q_refl intro: Q_Health split: if_splits prod.splits sum.splits)

lemma keeps_DeptList: "handler_keeps Q (DepartmentHandler_List X (rt_Departments cfg))"
  by (rule handler_keepsI)
     (auto simp: DepartmentHandler_List_def Let_def dest: keeps_HandleError
       intro: Q_dept_List split: prod.splits sum.splits)

lemma keeps_DeptGet: "handler_keeps Q (DepartmentHandler_Get X (rt_Departments cfg))"
  by (rule handler_keepsI)
     (auto simp: DepartmentHandler_Get_def dest: keeps_HandleError
       intro: Q_dept_Get Q_refl split: prod.splits sum.splits)

lemma keeps_DeptCreate: "handler_keeps Q (DepartmentHandler_Create X (rt_Departments cfg))"
  by (rule handler_keepsI)
     (auto simp: DepartmentHandler_Create_def dest: keeps_HandleError
       intro: Q_dept_Create Q_refl Q_inc split: prod.splits sum.splits option.splits)

lemma keeps_DeptPatch: "handler_keeps Q (DepartmentHandler_Patch X (rt_Departments cfg))"
proof (rule handler_keepsI)
  fix c w r w' assume h: "DepartmentHandler_Patch X (rt_Departments cfg) c w = (r, w')"
  have err: "Q w w'" if "HandleError X c e v = (r, w')" "Q w v" for e v
    using that by (rule keeps_HandleError)
  have errm: "Q w w'" if "HandleError X c e (inc_metric (OptimisticLockConflicts t) v) = (r, w')" "Q w v" for e t v
    using that(1) by (rule keeps_HandleError) (simp add: Q_inc that(2))
  have svc: "Q w w1" if "DepartmentService_Patch X (rt_Departments cfg) u nm ac v w = (q, w1)" for u nm ac v q w1
    using that by (rule Q_dept_Patch)
  show "Q w w'" using h err errm svc Q_refl
    by (auto simp: DepartmentHandler_Patch_def intro: Q_inc
        split: option.splits sum.splits if_splits prod.splits)
qed

lemma keeps_DeptDelete: "handler_keeps Q (DepartmentHandler_DeleteBlocked X)"
  by (rule handler_keepsI)
     (auto simp: DepartmentHandler_DeleteBlocked_def DepartmentService_DeleteBlocked_def
       dest: keeps_HandleError intro: Q_refl split: option.splits)

lemma keeps_PlanList: "handler_keeps Q (PlanHandler_List X (rt_Plans cfg))"
  by (rule handler_keepsI)
     (auto simp: PlanHandler_List_def dest: keeps_HandleError
       intro: Q_plan_List Q_refl split: prod.splits sum.splits option.splits)

lemma keeps_PlanGet: "handler_keeps Q (PlanHandler_Get X (rt_Plans cfg))"
  by (rule handler_keepsI)
     (auto simp: PlanHandler_Get_def dest: keeps_HandleError
       intro: Q_plan_Get Q_refl split: prod.splits sum.splits option.splits)

lemma keeps_PlanPatch: "handler_keeps Q (PlanHandler_Patch X (rt_Plans cfg))"
proof (rule handler_keepsI)
  fix c w r w' assume h: "PlanHandler_Patch X (rt_Plans cfg) c w = (r, w')"
  have err: "Q w w'" if "HandleError X c e v = (r, w')" "Q w v" for e v
    using that by (rule keeps_HandleError)
  have errm: "Q w w'" if "HandleError X c e (inc_metric (OptimisticLockConflicts t) v) = (r, w')" "Q w v" for e t v
    using that(1) by (rule keeps_HandleError) (simp add: Q_inc that(2))
  have svc: "Q w w1" if "PlanService_Patch (rt_Plans cfg) code p w = (q, w1)"
    "bind_plan_patch X b = Inr body" "parse_patch body = Inr p" for code p q w1 b body
    using that(1) by (rule Q_plan_Patch) (use that in \<open>blast intro: parse_patch_decoded bind_plan_patch_decoded\<close>)
  show "Q w w'" using h err errm svc Q_refl
    by (auto simp: PlanHandler_Patch_def intro: Q_inc
        split: option.splits sum.splits if_splits prod.splits)
qed

lemma keeps_InternalDepartments: "handler_keeps Q (InternalHandler_Departments X (rt_Departments cfg))"
  by (rule handler_keepsI)
     (auto simp: InternalHandler_Departments_def dest: keeps_HandleError
       intro: Q_dept_List Q_refl split: prod.splits sum.splits option.splits)

lemma keeps_InternalPlans: "handler_keeps Q (InternalHandler_Plans X (rt_Plans cfg))"
  by (rule handler_keepsI)
     (auto simp: InternalHandler_Plans_def dest: keeps_HandleError
       intro: Q_plan_List Q_refl split: prod.splits sum.splits option.splits)

lemmas keeps_handlers = keeps_DeptList keeps_DeptGet keeps_DeptCreate keeps_DeptPatch keeps_DeptDelete
  keeps_PlanList keeps_PlanGet keeps_PlanPatch keeps_InternalDepartments keeps_InternalPlans

lemma keeps_api: "handler_keeps Q (api_handler X cfg e)"
  by (cases e) (auto simp: api_handler_def intro!: keeps_handlers keeps_gates keeps_return)

end

locale server_contract = service_contract Q X cfg + chain_contract Q
  for Q :: "world \<Rightarrow> world \<Rightarrow> bool" and X :: ext and cfg :: router_config
begin

lemma keeps_endpoint: "handler_keeps Q (endpoint_handler G X cfg e)"
proof -
  have api: "handler_keeps Q (body_cap (normalized G X 200 (api_chain G X cfg e)))"
    by (intro keeps_gates keeps_api_chain keeps_api)
  show ?thesis
    by (cases e) (use api in \<open>simp_all add: endpoint_handler_def keeps_docs keeps_gates keeps_return keeps_readyz\<close>)
qed

theorem serve_keeps: "handler_keeps Q (serve G X cfg)"
proof (rule handler_keepsI)
  fix c w r w' assume s: "serve G X cfg c w = (r, w')"
  have none: "handler_keeps Q (body_cap (normalized G X u (\<lambda>c w. (unwritten, w))))" for u
    by (intro keeps_gates keeps_return)
  have nm: "handler_keeps Q (body_cap (normalized G X 405 NoMethod))"
    by (intro keeps_gates keeps_NoMethod)
  show "Q w w'" using s
    by (auto simp: serve_def dest: handler_keepsD [OF keeps_endpoint] handler_keepsD [OF none]
        handler_keepsD [OF nm] split: gin_match.splits option.splits)
qed

end

end
