(* ===== verification/Simulation.thy ===== *)
theory Simulation
  imports Handler_Contracts
begin

text \<open>
  Two servers side by side. A relation between their states that the error path and the counters
  respect is a simulation; if the service operations of the two configurations give the same results
  and keep the relation, so do the two servers with their whole chain of middleware: they answer every
  request alike.
\<close>

section \<open>Operations that agree\<close>

definition agrees :: "(world \<Rightarrow> world \<Rightarrow> bool) \<Rightarrow> (world \<Rightarrow> 'a \<times> world) \<Rightarrow> (world \<Rightarrow> 'a \<times> world) \<Rightarrow> bool" where
  "agrees R m n \<longleftrightarrow> (\<forall>w v. R w v \<longrightarrow> (\<exists>r w' v'. m w = (r, w') \<and> n v = (r, v') \<and> R w' v'))"

definition handlers_agree :: "(world \<Rightarrow> world \<Rightarrow> bool) \<Rightarrow> handler \<Rightarrow> handler \<Rightarrow> bool" where
  "handlers_agree R h k \<longleftrightarrow> (\<forall>c. agrees R (h c) (k c))"

lemma agreesI:
  "(\<And>w v. R w v \<Longrightarrow> \<exists>r w' v'. m w = (r, w') \<and> n v = (r, v') \<and> R w' v') \<Longrightarrow> agrees R m n"
  by (simp add: agrees_def)

lemma agreesE:
  assumes "agrees R m n" and "R w v"
  obtains r w' v' where "m w = (r, w')" and "n v = (r, v')" and "R w' v'"
  using assms unfolding agrees_def by blast

lemma agrees_return [simp]: "agrees R (Pair a) (Pair a)" "agrees R (\<lambda>w. (a, w)) (\<lambda>v. (a, v))"
  by (simp_all add: agrees_def)

lemma agrees_effect: "(\<And>w v. R w v \<Longrightarrow> R (f w) (g v)) \<Longrightarrow> agrees R (\<lambda>w. (a, f w)) (\<lambda>v. (a, g v))"
  by (simp add: agrees_def)

lemma agrees_call:
  assumes "agrees R m n" and "\<And>e. agrees R (f e) (f' e)" and "\<And>a. agrees R (g a) (g' a)"
  shows "agrees R (\<lambda>w. case m w of (Inl e, w1) \<Rightarrow> f e w1 | (Inr a, w1) \<Rightarrow> g a w1)
                  (\<lambda>v. case n v of (Inl e, v1) \<Rightarrow> f' e v1 | (Inr a, v1) \<Rightarrow> g' a v1)"
proof (rule agreesI)
  fix w v assume "R w v"
  with assms(1) obtain r w1 v1 where 1: "m w = (r, w1)" "n v = (r, v1)" "R w1 v1" by (rule agreesE)
  show "\<exists>r w' v'. (case m w of (Inl e, w1) \<Rightarrow> f e w1 | (Inr a, w1) \<Rightarrow> g a w1) = (r, w')
      \<and> (case n v of (Inl e, v1) \<Rightarrow> f' e v1 | (Inr a, v1) \<Rightarrow> g' a v1) = (r, v') \<and> R w' v'"
  proof (cases r)
    case (Inl e)
    from assms(2) 1(3) obtain q w2 v2 where "f e w1 = (q, w2)" "f' e v1 = (q, v2)" "R w2 v2" by (rule agreesE)
    with 1 Inl show ?thesis by auto
  next
    case (Inr a)
    from assms(3) 1(3) obtain q w2 v2 where "g a w1 = (q, w2)" "g' a v1 = (q, v2)" "R w2 v2" by (rule agreesE)
    with 1 Inr show ?thesis by auto
  qed
qed

text \<open>A branch that depends on the request alone.\<close>

lemma agrees_if:
  "(b \<Longrightarrow> agrees R f f') \<Longrightarrow> (\<not> b \<Longrightarrow> agrees R g g') \<Longrightarrow>
     agrees R (\<lambda>w. if b then f w else g w) (\<lambda>v. if b then f' v else g' v)"
  by (cases b) simp_all

lemma agrees_option:
  "(\<And>a. x = Some a \<Longrightarrow> agrees R (f a) (f' a)) \<Longrightarrow> (x = None \<Longrightarrow> agrees R g g') \<Longrightarrow>
     agrees R (\<lambda>w. case x of None \<Rightarrow> g w | Some a \<Rightarrow> f a w) (\<lambda>v. case x of None \<Rightarrow> g' v | Some a \<Rightarrow> f' a v)"
  by (cases x) simp_all

lemma agrees_sum:
  "(\<And>e. x = Inl e \<Longrightarrow> agrees R (f e) (f' e)) \<Longrightarrow> (\<And>a. x = Inr a \<Longrightarrow> agrees R (g a) (g' a)) \<Longrightarrow>
     agrees R (\<lambda>w. case x of Inl e \<Rightarrow> f e w | Inr a \<Rightarrow> g a w) (\<lambda>v. case x of Inl e \<Rightarrow> f' e v | Inr a \<Rightarrow> g' a v)"
  by (cases x) simp_all

lemmas agrees_branches = agrees_if agrees_option agrees_sum

lemma handlers_agreeI: "(\<And>c. agrees R (h c) (k c)) \<Longrightarrow> handlers_agree R h k"
  by (simp add: handlers_agree_def)

lemma handlers_agreeD: "handlers_agree R h k \<Longrightarrow> agrees R (h c) (k c)"
  by (simp add: handlers_agree_def)

section \<open>Middleware\<close>

locale handler_simulation =
  fixes R :: "world \<Rightarrow> world \<Rightarrow> bool"
  assumes R_inc: "R w v \<Longrightarrow> R (inc_metric m w) (inc_metric m v)"
    and R_log: "R w v \<Longrightarrow> R (add_log l w) (add_log l v)"
    and R_request: "R w v \<Longrightarrow> R (count_request route status d w) (count_request route status d' v)"
begin

lemma agree_HandleError: "agrees R (HandleError X c e) (HandleError X c e)"
  by (cases e) (auto simp: HandleError_def [abs_def] Let_def intro!: agrees_if agrees_effect R_log)

lemma agree_HandleError_counted: "agrees R (\<lambda>w. HandleError X c e (inc_metric m w)) (\<lambda>v. HandleError X c e (inc_metric m v))"
  using agreesE [OF agree_HandleError R_inc] by (intro agreesI) metis

lemma agree_reply_counted: "agrees R (\<lambda>w. (r, inc_metric m w)) (\<lambda>v. (r, inc_metric m v))"
  by (rule agrees_effect) (rule R_inc)

lemma agree_body_cap: "handlers_agree R h k \<Longrightarrow> handlers_agree R (body_cap h) (body_cap k)"
  by (auto simp: handlers_agree_def body_cap_def [abs_def] intro!: agrees_if)

lemma agree_Protected: "handlers_agree R h k \<Longrightarrow> handlers_agree R (ProtectedMiddlewares G h) (ProtectedMiddlewares G k)"
  by (auto simp: handlers_agree_def ProtectedMiddlewares_def [abs_def] intro!: agrees_sum)

lemma agree_IdentityBridge: "handlers_agree R h k \<Longrightarrow> handlers_agree R (IdentityBridgeMiddleware X h) (IdentityBridgeMiddleware X k)"
  by (auto simp: handlers_agree_def IdentityBridgeMiddleware_def [abs_def] intro!: agrees_option agrees_sum)

lemma agree_JSON: "handlers_agree R h k \<Longrightarrow> handlers_agree R (RequireJSONContentType h) (RequireJSONContentType k)"
  by (auto simp: handlers_agree_def RequireJSONContentType_def [abs_def] simp del: insert_iff intro!: agrees_if)

lemma agree_System: "handlers_agree R h k \<Longrightarrow> handlers_agree R (RequireSystemRole h) (RequireSystemRole k)"
  by (auto simp: handlers_agree_def RequireSystemRole_def [abs_def] intro!: agrees_option agrees_if)

lemma agree_Operator: "handlers_agree R h k \<Longrightarrow> handlers_agree R (RequireOperatorRole h) (RequireOperatorRole k)"
  by (auto simp: handlers_agree_def RequireOperatorRole_def [abs_def] intro!: agrees_option agrees_if)

lemma agree_normalized:
  assumes "handlers_agree R h k"
  shows "handlers_agree R (normalized G X u h) (normalized G X u k)"
proof (rule handlers_agreeI, rule agreesI)
  fix c w v assume "R w v"
  with handlers_agreeD [OF assms, of c] obtain r w' v' where "h c w = (r, w')" "k c v = (r, v')" "R w' v'" by (rule agreesE)
  then show "\<exists>r w' v'. normalized G X u h c w = (r, w') \<and> normalized G X u k c v = (r, v') \<and> R w' v'"
    by (simp add: normalized_def)
qed

lemma agree_requestMetrics:
  assumes "handlers_agree R h k"
  shows "handlers_agree R (requestMetricsMiddleware G h) (requestMetricsMiddleware G k)"
proof (rule handlers_agreeI, rule agreesI)
  fix c w v assume "R w v"
  with handlers_agreeD [OF assms, of c] obtain r w' v' where "h c w = (r, w')" "k c v = (r, v')" "R w' v'" by (rule agreesE)
  then show "\<exists>r w' v'. requestMetricsMiddleware G h c w = (r, w') \<and> requestMetricsMiddleware G k c v = (r, v') \<and> R w' v'"
    by (simp add: requestMetricsMiddleware_def Let_def R_request)
qed

lemmas agree_gates = agree_body_cap agree_normalized agree_Protected agree_IdentityBridge agree_JSON agree_System
  agree_Operator agree_requestMetrics

end

section \<open>Services and servers\<close>

locale service_simulation = handler_simulation R for R :: "world \<Rightarrow> world \<Rightarrow> bool" +
  fixes X :: ext and cfg1 :: router_config and cfg2 :: router_config
  assumes R_now: "R w v \<Longrightarrow> w_now w = w_now v"
    and sim_dept_List: "agrees R (DepartmentService_List X (rt_Departments cfg1) b) (DepartmentService_List X (rt_Departments cfg2) b)"
    and sim_dept_Get: "agrees R (DepartmentService_Get (rt_Departments cfg1) u) (DepartmentService_Get (rt_Departments cfg2) u)"
    and sim_dept_Create: "agrees R (DepartmentService_Create (rt_Departments cfg1) cd nm sy)
          (DepartmentService_Create (rt_Departments cfg2) cd nm sy)"
    and sim_dept_Patch: "agrees R (DepartmentService_Patch X (rt_Departments cfg1) u nmo ac ver)
          (DepartmentService_Patch X (rt_Departments cfg2) u nmo ac ver)"
    and sim_plan_List: "agrees R (PlanService_List X (rt_Plans cfg1)) (PlanService_List X (rt_Plans cfg2))"
    and sim_plan_Get: "agrees R (PlanService_GetByCode (rt_Plans cfg1) cd) (PlanService_GetByCode (rt_Plans cfg2) cd)"
    and sim_plan_Patch: "(ext_ok X \<Longrightarrow> patch_decoded X p) \<Longrightarrow>
          agrees R (PlanService_Patch (rt_Plans cfg1) cd p) (PlanService_Patch (rt_Plans cfg2) cd p)"
    and sim_Health: "agrees R (cache_Health (rt_Cache cfg1)) (cache_Health (rt_Cache cfg2))"
begin

lemma agree_DeptList: "handlers_agree R (DepartmentHandler_List X (rt_Departments cfg1)) (DepartmentHandler_List X (rt_Departments cfg2))"
  unfolding handlers_agree_def DepartmentHandler_List_def [abs_def] Let_def
  by (intro allI agrees_call agree_HandleError sim_dept_List agrees_return)

lemma agree_DeptGet: "handlers_agree R (DepartmentHandler_Get X (rt_Departments cfg1)) (DepartmentHandler_Get X (rt_Departments cfg2))"
  unfolding handlers_agree_def DepartmentHandler_Get_def [abs_def]
  by (intro allI agrees_sum agrees_call agree_HandleError sim_dept_Get agrees_return)

lemma agree_DeptCreate: "handlers_agree R (DepartmentHandler_Create X (rt_Departments cfg1)) (DepartmentHandler_Create X (rt_Departments cfg2))"
  unfolding handlers_agree_def DepartmentHandler_Create_def [abs_def]
  by (intro allI agrees_branches agrees_call agree_HandleError sim_dept_Create agree_reply_counted)

text \<open>The error path of a patch, which counts a conflict.\<close>

lemma agree_conflict:
  "agrees R (\<lambda>w. HandleError X c e (if b then inc_metric m w else w)) (\<lambda>v. HandleError X c e (if b then inc_metric m v else v))"
  by (cases b) (simp_all add: agree_HandleError agree_HandleError_counted)

lemma agree_DeptPatch: "handlers_agree R (DepartmentHandler_Patch X (rt_Departments cfg1)) (DepartmentHandler_Patch X (rt_Departments cfg2))"
  unfolding handlers_agree_def DepartmentHandler_Patch_def [abs_def]
  by (intro allI agrees_branches agrees_call agree_HandleError agree_conflict sim_dept_Patch agree_reply_counted)

lemma agree_DeptDelete: "handlers_agree R (DepartmentHandler_DeleteBlocked X) (DepartmentHandler_DeleteBlocked X)"
  unfolding handlers_agree_def DepartmentHandler_DeleteBlocked_def [abs_def] DepartmentService_DeleteBlocked_def
  by (intro allI agrees_option) (simp_all add: agree_HandleError)

lemma agree_PlanList: "handlers_agree R (PlanHandler_List X (rt_Plans cfg1)) (PlanHandler_List X (rt_Plans cfg2))"
  unfolding handlers_agree_def PlanHandler_List_def [abs_def]
  by (intro allI agrees_option agrees_call agree_HandleError sim_plan_List agrees_return)

lemma agree_PlanGet: "handlers_agree R (PlanHandler_Get X (rt_Plans cfg1)) (PlanHandler_Get X (rt_Plans cfg2))"
  unfolding handlers_agree_def PlanHandler_Get_def [abs_def]
  by (intro allI agrees_option agrees_call agree_HandleError sim_plan_Get agrees_return)

lemma agree_PlanPatch: "handlers_agree R (PlanHandler_Patch X (rt_Plans cfg1)) (PlanHandler_Patch X (rt_Plans cfg2))"
  unfolding handlers_agree_def PlanHandler_Patch_def [abs_def]
  by (intro allI agrees_branches agrees_call agree_HandleError agree_conflict sim_plan_Patch agree_reply_counted)
    (blast intro: parse_patch_decoded bind_plan_patch_decoded)

lemma agree_now: "agrees R (\<lambda>w. (f (w_now w), w)) (\<lambda>v. (f (w_now v), v))"
  by (simp add: agrees_def R_now)

lemma agree_InternalDepartments:
  "handlers_agree R (InternalHandler_Departments X (rt_Departments cfg1)) (InternalHandler_Departments X (rt_Departments cfg2))"
  unfolding handlers_agree_def InternalHandler_Departments_def [abs_def]
  by (intro allI agrees_option agrees_call agree_HandleError sim_dept_List)
    (rule agree_now [where f = "\<lambda>t. json_response 200 (JObj [_, (_, JStr (x_format_rfc3339 X (t div _)))])"])

lemma agree_InternalPlans: "handlers_agree R (InternalHandler_Plans X (rt_Plans cfg1)) (InternalHandler_Plans X (rt_Plans cfg2))"
  unfolding handlers_agree_def InternalHandler_Plans_def [abs_def]
  by (intro allI agrees_option agrees_call agree_HandleError sim_plan_List agrees_return)

lemmas agree_handlers = agree_DeptList agree_DeptGet agree_DeptCreate agree_DeptPatch agree_DeptDelete
  agree_PlanList agree_PlanGet agree_PlanPatch agree_InternalDepartments agree_InternalPlans

lemma agree_unwritten: "handlers_agree R (\<lambda>c w. (q c, w)) (\<lambda>c w. (q c, w))"
  by (simp add: handlers_agree_def)

lemma agree_api: "handlers_agree R (api_handler X cfg1 e) (api_handler X cfg2 e)"
  by (cases e) (auto simp: api_handler_def intro!: agree_handlers agree_gates agree_unwritten)

lemma agree_readyz:
  assumes "\<And>w v. R w v \<Longrightarrow> g_pool_healthy G w = g_pool_healthy G v"
  shows "handlers_agree R (readyz G cfg1) (readyz G cfg2)"
proof (rule handlers_agreeI, rule agreesI)
  fix c w v assume R: "R w v"
  from sim_Health R obtain q w' v' where "cache_Health (rt_Cache cfg1) w = (q, w')" "cache_Health (rt_Cache cfg2) v = (q, v')"
    "R w' v'" by (rule agreesE)
  then show "\<exists>r w' v'. readyz G cfg1 c w = (r, w') \<and> readyz G cfg2 c v = (r, v') \<and> R w' v'"
    using assms [OF R] R by (cases q) (simp_all add: readyz_def)
qed

lemma agree_endpoint:
  assumes "\<And>w v. R w v \<Longrightarrow> g_pool_healthy G w = g_pool_healthy G v" and "rt_Docs cfg1 = rt_Docs cfg2"
  shows "handlers_agree R (endpoint_handler G X cfg1 e) (endpoint_handler G X cfg2 e)"
proof -
  have api: "handlers_agree R (body_cap (normalized G X 200 (api_chain G X cfg1 e))) (body_cap (normalized G X 200 (api_chain G X cfg2 e)))"
    unfolding api_chain_def by (intro agree_gates agree_api)
  show ?thesis
    by (cases e) (use api assms(2) in \<open>auto simp: endpoint_handler_def docs_handler_def [abs_def] intro!: agree_gates
        agree_readyz [OF assms(1)] agree_unwritten\<close>)
qed

theorem serve_agree:
  assumes "\<And>w v. R w v \<Longrightarrow> g_pool_healthy G w = g_pool_healthy G v" and "rt_Docs cfg1 = rt_Docs cfg2"
  shows "handlers_agree R (serve G X cfg1) (serve G X cfg2)"
proof (rule handlers_agreeI)
  fix c :: request
  let ?gm = "g_match G (map (\<lambda>(m, t, e). (m, t)) (routes (rt_Docs cfg2))) (q_method c) (q_path c)"
  have none: "agrees R (body_cap (normalized G X s (\<lambda>c w. (q c, w))) c) (body_cap (normalized G X s (\<lambda>c w. (q c, w))) c)" for q s
    by (rule handlers_agreeD) (intro agree_gates agree_unwritten)
  note endpoint = handlers_agreeD [OF agree_endpoint [OF assms]]
  show "agrees R (serve G X cfg1 c) (serve G X cfg2 c)"
  proof (cases ?gm)
    case (Matched template params)
    then show ?thesis
      by (cases "route_endpoint (rt_Docs cfg2) (q_method c) template") (simp_all add: serve_def [abs_def] assms(2) none endpoint)
  qed (simp_all add: serve_def [abs_def] assms(2) none NoMethod_def [abs_def])
qed

end

end
