(* ===== verification/Coherence.thy ===== *)
theory Coherence
  imports Handler_Contracts
begin

text \<open>
  The two contracts on the running service (Postgres and Valkey adapters under the services main.go
  composes): the tables evolve, and both cached catalogs stay coherent as long as the surroundings
  are steady, that is no cache call fails and no commit loses its acknowledgement. Transactions may
  fail in every other way.
\<close>

definition pg_config :: "ext \<Rightarrow> duration \<Rightarrow> docs_config \<Rightarrow> router_config" where
  "pg_config X ttl d =
     \<lparr>rt_Docs = d, rt_Departments = pg_department_service X ttl, rt_Plans = pg_plan_service X ttl,
      rt_Cache = valkey_port\<rparr>"

lemma pg_config_simps [simp]:
  "rt_Departments (pg_config X ttl d) = pg_department_service X ttl"
  "rt_Plans (pg_config X ttl d) = pg_plan_service X ttl" "rt_Cache (pg_config X ttl d) = valkey_port"
  "rt_Docs (pg_config X ttl d) = d"
  by (simp_all add: pg_config_def)

lemma compose_pg_config: "compose X env = pg_config X (catalogTTL env) (docs_from_env env)"
  by (simp add: compose_def pg_config_def)

section \<open>Steady surroundings\<close>

definition tx_honest :: "tx_fate \<Rightarrow> bool" where
  "tx_honest t \<longleftrightarrow> (case tf_commit t of Some (_, applied) \<Rightarrow> \<not> applied | None \<Rightarrow> True)"

definition steady :: "world \<Rightarrow> bool" where
  "steady w \<longleftrightarrow> w_cache w = [] \<and> list_all tx_honest (w_tx w)"

lemma steady_no_lost_ack: "steady w \<Longrightarrow> \<not> lost_ack w"
  by (cases "w_tx w") (auto simp: steady_def lost_ack_def next_tx_def tx_honest_def split: option.splits)

lemma steady_healthy: "steady w \<Longrightarrow> valkey_healthy w"
  by (simp add: steady_def valkey_healthy_def)

lemma live_value_count_request [simp]: "live_value (count_request rt st ns w) = live_value w"
  by (rule live_value_cong) simp_all

lemma steady_simps [simp]:
  "steady (inc_metric m w) = steady w" "steady (add_log l w) = steady w" "steady (count_request rt st ns w) = steady w"
  "steady (store_set k v ttl w) = steady w" "steady (store_del ks w) = steady w"
  by (simp_all add: steady_def)

lemma steady_pop: "steady w \<Longrightarrow> steady (pop_cache w)" "steady w \<Longrightarrow> steady (pop_tx w)"
  by (cases "w_tx w"; simp add: steady_def)+

text \<open>What an operation leaves of the key \<open>j\<close> and of the surroundings.\<close>

definition leaves :: "string \<Rightarrow> world \<Rightarrow> world \<Rightarrow> bool" where
  "leaves j w w' \<longleftrightarrow> live_value w' j = live_value w j \<and> (steady w \<longrightarrow> steady w')"

lemma leaves_refl [simp]: "leaves j w w"
  by (simp add: leaves_def)

lemma leaves_trans: "leaves j a b \<Longrightarrow> leaves j b c \<Longrightarrow> leaves j a c"
  by (simp add: leaves_def)

lemma leaves_steady: "leaves j w w' \<Longrightarrow> steady w \<Longrightarrow> steady w'"
  by (simp add: leaves_def)

lemma leaves_inc [simp]: "leaves j w (inc_metric m w') = leaves j w w'" "leaves j w (add_log l w') = leaves j w w'"
  by (simp_all add: leaves_def)

lemma leaves_Cache:
  "Cache_Get k w = (rg, w') \<Longrightarrow> leaves j w w'"
  "Cache_Set k v ttl w = (rs, w') \<Longrightarrow> j \<noteq> k \<Longrightarrow> leaves j w w'"
  "Cache_Delete ks w = (rd, w') \<Longrightarrow> j \<notin> set ks \<Longrightarrow> leaves j w w'"
  "Cache_Health w = (rh, w') \<Longrightarrow> leaves j w w'"
  by (auto simp: leaves_def Cache_Get_def Cache_Set_def Cache_Delete_def Cache_Health_def steady_pop
      live_value_store_set live_value_store_del split: cache_fate.splits option.splits if_splits)

lemma steady_Cache:
  "Cache_Set k v ttl w = (rs, w') \<Longrightarrow> steady w \<Longrightarrow> steady w'"
  "Cache_Delete ks w = (rd, w') \<Longrightarrow> steady w \<Longrightarrow> steady w'"
  by (auto simp: Cache_Set_def Cache_Delete_def steady_pop split: cache_fate.splits if_splits)

text \<open>A transaction takes one fate off the list and leaves the cache side alone.\<close>

lemma withPool_tx:
  assumes "withPool X fn w = (r, w')"
    and "\<And>t v q v'. fn t v = (q, v') \<Longrightarrow> w_tx v' = w_tx v"
  shows "w_tx w' = tl (w_tx w)"
proof (cases r)
  case (Inl e)
  with assms(1) have "withPool X fn w = (Inl e, w')" by simp
  then show ?thesis by (cases rule: withPool_Inl) (use assms(2) in fastforce)+
next
  case (Inr x)
  with assms(1) withPool_Inr have "fn (next_tx w) (pop_tx w) = (Inr x, w')" by fastforce
  from assms(2) [OF this] show ?thesis by simp
qed

lemma exec_w_tx: "exec fault stmt w = (r, w') \<Longrightarrow> w_tx w' = w_tx w"
  by (auto dest: exec_frame)

lemma repository_tx:
  "DepartmentRepository_List X b w = (rl, w') \<Longrightarrow> w_tx w' = tl (w_tx w)"
  "DepartmentRepository_FindByID X u w = (rd, w') \<Longrightarrow> w_tx w' = tl (w_tx w)"
  "PlanRepository_List X w = (rpl, w') \<Longrightarrow> w_tx w' = tl (w_tx w)"
  "PlanRepository_FindByCode X code w = (rp, w') \<Longrightarrow> w_tx w' = tl (w_tx w)"
  unfolding DepartmentRepository_List_def DepartmentRepository_FindByID_def PlanRepository_List_def
    PlanRepository_FindByCode_def
  by (erule withPool_tx; auto simp: deptListFromTx_def deptFindByIDFromTx_def planListFromTx_def
      planFindFromTx_def split: sum.splits if_splits)+

lemma DepartmentRepository_Insert_tx:
  assumes "DepartmentRepository_Insert X d w = (r, w')"
  shows "w_tx w' = tl (w_tx w)"
proof -
  have body: "w_tx v' = w_tx v" if "deptInsertFromTx X d' t v = (q, v')" for d' t v q v'
    using that by (auto simp: deptInsertFromTx_def dest: exec_w_tx split: prod.splits sum.splits if_splits)
  have pool: "w_tx w' = tl (w_tx v)" if "withPool X (deptInsertFromTx X d') v = (r, w')" for d' v
    using that by (rule withPool_tx) (rule body)
  show ?thesis
    by (cases "d_ID d = uuid_Nil") (use assms in \<open>auto simp: DepartmentRepository_Insert_def dest: pool\<close>)
qed

lemma DepartmentRepository_Update_tx:
  assumes "DepartmentRepository_Update X u name isActive v w = (r, w')"
  shows "w_tx w' = tl (w_tx w)"
proof (cases "name = None \<and> isActive = None")
  case True
  with assms show ?thesis by (auto simp: DepartmentRepository_Update_def dest: repository_tx)
next
  case False
  obtain sets args where sets: "dept_update_sql u name isActive v = (sets, args)" by force
  have body: "w_tx s' = w_tx s" if "deptUpdateBody X u sets args t s = (q, s')" for t s q s'
    using that by (auto simp: deptUpdateBody_def deptUpdateFromTx_def dest: exec_w_tx
        split: prod.splits sum.splits if_splits option.splits)
  from assms False sets have "withPool X (deptUpdateBody X u sets args) w = (r, w')"
    by (auto simp: DepartmentRepository_Update_def)
  then show ?thesis by (rule withPool_tx) (rule body)
qed

lemma PlanRepository_Update_tx:
  assumes "PlanRepository_Update X code patch w = (r, w')"
  shows "w_tx w' = w_tx w \<or> w_tx w' = tl (w_tx w)"
  using assms
proof (cases rule: PlanRepository_Update_cases)
  case (ran p sets args)
  have body: "w_tx s' = w_tx s" if "planUpdateBody X code sets args t s = (q, s')" for t s q s'
    using that by (auto simp: planUpdateBody_def planUpdateFromTx_def dest: exec_w_tx
        split: prod.splits sum.splits if_splits option.splits)
  from ran(3) have "w_tx w' = tl (w_tx w)" by (rule withPool_tx) (rule body)
  then show ?thesis by simp
qed simp

lemma leavesI:
  assumes "cache_side w' = cache_side w" and "w_tx w' = w_tx w \<or> w_tx w' = tl (w_tx w)"
  shows "leaves j w w'"
proof -
  have "live_value w' = live_value w" using assms(1) by (rule cache_side_live)
  moreover have "w_cache w' = w_cache w" using assms(1) by (simp add: cache_side_def)
  moreover have "list_all tx_honest (w_tx w) \<Longrightarrow> list_all tx_honest (w_tx w')"
    using assms(2) by (cases "w_tx w") auto
  ultimately show ?thesis by (simp add: leaves_def steady_def)
qed

lemma leaves_repository:
  "DepartmentRepository_List X b w = (rl, w') \<Longrightarrow> leaves j w w'"
  "DepartmentRepository_FindByID X u w = (rd, w') \<Longrightarrow> leaves j w w'"
  "DepartmentRepository_Insert X d w = (rd, w') \<Longrightarrow> leaves j w w'"
  "DepartmentRepository_Update X u name isActive v w = (rd, w') \<Longrightarrow> leaves j w w'"
  "PlanRepository_List X w = (rpl, w') \<Longrightarrow> leaves j w w'"
  "PlanRepository_FindByCode X code w = (rp, w') \<Longrightarrow> leaves j w w'"
  "PlanRepository_Update X code patch w = (rp, w') \<Longrightarrow> leaves j w w'"
  by (auto intro!: leavesI dest: DepartmentRepository_List_frame DepartmentRepository_FindByID_frame
      DepartmentRepository_Insert_frame DepartmentRepository_Update_frame PlanRepository_List_frame
      PlanRepository_FindByCode_frame PlanRepository_Update_frame repository_tx
      DepartmentRepository_Insert_tx DepartmentRepository_Update_tx PlanRepository_Update_tx)

section \<open>Writes change one table\<close>

lemma DepartmentRepository_Insert_plans:
  assumes "DepartmentRepository_Insert X d w = (r, w')"
  shows "t_plans (w_db w') = t_plans (w_db w)"
proof -
  have st: "t_plans db' = t_plans db" if "sql_insert_department X now u code name sys act db = (q, db')"
    for now u code name sys act db q db'
    using that by (cases rule: sql_insert_department_cases) auto
  have ex: "t_plans (w_db v1) = t_plans (w_db v)"
    if "exec f (sql_insert_department X now u code name sys act) v = (q, v1)" for f now u code name sys act v q v1
    using that st by (cases f) (auto simp: exec_def split: prod.splits)
  have pool: "t_plans (w_db w') = t_plans (w_db v)" if "withPool X (deptInsertFromTx X d') v = (r, w')" for d' v
    using that
    by (rule withPool_db_inv [where P = "\<lambda>db. t_plans db = t_plans (w_db v)"])
       (auto simp: deptInsertFromTx_def dest!: ex split: prod.splits sum.splits if_splits)
  show ?thesis
    by (cases "d_ID d = uuid_Nil") (use assms in \<open>auto simp: DepartmentRepository_Insert_def dest: pool\<close>)
qed

lemma DepartmentRepository_Update_plans:
  assumes "DepartmentRepository_Update X u name isActive v w = (r, w')"
  shows "t_plans (w_db w') = t_plans (w_db w)"
proof (cases "name = None \<and> isActive = None")
  case True
  with assms have "DepartmentRepository_FindByID X u w = (r, w')" by (auto simp: DepartmentRepository_Update_def)
  from DepartmentRepository_FindByID_frame [OF this] show ?thesis by simp
next
  case False
  obtain sets args where sets: "dept_update_sql u name isActive v = (sets, args)" by force
  have st: "t_plans db' = t_plans db" if "sql_update_department X now sets args db = (q, db')" for now db q db'
    using that by (cases rule: sql_update_department_cases) auto
  have ex: "t_plans (w_db v1) = t_plans (w_db v)"
    if "exec f (sql_update_department X now sets args) v = (q, v1)" for f now v q v1
    using that st by (cases f) (auto simp: exec_def split: prod.splits)
  from assms False sets have "withPool X (deptUpdateBody X u sets args) w = (r, w')"
    by (auto simp: DepartmentRepository_Update_def)
  then show ?thesis
    by (rule withPool_db_inv [where P = "\<lambda>db. t_plans db = t_plans (w_db w)"])
       (auto simp: deptUpdateBody_def deptUpdateFromTx_def dest!: ex
         split: prod.splits sum.splits if_splits option.splits)
qed

lemma PlanRepository_Update_departments:
  assumes "PlanRepository_Update X code patch w = (r, w')"
  shows "t_departments (w_db w') = t_departments (w_db w)"
  using assms
proof (cases rule: PlanRepository_Update_cases)
  case (ran p sets args)
  have st: "t_departments db' = t_departments db" if "sql_update_plan X now sets args db = (q, db')" for now db q db'
    using that by (cases rule: sql_update_plan_cases) auto
  have ex: "t_departments (w_db v1) = t_departments (w_db v)"
    if "exec f (sql_update_plan X now sets args) v = (q, v1)" for f now v q v1
    using that st by (cases f) (auto simp: exec_def split: prod.splits)
  from ran(3) show ?thesis
    by (rule withPool_db_inv [where P = "\<lambda>db. t_departments db = t_departments (w_db w)"])
       (auto simp: planUpdateBody_def planUpdateFromTx_def dest!: ex
         split: prod.splits sum.splits if_splits option.splits)
qed simp

end
