(* ===== verification/Running_Service.thy ===== *)
theory Running_Service
  imports Coherence
begin

text \<open>
  The service operations on the Postgres and Valkey adapters satisfy the two contracts of
  Handler_Contracts, so every request does: the tables take at most one step of the abstract machine,
  and both catalogs stay coherent in steady surroundings.
\<close>

section \<open>Reads\<close>

lemma db_unchanged_Cache:
  "Cache_Get k w = (rg, w') \<Longrightarrow> w_db w' = w_db w" "Cache_Set k v ttl w = (rs, w') \<Longrightarrow> w_db w' = w_db w"
  "Cache_Delete ks w = (rd, w') \<Longrightarrow> w_db w' = w_db w" "Cache_Health w = (rh, w') \<Longrightarrow> w_db w' = w_db w"
  by (auto dest!: Cache_db_side db_sideD)

lemma departments_hit_pg:
  assumes "departments_hit X (pg_department_service X ttl) w = (h, w1)"
  shows "\<exists>r. Cache_Get ''cat:departments'' w = (r, w1)"
  using assms by (auto simp: departments_hit_def split: prod.splits sum.splits option.splits)

lemma plans_hit_pg:
  assumes "plans_hit X (pg_plan_service X ttl) w = (h, w1)"
  shows "\<exists>r. Cache_Get ''cat:plans'' w = (r, w1)"
  using assms by (auto simp: plans_hit_def split: prod.splits sum.splits option.splits)

lemma listAllCached_pg:
  assumes l: "DepartmentService_listAllCached X (pg_department_service X ttl) w = (r, w')"
  shows "w_db w' = w_db w" and "j \<noteq> ''cat:departments'' \<Longrightarrow> leaves j w w'" and "steady w \<Longrightarrow> steady w'"
proof -
  obtain h w1 where hit: "departments_hit X (pg_department_service X ttl) w = (h, w1)" by force
  then obtain rg where get: "Cache_Get ''cat:departments'' w = (rg, w1)" using departments_hit_pg by blast
  note db1 = db_unchanged_Cache(1) [OF get] and l1 = leaves_Cache(1) [OF get]
  have all: "w_db w' = w_db w \<and> (\<forall>j. j \<noteq> ''cat:departments'' \<longrightarrow> leaves j w w') \<and> (steady w \<longrightarrow> steady w')"
  proof (cases h)
    case (Some ds)
    then show ?thesis using l hit db1 l1
      by (auto simp: DepartmentService_listAllCached_def intro: leaves_steady)
  next
    case None
    obtain rf w2 where f: "DepartmentRepository_List X False w1 = (rf, w2)" by force
    note db2 = DepartmentRepository_List_frame [OF f]
    have l2: "leaves j w w2" for j using l1 leaves_repository(1) [OF f] by (rule leaves_trans)
    show ?thesis
    proof (cases rf)
      case (Inl e)
      then have "w' = w2" using l hit None f by (simp add: DepartmentService_listAllCached_def)
      then show ?thesis using db1 db2 l2 by (auto intro: leaves_steady)
    next
      case (Inr ds)
      obtain rs w3 where s: "Cache_Set ''cat:departments'' (encode_departments X ds) (ds_cacheTTL (pg_department_service X ttl)) w2 = (rs, w3)"
        by force
      then have "w' = w3" using l hit None f Inr by (simp add: DepartmentService_listAllCached_def)
      moreover have "leaves j w w3" if "j \<noteq> ''cat:departments''" for j
        using l2 leaves_Cache(2) [OF s that] by (rule leaves_trans)
      moreover have "steady w \<Longrightarrow> steady w3" using steady_Cache(1) [OF s] leaves_steady [OF l2] by blast
      ultimately show ?thesis using db1 db2 db_unchanged_Cache(2) [OF s] by simp
    qed
  qed
  show "w_db w' = w_db w" and "j \<noteq> ''cat:departments'' \<Longrightarrow> leaves j w w'" and "steady w \<Longrightarrow> steady w'"
    using all by blast+
qed

lemma DepartmentService_List_pg:
  assumes "DepartmentService_List X (pg_department_service X ttl) b w = (r, w')"
  shows "\<exists>q. DepartmentService_listAllCached X (pg_department_service X ttl) w = (q, w')
       \<and> r = (case q of Inl e \<Rightarrow> Inl e | Inr all \<Rightarrow> Inr (if b then filter d_IsActive all else all))"
  using assms
  by (auto simp: DepartmentService_List_def active_departments_filter split: prod.splits sum.splits if_splits)

lemma PlanService_List_pg:
  assumes l: "PlanService_List X (pg_plan_service X ttl) w = (r, w')"
  shows "w_db w' = w_db w" and "j \<noteq> ''cat:plans'' \<Longrightarrow> leaves j w w'" and "steady w \<Longrightarrow> steady w'"
proof -
  obtain h w1 where hit: "plans_hit X (pg_plan_service X ttl) w = (h, w1)" by force
  then obtain rg where get: "Cache_Get ''cat:plans'' w = (rg, w1)" using plans_hit_pg by blast
  note db1 = db_unchanged_Cache(1) [OF get] and l1 = leaves_Cache(1) [OF get]
  have all: "w_db w' = w_db w \<and> (\<forall>j. j \<noteq> ''cat:plans'' \<longrightarrow> leaves j w w') \<and> (steady w \<longrightarrow> steady w')"
  proof (cases h)
    case (Some ds)
    then show ?thesis using l hit db1 l1 by (auto simp: PlanService_List_def intro: leaves_steady)
  next
    case None
    obtain rf w2 where f: "PlanRepository_List X w1 = (rf, w2)" by force
    note db2 = PlanRepository_List_frame [OF f]
    have l2: "leaves j w w2" for j using l1 leaves_repository(5) [OF f] by (rule leaves_trans)
    show ?thesis
    proof (cases rf)
      case (Inl e)
      then have "w' = w2" using l hit None f by (simp add: PlanService_List_def)
      then show ?thesis using db1 db2 l2 by (auto intro: leaves_steady)
    next
      case (Inr ps)
      obtain rs w3 where s: "Cache_Set ''cat:plans'' (encode_plans X ps) (ps_cacheTTL (pg_plan_service X ttl)) w2 = (rs, w3)"
        by force
      then have "w' = w3" using l hit None f Inr by (simp add: PlanService_List_def)
      moreover have "leaves j w w3" if "j \<noteq> ''cat:plans''" for j
        using l2 leaves_Cache(2) [OF s that] by (rule leaves_trans)
      moreover have "steady w \<Longrightarrow> steady w3" using steady_Cache(1) [OF s] leaves_steady [OF l2] by blast
      ultimately show ?thesis using db1 db2 db_unchanged_Cache(2) [OF s] by simp
    qed
  qed
  show "w_db w' = w_db w" and "j \<noteq> ''cat:plans'' \<Longrightarrow> leaves j w w'" and "steady w \<Longrightarrow> steady w'"
    using all by blast+
qed

lemma PlanService_GetByCode_pg:
  assumes "PlanService_GetByCode (pg_plan_service X ttl) code w = (r, w')"
  shows "w_db w' = w_db w \<and> leaves j w w'"
  using assms
  by (auto simp: PlanService_GetByCode_def split: if_splits dest: PlanRepository_FindByCode_frame leaves_repository(6))

lemma DepartmentService_Get_pg:
  assumes "DepartmentService_Get (pg_department_service X ttl) u w = (r, w')"
  shows "w_db w' = w_db w \<and> leaves j w w'"
  using assms
  by (auto simp: DepartmentService_Get_def dest: DepartmentRepository_FindByID_frame leaves_repository(2))

section \<open>Writes\<close>

text \<open>A write is refused by the service, or it is the repository's, followed by the invalidation.\<close>

lemma write_then_invalidate_pg:
  assumes "write_then_invalidate (Some valkey_port) k f w = (r, w')"
  obtains (error) e where "f w = (Inl e, w')" and "r = Inl e"
  | (done') b w1 rd where "f w = (Inr b, w1)" and "Cache_Delete [k] w1 = (rd, w')" and "r = Inr b"
proof -
  obtain q w1 where f: "f w = (q, w1)" by force
  show ?thesis
  proof (cases q)
    case (Inl e)
    with f assms have "f w = (Inl e, w')" "r = Inl e" by (simp_all add: write_then_invalidate_def)
    then show ?thesis by (rule error)
  next
    case (Inr b)
    obtain rd w2 where "Cache_Delete [k] w1 = (rd, w2)" by force
    with f assms Inr have "f w = (Inr b, w1)" "Cache_Delete [k] w1 = (rd, w')" "r = Inr b"
      by (simp_all add: write_then_invalidate_def)
    then show ?thesis by (rule done')
  qed
qed

lemma DepartmentService_Create_pg:
  assumes "DepartmentService_Create (pg_department_service X ttl) code name sys w = (r, w')"
  obtains (refused) e where "r = Inl e" and "w' = w"
  | (wrote) d where "write_then_invalidate (Some valkey_port) ''cat:departments''
        (DepartmentRepository_Insert X d) w = (r, w')"
proof (cases "trim_space code = '''' \<or> trim_space name = ''''")
  case True
  with assms refused show ?thesis by (auto simp: DepartmentService_Create_def)
next
  case False
  with assms Create_write_then_invalidate [of code name "pg_department_service X ttl" sys w] wrote
  show ?thesis by simp
qed

lemma DepartmentService_Patch_pg:
  assumes "DepartmentService_Patch X (pg_department_service X ttl) u name isActive v w = (r, w')"
  obtains (refused) e where "r = Inl e" and "w' = w"
  | (wrote) q where "write_then_invalidate (Some valkey_port) ''cat:departments''
        (DepartmentRepository_Update X u name isActive v) w = (q, w')"
      and "r = (case q of Inl e \<Rightarrow> Inl (patch_error X e) | Inr d \<Rightarrow> Inr d)"
proof (cases "(name \<noteq> None \<or> isActive \<noteq> None) \<and> (name = None \<or> trim_space (the name) \<noteq> '''')")
  case False
  with assms refused show ?thesis by (auto simp: DepartmentService_Patch_def split: if_splits)
next
  case True
  then have 1: "name \<noteq> None \<or> isActive \<noteq> None" and 2: "name = None \<or> trim_space (the name) \<noteq> ''''" by auto
  show ?thesis
    using assms wrote
    by (auto simp: Patch_write_then_invalidate [OF 1 2] split: prod.splits sum.splits)
qed

lemma PlanService_Patch_pg:
  assumes "PlanService_Patch (pg_plan_service X ttl) code p w = (r, w')"
  obtains (refused) e where "r = Inl e" and "w' = w"
  | (wrote) "write_then_invalidate (Some valkey_port) ''cat:plans''
        (PlanRepository_Update X code (Some p)) w = (r, w')" and "check_patch code p = None"
proof (cases "check_patch code p")
  case (Some de)
  with assms refused show ?thesis by (auto simp: PlanService_Patch_def)
next
  case None
  with assms PlanService_Patch_write_then_invalidate [OF None, of "pg_plan_service X ttl" w] wrote
  show ?thesis by simp
qed

lemma write_evolves:
  assumes "write_then_invalidate (Some valkey_port) k f w = (r, w')"
    and "\<And>q w1. f w = (q, w1) \<Longrightarrow> db_evolves X (w_db w) (w_db w1)"
  shows "db_evolves X (w_db w) (w_db w')"
  using assms(1)
  by (cases rule: write_then_invalidate_pg) (use assms(2) db_unchanged_Cache(3) in \<open>metis+\<close>)

section \<open>The tables evolve\<close>

definition tables_evolve :: "ext \<Rightarrow> world \<Rightarrow> world \<Rightarrow> bool" where
  "tables_evolve X w w' \<longleftrightarrow> (ext_ok X \<longrightarrow> db_evolves X (w_db w) (w_db w'))"

lemma tables_evolve_same: "w_db w' = w_db w \<Longrightarrow> tables_evolve X w w'"
  by (simp add: tables_evolve_def db_evolves.unchanged)

interpretation evolving: server_contract "tables_evolve X" X "pg_config X ttl d" for X ttl d
proof (unfold_locales, goal_cases)
  case (1 w) then show ?case by (simp add: tables_evolve_same)
next
  case (2 w w' m) then show ?case by (simp add: tables_evolve_def)
next
  case (3 w w' l) then show ?case by (simp add: tables_evolve_def)
next
  case (4 b w rl w')
  then show ?case by (auto dest!: DepartmentService_List_pg listAllCached_pg(1) intro: tables_evolve_same)
next
  case (5 u w rd w') then show ?case by (auto dest!: DepartmentService_Get_pg intro: tables_evolve_same)
next
  case (6 cd nm sy w rd w')
  then have "DepartmentService_Create (pg_department_service X ttl) cd nm sy w = (rd, w')" by simp
  then show ?case
    by (cases rule: DepartmentService_Create_pg)
       (auto simp: db_evolves.unchanged tables_evolve_def
         elim!: write_evolves dest: DepartmentRepository_Insert_evolves)
next
  case (7 u nmo ac v w rd w')
  then have "DepartmentService_Patch X (pg_department_service X ttl) u nmo ac v w = (rd, w')" by simp
  then show ?case
    by (cases rule: DepartmentService_Patch_pg)
       (auto simp: db_evolves.unchanged tables_evolve_def
         elim!: write_evolves dest: DepartmentRepository_Update_evolves)
next
  case (8 w rpl w') then show ?case by (auto dest!: PlanService_List_pg(1) intro: tables_evolve_same)
next
  case (9 cd w rp w') then show ?case by (auto dest!: PlanService_GetByCode_pg intro: tables_evolve_same)
next
  case (10 cd p w rp w')
  then have "PlanService_Patch (pg_plan_service X ttl) cd p w = (rp, w')" by simp
  then show ?case
    by (cases rule: PlanService_Patch_pg)
       (auto simp: db_evolves.unchanged tables_evolve_def 10(2)
         elim!: write_evolves dest: PlanRepository_Update_evolves)
next
  case (11 w rh w') then show ?case by (auto dest!: db_unchanged_Cache(4) intro: tables_evolve_same)
qed (simp_all add: tables_evolve_def)

lemmas serve_evolves = handler_keepsD [OF evolving.serve_keeps, unfolded tables_evolve_def]

end
