(* ===== verification/Running_Coherence.thy ===== *)
theory Running_Coherence
  imports Running_Service
begin

text \<open>
  The coherence contract on the running service: in steady surroundings every request leaves both
  cached catalogs either absent or equal to the tables.
\<close>

definition catalogs_ok :: "ext \<Rightarrow> world \<Rightarrow> bool" where
  "catalogs_ok X w \<longleftrightarrow> ext_ok X \<and> db_ok (w_db w) \<and> plans_scan X (w_db w)"

definition coherent_state :: "ext \<Rightarrow> world \<Rightarrow> bool" where
  "coherent_state X w \<longleftrightarrow>
     steady w \<and> catalogs_ok X w \<and> departments_coherent X w \<and> plans_coherent X w"

definition stays_coherent :: "ext \<Rightarrow> world \<Rightarrow> world \<Rightarrow> bool" where
  "stays_coherent X w w' \<longleftrightarrow> (coherent_state X w \<longrightarrow> coherent_state X w')"

lemma catalogs_ok_sound:
  "catalogs_ok X w \<Longrightarrow> departments_sound X w" "catalogs_ok X w \<Longrightarrow> plans_sound X w"
  by (simp_all add: catalogs_ok_def departments_sound_def plans_sound_def db_ok_def)

lemma catalogs_ok_evolves:
  "catalogs_ok X w \<Longrightarrow> db_evolves X (w_db w) (w_db w') \<Longrightarrow> catalogs_ok X w'"
  by (auto simp: catalogs_ok_def intro: db_evolves_plans_ok db_evolves_scans)

lemma departments_truth_table:
  "t_departments (w_db w') = t_departments (w_db w) \<Longrightarrow> departments_truth X w' = departments_truth X w"
  by (simp add: departments_truth_def sql_select_departments_def)

lemma plans_truth_table:
  "t_plans (w_db w') = t_plans (w_db w) \<Longrightarrow> plans_truth X w' = plans_truth X w"
  by (simp add: plans_truth_def sql_select_plans_def)

lemma coherent_leaves:
  "leaves key w w' \<Longrightarrow> truth w' = truth w \<Longrightarrow>
     coherent live_value key dec truth w \<Longrightarrow> coherent live_value key dec truth w'"
  by (auto simp: coherent_def leaves_def split: option.splits)

lemma leaves_coherent_state:
  assumes "coherent_state X w" and "\<And>j. leaves j w w'" and "w_db w' = w_db w"
  shows "coherent_state X w'"
proof -
  have "departments_truth X w' = departments_truth X w" "plans_truth X w' = plans_truth X w"
    using assms(3) by (simp_all add: departments_truth_def plans_truth_def)
  then show ?thesis
    using assms coherent_leaves [OF assms(2)] leaves_steady [OF assms(2)]
    unfolding coherent_state_def catalogs_ok_def by metis
qed

section \<open>Errors leave the tables alone\<close>

lemma DepartmentRepository_Insert_error:
  assumes "DepartmentRepository_Insert X d w = (Inl e, w')" and "\<not> lost_ack w"
  shows "w_db w' = w_db w"
proof (cases "d_ID d = uuid_Nil")
  case True
  let ?v = "w\<lparr>w_uuids := Suc (w_uuids w)\<rparr>"
  from assms(1) True have "withPool X (deptInsertFromTx X (d\<lparr>d_ID := x_uuid_new X (w_uuids w)\<rparr>)) ?v = (Inl e, w')"
    by (simp add: DepartmentRepository_Insert_def)
  moreover have "\<not> lost_ack ?v" using assms(2) by (simp add: lost_ack_def next_tx_def)
  ultimately have "w_db w' = w_db ?v" by (rule withPool_error_db)
  then show ?thesis by simp
next
  case False
  with assms show ?thesis by (auto simp: DepartmentRepository_Insert_def intro: withPool_error_db)
qed

lemma DepartmentRepository_Update_error:
  assumes "DepartmentRepository_Update X u name isActive v w = (Inl e, w')" and "\<not> lost_ack w"
  shows "w_db w' = w_db w"
proof (cases "name = None \<and> isActive = None")
  case True
  with assms(1) have "DepartmentRepository_FindByID X u w = (Inl e, w')" by (auto simp: DepartmentRepository_Update_def)
  from DepartmentRepository_FindByID_frame [OF this] show ?thesis by simp
next
  case False
  with assms show ?thesis
    by (auto simp: DepartmentRepository_Update_def intro: withPool_error_db split: prod.splits if_splits)
qed

lemma PlanRepository_Update_error:
  assumes "PlanRepository_Update X code patch w = (Inl e, w')" and "\<not> lost_ack w"
  shows "w_db w' = w_db w"
  using assms(1)
  by (cases rule: PlanRepository_Update_cases) (use assms(2) in \<open>auto intro: withPool_error_db\<close>)

section \<open>The contract\<close>

lemma List_coherent:
  assumes co: "coherent_state X w"
    and l: "DepartmentService_listAllCached X (pg_department_service X ttl) w = (r, w')"
  shows "coherent_state X w'"
proof -
  note frame = listAllCached_pg [OF l]
  have sound: "departments_sound X w" and dc: "departments_coherent X w" and pc: "plans_coherent X w"
    and st: "steady w" and ok: "catalogs_ok X w"
    using co catalogs_ok_sound by (auto simp: coherent_state_def)
  have "departments_coherent X w' \<and> departments_truth X w' = departments_truth X w"
    by (rule dept_snapshot.read_through_coherent [OF dc sound])
       (use l in \<open>simp add: listAllCached_read_through\<close>)
  moreover have "plans_coherent X w'"
    by (rule coherent_leaves [OF frame(2) plans_truth_cong [OF frame(1)] pc]) simp
  ultimately show ?thesis using frame(1,3) st ok by (simp add: coherent_state_def catalogs_ok_def)
qed

lemma PlanList_coherent:
  assumes co: "coherent_state X w" and l: "PlanService_List X (pg_plan_service X ttl) w = (r, w')"
  shows "coherent_state X w'"
proof -
  note frame = PlanService_List_pg [OF l]
  have sound: "plans_sound X w" and dc: "departments_coherent X w" and pc: "plans_coherent X w"
    and st: "steady w" and ok: "catalogs_ok X w"
    using co catalogs_ok_sound by (auto simp: coherent_state_def)
  have "plans_coherent X w' \<and> plans_truth X w' = plans_truth X w"
    by (rule plan_snapshot.read_through_coherent [OF pc sound])
       (use l in \<open>simp add: PlanService_List_read_through\<close>)
  moreover have "departments_coherent X w'"
    by (rule coherent_leaves [OF frame(2) departments_truth_cong [OF frame(1)] dc]) simp
  ultimately show ?thesis using frame(1,3) st ok by (simp add: coherent_state_def catalogs_ok_def)
qed

text \<open>A write of one catalog: its key is invalidated, the other key and table are left alone.\<close>

lemma department_write_coherent:
  assumes co: "coherent_state X w"
    and wi: "write_then_invalidate (Some valkey_port) ''cat:departments'' f w = (r, w')"
    and f: "\<And>q w1. f w = (q, w1) \<Longrightarrow> db_evolves X (w_db w) (w_db w1) \<and> (\<forall>j. leaves j w w1)
              \<and> live_value w1 = live_value w \<and> t_plans (w_db w1) = t_plans (w_db w)
              \<and> (\<forall>e. q = Inl e \<longrightarrow> w_db w1 = w_db w)"
  shows "coherent_state X w'"
proof -
  obtain q w1 where fw: "f w = (q, w1)" by force
  note f1 = f [OF fw]
  have dc: "departments_coherent X w" and pc: "plans_coherent X w" and st: "steady w" and ok: "catalogs_ok X w"
    using co by (auto simp: coherent_state_def)
  have st1: "steady w1" using f1 st leaves_steady by blast
  have "departments_coherent X w'"
    by (rule dept_snapshot.write_coherent [OF dc fw _ steady_healthy [OF st1] _ wi])
       (use f1 departments_truth_cong in blast)+
  moreover have "plans_coherent X w' \<and> steady w' \<and> db_evolves X (w_db w) (w_db w')"
    using wi
  proof (cases rule: write_then_invalidate_pg)
    case (error e)
    then have "w' = w1" using fw by simp
    then show ?thesis
      using f1 st1 coherent_leaves [where truth = "plans_truth X", OF _ plans_truth_table pc] by blast
  next
    case (done' b w2 rd)
    then have "w2 = w1" using fw by simp
    with done' have del: "Cache_Delete [''cat:departments''] w1 = (rd, w')" by simp
    have "leaves ''cat:plans'' w w'"
      using f1 leaves_Cache(3) [OF del, of "''cat:plans''"] leaves_trans by simp blast
    moreover have "t_plans (w_db w') = t_plans (w_db w)" using f1 db_unchanged_Cache(3) [OF del] by simp
    ultimately have "plans_coherent X w'" using coherent_leaves plans_truth_table pc by blast
    then show ?thesis using f1 st1 steady_Cache(2) [OF del] db_unchanged_Cache(3) [OF del] by simp
  qed
  ultimately show ?thesis using catalogs_ok_evolves [OF ok] by (simp add: coherent_state_def)
qed

lemma plan_write_coherent:
  assumes co: "coherent_state X w"
    and wi: "write_then_invalidate (Some valkey_port) ''cat:plans'' f w = (r, w')"
    and f: "\<And>q w1. f w = (q, w1) \<Longrightarrow> db_evolves X (w_db w) (w_db w1) \<and> (\<forall>j. leaves j w w1)
              \<and> live_value w1 = live_value w \<and> t_departments (w_db w1) = t_departments (w_db w)
              \<and> (\<forall>e. q = Inl e \<longrightarrow> w_db w1 = w_db w)"
  shows "coherent_state X w'"
proof -
  obtain q w1 where fw: "f w = (q, w1)" by force
  note f1 = f [OF fw]
  have dc: "departments_coherent X w" and pc: "plans_coherent X w" and st: "steady w" and ok: "catalogs_ok X w"
    using co by (auto simp: coherent_state_def)
  have st1: "steady w1" using f1 st leaves_steady by blast
  have "plans_coherent X w'"
    by (rule plan_snapshot.write_coherent [OF pc fw _ steady_healthy [OF st1] _ wi])
       (use f1 plans_truth_cong in blast)+
  moreover have "departments_coherent X w' \<and> steady w' \<and> db_evolves X (w_db w) (w_db w')"
    using wi
  proof (cases rule: write_then_invalidate_pg)
    case (error e)
    then have "w' = w1" using fw by simp
    then show ?thesis
      using f1 st1 coherent_leaves [where truth = "departments_truth X", OF _ departments_truth_table dc] by blast
  next
    case (done' b w2 rd)
    then have "w2 = w1" using fw by simp
    with done' have del: "Cache_Delete [''cat:plans''] w1 = (rd, w')" by simp
    have "leaves ''cat:departments'' w w'"
      using f1 leaves_Cache(3) [OF del, of "''cat:departments''"] leaves_trans by simp blast
    moreover have "t_departments (w_db w') = t_departments (w_db w)" using f1 db_unchanged_Cache(3) [OF del] by simp
    ultimately have "departments_coherent X w'" using coherent_leaves departments_truth_table dc by blast
    then show ?thesis using f1 st1 steady_Cache(2) [OF del] db_unchanged_Cache(3) [OF del] by simp
  qed
  ultimately show ?thesis using catalogs_ok_evolves [OF ok] by (simp add: coherent_state_def)
qed

lemma Create_coherent:
  assumes co: "coherent_state X w"
    and c: "DepartmentService_Create (pg_department_service X ttl) code name sys w = (r, w')"
  shows "coherent_state X w'"
  using c
proof (cases rule: DepartmentService_Create_pg)
  case (wrote d)
  have nl: "\<not> lost_ack w" using co by (simp add: coherent_state_def steady_no_lost_ack)
  show ?thesis
  proof (rule department_write_coherent [OF co wrote], intro conjI allI impI)
    fix q w1 assume i: "DepartmentRepository_Insert X d w = (q, w1)"
    show "db_evolves X (w_db w) (w_db w1)" using i by (rule DepartmentRepository_Insert_evolves)
    show "leaves j w w1" for j using i by (rule leaves_repository(3))
    show "live_value w1 = live_value w" by (rule cache_side_live, rule DepartmentRepository_Insert_frame [OF i])
    show "t_plans (w_db w1) = t_plans (w_db w)" using i by (rule DepartmentRepository_Insert_plans)
    show "w_db w1 = w_db w" if "q = Inl e" for e
      using i nl unfolding that by (rule DepartmentRepository_Insert_error)
  qed
qed (use co in simp)

lemma Patch_coherent:
  assumes co: "coherent_state X w"
    and c: "DepartmentService_Patch X (pg_department_service X ttl) u name isActive v w = (r, w')"
  shows "coherent_state X w'"
  using c
proof (cases rule: DepartmentService_Patch_pg)
  case (wrote p)
  have nl: "\<not> lost_ack w" using co by (simp add: coherent_state_def steady_no_lost_ack)
  show ?thesis
  proof (rule department_write_coherent [OF co wrote(1)], intro conjI allI impI)
    fix q w1 assume i: "DepartmentRepository_Update X u name isActive v w = (q, w1)"
    show "db_evolves X (w_db w) (w_db w1)" using i by (rule DepartmentRepository_Update_evolves)
    show "leaves j w w1" for j using i by (rule leaves_repository(4))
    show "live_value w1 = live_value w" by (rule cache_side_live, rule DepartmentRepository_Update_frame [OF i])
    show "t_plans (w_db w1) = t_plans (w_db w)" using i by (rule DepartmentRepository_Update_plans)
    show "w_db w1 = w_db w" if "q = Inl e" for e
      using i nl unfolding that by (rule DepartmentRepository_Update_error)
  qed
qed (use co in simp)

lemma PlanPatch_coherent:
  assumes co: "coherent_state X w" and dec: "patch_decoded X p"
    and c: "PlanService_Patch (pg_plan_service X ttl) code p w = (r, w')"
  shows "coherent_state X w'"
  using c
proof (cases rule: PlanService_Patch_pg)
  case wrote
  have nl: "\<not> lost_ack w" using co by (simp add: coherent_state_def steady_no_lost_ack)
  show ?thesis
  proof (rule plan_write_coherent [OF co wrote(1)], intro conjI allI impI)
    fix q w1 assume i: "PlanRepository_Update X code (Some p) w = (q, w1)"
    show "db_evolves X (w_db w) (w_db w1)"
      using i by (rule PlanRepository_Update_evolves) (use dec in simp)
    show "leaves j w w1" for j using i by (rule leaves_repository(7))
    show "live_value w1 = live_value w" by (rule cache_side_live, rule PlanRepository_Update_frame [OF i])
    show "t_departments (w_db w1) = t_departments (w_db w)" using i by (rule PlanRepository_Update_departments)
    show "w_db w1 = w_db w" if "q = Inl e" for e
      using i nl unfolding that by (rule PlanRepository_Update_error)
  qed
qed (use co in simp)

lemma coherent_state_inc [simp]:
  "coherent_state X (inc_metric m w) = coherent_state X w" "coherent_state X (add_log l w) = coherent_state X w"
  "coherent_state X (count_request rt st ns w) = coherent_state X w"
proof -
  have t: "departments_truth X (inc_metric m w) = departments_truth X w" "plans_truth X (inc_metric m w) = plans_truth X w"
    "departments_truth X (count_request rt st ns w) = departments_truth X w" "plans_truth X (count_request rt st ns w) = plans_truth X w"
    "departments_truth X (add_log l w) = departments_truth X w" "plans_truth X (add_log l w) = plans_truth X w"
    by (simp_all add: departments_truth_def plans_truth_def)
  show "coherent_state X (inc_metric m w) = coherent_state X w" "coherent_state X (add_log l w) = coherent_state X w"
    "coherent_state X (count_request rt st ns w) = coherent_state X w"
    by (simp_all add: coherent_state_def catalogs_ok_def coherent_def t cong: option.case_cong)
qed

interpretation staying: server_contract "stays_coherent X" X "pg_config X ttl d" for X ttl d
proof (unfold_locales, goal_cases)
  case (4 b w rl w')
  then show ?case by (auto simp: stays_coherent_def dest!: DepartmentService_List_pg intro: List_coherent)
next
  case (5 u w rd w')
  then have "DepartmentService_Get (pg_department_service X ttl) u w = (rd, w')" by simp
  from DepartmentService_Get_pg [OF this] show ?case
    unfolding stays_coherent_def using leaves_coherent_state by blast
next
  case (6 cd nm sy w rd w') then show ?case by (auto simp: stays_coherent_def intro: Create_coherent)
next
  case (7 u nmo ac v w rd w') then show ?case by (auto simp: stays_coherent_def intro: Patch_coherent)
next
  case (8 w rpl w') then show ?case by (auto simp: stays_coherent_def intro: PlanList_coherent)
next
  case (9 cd w rp w')
  then have "PlanService_GetByCode (pg_plan_service X ttl) cd w = (rp, w')" by simp
  from PlanService_GetByCode_pg [OF this] show ?case
    unfolding stays_coherent_def using leaves_coherent_state by blast
next
  case (10 cd p w rp w')
  then have "patch_decoded X p" if "coherent_state X w" using that by (simp add: coherent_state_def catalogs_ok_def)
  with 10 show ?case by (auto simp: stays_coherent_def intro: PlanPatch_coherent)
next
  case (11 w rh w')
  then have "Cache_Health w = (rh, w')" by simp
  from leaves_Cache(4) [OF this] db_unchanged_Cache(4) [OF this] show ?case
    unfolding stays_coherent_def using leaves_coherent_state by blast
qed (simp_all add: stays_coherent_def)

lemmas serve_stays_coherent = handler_keepsD [OF staying.serve_keeps, unfolded stays_coherent_def]

end
