(* ===== verification/Samples.thy ===== *)
theory Samples
  imports Running_Coherence
begin

text \<open>
  Concrete surroundings for the witnesses: a freshly migrated database, an empty cache, a matcher that
  compares the segments of a path with those of a template, and callers with and without the roles.
\<close>

fun split_path :: "string \<Rightarrow> string list" where
  "split_path [] = [[]]"
| "split_path (c # cs) =
     (if c = CHR ''/'' then [] # split_path cs
      else case split_path cs of [] \<Rightarrow> [[c]] | s # ss \<Rightarrow> (c # s) # ss)"

fun match_segments :: "string list \<Rightarrow> string list \<Rightarrow> (string \<times> string) list option" where
  "match_segments [] [] = Some []"
| "match_segments (t # ts) (s # ss) =
     (if t \<noteq> [] \<and> hd t = CHR '':'' then
        (if s = [] then None else map_option (Cons (tl t, s)) (match_segments ts ss))
      else if t = s then match_segments ts ss else None)"
| "match_segments _ _ = None"

definition sample_match :: "(string \<times> string) list \<Rightarrow> string \<Rightarrow> string \<Rightarrow> gin_match" where
  "sample_match table method path =
     (let hits = [(m, t, ps). (m, t) \<leftarrow> table,
                   ps \<leftarrow> (case match_segments (split_path t) (split_path path) of None \<Rightarrow> [] | Some ps \<Rightarrow> [ps])]
      in case find (\<lambda>(m, t, ps). m = method) hits of
           Some (m, t, ps) \<Rightarrow> Matched t ps
         | None \<Rightarrow> (if hits = [] then NoRoute else WrongMethod))"

definition sample_identity :: "string list \<Rightarrow> platform_identity" where
  "sample_identity roles =
     \<lparr>pi_UserID = x_uuid_string ext_ref 7, pi_TenantID = x_uuid_string ext_ref 8, pi_Roles = roles,
      pi_ClientIP = ''10.0.0.1''\<rparr>"

definition sample_gin :: "string list \<Rightarrow> gin_env" where
  "sample_gin roles =
     \<lparr>g_match = sample_match, g_auth = (\<lambda>q. Inr (Some (sample_identity roles))),
      g_recovered = \<lparr>rs_status = 500, rs_body = RNone\<rparr>, g_health = \<lparr>rs_status = 200, rs_body = RNone\<rparr>,
      g_pool_healthy = (\<lambda>w. True),
      g_elapsed = (\<lambda>q w. 12000000), g_themeCSS = ''css'', g_initializerJS = ''js'',
      g_std_swagger = (\<lambda>q. (\<lparr>rs_status = 200, rs_body = RText ''html''\<rparr>, []))\<rparr>"

definition operator_gin :: gin_env where
  "operator_gin = sample_gin [''platform_operator'']"

definition tenant_gin :: gin_env where
  "tenant_gin = sample_gin [''tenant_admin'']"

definition sample_ids :: "nat \<Rightarrow> uuid" where
  "sample_ids n = of_nat (n + 1)"

definition sample_world :: world where
  "sample_world =
     \<lparr>w_db = migrated_db 0 sample_ids, w_store = Map.empty, w_now = 5000000000, w_uuids = 0,
      w_metrics = known_label_values Map.empty, w_log = [], w_tx = [], w_cache = []\<rparr>"

definition sample_docs :: docs_config where
  "sample_docs = \<lparr>dc_Environment = ''production'', dc_Enabled = True, dc_AuthToken = ''s3cret''\<rparr>"

definition sample_config :: router_config where
  "sample_config = pg_config ext_ref (seconds 60) sample_docs"

definition sample_request :: "string \<Rightarrow> string \<Rightarrow> body_bytes \<Rightarrow> request" where
  "sample_request method path body =
     \<lparr>q_method = method, q_path = path, q_route = '''', q_params = [], q_query = [], q_headers = [],
      q_content_length = (if body = EmptyBody then 0 else 100), q_content_type = ''application/json'',
      q_body = body, q_identity = None, q_context = None, q_trace_id = '''', q_request_id = '''',
      q_request_id_header = '''', q_response_request_id = ''''\<rparr>"

definition operator_context :: request_context where
  "operator_context = \<lparr>rc_UserID = 7, rc_TenantID = 8, rc_Roles = [''platform_operator''],
     rc_ClientIP = ''10.0.0.1'', rc_UserAgent = ''''\<rparr>"

definition create_body :: body_bytes where
  "create_body = DocBody (JObj [(''code'', JStr ''QA''), (''name'', JStr ''Quality'')]) False"

definition rename_body :: body_bytes where
  "rename_body = DocBody (JObj [(''name'', JStr ''Renamed''), (''record_version'', JNum (JInt 1))]) False"

definition plan_body :: body_bytes where
  "plan_body = DocBody (JObj [(''display_name'', JStr ''Starter+''), (''tender_limit'', JNull),
     (''record_version'', JNum (JInt 1))]) False"

definition sample_patch :: plan_patch where
  "sample_patch =
     \<lparr>pp_DisplayName = Some ''Starter+'', pp_WorkflowTemplateLimit = None, pp_TenderLimit = Some None,
      pp_TrialDurationDays = None, pp_SSOEnabled = None, pp_CustomBranding = None,
      pp_FeatureSet = None, pp_RecordVersion = 1\<rparr>"

lemma sample_ids_distinct: "distinct (map sample_ids [0, 1, 2, 3, 4])"
  by (simp add: sample_ids_def)

lemma sample_db_ok: "db_ok (w_db sample_world)"
  unfolding sample_world_def world.select_convs by (rule migrated_db_ok) (rule sample_ids_distinct)

lemma sample_scans: "plans_scan ext_ref (w_db sample_world)"
  by (simp add: sample_world_def migrated_db_def plans_scan_def seed_plans_def seed_plan_def row_scans_def
      scan_feature_set_def dec_map_def)

lemma sample_live [simp]: "live_value sample_world k = None"
  by (simp add: sample_world_def live_value_def)

lemma sample_coherent: "coherent_state ext_ref sample_world"
  using sample_db_ok sample_scans ext_ref_ok
  by (simp add: coherent_state_def catalogs_ok_def steady_def coherent_def) (simp add: sample_world_def)

lemma sample_tx [simp]: "w_tx sample_world = []" "w_cache sample_world = []" "next_tx sample_world = tx_ok"
  "next_cache sample_world = CacheFine"
  by (simp_all add: sample_world_def next_tx_def next_cache_def)

lemma sample_departments: "t_departments (w_db sample_world) = seed_departments 0 sample_ids"
  "t_plans (w_db sample_world) = seed_plans 0"
  by (simp_all add: sample_world_def migrated_db_def)

end
