(* ===== verification/Requests.thy ===== *)
theory Requests
  imports Samples
begin

text \<open>
  The service over time: requests served one after the other, and between them anything that does
  not touch the tables (time passes, faults are set up or cleared, cache entries appear, expire or
  are overwritten, the process restarts). A state is reachable from a migrated database by any
  number of such steps.
\<close>

inductive service_step :: "gin_env \<Rightarrow> ext \<Rightarrow> router_config \<Rightarrow> world \<Rightarrow> world \<Rightarrow> bool"
  for G :: gin_env and X :: ext and cfg :: router_config where
  request: "serve G X cfg c w = (r, w') \<Longrightarrow> service_step G X cfg w w'"
| environment: "w_db w' = w_db w \<Longrightarrow> service_step G X cfg w w'"

inductive_cases service_stepE: "service_step G X cfg w w'"

abbreviation service_steps :: "gin_env \<Rightarrow> ext \<Rightarrow> router_config \<Rightarrow> world \<Rightarrow> world \<Rightarrow> bool" where
  "service_steps G X cfg \<equiv> (service_step G X cfg)\<^sup>*\<^sup>*"

lemma service_step_evolves:
  assumes "service_step G X (pg_config X ttl d) w w'" and "ext_ok X"
  shows "db_evolves X (w_db w) (w_db w')"
  using assms(1)
proof (cases rule: service_step.cases)
  case (request c r)
  then show ?thesis using serve_evolves [OF request] assms(2) by blast
next
  case environment
  then show ?thesis by (simp add: db_evolves.unchanged)
qed

lemma service_steps_evolution:
  assumes "service_steps G X (pg_config X ttl d) w w'" and "ext_ok X"
  shows "(db_evolves X)\<^sup>*\<^sup>* (w_db w) (w_db w')"
  using assms(1)
proof (induction rule: rtranclp_induct)
  case (step y z)
  from step.IH service_step_evolves [OF step.hyps(2) assms(2)] show ?case by (rule rtranclp.rtrancl_into_rtrancl)
qed simp

lemma sample_step:
  "service_steps operator_gin ext_ref sample_config sample_world
     (snd (serve operator_gin ext_ref sample_config q sample_world))"
  by (rule r_into_rtranclp, rule service_step.request [where c = q]) (rule prod.collapse [symmetric])

section \<open>Properties of all reachable states\<close>

text \<open>
  C1. The tables are well formed in every state reachable from a migrated database, whatever requests
  are served and whatever fails: ids and codes are unique, every CHECK constraint holds, versions fit
  64 bits, the plans are exactly the three tiers, and every feature set still decodes.
\<close>

theorem reachable_tables_ok:
  assumes "ext_ok X" and "db_ok (w_db w0)" and "plans_scan X (w_db w0)"
    and "service_steps G X (pg_config X ttl d) w0 w"
  shows "db_ok (w_db w) \<and> plans_scan X (w_db w) \<and> map pr_code (t_plans (w_db w)) = tenant_plan_enum"
proof -
  note ev = service_steps_evolution [OF assms(4,1)]
  from evolution_ok [OF ev assms(2)] evolution_scans [OF ev assms(3)] show ?thesis
    by (simp add: db_ok_def plans_ok_def)
qed

theorem reachable_tables_ok_witness:
  "db_ok (w_db (snd (serve operator_gin ext_ref sample_config
     (sample_request ''POST'' ''/api/v1/operator/departments'' create_body) sample_world)))"
  using reachable_tables_ok [OF ext_ref_ok sample_db_ok sample_scans, of operator_gin "seconds 60" sample_docs]
    sample_step unfolding sample_config_def by blast

text \<open>
  C10. No department is ever lost: a department of an earlier state is still there in every later one,
  with the same id, code, system flag and creation time, and its version never falls.
\<close>

theorem departments_never_disappear:
  assumes "ext_ok X" and "db_ok (w_db w)" and "service_steps G X (pg_config X ttl d) w w'"
    and "x \<in> set (t_departments (w_db w))"
  shows "\<exists>y \<in> set (t_departments (w_db w')). d_ID y = d_ID x \<and> d_Code y = d_Code x
    \<and> d_IsSystem y = d_IsSystem x \<and> d_CreatedAt y = d_CreatedAt x \<and> d_RecordVersion x \<le> d_RecordVersion y"
  using evolution_department [OF service_steps_evolution [OF assms(3,1)] assms(2,4)]
  by (auto simp: dept_descends_def)

theorem departments_never_disappear_witness:
  "\<exists>y \<in> set (t_departments (w_db (snd (serve operator_gin ext_ref sample_config
       (sample_request ''DELETE'' ''/api/v1/operator/departments/x'' EmptyBody) sample_world)))).
     d_Code y = ''LEGAL''"
proof -
  let ?x = "seed_department 0 (sample_ids 4) ''LEGAL'' ''Legal''"
  have "?x \<in> set (t_departments (w_db sample_world))"
    by (simp add: sample_departments seed_departments_def)
  from departments_never_disappear [OF ext_ref_ok sample_db_ok sample_step [unfolded sample_config_def] this]
  show ?thesis unfolding sample_config_def by (simp add: seed_department_def) blast
qed

text \<open>
  C9. A system department can be neither retired nor renamed: in every later state it is active and
  has the name it had.
\<close>

theorem system_departments_protected:
  assumes "ext_ok X" and "db_ok (w_db w)" and "service_steps G X (pg_config X ttl d) w w'"
    and "x \<in> set (t_departments (w_db w))" and "d_IsSystem x"
    and "y \<in> set (t_departments (w_db w'))" and "d_ID y = d_ID x"
  shows "d_IsActive y \<and> d_Name y = d_Name x \<and> d_Code y = d_Code x"
proof -
  note ev = service_steps_evolution [OF assms(3,1)]
  have desc: "dept_descends x y"
    by (rule evolution_department_unique [OF ev assms(2,4,6,7)])
  moreover have "dept_row_ok y"
    using evolution_ok [OF ev assms(2)] assms(6) by (auto simp: db_ok_def departments_ok_def list_all_iff)
  ultimately show ?thesis using assms(5) by (auto simp: dept_descends_def dept_row_ok_iff)
qed

text \<open>
  C2. record_version identifies the content of a row: if a department has the same version in two
  states of which one is reachable from the other, it is the same in every column. Two different
  contents never share a version, so a version read once is a sound optimistic lock.
\<close>

theorem department_version_identifies_content:
  assumes "ext_ok X" and "db_ok (w_db w)" and "service_steps G X (pg_config X ttl d) w w'"
    and "x \<in> set (t_departments (w_db w))" and "y \<in> set (t_departments (w_db w'))"
    and "d_ID y = d_ID x" and "d_RecordVersion y = d_RecordVersion x"
  shows "y = x"
  using evolution_department_unique [OF service_steps_evolution [OF assms(3,1)] assms(2,4,5,6)] assms(7)
  by (simp add: dept_descends_def)

text \<open>C3. The same for plans: one version of a tier has one content, through every history.\<close>

theorem plan_version_identifies_content:
  assumes "ext_ok X" and "db_ok (w_db w)" and "service_steps G X (pg_config X ttl d) w w'"
    and "x \<in> set (t_plans (w_db w))" and "y \<in> set (t_plans (w_db w'))"
    and "pr_code y = pr_code x" and "pr_record_version y = pr_record_version x"
  shows "y = x"
  using evolution_plan_unique [OF service_steps_evolution [OF assms(3,1)] assms(2,4,5,6)] assms(7)
  by (simp add: plan_descends_def)

end
