(* ===== verification/Dispatch.thy ===== *)
theory Dispatch
  imports Requests
begin

text \<open>
  The way of a request through the chain of middleware: when an authenticated request passes every
  gate in front of the handlers, the state it leaves is the handler's, with one more request counted.
\<close>

definition infra_endpoint :: "endpoint \<Rightarrow> bool" where
  "infra_endpoint e \<longleftrightarrow> e = ESwagger \<or> e = EHealthz \<or> e = EReadyz"

lemma endpoint_handler_api:
  "\<not> infra_endpoint e \<Longrightarrow> endpoint_handler G X cfg e = body_cap (normalized G X 200 (api_chain G X cfg e))"
  by (cases e) (simp_all add: infra_endpoint_def endpoint_handler_def)

text \<open>The request as the handler sees it.\<close>

definition routed :: "string \<Rightarrow> (string \<times> string) list \<Rightarrow> request \<Rightarrow> request" where
  "routed template ps q = q\<lparr>q_route := template, q_params := ps, q_context := None\<rparr>"

definition identified :: "platform_identity \<Rightarrow> request_context \<Rightarrow> request \<Rightarrow> request" where
  "identified i rc q = q\<lparr>q_identity := Some i, q_context := Some rc\<rparr>"

definition json_acceptable :: "request \<Rightarrow> bool" where
  "json_acceptable q \<longleftrightarrow> q_method q \<notin> {''POST'', ''PUT'', ''PATCH''} \<or> q_content_length q = 0
     \<or> q_content_type q = ''application/json''"

lemma routed_simps [simp]:
  "q_method (routed t ps q) = q_method q" "q_path (routed t ps q) = q_path q" "q_route (routed t ps q) = t"
  "q_params (routed t ps q) = ps" "q_context (routed t ps q) = None" "q_body (routed t ps q) = q_body q"
  "q_content_length (routed t ps q) = q_content_length q" "q_content_type (routed t ps q) = q_content_type q"
  "q_query (routed t ps q) = q_query q" "q_headers (routed t ps q) = q_headers q"
  by (simp_all add: routed_def)

lemma identified_simps [simp]:
  "q_method (identified i rc q) = q_method q" "q_path (identified i rc q) = q_path q"
  "q_route (identified i rc q) = q_route q" "q_params (identified i rc q) = q_params q"
  "q_context (identified i rc q) = Some rc" "q_body (identified i rc q) = q_body q"
  "q_query (identified i rc q) = q_query q" "q_headers (identified i rc q) = q_headers q"
  by (simp_all add: identified_def)

lemma RequireJSON_pass: "json_acceptable q \<Longrightarrow> RequireJSONContentType h q w = h q w"
  by (auto simp: RequireJSONContentType_def json_acceptable_def)

lemma api_chain_passes:
  assumes "g_auth G q = Inr (Some i)" and "bridge_identity X (q\<lparr>q_identity := Some i\<rparr>) i = Inr rc"
    and "json_acceptable q" and "api_handler X cfg e (identified i rc q) w = (r, w')"
  shows "api_chain G X cfg e q w =
     (r, count_request (if q_route q = '''' then q_path q else q_route q)
           (show_nat (bufferedWriter_Status 200 (buffered r))) (g_elapsed G q w) w')"
proof -
  have "json_acceptable (identified i rc q)" using assms(3) by (simp add: json_acceptable_def identified_def)
  then have "ProtectedMiddlewares G (IdentityBridgeMiddleware X (RequireJSONContentType (api_handler X cfg e))) q w = (r, w')"
    using assms by (simp add: ProtectedMiddlewares_def IdentityBridgeMiddleware_def RequireJSON_pass identified_def)
  then show ?thesis by (simp add: api_chain_def requestMetricsMiddleware_def)
qed

lemma serve_endpoint:
  assumes "g_match G (map (\<lambda>(m, t, e). (m, t)) (routes (rt_Docs cfg))) (q_method q) (q_path q) = Matched t ps"
    and "route_endpoint (rt_Docs cfg) (q_method q) t = Some e"
  shows "serve G X cfg q w = endpoint_handler G X cfg e (routed t ps q) w"
  using assms by (simp add: serve_def routed_def)

lemma serve_reaches:
  assumes "g_match G (map (\<lambda>(m, t, e). (m, t)) (routes (rt_Docs cfg))) (q_method q) (q_path q) = Matched t ps"
    and "route_endpoint (rt_Docs cfg) (q_method q) t = Some e" and "\<not> infra_endpoint e"
    and "q_content_length q \<le> 2 ^ 20" and "json_acceptable q"
    and "g_auth G (routed t ps q) = Inr (Some i)"
    and "bridge_identity X ((routed t ps q)\<lparr>q_identity := Some i\<rparr>) i = Inr rc"
    and "api_handler X cfg e (identified i rc (routed t ps q)) w = (r, w')"
  shows "\<exists>r' rt st d. serve G X cfg q w = (r', count_request rt st d w') \<and> (rs_status r \<noteq> 401 \<longrightarrow> r' = flush_buffer 200 r)"
proof -
  have "json_acceptable (routed t ps q)" using assms(5) by (simp add: json_acceptable_def)
  note chain = api_chain_passes [OF assms(6,7) this assms(8)]
  have "\<not> q_content_length (routed t ps q) > 2 ^ 20" using assms(4) by simp
  then show ?thesis
    by (auto simp: serve_endpoint [OF assms(1,2)] endpoint_handler_api [OF assms(3)] body_cap_def
        normalized_def chain NormalizeAuthErrors_other)
qed

section \<open>A department renamed\<close>

definition custom_department :: department where
  "custom_department = \<lparr>d_ID = 9, d_Code = ''QA'', d_Name = ''Quality'', d_IsSystem = False, d_IsActive = True,
     d_RecordVersion = 1, d_CreatedAt = 0, d_UpdatedAt = 0\<rparr>"

definition custom_world :: world where
  "custom_world = sample_world\<lparr>w_db := (w_db sample_world)\<lparr>t_departments := [custom_department]\<rparr>\<rparr>"

definition sample_rename :: request where
  "sample_rename = sample_request ''PATCH'' (''/api/v1/operator/departments/'' @ x_uuid_string ext_ref 9) rename_body"

lemma custom_world_simps [simp]:
  "t_departments (w_db custom_world) = [custom_department]" "w_tx custom_world = []" "w_cache custom_world = []"
  "t_plans (w_db custom_world) = t_plans (w_db sample_world)"
  by (simp_all add: custom_world_def sample_world_def)

lemma custom_db_ok: "db_ok (w_db custom_world)"
  using sample_db_ok
  by (simp add: db_ok_def departments_ok_def custom_department_def dept_row_ok_iff int64_ok_def)

lemma custom_scans: "plans_scan ext_ref (w_db custom_world)"
  using sample_scans by (simp add: plans_scan_def)

lemma custom_uuid: "x_uuid_string ext_ref 9 = ''00000000000000000000000000000009''"
proof -
  have "hex_digits 32 9 = ''00000000000000000000000000000009''" by code_simp
  then show ?thesis by (simp add: ext_ref_def uuid_string_ref_def)
qed

lemma sample_not_system [simp]: "x_uuid_string ext_ref u \<noteq> ''iam-system''"
proof
  assume "x_uuid_string ext_ref u = ''iam-system''"
  then have "length (x_uuid_string ext_ref u) = 10" by simp
  then show False by (simp add: ext_ref_def uuid_string_ref_def)
qed

lemma sample_uuids [simp]: "x_parse_uuid ext_ref (x_uuid_string ext_ref u) = Some u"
  by (rule ext_okD(1) [OF ext_ref_ok])

lemmas route_defs = routes_def docs_routes_def infra_routes_def api_routes_def DocsConfig_active_def sample_docs_def

lemma rename_matched:
  "sample_match (map (\<lambda>(m, t, e). (m, t)) (routes sample_docs)) ''PATCH''
     (''/api/v1/operator/departments/'' @ x_uuid_string ext_ref 9)
   = Matched ''/api/v1/operator/departments/:id'' [(''id'', x_uuid_string ext_ref 9)]"
  by (simp add: custom_uuid sample_match_def route_defs)

lemma rename_handled:
  assumes "q_context q = Some operator_context" and "lookup_or_empty ''id'' (q_params q) = x_uuid_string ext_ref 9"
    and "q_body q = rename_body"
    and "DepartmentService_Patch ext_ref svc 9 (Some ''Renamed'') None 1 w = (Inr d, w')"
  shows "DepartmentHandler_Patch ext_ref svc q w =
     (json_response 200 (department_response_json (departmentToResponse ext_ref d)),
      inc_metric (WritesTotal ''departments'' ''update'') w')"
proof -
  have "x_uuid_string ext_ref 9 \<noteq> ''''" by (simp add: custom_uuid)
  then have u: "parseUUIDParam ext_ref q ''id'' = Inr 9" using assms(2) by (simp add: parseUUIDParam_def Let_def)
  have o: "requireOperator q = None"
    using assms(1) by (simp add: requireOperator_def operator_context_def IsOperator_def HasRole_def)
  have b: "bind_dept_patch rename_body = Inr \<lparr>dpr_Name = Some ''Renamed'', dpr_IsActive = None, dpr_RecordVersion = 1\<rparr>"
    by (simp add: bind_dept_patch_def ShouldBindJSON_def rename_body_def decode_first_def decode_struct_def
        dept_patch_member_def match_field_def dec_ptr_def dec_string_def dec_int64_def int64_ok_def)
  have r: "raw_members rename_body = Some [(''name'', JStr ''Renamed''), (''record_version'', JNum (JInt 1))]"
    by (simp add: raw_members_def rename_body_def body_nonempty_def unmarshal_all_def)
  show ?thesis
    by (simp add: DepartmentHandler_Patch_def o u assms(3,4) r b)
qed

lemma pg_patch_steps:
  assumes db: "db_ok (w_db w)" and tx: "next_tx w = tx_ok" and some: "name \<noteq> None \<or> isActive \<noteq> None"
    and nm: "name = None \<or> trim_space (the name) \<noteq> ''''"
    and abs: "dept_update_abs (db_now w) u name isActive v (w_db w) = (Inr d, db')"
  shows "\<exists>w'. DepartmentService_Patch X (pg_department_service X ttl) u name isActive v w = (Inr d, w') \<and> w_db w' = db'"
proof -
  have ids: "distinct (map d_ID (t_departments (w_db w)))" using db by (simp add: db_ok_def departments_ok_def)
  let ?w1 = "inc_metric (WritesTotal ''departments'' ''update'') (set_db db' (pop_tx w))"
  have "DepartmentRepository_Update X u name isActive v w = (Inr d, ?w1)"
    using DepartmentRepository_Update_abs [OF ids tx some, of X u v] abs by simp
  moreover obtain rd w' where del: "Cache_Delete [''cat:departments''] ?w1 = (rd, w')" by force
  moreover have "w_db w' = db'" using db_unchanged_Cache(3) [OF del] by simp
  ultimately show ?thesis
    using some nm by (auto simp: DepartmentService_Patch_def DepartmentService_invalidateCache_def)
qed

definition renamed_department :: "int \<Rightarrow> department" where
  "renamed_department now = custom_department\<lparr>d_Name := ''Renamed'', d_RecordVersion := 2, d_UpdatedAt := now\<rparr>"

lemma rename_abs:
  "dept_update_abs now 9 (Some ''Renamed'') None 1 (w_db custom_world) =
     (Inr (renamed_department now), (w_db custom_world)\<lparr>t_departments := [renamed_department now]\<rparr>)"
  by (simp add: dept_update_abs_def has_nul_def custom_department_def dept_update_spec_def dept_patched_def Let_def
      int64_ok_def failing_check_def dept_checks_def put_row_def renamed_department_def)

lemma rename_served:
  "\<exists>w'. serve operator_gin ext_ref sample_config sample_rename custom_world =
       (json_response 200 (department_response_json (departmentToResponse ext_ref (renamed_department (db_now custom_world)))), w')
     \<and> t_departments (w_db w') = [renamed_department (db_now custom_world)]"
proof -
  let ?q = "routed ''/api/v1/operator/departments/:id'' [(''id'', x_uuid_string ext_ref 9)] sample_rename"
  let ?i = "sample_identity [''platform_operator'']"
  obtain w1 where svc: "DepartmentService_Patch ext_ref (pg_department_service ext_ref (seconds 60)) 9 (Some ''Renamed'') None 1 custom_world
      = (Inr (renamed_department (db_now custom_world)), w1)"
    and db1: "w_db w1 = (w_db custom_world)\<lparr>t_departments := [renamed_department (db_now custom_world)]\<rparr>"
    using pg_patch_steps [OF custom_db_ok _ _ _ rename_abs]
    by (auto simp: trim_space_def ascii_space_def space2_def space3_def)
  have h: "api_handler ext_ref sample_config EDeptPatch (identified ?i operator_context ?q) custom_world
      = (json_response 200 (department_response_json (departmentToResponse ext_ref (renamed_department (db_now custom_world)))),
         inc_metric (WritesTotal ''departments'' ''update'') w1)"
    unfolding api_handler_def endpoint.case sample_config_def pg_config_simps
    by (subst gate_pass(1) [of _ operator_context])
       (simp_all add: operator_context_def IsOperator_def HasRole_def,
        rule rename_handled [OF _ _ _ svc],
        simp_all add: lookup_or_empty_def operator_context_def sample_rename_def sample_request_def)
  have br: "bridge_identity ext_ref (?q\<lparr>q_identity := Some ?i\<rparr>) ?i = Inr operator_context"
    by (simp add: bridge_identity_def sample_identity_def operator_context_def lookup_or_empty_def sample_rename_def
        sample_request_def)
  have m: "g_match operator_gin (map (\<lambda>(m, t, e). (m, t)) (routes (rt_Docs sample_config))) (q_method sample_rename)
      (q_path sample_rename) = Matched ''/api/v1/operator/departments/:id'' [(''id'', x_uuid_string ext_ref 9)]"
    by (simp add: operator_gin_def sample_gin_def sample_config_def rename_matched sample_rename_def sample_request_def
        del: append_Cons)
  have e: "route_endpoint (rt_Docs sample_config) (q_method sample_rename) ''/api/v1/operator/departments/:id'' = Some EDeptPatch"
    by (simp add: sample_config_def sample_rename_def sample_request_def route_endpoint_def route_defs)
  have rest: "\<not> infra_endpoint EDeptPatch" "q_content_length sample_rename \<le> 2 ^ 20" "json_acceptable sample_rename"
    "g_auth operator_gin ?q = Inr (Some ?i)"
    by (simp_all add: infra_endpoint_def json_acceptable_def sample_rename_def sample_request_def operator_gin_def sample_gin_def)
  note serve_reaches [OF m e rest br h]
  then show ?thesis using db1 by (auto simp: flush_buffer_def json_response_def bufferedWriter_Status_def)
qed

section \<open>A plan patched\<close>

definition sample_plan_request :: request where
  "sample_plan_request = sample_request ''PATCH'' ''/api/v1/operator/plans/starter'' plan_body"

definition starter_row :: plan_row where
  "starter_row = seed_plan 0 ''starter'' ''Starter'' (Some 5) (Some 10) 30 False ''none'' (JObj [])"

definition patched_row :: "int \<Rightarrow> plan_row" where
  "patched_row now = starter_row\<lparr>pr_display_name := ''Starter+'', pr_tender_limit := None,
     pr_record_version := 2, pr_updated_at := now\<rparr>"

lemma sample_fields:
  "plan_fields ext_ref sample_patch = [(''display_name'', ArgText ''Starter+''), (''tender_limit'', ArgIntPtr None)]"
  by (simp add: plan_fields_def sample_patch_def opt_field_def)

lemma sample_checked: "check_patch ''starter'' sample_patch = None"
  by (simp add: check_patch_def known_tier_def tier_defs empty_patch_def sample_patch_def negative_limit_def
      trim_space_def ascii_space_def space2_def space3_def)

lemma sample_decoded: "patch_decoded ext_ref sample_patch"
  by (simp add: patch_decoded_def sample_patch_def)

lemma sample_bound: "plan_bind_error ext_ref ''starter'' sample_patch = None"
  unfolding plan_bind_error_def sample_fields by (simp add: bind_args_def plan_col_type_def tenant_plan_enum_def)

lemma starter_found: "starter_row \<in> set (t_plans (w_db sample_world))"
  "find (\<lambda>r. pr_code r = ''starter'') (t_plans (w_db sample_world)) = Some starter_row"
  by (simp_all add: sample_departments seed_plans_def starter_row_def) (simp add: seed_plan_def)

lemma starter_patched:
  "plan_update_spec ext_ref now sample_patch starter_row = Inr (patched_row now)"
  by (simp add: plan_update_spec_def plan_patched_def starter_row_def seed_plan_def sample_patch_def Let_def int64_ok_def
      failing_check_def plan_checks_def patched_row_def)

lemma plan_patch_abs:
  "plan_update_abs ext_ref now ''starter'' sample_patch (w_db sample_world) =
     (Inr (plan_of ext_ref (patched_row now)),
      (w_db sample_world)\<lparr>t_plans := put_row pr_code (patched_row now) (t_plans (w_db sample_world))\<rparr>)"
  by (simp add: plan_update_abs_def sample_bound starter_found starter_patched)
     (simp add: starter_row_def seed_plan_def sample_patch_def)

lemma pg_plan_patch_steps:
  assumes X: "ext_ok X" and db: "db_ok (w_db w)" and scans: "plans_scan X (w_db w)" and tx: "next_tx w = tx_ok"
    and chk: "check_patch code p = None" and dec: "patch_decoded X p"
    and abs: "plan_update_abs X (db_now w) code p (w_db w) = (Inr d, db')"
  shows "\<exists>w'. PlanService_Patch (pg_plan_service X ttl) code p w = (Inr d, w') \<and> w_db w' = db'"
proof -
  have codes: "distinct (map pr_code (t_plans (w_db w)))" using db plans_ok_distinct by (simp add: db_ok_def)
  have ne: "plan_fields X p \<noteq> []" using chk empty_patch_fields by (simp add: check_patch_None)
  let ?w1 = "inc_metric (WritesTotal ''plans'' ''update'') (set_db db' (pop_tx w))"
  have "PlanRepository_Update X code (Some p) w = (Inr d, ?w1)"
    using PlanRepository_Update_abs [OF X tx ne codes scans dec, of code] abs by simp
  moreover obtain rd w' where del: "Cache_Delete [''cat:plans''] ?w1 = (rd, w')" by force
  moreover have "w_db w' = db'" using db_unchanged_Cache(3) [OF del] by simp
  ultimately show ?thesis using chk by (auto simp: PlanService_Patch_def)
qed

lemma plan_patch_handled:
  assumes "q_context q = Some operator_context" and "lookup_or_empty ''code'' (q_params q) = ''starter''"
    and "q_body q = plan_body" and "PlanService_Patch svc ''starter'' sample_patch w = (Inr d, w')"
  shows "PlanHandler_Patch ext_ref svc q w =
     (json_response 200 (plan_response_json ext_ref (planToResponse d)), inc_metric (WritesTotal ''plans'' ''update'') w')"
proof -
  have o: "requireOperator q = None"
    using assms(1) by (simp add: requireOperator_def operator_context_def IsOperator_def HasRole_def)
  have b: "bind_plan_patch ext_ref plan_body = Inr (zero_patch_body\<lparr>pb_DisplayName := Some ''Starter+'',
      pb_TenderLimit := Some JNull, pb_RecordVersion := 1\<rparr>)"
    by (simp add: bind_plan_patch_def ShouldBindJSON_def plan_body_def decode_first_def decode_struct_def
        plan_patch_member_def patch_field_names_def match_field_def dec_ptr_def dec_string_def dec_int64_def
        int64_ok_def zero_patch_body_def)
  have p: "parse_patch (zero_patch_body\<lparr>pb_DisplayName := Some ''Starter+'', pb_TenderLimit := Some JNull,
      pb_RecordVersion := 1\<rparr>) = Inr sample_patch"
    by (simp add: parse_patch_def parseLimit_def patch_of_body_def zero_patch_body_def sample_patch_def)
  show ?thesis by (simp add: PlanHandler_Patch_def o assms(2,3,4) b p)
qed

lemma plan_patch_served:
  "\<exists>w'. serve operator_gin ext_ref sample_config sample_plan_request sample_world =
       (json_response 200 (plan_response_json ext_ref (planToResponse (plan_of ext_ref (patched_row (db_now sample_world))))), w')
     \<and> t_plans (w_db w') = put_row pr_code (patched_row (db_now sample_world)) (t_plans (w_db sample_world))
     \<and> t_departments (w_db w') = t_departments (w_db sample_world)"
proof -
  let ?q = "routed ''/api/v1/operator/plans/:code'' [(''code'', ''starter'')] sample_plan_request"
  let ?i = "sample_identity [''platform_operator'']"
  let ?d = "plan_of ext_ref (patched_row (db_now sample_world))"
  obtain w1 where svc: "PlanService_Patch (pg_plan_service ext_ref (seconds 60)) ''starter'' sample_patch sample_world = (Inr ?d, w1)"
    and db1: "w_db w1 = (w_db sample_world)\<lparr>t_plans := put_row pr_code (patched_row (db_now sample_world)) (t_plans (w_db sample_world))\<rparr>"
    using pg_plan_patch_steps [OF ext_ref_ok sample_db_ok sample_scans sample_tx(3) sample_checked sample_decoded plan_patch_abs]
    by blast
  have h: "api_handler ext_ref sample_config EPlanPatch (identified ?i operator_context ?q) sample_world
      = (json_response 200 (plan_response_json ext_ref (planToResponse ?d)), inc_metric (WritesTotal ''plans'' ''update'') w1)"
    unfolding api_handler_def endpoint.case sample_config_def pg_config_simps
    by (subst gate_pass(1) [of _ operator_context])
       (simp_all add: operator_context_def IsOperator_def HasRole_def,
        rule plan_patch_handled [OF _ _ _ svc],
        simp_all add: lookup_or_empty_def operator_context_def sample_plan_request_def sample_request_def)
  have br: "bridge_identity ext_ref (?q\<lparr>q_identity := Some ?i\<rparr>) ?i = Inr operator_context"
    by (simp add: bridge_identity_def sample_identity_def operator_context_def lookup_or_empty_def
        sample_plan_request_def sample_request_def)
  have m: "g_match operator_gin (map (\<lambda>(m, t, e). (m, t)) (routes (rt_Docs sample_config))) (q_method sample_plan_request)
      (q_path sample_plan_request) = Matched ''/api/v1/operator/plans/:code'' [(''code'', ''starter'')]"
    by (simp add: operator_gin_def sample_gin_def sample_config_def sample_match_def route_defs sample_plan_request_def
        sample_request_def)
  have e: "route_endpoint (rt_Docs sample_config) (q_method sample_plan_request) ''/api/v1/operator/plans/:code'' = Some EPlanPatch"
    by (simp add: sample_config_def sample_plan_request_def sample_request_def route_endpoint_def route_defs)
  have rest: "\<not> infra_endpoint EPlanPatch" "q_content_length sample_plan_request \<le> 2 ^ 20"
    "json_acceptable sample_plan_request" "g_auth operator_gin ?q = Inr (Some ?i)"
    by (simp_all add: infra_endpoint_def json_acceptable_def sample_plan_request_def sample_request_def
        operator_gin_def sample_gin_def)
  note serve_reaches [OF m e rest br h]
  then show ?thesis using db1 by (auto simp: flush_buffer_def json_response_def bufferedWriter_Status_def)
qed

section \<open>Witnesses of the properties of histories\<close>

text \<open>The history in which that patch is served: the tier it changes is another row afterwards.\<close>

lemma plan_patch_history:
  obtains w where "service_steps operator_gin ext_ref (pg_config ext_ref (seconds 60) sample_docs) sample_world w"
    and "t_plans (w_db w) = put_row pr_code (patched_row (db_now sample_world)) (t_plans (w_db sample_world))"
    and "t_departments (w_db w) = t_departments (w_db sample_world)" and "t_plans (w_db w) \<noteq> t_plans (w_db sample_world)"
proof -
  obtain w r where s: "serve operator_gin ext_ref sample_config sample_plan_request sample_world = (r, w)"
    and t: "t_plans (w_db w) = put_row pr_code (patched_row (db_now sample_world)) (t_plans (w_db sample_world))"
      "t_departments (w_db w) = t_departments (w_db sample_world)"
    using plan_patch_served by blast
  have "service_steps operator_gin ext_ref (pg_config ext_ref (seconds 60) sample_docs) sample_world w"
    unfolding sample_config_def [symmetric] by (rule r_into_rtranclp, rule service_step.request [OF s])
  moreover have "starter_row \<notin> set (t_plans (w_db w))"
    by (simp add: t put_row_def sample_departments seed_plans_def) (simp add: starter_row_def seed_plan_def patched_row_def)
  then have "t_plans (w_db w) \<noteq> t_plans (w_db sample_world)" using starter_found(1) by metis
  ultimately show ?thesis using that t by blast
qed

theorem system_departments_protected_witness:
  "\<exists>w :: world. t_plans (w_db w) \<noteq> t_plans (w_db sample_world)
     \<and> d_IsActive (t_departments (w_db w) ! 3) \<and> d_Name (t_departments (w_db w) ! 3) = ''Finance''"
proof -
  obtain w where w: "service_steps operator_gin ext_ref (pg_config ext_ref (seconds 60) sample_docs) sample_world w"
    "t_departments (w_db w) = t_departments (w_db sample_world)" "t_plans (w_db w) \<noteq> t_plans (w_db sample_world)"
    using plan_patch_history by blast
  let ?x = "seed_department 0 (sample_ids 3) ''FINANCE'' ''Finance''"
  have x: "?x \<in> set (t_departments (w_db sample_world))" "d_IsSystem ?x"
    by (simp_all add: sample_departments seed_departments_def) (simp add: seed_department_def)
  have y: "t_departments (w_db w) ! 3 \<in> set (t_departments (w_db w))" "d_ID (t_departments (w_db w) ! 3) = d_ID ?x"
    unfolding w(2) by (simp_all add: sample_departments seed_departments_def seed_department_def)
  from system_departments_protected [OF ext_ref_ok sample_db_ok w(1) x y] w(3)
  show ?thesis by (intro exI [of _ w]) (simp add: seed_department_def)
qed

theorem department_version_identifies_content_witness:
  "\<exists>w :: world. t_plans (w_db w) \<noteq> t_plans (w_db sample_world)
     \<and> t_departments (w_db w) ! 2 = seed_department 0 (sample_ids 2) ''PROCUREMENT'' ''Procurement''"
proof -
  obtain w where w: "service_steps operator_gin ext_ref (pg_config ext_ref (seconds 60) sample_docs) sample_world w"
    "t_departments (w_db w) = t_departments (w_db sample_world)" "t_plans (w_db w) \<noteq> t_plans (w_db sample_world)"
    using plan_patch_history by blast
  let ?x = "seed_department 0 (sample_ids 2) ''PROCUREMENT'' ''Procurement''" and ?y = "t_departments (w_db w) ! 2"
  have x: "?x \<in> set (t_departments (w_db sample_world))"
    by (simp add: sample_departments seed_departments_def)
  have y: "?y \<in> set (t_departments (w_db w))" "d_ID ?y = d_ID ?x" "d_RecordVersion ?y = d_RecordVersion ?x"
    unfolding w(2) by (simp_all add: sample_departments seed_departments_def seed_department_def)
  from department_version_identifies_content [OF ext_ref_ok sample_db_ok w(1) x y] w(3) show ?thesis by blast
qed

theorem plan_version_identifies_content_witness:
  "\<exists>w :: world. t_plans (w_db w) \<noteq> t_plans (w_db sample_world)
     \<and> t_plans (w_db w) ! 2 = seed_plan 0 ''enterprise'' ''Enterprise'' None None 30 True ''logo''
         (JObj [(''require_mfa_all_users_allowed'', JBool True)])"
proof -
  obtain w where w: "service_steps operator_gin ext_ref (pg_config ext_ref (seconds 60) sample_docs) sample_world w"
    "t_plans (w_db w) = put_row pr_code (patched_row (db_now sample_world)) (t_plans (w_db sample_world))"
    "t_plans (w_db w) \<noteq> t_plans (w_db sample_world)"
    using plan_patch_history by blast
  let ?x = "seed_plan 0 ''enterprise'' ''Enterprise'' None None 30 True ''logo''
        (JObj [(''require_mfa_all_users_allowed'', JBool True)])"
  have x: "?x \<in> set (t_plans (w_db sample_world))"
    by (simp add: sample_departments seed_plans_def)
  have y: "t_plans (w_db w) ! 2 \<in> set (t_plans (w_db w))" "pr_code (t_plans (w_db w) ! 2) = pr_code ?x"
    "pr_record_version (t_plans (w_db w) ! 2) = pr_record_version ?x"
    by (simp_all add: w(2) put_row_def sample_departments seed_plans_def)
      (simp_all add: seed_plan_def patched_row_def starter_row_def)
  from plan_version_identifies_content [OF ext_ref_ok sample_db_ok w(1) x y] w(3) show ?thesis by blast
qed

end
