(* ===== verification/Cache_Properties.thy ===== *)
theory Cache_Properties
  imports Dispatch
begin

text \<open>
  The cached catalogs: what is stored reads back, a listing shows the tables as long as requests run
  one after the other and nothing fails around them, a broken cache changes no answer, every entry
  expires, and a write drops the entry of its catalog only.
\<close>

section \<open>Snapshots\<close>

text \<open>
  C20. Round trip of both cached catalogs: for every well-formed state of the tables, decoding the JSON
  the services store gives back the rows they stored, UUIDs, times, limits and feature sets included.
\<close>

theorem snapshots_roundtrip:
  assumes "ext_ok X" and "db_ok (w_db w)" and "plans_scan X (w_db w)"
  shows "decode_departments X (encode_departments X (departments_truth X w)) = Some (departments_truth X w)
     \<and> decode_plans X (encode_plans X (plans_truth X w)) = Some (plans_truth X w)"
proof
  have "catalogs_ok X w" using assms by (simp add: catalogs_ok_def)
  from catalogs_ok_sound [OF this] have ds: "departments_sound X w" and ps: "plans_sound X w" by blast+
  show "decode_departments X (encode_departments X (departments_truth X w)) = Some (departments_truth X w)"
    by (rule departments_snapshot_roundtrip [OF assms(1)]) (rule departments_truth_int64 [OF ds])
  show "decode_plans X (encode_plans X (plans_truth X w)) = Some (plans_truth X w)"
    by (rule plans_snapshot_roundtrip [OF assms(1)]) (rule plans_truth_cacheable [OF ps])
qed

theorem snapshots_roundtrip_witness:
  "decode_plans ext_ref (encode_plans ext_ref (plans_truth ext_ref sample_world)) = Some (plans_truth ext_ref sample_world)"
  using snapshots_roundtrip [OF ext_ref_ok sample_db_ok sample_scans] by blast

section \<open>Listings\<close>

text \<open>Requests one after the other, and time passing between them.\<close>

inductive quiet_step :: "gin_env \<Rightarrow> ext \<Rightarrow> router_config \<Rightarrow> world \<Rightarrow> world \<Rightarrow> bool"
  for G :: gin_env and X :: ext and cfg :: router_config where
  request: "serve G X cfg c w = (r, w') \<Longrightarrow> quiet_step G X cfg w w'"
| tick: "w_now w \<le> t \<Longrightarrow> quiet_step G X cfg w (w\<lparr>w_now := t\<rparr>)"

inductive_simps quiet_step_iff: "quiet_step G X cfg w w'"

lemma live_value_later: "w_now w \<le> t \<Longrightarrow> live_value (w\<lparr>w_now := t\<rparr>) k = Some v \<Longrightarrow> live_value w k = Some v"
  by (auto simp: live_value_def split: option.splits if_splits)

lemma coherent_later:
  "w_now w \<le> t \<Longrightarrow> truth (w\<lparr>w_now := t\<rparr>) = truth w \<Longrightarrow> coherent live_value key dec truth w \<Longrightarrow>
     coherent live_value key dec truth (w\<lparr>w_now := t\<rparr>)"
  by (auto intro!: coherentI dest: live_value_later coherentD)

lemma coherent_state_later:
  assumes "coherent_state X w" and "w_now w \<le> t"
  shows "coherent_state X (w\<lparr>w_now := t\<rparr>)"
proof -
  have "departments_truth X (w\<lparr>w_now := t\<rparr>) = departments_truth X w" "plans_truth X (w\<lparr>w_now := t\<rparr>) = plans_truth X w"
    by (simp_all add: departments_truth_def plans_truth_def)
  then show ?thesis
    using assms coherent_later [OF assms(2), where truth = "departments_truth X"]
      coherent_later [OF assms(2), where truth = "plans_truth X"]
    by (simp add: coherent_state_def catalogs_ok_def steady_def)
qed

lemma quiet_step_coherent:
  "quiet_step G X (pg_config X ttl d) w w' \<Longrightarrow> coherent_state X w \<Longrightarrow> coherent_state X w'"
  by (erule quiet_step.cases) (auto dest: serve_stays_coherent intro: coherent_state_later)

lemma quiet_steps_coherent:
  "(quiet_step G X (pg_config X ttl d))\<^sup>*\<^sup>* w w' \<Longrightarrow> coherent_state X w \<Longrightarrow> coherent_state X w'"
  by (induction rule: rtranclp_induct) (auto intro: quiet_step_coherent)

lemma coherent_List:
  assumes co: "coherent_state X w" and l: "DepartmentService_List X (pg_department_service X ttl) b w = (Inr ds, w')"
  shows "ds = sql_select_departments X b (w_db w)"
proof -
  have "departments_sound X w" "departments_coherent X w"
    using co catalogs_ok_sound by (auto simp: coherent_state_def)
  moreover obtain q where q: "DepartmentService_listAllCached X (pg_department_service X ttl) w = (q, w')"
    and ds: "Inr ds = (case q of Inl e \<Rightarrow> Inl e | Inr all \<Rightarrow> Inr (if b then filter d_IsActive all else all))"
    using DepartmentService_List_pg [OF l] by blast
  moreover obtain all where "q = Inr all" using ds by (cases q) simp_all
  ultimately have "all = departments_truth X w" "ds = (if b then filter d_IsActive all else all)"
    using dept_snapshot.read_through_truth [of X w] by (auto simp: listAllCached_read_through)
  then show ?thesis by (cases b) (simp_all add: departments_truth_def sql_select_departments_filter)
qed

text \<open>
  C19. Read your writes: from a state whose cached entries agree with the tables, after any number of
  requests served one after the other, with time passing between them, no cache call failing and no
  commit acknowledgement lost, a listing of the departments that succeeds is the table
  at that moment, ordered by code and restricted to active departments on demand, wherever it came
  from.
\<close>

theorem department_listing_current:
  assumes "coherent_state X w0" and "(quiet_step G X (pg_config X ttl d))\<^sup>*\<^sup>* w0 w"
    and "DepartmentService_List X (pg_department_service X ttl) b w = (Inr ds, w')"
  shows "ds = sort_key (\<lambda>x. x_collation X (d_Code x))
                (filter (\<lambda>x. b \<longrightarrow> d_IsActive x) (t_departments (w_db w)))"
  using coherent_List [OF quiet_steps_coherent [OF assms(2,1)] assms(3)]
  by (cases b) (simp_all add: sql_select_departments_def)

lemma sample_list:
  "DepartmentService_List ext_ref (pg_department_service ext_ref (seconds 60)) True sample_world
     = (Inr (filter d_IsActive (sql_select_departments ext_ref False (w_db sample_world))),
        snd (DepartmentService_List ext_ref (pg_department_service ext_ref (seconds 60)) True sample_world))"
proof -
  have "DepartmentRepository_List ext_ref False (inc_metric (CacheMisses ''cat:departments'') (pop_cache sample_world)) =
      (Inr (sql_select_departments ext_ref False (w_db sample_world)),
       pop_tx (inc_metric (CacheMisses ''cat:departments'') (pop_cache sample_world)))"
    unfolding DepartmentRepository_List_def
    by (subst withPool_no_fault) (simp_all add: next_tx_def deptListFromTx_def query_def)
  then show ?thesis
    by (simp add: DepartmentService_List_def DepartmentService_listAllCached_def departments_hit_def Cache_Get_def
        active_departments_filter)
qed

theorem department_listing_current_witness:
  "filter d_IsActive (sql_select_departments ext_ref False (w_db sample_world))
     = sort_key (\<lambda>x. x_collation ext_ref (d_Code x)) (filter d_IsActive (t_departments (w_db sample_world)))"
  using department_listing_current [OF sample_coherent rtranclp.rtrancl_refl sample_list] by simp

lemma coherent_PlanList:
  assumes "coherent_state X w" and "PlanService_List X (pg_plan_service X ttl) w = (Inr ps, w')"
  shows "ps = plans_truth X w"
proof -
  have "plans_sound X w" "plans_coherent X w" using assms(1) catalogs_ok_sound by (auto simp: coherent_state_def)
  then show ?thesis
    using assms(2) plan_snapshot.read_through_truth [of X w] by (auto simp: PlanService_List_read_through)
qed

text \<open>The same for the plans: a listing that succeeds shows every tier as the table has it, in tier order.\<close>

theorem plan_listing_current:
  assumes co: "coherent_state X w0" and run: "(quiet_step G X (pg_config X ttl d))\<^sup>*\<^sup>* w0 w"
    and l: "PlanService_List X (pg_plan_service X ttl) w = (Inr ps, w')"
  shows "ps = map (plan_of X) (t_plans (w_db w))"
proof -
  have co': "coherent_state X w" by (rule quiet_steps_coherent [OF run co])
  then have ps: "ps = plans_truth X w" using l by (rule coherent_PlanList)
  have "map pr_code (t_plans (w_db w)) = tenant_plan_enum"
    using co' by (simp add: coherent_state_def catalogs_ok_def db_ok_def plans_ok_def)
  then have "map (tier_rank \<circ> pr_code) (t_plans (w_db w)) = map tier_rank tenant_plan_enum" by (metis map_map)
  also have "map tier_rank tenant_plan_enum = [0, 1, 2]" by (simp add: tier_rank_def tenant_plan_enum_def)
  finally have "sorted (map (\<lambda>p. tier_rank (pr_code p)) (t_plans (w_db w)))" by (simp add: comp_def)
  then have "sql_select_plans (w_db w) = t_plans (w_db w)"
    unfolding sql_select_plans_def by (rule sort_key_id_if_sorted)
  then show ?thesis by (simp add: ps plans_truth_def)
qed

theorem plan_listing_current_witness:
  "\<exists>ps w'. PlanService_List ext_ref (pg_plan_service ext_ref (seconds 60)) sample_world = (Inr ps, w')
     \<and> ps = map (plan_of ext_ref) (t_plans (w_db sample_world))"
proof -
  let ?w1 = "inc_metric (CacheMisses ''cat:plans'') (pop_cache sample_world)"
  have "list_all (row_scans ext_ref) (sql_select_plans (w_db sample_world))"
    using sample_scans by (simp add: plans_scan_def list_all_iff set_sql_select_plans)
  from scan_rows_ok [OF this] have "\<exists>ps w2. PlanRepository_List ext_ref ?w1 = (Inr ps, w2)"
    unfolding PlanRepository_List_def
    by (subst withPool_no_fault) (simp_all add: next_tx_def planListFromTx_def query_def)
  then obtain ps w' where "PlanService_List ext_ref (pg_plan_service ext_ref (seconds 60)) sample_world = (Inr ps, w')"
    by (auto simp: PlanService_List_def plans_hit_def Cache_Get_def)
  with plan_listing_current [OF sample_coherent rtranclp.rtrancl_refl this] show ?thesis by blast
qed

section \<open>An advisory cache\<close>

lemma repo_List_pop_cache: "fst (DepartmentRepository_List X b (pop_cache w)) = fst (DepartmentRepository_List X b w)"
proof -
  let ?q = "case query (tf_stmt (next_tx w)) (\<lambda>db. Inr (sql_select_departments X b db)) w of
      Inl e \<Rightarrow> Inl (EDriver e) | Inr ds \<Rightarrow> Inr ds"
  have body: "deptListFromTx X b (next_tx w) v = (?q, v)" if "w_db v = w_db w" for v
    using that by (auto simp: deptListFromTx_def query_def split: sum.split option.split)
  have "next_tx (pop_cache w) = next_tx w" by (simp add: next_tx_def)
  then show ?thesis
    using body [of "pop_tx (pop_cache w)"] body [of "pop_tx w"]
    by (auto simp: DepartmentRepository_List_def withPool_def RunInTx_def Let_def split: option.split sum.split)
qed

definition uncached_department_service :: "ext \<Rightarrow> world department_service" where
  "uncached_department_service X = NewDepartmentService (NewDepartmentRepository X) None"

text \<open>
  C21. The cache is advisory: with it the department service answers a creation and a patch exactly as
  the same service without a cache, whatever the cache does, and when reading the cache fails it answers a listing as
  that service does too.
\<close>

theorem cache_is_advisory:
  "fst (DepartmentService_Create (pg_department_service X ttl) code name sys w)
     = fst (DepartmentService_Create (uncached_department_service X) code name sys w)
   \<and> fst (DepartmentService_Patch X (pg_department_service X ttl) u nm act v w)
     = fst (DepartmentService_Patch X (uncached_department_service X) u nm act v w)
   \<and> (next_cache w \<noteq> CacheFine \<longrightarrow>
        fst (DepartmentService_List X (pg_department_service X ttl) b w)
        = fst (DepartmentService_List X (uncached_department_service X) b w))"
proof (intro conjI impI)
  have [simp]: "ds_repo (uncached_department_service X) = NewDepartmentRepository X" "ds_cache (uncached_department_service X) = None"
    by (simp_all add: uncached_department_service_def NewDepartmentService_def)
  show "fst (DepartmentService_Create (pg_department_service X ttl) code name sys w)
     = fst (DepartmentService_Create (uncached_department_service X) code name sys w)"
    by (auto simp: DepartmentService_Create_def split: prod.split sum.split)
  show "fst (DepartmentService_Patch X (pg_department_service X ttl) u nm act v w)
     = fst (DepartmentService_Patch X (uncached_department_service X) u nm act v w)"
    by (auto simp: DepartmentService_Patch_def split: prod.split sum.split)
  assume down: "next_cache w \<noteq> CacheFine"
  then have hit: "departments_hit X (pg_department_service X ttl) w = (None, pop_cache w)"
    by (cases "next_cache w") (simp_all add: departments_hit_def Cache_Get_def)
  have miss: "departments_hit X (uncached_department_service X) w = (None, w)" by (simp add: departments_hit_def)
  show "fst (DepartmentService_List X (pg_department_service X ttl) b w)
        = fst (DepartmentService_List X (uncached_department_service X) b w)"
    using repo_List_pop_cache [of X False w]
    by (auto simp: DepartmentService_List_def DepartmentService_listAllCached_def hit miss split: prod.split sum.split)
qed

theorem cache_is_advisory_witness:
  "fst (DepartmentService_List ext_ref (pg_department_service ext_ref 0) True
          (sample_world\<lparr>w_cache := [CacheFails (OtherErr ''dial tcp'') False]\<rparr>))
   = fst (DepartmentService_List ext_ref (uncached_department_service ext_ref) True
          (sample_world\<lparr>w_cache := [CacheFails (OtherErr ''dial tcp'') False]\<rparr>))"
  using cache_is_advisory [where X = ext_ref and ttl = 0 and b = True
      and w = "sample_world\<lparr>w_cache := [CacheFails (OtherErr ''dial tcp'') False]\<rparr>"]
  by (simp add: next_cache_def)

section \<open>Expiry and invalidation\<close>

lemma seconds_60: "sint (seconds 60) = 60000000000"
  by (simp add: seconds_def)

lemma pg_ttl_positive: "0 < sint (ds_cacheTTL (pg_department_service X ttl))"
  "0 < sint (ps_cacheTTL (pg_plan_service X ttl))"
  by (simp_all add: pg_department_service_def pg_plan_service_def DepartmentService_WithCacheTTL_def
      PlanService_WithCacheTTL_def NewDepartmentService_def NewPlanService_def defaultDepartmentsCacheTTL_def
      defaultPlansCacheTTL_def seconds_60)

text \<open>
  No cached catalog lives for ever: whatever CATALOG_TTL_SECONDS says (nothing, garbage, a negative
  number, one that overflows), the services main.go composes store their entries with a positive time
  to live, and an entry is gone once that time has passed since it was stored.
\<close>

theorem cached_catalog_expires:
  assumes "live_value w ''cat:departments'' = None"
    and "DepartmentService_listAllCached X (rt_Departments (compose X env)) w = (r, w')"
    and "w_now w + sint (ds_cacheTTL (rt_Departments (compose X env))) \<le> t"
  shows "0 < sint (ds_cacheTTL (rt_Departments (compose X env)))
     \<and> live_value (w'\<lparr>w_now := t\<rparr>) ''cat:departments'' = None"
proof
  let ?s = "pg_department_service X (catalogTTL env)" and ?k = "''cat:departments''"
  have s: "rt_Departments (compose X env) = ?s" by (simp add: compose_def)
  show pos: "0 < sint (ds_cacheTTL (rt_Departments (compose X env)))" unfolding s by (rule pg_ttl_positive)
  have dead: "live_value (v\<lparr>w_now := t\<rparr>) ?k = None" if "live_value v ?k = None" "w_now v \<le> t" for v
    using live_value_later [OF that(2), of ?k] that(1) by (cases "live_value (v\<lparr>w_now := t\<rparr>) ?k") auto
  have le: "w_now w \<le> t" using assms(3) pos by linarith
  obtain w1 where hit: "departments_hit X ?s w = (None, w1)" and w1: "live_value w1 = live_value w" "w_now w1 = w_now w"
  proof -
    have "departments_hit X ?s w = (None, snd (Cache_Get ?k w))"
      using assms(1) by (auto simp: departments_hit_def Cache_Get_def split: cache_fate.split)
    moreover have "live_value (snd (Cache_Get ?k w)) = live_value w" "w_now (snd (Cache_Get ?k w)) = w_now w"
      by (auto simp: Cache_Get_def split: cache_fate.split option.split)
    ultimately show ?thesis using that by blast
  qed
  obtain q w2 where f: "DepartmentRepository_List X False w1 = (q, w2)" by force
  have w2: "live_value w2 = live_value w" "w_now w2 = w_now w"
    using DepartmentRepository_List_frame [OF f] w1 cache_side_live [of w2 w1] by (auto simp: cache_side_def)
  show "live_value (w'\<lparr>w_now := t\<rparr>) ?k = None"
  proof (cases q)
    case (Inl e)
    then have "w' = w2" using assms(2) hit f by (simp add: s DepartmentService_listAllCached_def)
    then show ?thesis using dead [of w2] assms(1) w2 le by simp
  next
    case (Inr ds)
    let ?raw = "encode_departments X ds" and ?ttl = "ds_cacheTTL ?s"
    have w': "w' = snd (Cache_Set ?k ?raw ?ttl w2)"
      using assms(2) hit f Inr by (simp add: s DepartmentService_listAllCached_def)
    have set: "live_value ((store_set ?k ?raw ?ttl (pop_cache w2))\<lparr>w_now := t\<rparr>) ?k = None"
      using pos assms(3) w2 unfolding s by (simp add: live_value_def store_set_def)
    have pop: "live_value ((pop_cache w2)\<lparr>w_now := t\<rparr>) ?k = None"
      using dead [of "pop_cache w2"] assms(1) w2 le by simp
    show ?thesis using set pop unfolding w' by (auto simp: Cache_Set_def split: cache_fate.split)
  qed
qed

theorem cached_catalog_expires_witness:
  "live_value ((snd (DepartmentService_listAllCached ext_ref (rt_Departments (compose ext_ref (\<lambda>v. ''x''))) sample_world))
     \<lparr>w_now := 100000000000\<rparr>) ''cat:departments'' = None"
proof -
  have ttl: "catalogTTL (\<lambda>v. ''x'') = seconds 60"
    by (simp add: catalogTTL_def catalogTTLSeconds_def envOr_def Atoi_def is_digit_def seconds_def)
  have "ds_cacheTTL (rt_Departments (compose ext_ref (\<lambda>v. ''x''))) = seconds 60"
    by (simp add: compose_def pg_department_service_def DepartmentService_WithCacheTTL_def NewDepartmentService_def ttl seconds_60)
  then have "w_now sample_world + sint (ds_cacheTTL (rt_Departments (compose ext_ref (\<lambda>v. ''x'')))) \<le> 100000000000"
    by (simp only: seconds_60) (simp add: sample_world_def)
  from cached_catalog_expires [OF sample_live prod.collapse [symmetric] this] show ?thesis by blast
qed

lemma invalidation_effect:
  assumes wi: "write_then_invalidate (Some valkey_port) k f w = (Inr b, w')"
    and frame: "\<And>q w1. f w = (q, w1) \<Longrightarrow> cache_side w1 = cache_side w" and "valkey_healthy w"
  shows "live_value w' k = None \<and> (j \<noteq> k \<longrightarrow> live_value w' j = live_value w j)"
  using wi
proof (cases rule: write_then_invalidate_pg)
  case (done' b' w1 rd)
  have "cache_side w1 = cache_side w" using frame done'(1) by blast
  then have lv: "live_value w1 = live_value w" and "w_cache w1 = w_cache w"
    using cache_side_live by (blast, simp add: cache_side_def)
  then have "next_cache w1 = CacheFine" using assms(3) by (simp add: valkey_healthy_def next_cache_def)
  then have w': "w' = store_del [k] (pop_cache w1)" using done'(2) by (simp add: Cache_Delete_def)
  show ?thesis unfolding w' by (simp add: live_value_store_del lv)
qed simp

text \<open>
  A successful write of either catalog drops its own cached snapshot and leaves the other
  catalog's snapshot alone, as long as the cache executes the deletion.
\<close>

theorem write_drops_its_snapshot:
  assumes "valkey_healthy w"
  shows "(DepartmentService_Patch X (pg_department_service X ttl) u nm act v w = (Inr d, w') \<longrightarrow>
            live_value w' ''cat:departments'' = None \<and> live_value w' ''cat:plans'' = live_value w ''cat:plans'')
       \<and> (DepartmentService_Create (pg_department_service X ttl) code name sys w = (Inr d, w') \<longrightarrow>
            live_value w' ''cat:departments'' = None \<and> live_value w' ''cat:plans'' = live_value w ''cat:plans'')
       \<and> (PlanService_Patch (pg_plan_service X ttl) tier p w = (Inr pl, w') \<longrightarrow>
            live_value w' ''cat:plans'' = None \<and> live_value w' ''cat:departments'' = live_value w ''cat:departments'')"
proof (intro conjI impI)
  assume "DepartmentService_Patch X (pg_department_service X ttl) u nm act v w = (Inr d, w')"
  then obtain q where wi: "write_then_invalidate (Some valkey_port) ''cat:departments''
        (DepartmentRepository_Update X u nm act v) w = (q, w')"
    and "Inr d = (case q of Inl e \<Rightarrow> Inl (patch_error X e) | Inr d \<Rightarrow> Inr d)"
    by (cases rule: DepartmentService_Patch_pg) auto
  then obtain b where "q = Inr b" by (cases q) simp_all
  note invalidation_effect [OF wi [unfolded this] DepartmentRepository_Update_frame assms]
  then show "live_value w' ''cat:departments'' = None" "live_value w' ''cat:plans'' = live_value w ''cat:plans''"
    by simp_all
next
  assume "DepartmentService_Create (pg_department_service X ttl) code name sys w = (Inr d, w')"
  then obtain dp where wi: "write_then_invalidate (Some valkey_port) ''cat:departments''
        (DepartmentRepository_Insert X dp) w = (Inr d, w')"
    by (cases rule: DepartmentService_Create_pg) auto
  note invalidation_effect [OF wi DepartmentRepository_Insert_frame assms]
  then show "live_value w' ''cat:departments'' = None" "live_value w' ''cat:plans'' = live_value w ''cat:plans''"
    by simp_all
next
  assume "PlanService_Patch (pg_plan_service X ttl) tier p w = (Inr pl, w')"
  then have wi: "write_then_invalidate (Some valkey_port) ''cat:plans''
        (PlanRepository_Update X tier (Some p)) w = (Inr pl, w')"
    by (cases rule: PlanService_Patch_pg) auto
  note invalidation_effect [OF wi PlanRepository_Update_frame assms]
  then show "live_value w' ''cat:plans'' = None" "live_value w' ''cat:departments'' = live_value w ''cat:departments''"
    by simp_all
qed

theorem write_drops_its_snapshot_witness:
  "\<exists>d w'. DepartmentService_Patch ext_ref (pg_department_service ext_ref 0) 9 (Some ''Renamed'') None 1 custom_world = (Inr d, w')
     \<and> live_value w' ''cat:departments'' = None"
proof -
  obtain w' where p: "DepartmentService_Patch ext_ref (pg_department_service ext_ref 0) 9 (Some ''Renamed'') None 1 custom_world
      = (Inr (renamed_department (db_now custom_world)), w')"
    using pg_patch_steps [OF custom_db_ok _ _ _ rename_abs]
    by (auto simp: trim_space_def ascii_space_def space2_def space3_def)
  have "valkey_healthy custom_world" by (simp add: valkey_healthy_def)
  from write_drops_its_snapshot [OF this, THEN conjunct1, THEN mp, OF p] p show ?thesis by blast
qed

end
