(* ===== verification/Write_Properties.thy ===== *)
theory Write_Properties
  imports Dispatch
begin

text \<open>
  What the writes do: the repository updates refine the abstract ones, the services answer a patch or
  a creation with the outcome the row and the request determine, a stale version is always refused,
  and the version a conflict reports is the one to retry with.
\<close>

section \<open>Errors of the database seen through the adapter\<close>

lemma wrap_raise:
  assumes "ext_ok X" and "\<not> has_prefix ''08'' c" and "\<not> has_prefix ''53'' c"
    and "\<not> contains_str ''SQLSTATE 57'' (''ERROR: '' @ m @ '' (SQLSTATE '' @ c @ '')'')"
    and "\<not> contains_str ''SQLSTATE 58'' (''ERROR: '' @ m @ '' (SQLSTATE '' @ c @ '')'')"
  shows "wrapConnErr X (EDriver (pg_raise c n m)) = EDriver (pg_raise c n m)"
  using assms
  by (simp add: wrapConnErr_def pg_raise_def isOperatorOrSystemErrorSQLState_def ext_okD pg_class_is_def pg_text_ref_def)

lemma wrap_nul: "ext_ok X \<Longrightarrow> wrapConnErr X (EDriver nul_error) = EDriver nul_error"
  unfolding nul_error_def by (rule wrap_raise) (simp_all add: has_prefix_def)

lemma wrap_overflow:
  "ext_ok X \<Longrightarrow> wrapConnErr X (EDriver (pg_raise ''22003'' n ''bigint out of range'')) =
     EDriver (pg_raise ''22003'' n ''bigint out of range'')"
  by (rule wrap_raise) (simp_all add: has_prefix_def)

lemma wrap_name_immutable:
  "ext_ok X \<Longrightarrow> wrapConnErr X (EDriver (pg_raise ''23514'' n ''system department name is immutable'')) =
     EDriver (pg_raise ''23514'' n ''system department name is immutable'')"
  by (rule wrap_raise) (simp_all add: has_prefix_def)

lemma wrap_system_active:
  "ext_ok X \<Longrightarrow> wrapConnErr X (EDriver (check_error ''departments'' ''chk_system_department_active'')) =
     EDriver (check_error ''departments'' ''chk_system_department_active'')"
  unfolding check_error_def by (rule wrap_raise) (simp_all add: has_prefix_def)

lemma patch_error_check:
  assumes "ext_ok X"
  shows "patch_error X (EDriver (pg_raise ''23514'' n m)) =
     (if n = ''chk_system_department_active''
      then EDomain (NewError ErrSystemDepartmentCannotBeRetired ''system department cannot be retired'')
      else if n = ''chk_system_department_name_immutable''
      then EDomain (WithDetails (NewError ErrSystemNameImmutable ''system department name is immutable'')
             [(''field'', AStr ''name'')])
      else EDriver (pg_raise ''23514'' n m))"
  by (simp add: patch_error_def pg_raise_def ext_okD [OF assms])

lemma patch_error_active:
  "ext_ok X \<Longrightarrow> patch_error X (EDriver (check_error ''departments'' ''chk_system_department_active'')) =
     EDomain (NewError ErrSystemDepartmentCannotBeRetired ''system department cannot be retired'')"
  by (simp add: check_error_def patch_error_check)

lemma patch_error_nul: "ext_ok X \<Longrightarrow> patch_error X (EDriver nul_error) = EDriver nul_error"
  by (simp add: patch_error_def nul_error_def pg_raise_def ext_okD)

lemma patch_error_domain: "ext_ok X \<Longrightarrow> patch_error X (EDomain de) = EDomain de"
  by (simp add: patch_error_def ext_okD)

lemma dept_update_abs_Inl: "dept_update_abs now u name isActive v db = (Inl e, db') \<Longrightarrow> db' = db"
  by (auto simp: dept_update_abs_def split: if_splits option.splits sum.splits)

lemma plan_update_abs_Inl: "plan_update_abs X now code p db = (Inl e, db') \<Longrightarrow> db' = db"
  by (auto simp: plan_update_abs_def split: if_splits option.splits sum.splits)

lemma db_ok_ids: "db_ok db \<Longrightarrow> distinct (map d_ID (t_departments db))"
  "db_ok db \<Longrightarrow> distinct (map pr_code (t_plans db))"
  by (simp_all add: db_ok_def departments_ok_def plans_ok_distinct)

section \<open>Refinement\<close>

text \<open>
  C7. DepartmentRepository.Update, with its generated UPDATE, its triggers and constraints and the
  probing read after an empty result, refines the abstract update: in an undisturbed transaction it
  answers what the abstract update answers, errors translated, and leaves the tables it leaves.
\<close>

theorem department_update_refines:
  assumes "db_ok (w_db w)" and "next_tx w = tx_ok" and "name \<noteq> None \<or> isActive \<noteq> None"
    and "DepartmentRepository_Update X u name isActive v w = (r, w')"
  shows "r = map_sum (wrapConnErr X) (\<lambda>d. d) (fst (dept_update_abs (db_now w) u name isActive v (w_db w)))
       \<and> w_db w' = snd (dept_update_abs (db_now w) u name isActive v (w_db w))"
proof -
  obtain q db' where abs: "dept_update_abs (db_now w) u name isActive v (w_db w) = (q, db')" by force
  then have "db' = w_db w" if "q = Inl e" for e using that dept_update_abs_Inl by blast
  with abs show ?thesis
    using assms DepartmentRepository_Update_abs [OF db_ok_ids(1) [OF assms(1)] assms(2,3), of X u v]
    by (cases q) (auto split: if_splits)
qed

theorem department_update_refines_witness:
  "fst (DepartmentRepository_Update ext_ref (sample_ids 0) (Some ''X'') None 7 sample_world)
     = Inl (version_conflict 1)"
proof -
  obtain r w' where u: "DepartmentRepository_Update ext_ref (sample_ids 0) (Some ''X'') None 7 sample_world = (r, w')"
    by force
  from department_update_refines [OF sample_db_ok sample_tx(3) _ this] show ?thesis
    by (simp add: u dept_update_abs_def has_nul_def sample_departments seed_departments_def seed_department_def
        version_conflict_def)
qed

text \<open>C8. PlanRepository.Update refines the abstract plan update in the same way.\<close>

theorem plan_update_refines:
  assumes "ext_ok X" and "db_ok (w_db w)" and "plans_scan X (w_db w)" and "next_tx w = tx_ok"
    and "plan_fields X p \<noteq> []" and "patch_decoded X p"
    and "PlanRepository_Update X code (Some p) w = (r, w')"
  shows "r = map_sum (wrapConnErr X) (\<lambda>d. d) (fst (plan_update_abs X (db_now w) code p (w_db w)))
       \<and> w_db w' = snd (plan_update_abs X (db_now w) code p (w_db w))"
proof -
  obtain q db' where abs: "plan_update_abs X (db_now w) code p (w_db w) = (q, db')" by force
  then have "db' = w_db w" if "q = Inl e" for e using that plan_update_abs_Inl by blast
  with abs show ?thesis
    using assms PlanRepository_Update_abs [OF assms(1,4,5) db_ok_ids(2) [OF assms(2)] assms(3,6), of code]
    by (cases q) (auto split: if_splits)
qed

theorem plan_update_refines_witness:
  "fst (PlanRepository_Update ext_ref ''gold'' (Some sample_patch) sample_world)
     = Inl (wrapConnErr ext_ref (EDriver (pg_raise ''22P02'' '''' ''invalid input value for enum tenant_plan'')))"
proof -
  obtain r w' where u: "PlanRepository_Update ext_ref ''gold'' (Some sample_patch) sample_world = (r, w')"
    by force
  have f: "plan_fields ext_ref sample_patch = [(''display_name'', ArgText ''Starter+''), (''tender_limit'', ArgIntPtr None)]"
    by (simp add: plan_fields_def sample_patch_def opt_field_def)
  have d: "patch_decoded ext_ref sample_patch" by (simp add: patch_decoded_def sample_patch_def)
  have b: "plan_bind_error ext_ref ''gold'' sample_patch =
      Some (pg_raise ''22P02'' '''' ''invalid input value for enum tenant_plan'')"
    by (simp add: plan_bind_error_def f bind_args_def plan_col_type_def tenant_plan_enum_def)
  from plan_update_refines [OF ext_ref_ok sample_db_ok sample_scans sample_tx(3) _ d u] show ?thesis
    by (simp add: f u plan_update_abs_def b)
qed

section \<open>Outcomes\<close>

text \<open>The row a patch turns into, when nothing refuses it.\<close>

definition dept_after :: "int \<Rightarrow> string option \<Rightarrow> bool option \<Rightarrow> department \<Rightarrow> department" where
  "dept_after now name isActive old =
     (if dept_patched name isActive old = old then old
      else (dept_patched name isActive old)\<lparr>d_RecordVersion := d_RecordVersion old + 1, d_UpdatedAt := now\<rparr>)"

lemma dept_update_spec_outcome:
  assumes ok: "dept_row_ok old" and v: "int64_ok (d_RecordVersion old + 1)"
    and nm: "name = None \<or> the name \<noteq> ''''"
  shows "dept_update_spec now name isActive old =
     (if d_IsSystem old \<and> d_Name (dept_patched name isActive old) \<noteq> d_Name old
      then Inl (pg_raise ''23514'' ''chk_system_department_name_immutable'' ''system department name is immutable'')
      else if d_IsSystem old \<and> isActive = Some False
      then Inl (check_error ''departments'' ''chk_system_department_active'')
      else Inr (dept_after now name isActive old))"
proof -
  have row: "d_Code old \<noteq> ''''" "d_Name old \<noteq> ''''" "0 < d_RecordVersion old" "d_IsSystem old \<Longrightarrow> d_IsActive old"
    using ok by (auto simp: dept_row_ok_iff)
  let ?p = "dept_patched name isActive old"
  have chk: "failing_check dept_checks (?p\<lparr>d_RecordVersion := d_RecordVersion old + 1, d_UpdatedAt := now\<rparr>)
      = (if d_IsSystem old \<and> isActive = Some False then Some ''chk_system_department_active'' else None)"
    using row nm by (auto simp: failing_check_def dept_checks_def split: option.split)
  have same: "?p \<noteq> old" if "d_IsSystem old" "isActive = Some False"
  proof -
    have "d_IsActive ?p \<noteq> d_IsActive old" using that row(4) by simp
    then show ?thesis by metis
  qed
  have "failing_check dept_checks old = None" using ok by (simp add: dept_row_ok_def)
  then show ?thesis
    using chk same v by (auto simp: dept_update_spec_def Let_def dept_after_def simp del: dept_patched_simps)
qed

text \<open>
  C11. What CAT-2 answers, completely, when nothing disturbs its transaction: a patch without a field is
  refused with no_mutable_field, a blank name as invalid, a name with a NUL byte by the database, an
  unknown id as not found, a stale version with a conflict that carries the current one; then the rename
  of a system department is refused with system_name_immutable (and the field), its retirement with
  system_department_cannot_be_retired; and every other patch succeeds with the patched row, whose version
  grew by one iff anything changed. (The row is not at the last of the 64-bit versions.)
\<close>

theorem department_patch_outcome:
  assumes X: "ext_ok X" and db: "db_ok (w_db w)" and tx: "next_tx w = tx_ok"
    and ver: "\<And>old. old \<in> set (t_departments (w_db w)) \<Longrightarrow> d_ID old = u \<Longrightarrow> int64_ok (d_RecordVersion old + 1)"
  shows "fst (DepartmentService_Patch X (pg_department_service X ttl) u name isActive v w) =
     (if name = None \<and> isActive = None
      then Inl (EDomain (WithDetails (NewError ErrNoMutableField ''at least one of name or is_active must be provided'')
                  [(''code'', AStr ''no_mutable_field'')]))
      else if name \<noteq> None \<and> trim_space (the name) = ''''
      then Inl (EDomain (NewError ErrValidation ''name must not be empty''))
      else if name \<noteq> None \<and> has_nul (the name) then Inl (EDriver nul_error)
      else case find (\<lambda>d. d_ID d = u) (t_departments (w_db w)) of
        None \<Rightarrow> Inl (EDomain (NewError ErrDepartmentNotFound ''department not found''))
      | Some old \<Rightarrow>
          if d_RecordVersion old \<noteq> v then Inl (version_conflict (d_RecordVersion old))
          else if d_IsSystem old \<and> d_Name (dept_patched name isActive old) \<noteq> d_Name old
          then Inl (EDomain (WithDetails (NewError ErrSystemNameImmutable ''system department name is immutable'')
                      [(''field'', AStr ''name'')]))
          else if d_IsSystem old \<and> isActive = Some False
          then Inl (EDomain (NewError ErrSystemDepartmentCannotBeRetired ''system department cannot be retired''))
          else Inr (dept_after (db_now w) name isActive old))"
proof (cases "name = None \<and> isActive = None \<or> (name \<noteq> None \<and> trim_space (the name) = '''')")
  case True
  then show ?thesis by (auto simp: DepartmentService_Patch_def)
next
  case False
  then have some: "name \<noteq> None \<or> isActive \<noteq> None" and blank: "name = None \<or> trim_space (the name) \<noteq> ''''" by auto
  then have nonempty: "name = None \<or> the name \<noteq> ''''" using trim_space_nonempty by auto
  let ?abs = "dept_update_abs (db_now w) u name isActive v (w_db w)"
  have "fst (DepartmentRepository_Update X u name isActive v w) = map_sum (wrapConnErr X) (\<lambda>d. d) (fst ?abs)"
    using DepartmentRepository_Update_abs [OF db_ok_ids(1) [OF db] tx some, of X u v] by (auto split: prod.split sum.split)
  moreover have "fst (DepartmentService_Patch X (pg_department_service X ttl) u name isActive v w) =
      map_sum (patch_error X) (\<lambda>d. d) (fst (DepartmentRepository_Update X u name isActive v w))"
    using some blank by (auto simp: DepartmentService_Patch_def split: prod.split sum.split)
  ultimately have answer: "fst (DepartmentService_Patch X (pg_department_service X ttl) u name isActive v w) =
      map_sum (patch_error X) (\<lambda>d. d) (map_sum (wrapConnErr X) (\<lambda>d. d) (fst ?abs))" by simp
  note translated = wrap_nul [OF X] wrap_name_immutable [OF X] wrap_system_active [OF X] patch_error_check [OF X]
    patch_error_active [OF X] patch_error_domain [OF X] patch_error_nul [OF X] version_conflict_def dept_not_found_def
  show ?thesis
  proof (cases "name \<noteq> None \<and> has_nul (the name)")
    case True
    then show ?thesis using some blank unfolding answer by (auto simp: dept_update_abs_def translated)
  next
    case plain: False
    show ?thesis
    proof (cases "find (\<lambda>d. d_ID d = u) (t_departments (w_db w))")
      case None
      then show ?thesis using some blank plain unfolding answer by (auto simp: dept_update_abs_def translated)
    next
      case (Some old)
      then have old: "old \<in> set (t_departments (w_db w))" "d_ID old = u" by (auto dest: find_SomeD)
      have row: "dept_row_ok old" using db old by (auto simp: db_ok_def departments_ok_def list_all_iff)
      have abs: "fst ?abs = (if d_RecordVersion old \<noteq> v then Inl (version_conflict (d_RecordVersion old))
          else case dept_update_spec (db_now w) name isActive old of Inl e \<Rightarrow> Inl (EDriver e) | Inr new \<Rightarrow> Inr new)"
        using some plain Some by (auto simp: dept_update_abs_def split: sum.split)
      show ?thesis
        unfolding answer abs dept_update_spec_outcome [OF row ver [OF old] nonempty]
        using some blank plain Some by (auto simp: translated simp del: dept_patched_simps)
    qed
  qed
qed

theorem department_patch_outcome_witness:
  "fst (DepartmentService_Patch ext_ref (pg_department_service ext_ref 0) (sample_ids 4) (Some ''Law'') None 1 sample_world)
     = Inl (EDomain (WithDetails (NewError ErrSystemNameImmutable ''system department name is immutable'')
              [(''field'', AStr ''name'')]))"
proof -
  let ?old = "seed_department 0 (sample_ids 4) ''LEGAL'' ''Legal''"
  have old: "?old \<in> set (t_departments (w_db sample_world))"
    by (simp add: sample_departments seed_departments_def)
  then have fnd: "find (\<lambda>d. d_ID d = sample_ids 4) (t_departments (w_db sample_world)) = Some ?old"
    using find_key_Some [OF db_ok_ids(1) [OF sample_db_ok], of "sample_ids 4" ?old] by (simp add: seed_department_def)
  have ver: "int64_ok (d_RecordVersion d + 1)" if "d \<in> set (t_departments (w_db sample_world))" for d
    using that by (auto simp: sample_departments seed_departments_def seed_department_def int64_ok_def)
  show ?thesis
    by (subst department_patch_outcome [OF ext_ref_ok sample_db_ok sample_tx(3) ver])
       (simp_all add: fnd seed_department_def has_nul_def trim_space_def ascii_space_def space2_def space3_def)
qed

text \<open>The plan row after a patch nothing refuses.\<close>

definition plan_after :: "ext \<Rightarrow> int \<Rightarrow> plan_patch \<Rightarrow> plan_row \<Rightarrow> plan_row" where
  "plan_after X now p old =
     (if plan_patched X p old = old then old
      else (plan_patched X p old)\<lparr>pr_record_version := pr_record_version old + 1, pr_updated_at := now\<rparr>)"

lemma checked_patch_result:
  assumes "check_patch code p = None" and "plan_row_ok old" and "int64_ok (pr_record_version old + 1)"
  shows "plan_update_spec X now p old = Inr (plan_after X now p old)"
proof -
  obtain new where new: "plan_update_spec X now p old = Inr new" using checked_patch_update [OF assms] by blast
  then show ?thesis using plan_update_spec_row(2) [OF new] by (simp only: plan_after_def)
qed

lemma plan_repo_result:
  assumes "ext_ok X" and "db_ok (w_db w)" and "plans_scan X (w_db w)" and "next_tx w = tx_ok"
    and "check_patch code p = None" and "patch_decoded X p"
  shows "fst (PlanService_Patch (pg_plan_service X ttl) code p w)
     = map_sum (wrapConnErr X) (\<lambda>d. d) (fst (plan_update_abs X (db_now w) code p (w_db w)))"
proof -
  have ne: "plan_fields X p \<noteq> []" using assms(5) empty_patch_fields by (simp add: check_patch_None)
  obtain q db' where q: "plan_update_abs X (db_now w) code p (w_db w) = (q, db')" by force
  show ?thesis
    using PlanRepository_Update_abs [OF assms(1,4) ne db_ok_ids(2) [OF assms(2)] assms(3,6), of code] q assms(5)
    by (cases q) (auto simp: PlanService_Patch_def)
qed

text \<open>
  C12. What CAT-5 answers for a patch of a plan of the table that passed validation and whose values
  the columns can hold, if nothing disturbs its transaction and the version of the plan is not the
  largest there is: a conflict with the current version when the caller's is stale, and otherwise the
  patched plan. The validation and the constraints of the table agree: no CHECK violation is left over.
\<close>

theorem plan_patch_outcome:
  assumes X: "ext_ok X" and db: "db_ok (w_db w)" and scans: "plans_scan X (w_db w)" and tx: "next_tx w = tx_ok"
    and chk: "check_patch code p = None" and dec: "patch_decoded X p" and bind: "plan_bind_error X code p = None"
    and old: "old \<in> set (t_plans (w_db w))" "pr_code old = code" and ver: "int64_ok (pr_record_version old + 1)"
  shows "fst (PlanService_Patch (pg_plan_service X ttl) code p w) =
     (if pr_record_version old \<noteq> pp_RecordVersion p then Inl (version_conflict (pr_record_version old))
      else Inr (plan_of X (plan_after X (db_now w) p old)))"
proof -
  have row: "plan_row_ok old" using db old by (auto simp: db_ok_def plans_ok_def list_all_iff)
  have fnd: "find (\<lambda>r. pr_code r = code) (t_plans (w_db w)) = Some old"
    using find_key_Some [OF db_ok_ids(2) [OF db]] old by simp
  have "fst (plan_update_abs X (db_now w) code p (w_db w)) =
     (if pr_record_version old \<noteq> pp_RecordVersion p then Inl (version_conflict (pr_record_version old))
      else Inr (plan_of X (plan_after X (db_now w) p old)))"
    using bind fnd checked_patch_result [OF chk row ver] by (auto simp: plan_update_abs_def)
  then show ?thesis unfolding plan_repo_result [OF X db scans tx chk dec] by (simp add: version_conflict_def)
qed

theorem plan_patch_outcome_witness:
  "fst (PlanService_Patch (pg_plan_service ext_ref 0) ''starter'' sample_patch sample_world)
     = Inr (plan_of ext_ref (plan_after ext_ref (db_now sample_world) sample_patch
         (seed_plan 0 ''starter'' ''Starter'' (Some 5) (Some 10) 30 False ''none'' (JObj []))))"
proof -
  let ?old = "seed_plan 0 ''starter'' ''Starter'' (Some 5) (Some 10) 30 False ''none'' (JObj [])"
  have old: "?old \<in> set (t_plans (w_db sample_world))" by (simp add: sample_departments seed_plans_def)
  have f: "plan_fields ext_ref sample_patch = [(''display_name'', ArgText ''Starter+''), (''tender_limit'', ArgIntPtr None)]"
    by (simp add: plan_fields_def sample_patch_def opt_field_def)
  have chk: "check_patch ''starter'' sample_patch = None"
    by (simp add: check_patch_def known_tier_def tier_defs empty_patch_def sample_patch_def negative_limit_def
        trim_space_def ascii_space_def space2_def space3_def)
  have dec: "patch_decoded ext_ref sample_patch" by (simp add: patch_decoded_def sample_patch_def)
  have bind: "plan_bind_error ext_ref ''starter'' sample_patch = None"
    unfolding plan_bind_error_def f by (simp add: bind_args_def plan_col_type_def tenant_plan_enum_def)
  show ?thesis
    by (subst plan_patch_outcome [OF ext_ref_ok sample_db_ok sample_scans sample_tx(3) chk dec bind old])
       (simp_all add: seed_plan_def int64_ok_def sample_patch_def)
qed

text \<open>A patch with a number that int4 cannot hold.\<close>

definition out_of_int4 :: "plan_patch \<Rightarrow> bool" where
  "out_of_int4 p \<longleftrightarrow>
     \<not> ((\<forall>l. pp_WorkflowTemplateLimit p = Some l \<longrightarrow> opt_int4 l) \<and> (\<forall>l. pp_TenderLimit p = Some l \<longrightarrow> opt_int4 l)
        \<and> (\<forall>d. pp_TrialDurationDays p = Some d \<longrightarrow> int4_ok d))"

lemma encode_out_of_int4:
  assumes "out_of_int4 p" and "known_tier code"
  shows "\<exists>n. plan_bind_error X code p = Some (x_encode_error X n)"
proof -
  let ?fs = "plan_fields X p"
  let ?enc = "map2 (encode_arg X) ([TTenantPlan, TInt8] @ map (\<lambda>(c, v). plan_col_type c) ?fs)
      ([ArgText code, ArgInt (pp_RecordVersion p)] @ map snd ?fs)"
  have enc: "?enc = [None, None] @ map (\<lambda>(c, v). encode_arg X (plan_col_type c) v) ?fs"
    by (simp add: zip_map_map zip_same_conv_map case_prod_beta)
  have "\<exists>f \<in> set ?fs. encode_arg X (plan_col_type (fst f)) (snd f) \<noteq> None"
  proof -
    consider l where "pp_WorkflowTemplateLimit p = Some (Some l)" "\<not> int4_ok l"
      | l where "pp_TenderLimit p = Some (Some l)" "\<not> int4_ok l"
      | d where "pp_TrialDurationDays p = Some d" "\<not> int4_ok d"
      using assms(1) by (auto simp: out_of_int4_def opt_int4_def split: option.splits)
    then show ?thesis
    proof cases
      case (1 l)
      then show ?thesis by (intro bexI [of _ "(''workflow_template_limit'', ArgIntPtr (Some l))"])
          (simp_all add: plan_fields_def opt_field_def plan_col_type_def)
    next
      case (2 l)
      then show ?thesis by (intro bexI [of _ "(''tender_limit'', ArgIntPtr (Some l))"])
          (simp_all add: plan_fields_def opt_field_def plan_col_type_def)
    next
      case (3 d)
      then show ?thesis by (intro bexI [of _ "(''trial_duration_days'', ArgInt d)"])
          (simp_all add: plan_fields_def opt_field_def plan_col_type_def)
    qed
  qed
  then have "first_error ?enc \<noteq> None" unfolding enc first_error_None by fastforce
  then obtain e where e: "first_error ?enc = Some e" by blast
  from first_error_SomeD [OF this] obtain c v where "encode_arg X (plan_col_type c) v = Some e"
    unfolding enc by auto
  moreover have "\<exists>n. e' = x_encode_error X n" if "encode_arg X ty a = Some e'" for ty a e'
    using that by (cases "(X, ty, a)" rule: encode_arg.cases) (auto split: if_splits)
  ultimately show ?thesis using e by (auto simp: plan_bind_error_def bind_args_def)
qed

lemma encode_error_status:
  assumes X: "ext_ok X"
  shows "rs_status (fst (HandleError X c (wrapConnErr X (EDriver (x_encode_error X n))) w)) \<in> {500, 503}"
proof (cases "x_encode_error X n")
  case (PgErr pe)
  with ext_okD(12) [OF X, of n] have code: "has_prefix ''22'' (pg_Code pe)"
    and text5: "\<not> contains_str ''SQLSTATE 5'' (pg_text_ref pe)" by (simp_all add: encode_error_ok_def)
  have no5: "\<not> contains_str ''SQLSTATE 57'' (pg_text_ref pe)" "\<not> contains_str ''SQLSTATE 58'' (pg_text_ref pe)"
  proof -
    have "contains_str ''SQLSTATE 5'' t" if "contains_str (''SQLSTATE 5'' @ d) t" for d t
    proof -
      from that obtain a b where "t = a @ (''SQLSTATE 5'' @ d) @ b" unfolding contains_str_iff by blast
      then have "t = a @ ''SQLSTATE 5'' @ (d @ b)" by simp
      then show ?thesis unfolding contains_str_iff by blast
    qed
    from this [of "''7''"] this [of "''8''"] text5
    show "\<not> contains_str ''SQLSTATE 57'' (pg_text_ref pe)" "\<not> contains_str ''SQLSTATE 58'' (pg_text_ref pe)"
      by auto
  qed
  have cls: "\<not> has_prefix ''08'' (pg_Code pe)" "\<not> has_prefix ''53'' (pg_Code pe)"
    using code by (auto simp: has_prefix_append)
  have "wrapConnErr X (EDriver (PgErr pe)) = EDriver (PgErr pe)"
    using no5 cls by (simp add: wrapConnErr_def isOperatorOrSystemErrorSQLState_def ext_okD [OF X] pg_class_is_def)
  then show ?thesis using no5 cls PgErr
    by (simp add: HandleError_def ext_okD [OF X] pg_class_is_def http_isOperatorOrSystemErrorSQLState_def)
qed (use ext_okD(12) [OF X, of n] in \<open>simp_all add: encode_error_ok_def wrapConnErr_def
    isOperatorOrSystemErrorSQLState_def ext_okD [OF X] pg_class_is_def HandleError_domain domainErrorStatus_def\<close>)

text \<open>
  C31. A limit or a trial period the service accepts but int4 cannot hold is answered as a failure of
  the server, 500 or 503, although the client sent the value and nothing disturbed its transaction; the
  tables stay as they are.
\<close>

theorem plan_overflow_is_server_error:
  assumes X: "ext_ok X" and db: "db_ok (w_db w)" and scans: "plans_scan X (w_db w)" and tx: "next_tx w = tx_ok"
    and chk: "check_patch code p = None" and dec: "patch_decoded X p" and out: "out_of_int4 p"
  shows "\<exists>e w'. PlanService_Patch (pg_plan_service X ttl) code p w = (Inl e, w') \<and> w_db w' = w_db w
     \<and> rs_status (fst (HandleError X c e w')) \<in> {500, 503}"
proof -
  obtain n where n: "plan_bind_error X code p = Some (x_encode_error X n)"
    using encode_out_of_int4 [OF out] chk check_patch_None by blast
  then have abs: "plan_update_abs X (db_now w) code p (w_db w) = (Inl (EDriver (x_encode_error X n)), w_db w)"
    by (simp add: plan_update_abs_def)
  have ne: "plan_fields X p \<noteq> []" using chk empty_patch_fields by (simp add: check_patch_None)
  show ?thesis
    using PlanRepository_Update_abs [OF X tx ne db_ok_ids(2) [OF db] scans dec, of code] chk
      encode_error_status [OF X, of c n]
    by (simp add: abs PlanService_Patch_def)
qed

theorem plan_overflow_is_server_error_witness:
  "\<exists>e w'. PlanService_Patch (pg_plan_service ext_ref 0) ''pro''
       (sample_patch\<lparr>pp_TenderLimit := Some (Some 3000000000)\<rparr>) sample_world = (Inl e, w')
     \<and> w_db w' = w_db sample_world
     \<and> rs_status (fst (HandleError ext_ref (sample_request ''PATCH'' ''/'' plan_body) e w')) \<in> {500, 503}"
  by (rule plan_overflow_is_server_error [OF ext_ref_ok sample_db_ok sample_scans sample_tx(3)])
     (simp_all add: check_patch_def known_tier_def tier_defs empty_patch_def sample_patch_def negative_limit_def
        trim_space_def ascii_space_def space2_def space3_def patch_decoded_def out_of_int4_def int4_ok_def)

section \<open>Optimistic locking\<close>

text \<open>
  C4. No lost update: whoever read a department and patches it after it has changed, by any requests
  and faults in between, gets a conflict with a newer version, and the tables stay as they are (for a
  patch with a field and without NUL bytes, whose own transaction nothing disturbs).
\<close>

theorem stale_department_write_refused:
  assumes X: "ext_ok X" and db: "db_ok (w_db w)" and run: "service_steps G X (pg_config X ttl d) w w'"
    and x: "x \<in> set (t_departments (w_db w))" and changed: "x \<notin> set (t_departments (w_db w'))"
    and tx: "next_tx w' = tx_ok" and some: "name \<noteq> None \<or> isActive \<noteq> None"
    and nul: "name = None \<or> \<not> has_nul (the name)"
    and upd: "DepartmentRepository_Update X (d_ID x) name isActive (d_RecordVersion x) w' = (r, w'')"
  shows "\<exists>v. r = Inl (version_conflict v) \<and> d_RecordVersion x < v \<and> w_db w'' = w_db w'"
proof -
  note ev = service_steps_evolution [OF run X]
  obtain y where y: "y \<in> set (t_departments (w_db w'))" "dept_descends x y"
    using evolution_department [OF ev db x] by blast
  have db': "db_ok (w_db w')" by (rule evolution_ok [OF ev db])
  have lt: "d_RecordVersion x < d_RecordVersion y" and u: "d_ID y = d_ID x"
    using y changed by (auto simp: dept_descends_def)
  have fnd: "find (\<lambda>r. d_ID r = d_ID x) (t_departments (w_db w')) = Some y"
    using find_key_Some [OF db_ok_ids(1) [OF db']] y u by simp
  have "dept_update_abs (db_now w') (d_ID x) name isActive (d_RecordVersion x) (w_db w') =
      (Inl (version_conflict (d_RecordVersion y)), w_db w')"
    using fnd lt nul by (auto simp: dept_update_abs_def)
  then show ?thesis
    using DepartmentRepository_Update_abs [OF db_ok_ids(1) [OF db'] tx some, of X "d_ID x" "d_RecordVersion x"] upd lt
    by (auto simp: version_conflict_def split: if_splits)
qed

lemma conflict_simps [simp]:
  "wrapConnErr X (EDriver d) \<noteq> version_conflict v" "dept_not_found \<noteq> version_conflict v"
  "version_conflict v = version_conflict v' \<longleftrightarrow> v = v'" "wrapConnErr X (version_conflict v) = version_conflict v"
  "wrapConnErr X dept_not_found = dept_not_found"
  by (simp_all add: wrapConnErr_def dept_not_found_def version_conflict_def NewError_def WithDetails_def)

lemma dept_after_fields:
  "d_ID (dept_after now name isActive d) = d_ID d"
  "d_Name (dept_after now name isActive d) = (case name of None \<Rightarrow> d_Name d | Some n \<Rightarrow> n)"
  "d_IsActive (dept_after now name isActive d) = (case isActive of None \<Rightarrow> d_IsActive d | Some b \<Rightarrow> b)"
proof -
  let ?p = "dept_patched name isActive d"
  have "d_ID (dept_after now name isActive d) = d_ID ?p \<and> d_Name (dept_after now name isActive d) = d_Name ?p
      \<and> d_IsActive (dept_after now name isActive d) = d_IsActive ?p"
    unfolding dept_after_def by (cases "?p = d") (simp_all del: dept_patched_simps)
  then show "d_ID (dept_after now name isActive d) = d_ID d"
    "d_Name (dept_after now name isActive d) = (case name of None \<Rightarrow> d_Name d | Some n \<Rightarrow> n)"
    "d_IsActive (dept_after now name isActive d) = (case isActive of None \<Rightarrow> d_IsActive d | Some b \<Rightarrow> b)"
    by (simp_all cong: option.case_cong)
qed

theorem stale_department_write_refused_witness:
  "\<exists>w' v. t_departments (w_db w') = [renamed_department (db_now custom_world)]
     \<and> fst (DepartmentRepository_Update ext_ref 9 (Some ''Gadgets'') None 1 (w'\<lparr>w_tx := []\<rparr>)) = Inl (version_conflict v)"
proof -
  obtain w1 where s: "serve operator_gin ext_ref sample_config sample_rename custom_world =
       (json_response 200 (department_response_json (departmentToResponse ext_ref (renamed_department (db_now custom_world)))), w1)"
    and t: "t_departments (w_db w1) = [renamed_department (db_now custom_world)]" using rename_served by blast
  let ?w' = "w1\<lparr>w_tx := []\<rparr>"
  have "service_step operator_gin ext_ref sample_config custom_world w1" by (rule service_step.request [OF s])
  moreover have "service_step operator_gin ext_ref sample_config w1 ?w'" by (rule service_step.environment) simp
  ultimately have run: "service_steps operator_gin ext_ref (pg_config ext_ref (seconds 60) sample_docs) custom_world ?w'"
    unfolding sample_config_def by (meson converse_rtranclp_into_rtranclp r_into_rtranclp)
  obtain r w'' where u: "DepartmentRepository_Update ext_ref (d_ID custom_department) (Some ''Gadgets'') None
      (d_RecordVersion custom_department) ?w' = (r, w'')" by force
  have "\<exists>v. r = Inl (version_conflict v) \<and> d_RecordVersion custom_department < v \<and> w_db w'' = w_db ?w'"
    by (rule stale_department_write_refused [OF ext_ref_ok custom_db_ok run _ _ _ _ _ u])
       (simp_all add: t renamed_department_def custom_department_def has_nul_def)
  then show ?thesis using u t by (intro exI [of _ w1]) (auto simp: custom_department_def)
qed

text \<open>
  C28. A conflict is worth a retry: the version it reports is the one the table has, so the same patch
  with that version, before anyone else writes and if no transaction fails, changes a department that is
  not a system one.
\<close>

theorem conflict_then_retry_succeeds:
  assumes X: "ext_ok X" and db: "db_ok (w_db w)" and quiet: "w_tx w = []"
    and some: "name \<noteq> None \<or> isActive \<noteq> None" and nm: "name = None \<or> (the name \<noteq> '''' \<and> \<not> has_nul (the name))"
    and first: "DepartmentRepository_Update X u name isActive v w = (Inl (version_conflict v'), w1)"
    and second: "DepartmentRepository_Update X u name isActive v' w1 = (r, w2)"
    and free: "\<And>y. y \<in> set (t_departments (w_db w)) \<Longrightarrow> d_ID y = u \<Longrightarrow>
                 \<not> d_IsSystem y \<and> int64_ok (d_RecordVersion y + 1)"
  shows "\<exists>row. r = Inr row \<and> row \<in> set (t_departments (w_db w2)) \<and> d_ID row = u
     \<and> (name \<noteq> None \<longrightarrow> d_Name row = the name) \<and> (isActive \<noteq> None \<longrightarrow> d_IsActive row = the isActive)"
proof -
  have tx: "next_tx w = tx_ok" and tx1: "next_tx w1 = tx_ok"
    using quiet DepartmentRepository_Update_tx [OF first] by simp_all
  let ?abs = "dept_update_abs (db_now w) u name isActive v (w_db w)"
  obtain q db' where q: "?abs = (q, db')" by force
  from DepartmentRepository_Update_abs [OF db_ok_ids(1) [OF db] tx some, of X u v] first q
  obtain e where e: "q = Inl e" "wrapConnErr X e = version_conflict v'" and w1: "w_db w1 = w_db w"
    by (cases q) (auto split: if_splits)
  obtain y where fnd: "find (\<lambda>r. d_ID r = u) (t_departments (w_db w)) = Some y" and v': "d_RecordVersion y = v'"
    using q e nm some
    by (auto simp: dept_update_abs_def split: option.splits if_splits sum.splits)
  then have y: "y \<in> set (t_departments (w_db w))" "d_ID y = u" by (auto dest: find_SomeD)
  then have row: "dept_row_ok y" using db by (auto simp: db_ok_def departments_ok_def list_all_iff)
  have "dept_update_spec (db_now w1) name isActive y = Inr (dept_after (db_now w1) name isActive y)"
    using dept_update_spec_outcome [OF row] free [OF y] nm by auto
  then have "dept_update_abs (db_now w1) u name isActive v' (w_db w1) =
      (Inr (dept_after (db_now w1) name isActive y),
       (w_db w)\<lparr>t_departments := put_row d_ID (dept_after (db_now w1) name isActive y) (t_departments (w_db w))\<rparr>)"
    using fnd v' nm some by (auto simp: dept_update_abs_def w1)
  moreover have "distinct (map d_ID (t_departments (w_db w1)))" using db_ok_ids(1) [OF db] w1 by simp
  ultimately have "r = Inr (dept_after (db_now w1) name isActive y)"
    and "w_db w2 = (w_db w)\<lparr>t_departments := put_row d_ID (dept_after (db_now w1) name isActive y) (t_departments (w_db w))\<rparr>"
    using DepartmentRepository_Update_abs [OF _ tx1 some, of X u v'] second by auto
  moreover have "d_ID (dept_after (db_now w1) name isActive y) = u"
    "name \<noteq> None \<longrightarrow> d_Name (dept_after (db_now w1) name isActive y) = the name"
    "isActive \<noteq> None \<longrightarrow> d_IsActive (dept_after (db_now w1) name isActive y) = the isActive"
    using y dept_after_fields by auto
  moreover have "dept_after (db_now w1) name isActive y
      \<in> set (put_row d_ID (dept_after (db_now w1) name isActive y) (t_departments (w_db w)))"
    using y by (intro put_row_in) (auto simp: dept_after_fields)
  ultimately show ?thesis by simp
qed

theorem conflict_then_retry_succeeds_witness:
  "\<exists>w1 row. DepartmentRepository_Update ext_ref 9 (Some ''Tools'') None 5 custom_world = (Inl (version_conflict 1), w1)
     \<and> fst (DepartmentRepository_Update ext_ref 9 (Some ''Tools'') None 1 w1) = Inr row \<and> d_Name row = ''Tools''"
proof -
  have "dept_update_abs (db_now custom_world) 9 (Some ''Tools'') None 5 (w_db custom_world) =
      (Inl (version_conflict 1), w_db custom_world)"
    by (simp add: dept_update_abs_def has_nul_def custom_department_def)
  then obtain w1 where first: "DepartmentRepository_Update ext_ref 9 (Some ''Tools'') None 5 custom_world =
      (Inl (version_conflict 1), w1)"
    using DepartmentRepository_Update_abs [OF db_ok_ids(1) [OF custom_db_ok], of "Some ''Tools''" None ext_ref 9 5]
    by simp
  obtain r w2 where second: "DepartmentRepository_Update ext_ref 9 (Some ''Tools'') None 1 w1 = (r, w2)" by force
  show ?thesis
    using conflict_then_retry_succeeds [OF ext_ref_ok custom_db_ok _ _ _ first second] first second
    by (force simp: custom_department_def has_nul_def int64_ok_def)
qed

text \<open>
  C5. The same for plans: a patch made against an older version of a tier is refused with a newer one, if
  nothing disturbs its own transaction and the columns can hold its values.
\<close>

theorem stale_plan_write_refused:
  assumes X: "ext_ok X" and db: "db_ok (w_db w)" and scans: "plans_scan X (w_db w)"
    and run: "service_steps G X (pg_config X ttl d) w w'"
    and x: "x \<in> set (t_plans (w_db w))" and changed: "x \<notin> set (t_plans (w_db w'))"
    and tx: "next_tx w' = tx_ok" and bind: "plan_bind_error X (pr_code x) p = None"
    and some: "plan_fields X p \<noteq> []" and dec: "patch_decoded X p" and ver: "pp_RecordVersion p = pr_record_version x"
    and upd: "PlanRepository_Update X (pr_code x) (Some p) w' = (r, w'')"
  shows "\<exists>v. r = Inl (version_conflict v) \<and> pr_record_version x < v \<and> w_db w'' = w_db w'"
proof -
  note ev = service_steps_evolution [OF run X]
  obtain y where y: "y \<in> set (t_plans (w_db w'))" "plan_descends x y"
    using evolution_plan [OF ev db x] by blast
  have db': "db_ok (w_db w')" and scans': "plans_scan X (w_db w')"
    by (rule evolution_ok [OF ev db], rule evolution_scans [OF ev scans])
  have lt: "pr_record_version x < pr_record_version y" and u: "pr_code y = pr_code x"
    using y changed by (auto simp: plan_descends_def)
  have fnd: "find (\<lambda>r. pr_code r = pr_code x) (t_plans (w_db w')) = Some y"
    using find_key_Some [OF db_ok_ids(2) [OF db']] y u by simp
  have "plan_update_abs X (db_now w') (pr_code x) p (w_db w') = (Inl (version_conflict (pr_record_version y)), w_db w')"
    using fnd lt bind ver by (auto simp: plan_update_abs_def)
  then show ?thesis
    using PlanRepository_Update_abs [OF X tx some db_ok_ids(2) [OF db'] scans' dec, of "pr_code x"] upd lt
    by (auto split: if_splits)
qed

theorem stale_plan_write_refused_witness:
  "\<exists>w' v. t_plans (w_db w') = put_row pr_code (patched_row (db_now sample_world)) (t_plans (w_db sample_world))
     \<and> fst (PlanRepository_Update ext_ref ''starter'' (Some sample_patch) (w'\<lparr>w_tx := []\<rparr>)) = Inl (version_conflict v)"
proof -
  obtain w1 where s: "serve operator_gin ext_ref sample_config sample_plan_request sample_world =
       (json_response 200 (plan_response_json ext_ref (planToResponse (plan_of ext_ref (patched_row (db_now sample_world))))), w1)"
    and t: "t_plans (w_db w1) = put_row pr_code (patched_row (db_now sample_world)) (t_plans (w_db sample_world))"
    using plan_patch_served by blast
  let ?w' = "w1\<lparr>w_tx := []\<rparr>"
  have "service_step operator_gin ext_ref sample_config sample_world w1" by (rule service_step.request [OF s])
  moreover have "service_step operator_gin ext_ref sample_config w1 ?w'" by (rule service_step.environment) simp
  ultimately have run: "service_steps operator_gin ext_ref (pg_config ext_ref (seconds 60) sample_docs) sample_world ?w'"
    unfolding sample_config_def by (meson converse_rtranclp_into_rtranclp r_into_rtranclp)
  have code: "pr_code starter_row = ''starter''" and v: "pp_RecordVersion sample_patch = pr_record_version starter_row"
    by (simp_all add: starter_row_def seed_plan_def sample_patch_def)
  have gone: "starter_row \<notin> set (t_plans (w_db ?w'))"
    by (simp add: t put_row_def sample_departments seed_plans_def) (simp add: starter_row_def seed_plan_def patched_row_def)
  obtain r w'' where u: "PlanRepository_Update ext_ref (pr_code starter_row) (Some sample_patch) ?w' = (r, w'')" by force
  have "\<exists>v. r = Inl (version_conflict v) \<and> pr_record_version starter_row < v \<and> w_db w'' = w_db ?w'"
    by (rule stale_plan_write_refused [OF ext_ref_ok sample_db_ok sample_scans run starter_found(1) gone _ _ _ sample_decoded v u])
       (simp_all add: code sample_bound sample_fields)
  then show ?thesis using u t by (intro exI [of _ w1]) (auto simp: code)
qed

section \<open>Creation\<close>

lemma insert_row_checks:
  assumes "code \<noteq> ''''" and "name \<noteq> ''''"
  shows "failing_check dept_checks
     \<lparr>d_ID = u, d_Code = code, d_Name = name, d_IsSystem = sys, d_IsActive = True, d_RecordVersion = 1,
      d_CreatedAt = now, d_UpdatedAt = now\<rparr> = None"
  using assms by (simp add: failing_check_None dept_checks_def)

definition duplicate_code :: go_error where
  "duplicate_code = EDomain (WithDetails (NewError ErrConflict ''department code already exists'')
     [(''code'', AStr ''duplicate_code'')])"

text \<open>
  C14. What CAT-1 answers when nothing disturbs its transaction: for a code and a name that are not blank
  and have no NUL byte, and the fresh id uuid.New drew,
  either the code is taken and the answer is the conflict duplicate_code with the tables as they were,
  or the department is appended, active, at version 1 and with the creation time of the database.
\<close>

theorem department_create_outcome:
  assumes X: "ext_ok X" and tx: "next_tx w = tx_ok"
    and nm: "trim_space code \<noteq> ''''" "trim_space name \<noteq> ''''" "\<not> has_nul code" "\<not> has_nul name"
    and fresh: "x_uuid_new X (w_uuids w) \<notin> d_ID ` set (t_departments (w_db w))"
    and run: "DepartmentService_Create (pg_department_service X ttl) code name isSystem w = (r, w')"
  shows "if code \<in> d_Code ` set (t_departments (w_db w)) then r = Inl duplicate_code \<and> w_db w' = w_db w
     else \<exists>row. r = Inr row \<and> t_departments (w_db w') = t_departments (w_db w) @ [row]
       \<and> d_ID row = x_uuid_new X (w_uuids w) \<and> d_Code row = code \<and> d_Name row = name
       \<and> d_IsSystem row = isSystem \<and> d_IsActive row \<and> d_RecordVersion row = 1 \<and> d_CreatedAt row = db_now w"
proof -
  let ?u = "x_uuid_new X (w_uuids w)" and ?v = "w\<lparr>w_uuids := Suc (w_uuids w)\<rparr>"
  let ?d = "zero_department\<lparr>d_Code := code, d_Name := name, d_IsSystem := isSystem, d_IsActive := True\<rparr>"
  let ?row = "\<lparr>d_ID = ?u, d_Code = code, d_Name = name, d_IsSystem = isSystem, d_IsActive = True, d_RecordVersion = 1,
      d_CreatedAt = db_now w, d_UpdatedAt = db_now w\<rparr>"
  have ne: "code \<noteq> ''''" "name \<noteq> ''''" using nm(1,2) trim_space_nonempty by blast+
  have now: "db_now (pop_tx ?v) = db_now w" and tx': "next_tx ?v = tx_ok"
    using tx by (simp_all add: db_now_def next_tx_def)
  have bind: "bind_args X [TUuid, TText, TText, TBool, TBool]
      [ArgUuid ?u, ArgText code, ArgText name, ArgBool isSystem, ArgBool True] = None"
    using nm(3,4) by (simp add: bind_args_def has_nul_def)
  have ins: "DepartmentRepository_Insert X ?d w = withPool X (deptInsertFromTx X (?d\<lparr>d_ID := ?u\<rparr>)) ?v"
    by (simp add: DepartmentRepository_Insert_def zero_department_def)
  have sql: "sql_insert_department X (db_now w) ?u code name isSystem True (w_db w) =
      (if code \<in> d_Code ` set (t_departments (w_db w)) then (Inl (unique_error ''uq_departments_code''), w_db w)
       else (Inr (Some ?row), (w_db w)\<lparr>t_departments := t_departments (w_db w) @ [?row]\<rparr>))"
    unfolding sql_insert_department_def Let_def bind insert_row_checks [OF ne] using fresh by simp
  have rep: "\<exists>w1. DepartmentRepository_Insert X ?d w =
      (if code \<in> d_Code ` set (t_departments (w_db w)) then (Inl duplicate_code, w1) else (Inr ?row, w1))
      \<and> w_db w1 = (if code \<in> d_Code ` set (t_departments (w_db w)) then w_db w
                   else (w_db w)\<lparr>t_departments := t_departments (w_db w) @ [?row]\<rparr>)"
    unfolding ins withPool_no_fault [OF tx'] using X
    by (auto simp: deptInsertFromTx_def exec_def now sql scanDepartment_def unique_error_def pg_raise_def ext_okD
        duplicate_code_def split: prod.splits)
  then obtain w1 where w1: "DepartmentRepository_Insert X ?d w =
      (if code \<in> d_Code ` set (t_departments (w_db w)) then (Inl duplicate_code, w1) else (Inr ?row, w1))"
    "w_db w1 = (if code \<in> d_Code ` set (t_departments (w_db w)) then w_db w
                   else (w_db w)\<lparr>t_departments := t_departments (w_db w) @ [?row]\<rparr>)" by blast
  obtain rd w2 where del: "Cache_Delete [''cat:departments''] w1 = (rd, w2)" by force
  note db2 = db_unchanged_Cache(3) [OF del]
  show ?thesis using run nm(1,2) w1 db2 del
    by (auto simp: DepartmentService_Create_def DepartmentService_invalidateCache_def)
qed

theorem department_create_outcome_witness:
  "fst (DepartmentService_Create (pg_department_service ext_ref 0) ''LEGAL'' ''Law'' False sample_world) = Inl duplicate_code"
proof -
  obtain r w' where run: "DepartmentService_Create (pg_department_service ext_ref 0) ''LEGAL'' ''Law'' False sample_world = (r, w')"
    by force
  have "x_uuid_new ext_ref (w_uuids sample_world) = 1000" by (simp add: ext_ref_def sample_world_def)
  then have "x_uuid_new ext_ref (w_uuids sample_world) \<notin> d_ID ` set (t_departments (w_db sample_world))"
    by (simp add: sample_departments seed_departments_def seed_department_def sample_ids_def)
  from department_create_outcome [OF ext_ref_ok sample_tx(3) _ _ _ _ this run] show ?thesis
    by (simp add: run trim_space_def ascii_space_def space2_def space3_def has_nul_def sample_departments
        seed_departments_def seed_department_def)
qed

end
