(* ===== verification/Reference_Server.thy ===== *)
theory Reference_Server
  imports Simulation Cache_Properties Write_Properties
begin

text \<open>
  The refinement of the whole server. The reference server is the same handlers and services over an
  ideal store: no cache, no transactions, no SQL, every operation a function of the two tables. In calm
  surroundings the server main.go composes answers every sequence of requests as the reference server
  does and leaves the same tables.
\<close>

section \<open>The reference server\<close>

definition reference_insert :: "ext \<Rightarrow> department \<Rightarrow> world \<Rightarrow> department res \<times> world" where
  "reference_insert X d w =
     (let u = x_uuid_new X (w_uuids w);
          w1 = w\<lparr>w_uuids := Suc (w_uuids w)\<rparr>;
          row = d\<lparr>d_ID := u, d_RecordVersion := 1, d_CreatedAt := db_now w, d_UpdatedAt := db_now w\<rparr>
      in if has_nul (d_Code d) \<or> has_nul (d_Name d) then (Inl (EDriver nul_error), w1)
         else if u \<in> d_ID ` set (t_departments (w_db w)) \<or> d_Code d \<in> d_Code ` set (t_departments (w_db w))
         then (Inl duplicate_code, w1)
         else (Inr row, set_db ((w_db w)\<lparr>t_departments := t_departments (w_db w) @ [row]\<rparr>) w1))"

definition with_tables :: "(int \<Rightarrow> db \<Rightarrow> 'a res \<times> db) \<Rightarrow> ext \<Rightarrow> world \<Rightarrow> 'a res \<times> world" where
  "with_tables f X w =
     (case f (db_now w) (w_db w) of (r, db') \<Rightarrow> (map_sum (wrapConnErr X) (\<lambda>a. a) r, set_db db' w))"

definition reference_departments :: "ext \<Rightarrow> world department_repository" where
  "reference_departments X =
     \<lparr>repo_List = (\<lambda>b w. (Inr (sql_select_departments X b (w_db w)), w)),
      repo_FindByID = (\<lambda>u w. (case find (\<lambda>r. d_ID r = u) (t_departments (w_db w)) of
                                None \<Rightarrow> Inl dept_not_found | Some d \<Rightarrow> Inr d, w)),
      repo_Insert = reference_insert X,
      repo_Update = (\<lambda>u name isActive v.
        with_tables (\<lambda>now. dept_update_abs now u name isActive v) X)\<rparr>"

definition reference_plans :: "ext \<Rightarrow> world plan_repository" where
  "reference_plans X =
     \<lparr>prepo_List = (\<lambda>w. (Inr (map (plan_of X) (sql_select_plans (w_db w))), w)),
      prepo_FindByCode = (\<lambda>code w. (case find (\<lambda>r. pr_code r = code) (t_plans (w_db w)) of
                                      None \<Rightarrow> Inl plan_not_found | Some r \<Rightarrow> Inr (plan_of X r), w)),
      prepo_Update = (\<lambda>code p. with_tables (\<lambda>now. plan_update_abs X now code (the p)) X)\<rparr>"

definition reference_config :: "ext \<Rightarrow> docs_config \<Rightarrow> router_config" where
  "reference_config X d =
     \<lparr>rt_Docs = d, rt_Departments = NewDepartmentService (reference_departments X) None,
      rt_Plans = NewPlanService (reference_plans X) None, rt_Cache = valkey_port\<rparr>"

lemma reference_config_simps [simp]:
  "rt_Departments (reference_config X d) = NewDepartmentService (reference_departments X) None"
  "rt_Plans (reference_config X d) = NewPlanService (reference_plans X) None"
  "rt_Cache (reference_config X d) = valkey_port" "rt_Docs (reference_config X d) = d"
  by (simp_all add: reference_config_def)

lemma reference_service_simps [simp]:
  "ds_repo (NewDepartmentService rd cd) = rd" "ds_cache (NewDepartmentService rd cd) = cd"
  "ps_repo (NewPlanService rp cp) = rp" "ps_cache (NewPlanService rp cp) = cp"
  by (simp_all add: NewDepartmentService_def NewPlanService_def)

lemma reference_repository_simps [simp]:
  "repo_List (reference_departments X) b w = (Inr (sql_select_departments X b (w_db w)), w)"
  "repo_FindByID (reference_departments X) u w =
     (case find (\<lambda>r. d_ID r = u) (t_departments (w_db w)) of None \<Rightarrow> Inl dept_not_found | Some d \<Rightarrow> Inr d, w)"
  "repo_Insert (reference_departments X) = reference_insert X"
  "repo_Update (reference_departments X) u name isActive v =
     with_tables (\<lambda>now. dept_update_abs now u name isActive v) X"
  "prepo_List (reference_plans X) w = (Inr (map (plan_of X) (sql_select_plans (w_db w))), w)"
  "prepo_FindByCode (reference_plans X) code w =
     (case find (\<lambda>r. pr_code r = code) (t_plans (w_db w)) of None \<Rightarrow> Inl plan_not_found | Some r \<Rightarrow> Inr (plan_of X r), w)"
  "prepo_Update (reference_plans X) code (Some p) = with_tables (\<lambda>now. plan_update_abs X now code p) X"
  by (simp_all add: reference_departments_def reference_plans_def)

section \<open>Mirrored states\<close>

text \<open>
  Calm surroundings: no transaction and no cache call fails. The mirrored state has the same tables,
  clock and supply of ids; its keyspace, counters and log are its own.
\<close>

definition same_tables :: "world \<Rightarrow> world \<Rightarrow> bool" where
  "same_tables w v \<longleftrightarrow> db_side w = (w_db v, [], w_now v, w_uuids v) \<and> w_cache v = []"

definition mirrors :: "ext \<Rightarrow> world \<Rightarrow> world \<Rightarrow> bool" where
  "mirrors X w v \<longleftrightarrow> coherent_state X w \<and> same_tables w v"

lemma same_tablesD:
  "same_tables w v \<Longrightarrow> w_db v = w_db w \<and> w_now v = w_now w \<and> w_uuids v = w_uuids w \<and> w_tx w = [] \<and> w_cache v = []"
  by (simp add: same_tables_def db_side_def)

lemma same_tables_db_side: "same_tables w v \<Longrightarrow> db_side w' = db_side w \<Longrightarrow> same_tables w' v"
  by (simp add: same_tables_def)

lemma mirrorsD:
  assumes "mirrors X w v"
  shows "coherent_state X w" and "same_tables w v" and "w_db v = w_db w" and "db_now v = db_now w" and "next_tx w = tx_ok"
    and "ext_ok X" and "db_ok (w_db w)" and "plans_scan X (w_db w)"
  using assms same_tablesD [of w v] by (simp_all add: mirrors_def db_now_def coherent_state_def catalogs_ok_def)

lemma mirrors_later: "mirrors X w v \<Longrightarrow> 0 \<le> dt \<Longrightarrow>
     mirrors X (w\<lparr>w_now := w_now w + dt\<rparr>) (v\<lparr>w_now := w_now v + dt\<rparr>)"
  by (auto simp: mirrors_def same_tables_def db_side_def intro: coherent_state_later)

lemma db_side_simps [simp]:
  "db_side (inc_metric m w) = db_side w" "db_side (add_log l w) = db_side w"
  "db_side (count_request rt st ns w) = db_side w" "w_tx w = [] \<Longrightarrow> db_side (pop_tx w) = db_side w"
  "w_tx w = [] \<Longrightarrow> db_side (set_db db (pop_tx w)) = (db, [], w_now w, w_uuids w)"
  by (simp_all add: db_side_def)

section \<open>Reads\<close>

lemma quiet_read_through:
  assumes "\<And>w1. db_side w1 = db_side w \<Longrightarrow> \<exists>a. fetch w1 = (Inr a, pop_tx w1)" and tx: "w_tx w = []"
    and rt: "read_through (Some valkey_port) key dec enc ttl fetch w = (r, w')"
  shows "\<exists>a. r = Inr a \<and> db_side w' = db_side w"
proof -
  obtain rg w1 where get: "Cache_Get key w = (rg, w1)" by force
  note d1 = Cache_db_side(1) [OF get]
  with assms(1) obtain a where f: "fetch w1 = (Inr a, pop_tx w1)" by blast
  obtain rs w3 where s: "Cache_Set key (enc a) ttl (pop_tx w1) = (rs, w3)" by force
  have "w_tx w1 = []" using d1 tx by (simp add: db_side_def)
  then have "db_side w3 = db_side w" using Cache_db_side(2) [OF s] d1 by simp
  with rt get f s d1 show ?thesis by (auto simp: read_through_def split: option.splits)
qed

lemma quiet_department_list: "w_tx w = [] \<Longrightarrow>
    DepartmentRepository_List X b w = (Inr (sql_select_departments X b (w_db w)), pop_tx w)"
  unfolding DepartmentRepository_List_def
  by (subst withPool_no_fault) (simp_all add: deptListFromTx_def query_def)

lemma quiet_plan_list: "w_tx w = [] \<Longrightarrow> plans_scan X (w_db w) \<Longrightarrow>
    PlanRepository_List X w = (Inr (map (plan_of X) (sql_select_plans (w_db w))), pop_tx w)"
  unfolding PlanRepository_List_def
  by (subst withPool_no_fault)
    (simp_all add: planListFromTx_def query_def scan_rows_ok plans_scan_def list_all_iff set_sql_select_plans)

lemma mirror_DeptList:
  "agrees (mirrors X) (DepartmentService_List X (pg_department_service X ttl) b)
     (DepartmentService_List X (NewDepartmentService (reference_departments X) None) b)"
proof (rule agreesI)
  fix w v assume m: "mirrors X w v"
  note mD = mirrorsD [OF m]
  obtain r w' where l: "DepartmentService_List X (pg_department_service X ttl) b w = (r, w')" by force
  from DepartmentService_List_pg [OF l] obtain q where
    q: "DepartmentService_listAllCached X (pg_department_service X ttl) w = (q, w')"
    and r: "r = (case q of Inl e \<Rightarrow> Inl e | Inr all \<Rightarrow> Inr (if b then filter d_IsActive all else all))" by blast
  have "\<exists>all. q = Inr all \<and> db_side w' = db_side w"
    by (rule quiet_read_through [OF _ _ q [unfolded listAllCached_read_through pg_department_service_simps
          NewDepartmentRepository_simps]])
      (use same_tablesD [OF mD(2)] quiet_department_list in \<open>auto simp: db_side_def\<close>)
  with r obtain ds where ds: "r = Inr ds" and side: "db_side w' = db_side w" by auto
  from coherent_List [OF mD(1) l [unfolded ds]] have "ds = sql_select_departments X b (w_db w)" .
  moreover have "DepartmentService_List X (NewDepartmentService (reference_departments X) None) b v =
      (Inr (sql_select_departments X b (w_db v)), v)"
    by (cases b) (simp_all add: DepartmentService_List_def DepartmentService_listAllCached_def departments_hit_def
        active_departments_filter sql_select_departments_filter)
  moreover have "mirrors X w' v"
    using List_coherent [OF mD(1) q] same_tables_db_side [OF mD(2) side] by (simp add: mirrors_def)
  ultimately show "\<exists>r w' v'. DepartmentService_List X (pg_department_service X ttl) b w = (r, w')
      \<and> DepartmentService_List X (NewDepartmentService (reference_departments X) None) b v = (r, v') \<and> mirrors X w' v'"
    using l ds mD(3) by simp
qed

lemma mirror_PlanList:
  "agrees (mirrors X) (PlanService_List X (pg_plan_service X ttl))
     (PlanService_List X (NewPlanService (reference_plans X) None))"
proof (rule agreesI)
  fix w v assume m: "mirrors X w v"
  note mD = mirrorsD [OF m]
  obtain r w' where l: "PlanService_List X (pg_plan_service X ttl) w = (r, w')" by force
  have "\<exists>ps. r = Inr ps \<and> db_side w' = db_side w"
    by (rule quiet_read_through [OF _ _ l [unfolded PlanService_List_read_through pg_plan_service_simps
          NewPlanRepository_simps]])
      (use same_tablesD [OF mD(2)] mD(8) quiet_plan_list in \<open>auto simp: db_side_def\<close>)
  then obtain ps where ps: "r = Inr ps" and side: "db_side w' = db_side w" by auto
  from coherent_PlanList [OF mD(1) l [unfolded ps]] have "ps = plans_truth X w" .
  moreover have "PlanService_List X (NewPlanService (reference_plans X) None) v = (Inr (plans_truth X v), v)"
    by (simp add: PlanService_List_def plans_hit_def plans_truth_def)
  moreover have "mirrors X w' v"
    using PlanList_coherent [OF mD(1) l] same_tables_db_side [OF mD(2) side] by (simp add: mirrors_def)
  ultimately show "\<exists>r w' v'. PlanService_List X (pg_plan_service X ttl) w = (r, w')
      \<and> PlanService_List X (NewPlanService (reference_plans X) None) v = (r, v') \<and> mirrors X w' v'"
    using l ps mD(3) by (simp add: plans_truth_cong [of v w])
qed

lemma quiet_department: "w_tx w = [] \<Longrightarrow> DepartmentRepository_FindByID X u w =
    (case find (\<lambda>r. d_ID r = u) (t_departments (w_db w)) of None \<Rightarrow> Inl dept_not_found | Some d \<Rightarrow> Inr d, pop_tx w)"
  unfolding DepartmentRepository_FindByID_def
  by (subst withPool_no_fault)
    (auto simp: deptFindByIDFromTx_def query_def sql_select_department_def scanDepartment_def dept_not_found_def
      set_db_def pop_tx_def split: option.split)

lemma quiet_plan:
  assumes "w_tx w = []" and "plans_scan X (w_db w)" and "known_tier code"
  shows "PlanRepository_FindByCode X code w =
    (case find (\<lambda>r. pr_code r = code) (t_plans (w_db w)) of None \<Rightarrow> Inl plan_not_found | Some r \<Rightarrow> Inr (plan_of X r), pop_tx w)"
proof -
  have "row_scans X r" if "find (\<lambda>r. pr_code r = code) (t_plans (w_db w)) = Some r" for r
    using assms(2) that by (auto simp: plans_scan_def list_all_iff find_Some_iff)
  moreover have "bind_args X [TTenantPlan] [ArgText code] = None"
    using assms(3) by (simp add: known_tier_enum probe_bind)
  ultimately show ?thesis
    unfolding PlanRepository_FindByCode_def using assms(1)
    by (subst withPool_no_fault)
      (auto simp: planFindFromTx_def query_def sql_select_plan_def scanPlan_row plan_not_found_def
        set_db_def pop_tx_def split: option.split, auto simp: scanPlan_def)
qed

lemma mirrors_pop: "mirrors X w v \<Longrightarrow> mirrors X (pop_tx w) v"
  unfolding mirrors_def
  using leaves_coherent_state [of X w "pop_tx w"] same_tables_db_side [of w v "pop_tx w"] same_tablesD [of w v]
  by (auto simp: leaves_def steady_pop)

lemma mirror_DeptGet:
  "agrees (mirrors X) (DepartmentService_Get (pg_department_service X ttl) u)
     (DepartmentService_Get (NewDepartmentService (reference_departments X) None) u)"
proof (rule agreesI)
  fix w v assume m: "mirrors X w v"
  note mD = mirrorsD [OF m]
  have "w_tx w = []" using same_tablesD [OF mD(2)] by simp
  with mirrors_pop [OF m] show "\<exists>r w' v'. DepartmentService_Get (pg_department_service X ttl) u w = (r, w')
      \<and> DepartmentService_Get (NewDepartmentService (reference_departments X) None) u v = (r, v') \<and> mirrors X w' v'"
    by (simp add: DepartmentService_Get_def quiet_department mD(3))
qed

lemma mirror_PlanGet:
  "agrees (mirrors X) (PlanService_GetByCode (pg_plan_service X ttl) code)
     (PlanService_GetByCode (NewPlanService (reference_plans X) None) code)"
proof (rule agreesI)
  fix w v assume m: "mirrors X w v"
  note mD = mirrorsD [OF m]
  have "w_tx w = []" using same_tablesD [OF mD(2)] by simp
  with mirrors_pop [OF m] m show "\<exists>r w' v'. PlanService_GetByCode (pg_plan_service X ttl) code w = (r, w')
      \<and> PlanService_GetByCode (NewPlanService (reference_plans X) None) code v = (r, v') \<and> mirrors X w' v'"
    by (simp add: PlanService_GetByCode_def quiet_plan mD(3,8))
qed

section \<open>Writes\<close>

text \<open>A repository write that agrees with its reference, behind the invalidation the reference does not need.\<close>

lemma mirror_write:
  assumes f: "f w = (q, w1)" and g: "g v = (q, v1)" and s: "same_tables w1 v1"
  obtains w' where "write_then_invalidate (Some valkey_port) key f w = (q, w')" and "same_tables w' v1"
    and "write_then_invalidate None key g v = (q, v1)"
proof -
  obtain rd w2 where del: "Cache_Delete [key] w1 = (rd, w2)" by force
  have "same_tables w2 v1" using s Cache_db_side(3) [OF del] by (rule same_tables_db_side)
  then show ?thesis using f g s del that
    by (cases q) (simp_all add: write_then_invalidate_def)
qed

lemma mirror_tables:
  assumes s: "same_tables w v" and db: "db_side w1 = (db', [], w_now w, w_uuids w)"
  shows "same_tables w1 (set_db db' v)"
  using s db by (simp add: same_tables_def db_side_def)

lemma mirror_department_update:
  assumes m: "mirrors X w v" and some: "name \<noteq> None \<or> isActive \<noteq> None"
  shows "\<exists>q w1 v1. DepartmentRepository_Update X u name isActive ver w = (q, w1)
     \<and> repo_Update (reference_departments X) u name isActive ver v = (q, v1) \<and> same_tables w1 v1"
proof -
  note mD = mirrorsD [OF m]
  have tx: "w_tx w = []" using same_tablesD [OF mD(2)] by simp
  obtain r db' where abs: "dept_update_abs (db_now w) u name isActive ver (w_db w) = (r, db')" by force
  have "db' = w_db w" if "r = Inl e" for e using abs that dept_update_abs_Inl by blast
  then show ?thesis
    using DepartmentRepository_Update_abs [OF db_ok_ids(1) [OF mD(7)] mD(5) some, of X u ver] abs tx
    by (cases r) (auto simp: with_tables_def mD(3,4) intro!: mirror_tables [OF mD(2)], auto simp: db_side_def)
qed

lemma mirror_plan_update:
  assumes m: "mirrors X w v" and some: "plan_fields X p \<noteq> []" and dec: "patch_decoded X p"
  shows "\<exists>q w1 v1. PlanRepository_Update X code (Some p) w = (q, w1)
     \<and> prepo_Update (reference_plans X) code (Some p) v = (q, v1) \<and> same_tables w1 v1"
proof -
  note mD = mirrorsD [OF m]
  have tx: "w_tx w = []" using same_tablesD [OF mD(2)] by simp
  obtain r db' where abs: "plan_update_abs X (db_now w) code p (w_db w) = (r, db')" by force
  have "db' = w_db w" if "r = Inl e" for e using abs that plan_update_abs_Inl by blast
  then show ?thesis
    using PlanRepository_Update_abs [OF mD(6,5) some db_ok_ids(2) [OF mD(7)] mD(8) dec, of code] abs tx
    by (cases r) (auto simp: with_tables_def mD(3,4) intro!: mirror_tables [OF mD(2)], auto simp: db_side_def)
qed

lemma unique_violation_errors:
  "ext_ok X \<Longrightarrow> x_IsUniqueViolation X (EDriver (unique_error c))" "ext_ok X \<Longrightarrow> \<not> x_IsUniqueViolation X (EDriver nul_error)"
  by (simp_all add: unique_error_def nul_error_def pg_raise_def ext_okD)

lemma mirror_insert:
  assumes m: "mirrors X w v" and ne: "code \<noteq> ''''" "name \<noteq> ''''"
    and d: "d = zero_department\<lparr>d_Code := code, d_Name := name, d_IsSystem := isSystem, d_IsActive := True\<rparr>"
  shows "\<exists>q w1 v1. DepartmentRepository_Insert X d w = (q, w1) \<and> reference_insert X d v = (q, v1) \<and> same_tables w1 v1"
proof -
  note mD = mirrorsD [OF m]
  have tx: "w_tx w = []" and same: "w_uuids v = w_uuids w" "w_now v = w_now w" "w_cache v = []"
    using same_tablesD [OF mD(2)] by simp_all
  let ?u = "x_uuid_new X (w_uuids w)" and ?v = "w\<lparr>w_uuids := Suc (w_uuids w)\<rparr>"
  let ?row = "\<lparr>d_ID = ?u, d_Code = code, d_Name = name, d_IsSystem = isSystem, d_IsActive = True, d_RecordVersion = 1,
      d_CreatedAt = db_now w, d_UpdatedAt = db_now w\<rparr>"
  have now: "db_now (pop_tx ?v) = db_now w" and tx': "next_tx ?v = tx_ok"
    using tx by (simp_all add: db_now_def next_tx_def)
  have bind: "bind_args X [TUuid, TText, TText, TBool, TBool]
      [ArgUuid ?u, ArgText code, ArgText name, ArgBool isSystem, ArgBool True] =
      (if has_nul code \<or> has_nul name then Some nul_error else None)"
    by (auto simp: bind_args_def has_nul_def nul_error_def)
  have ins: "DepartmentRepository_Insert X d w = withPool X (deptInsertFromTx X (d\<lparr>d_ID := ?u\<rparr>)) ?v"
    by (simp add: DepartmentRepository_Insert_def d zero_department_def)
  have row: "d\<lparr>d_ID := ?u, d_RecordVersion := 1, d_CreatedAt := db_now w, d_UpdatedAt := db_now w\<rparr> = ?row"
    by (simp add: d zero_department_def)
  have sql: "sql_insert_department X (db_now w) ?u code name isSystem True (w_db w) =
      (if has_nul code \<or> has_nul name then (Inl nul_error, w_db w)
       else if ?u \<in> d_ID ` set (t_departments (w_db w)) then (Inl (unique_error ''departments_pkey''), w_db w)
       else if code \<in> d_Code ` set (t_departments (w_db w)) then (Inl (unique_error ''uq_departments_code''), w_db w)
       else (Inr (Some ?row), (w_db w)\<lparr>t_departments := t_departments (w_db w) @ [?row]\<rparr>))"
    unfolding sql_insert_department_def Let_def bind insert_row_checks [OF ne] by simp
  have fields: "d_Code d = code" "d_Name d = name" "d_IsSystem d = isSystem" "d_IsActive d" by (simp_all add: d)
  show ?thesis
    unfolding ins withPool_no_fault [OF tx'] reference_insert_def Let_def mD(3,4) same row
    using mD(6) same tx unique_violation_errors [OF mD(6)] wrap_nul [OF mD(6)]
    by (auto simp: deptInsertFromTx_def exec_def now sql fields scanDepartment_def duplicate_code_def same_tables_def db_side_def
        mD(3) split: prod.splits)
qed

lemma mirror_DeptCreate:
  "agrees (mirrors X) (DepartmentService_Create (pg_department_service X ttl) code name sys)
     (DepartmentService_Create (NewDepartmentService (reference_departments X) None) code name sys)"
proof (rule agreesI)
  fix w v assume m: "mirrors X w v"
  let ?real = "DepartmentService_Create (pg_department_service X ttl) code name sys w"
  let ?ref = "DepartmentService_Create (NewDepartmentService (reference_departments X) None) code name sys v"
  show "\<exists>r w' v'. ?real = (r, w') \<and> ?ref = (r, v') \<and> mirrors X w' v'"
  proof (cases "trim_space code = '''' \<or> trim_space name = ''''")
    case True
    with m show ?thesis by (auto simp: DepartmentService_Create_def)
  next
    case False
    then have nm: "trim_space code \<noteq> ''''" "trim_space name \<noteq> ''''" and ne: "code \<noteq> ''''" "name \<noteq> ''''"
      using trim_space_nonempty by auto
    from mirror_insert [OF m ne refl, of sys] obtain q w1 v1 where
      "DepartmentRepository_Insert X (zero_department\<lparr>d_Code := code, d_Name := name, d_IsSystem := sys, d_IsActive := True\<rparr>) w = (q, w1)"
      "reference_insert X (zero_department\<lparr>d_Code := code, d_Name := name, d_IsSystem := sys, d_IsActive := True\<rparr>) v = (q, v1)"
      "same_tables w1 v1" by blast
    then obtain w' where real: "?real = (q, w')" and same: "same_tables w' v1" and ref: "?ref = (q, v1)"
      by (rule mirror_write [where key = "''cat:departments''"]) (simp add: Create_write_then_invalidate [OF nm])
    from Create_coherent [OF mirrorsD(1) [OF m] real] have "mirrors X w' v1" using same by (simp add: mirrors_def)
    with real ref show ?thesis by blast
  qed
qed

lemma mirror_DeptPatch:
  "agrees (mirrors X) (DepartmentService_Patch X (pg_department_service X ttl) u name isActive ver)
     (DepartmentService_Patch X (NewDepartmentService (reference_departments X) None) u name isActive ver)"
proof (rule agreesI)
  fix w v assume m: "mirrors X w v"
  let ?real = "DepartmentService_Patch X (pg_department_service X ttl) u name isActive ver w"
  let ?ref = "DepartmentService_Patch X (NewDepartmentService (reference_departments X) None) u name isActive ver v"
  show "\<exists>r w' v'. ?real = (r, w') \<and> ?ref = (r, v') \<and> mirrors X w' v'"
  proof (cases "(name \<noteq> None \<or> isActive \<noteq> None) \<and> (name = None \<or> trim_space (the name) \<noteq> '''')")
    case False
    with m show ?thesis by (auto simp: DepartmentService_Patch_def)
  next
    case True
    then have 1: "name \<noteq> None \<or> isActive \<noteq> None" and 2: "name = None \<or> trim_space (the name) \<noteq> ''''" by auto
    from mirror_department_update [OF m 1, of u ver] obtain q w1 v1 where
      "DepartmentRepository_Update X u name isActive ver w = (q, w1)"
      "repo_Update (reference_departments X) u name isActive ver v = (q, v1)" "same_tables w1 v1" by blast
    then obtain w' where "write_then_invalidate (Some valkey_port) ''cat:departments''
          (DepartmentRepository_Update X u name isActive ver) w = (q, w')"
      and same: "same_tables w' v1"
      and "write_then_invalidate None ''cat:departments''
          (repo_Update (reference_departments X) u name isActive ver) v = (q, v1)"
      by (rule mirror_write)
    then have both: "\<exists>r. ?real = (r, w') \<and> ?ref = (r, v1)"
      by (cases q) (simp_all add: Patch_write_then_invalidate [OF 1 2] del: reference_repository_simps)
    then have "coherent_state X w'" using Patch_coherent [OF mirrorsD(1) [OF m]] by blast
    with both same show ?thesis unfolding mirrors_def by blast
  qed
qed

lemma mirror_PlanPatch:
  assumes "ext_ok X \<Longrightarrow> patch_decoded X p"
  shows "agrees (mirrors X) (PlanService_Patch (pg_plan_service X ttl) code p)
     (PlanService_Patch (NewPlanService (reference_plans X) None) code p)"
proof (rule agreesI)
  fix w v assume m: "mirrors X w v"
  let ?real = "PlanService_Patch (pg_plan_service X ttl) code p w"
  let ?ref = "PlanService_Patch (NewPlanService (reference_plans X) None) code p v"
  have dec: "patch_decoded X p" using assms mirrorsD(6) [OF m] by simp
  show "\<exists>r w' v'. ?real = (r, w') \<and> ?ref = (r, v') \<and> mirrors X w' v'"
  proof (cases "check_patch code p")
    case (Some de)
    with m show ?thesis by (auto simp: PlanService_Patch_def)
  next
    case None
    then have "plan_fields X p \<noteq> []" by (simp add: check_patch_None empty_patch_fields [of p X])
    from mirror_plan_update [OF m this dec, of code] obtain q w1 v1 where
      "PlanRepository_Update X code (Some p) w = (q, w1)"
      "prepo_Update (reference_plans X) code (Some p) v = (q, v1)" "same_tables w1 v1" by blast
    then obtain w' where "write_then_invalidate (Some valkey_port) ''cat:plans'' (PlanRepository_Update X code (Some p)) w = (q, w')"
      and same: "same_tables w' v1"
      and "write_then_invalidate None ''cat:plans'' (prepo_Update (reference_plans X) code (Some p)) v = (q, v1)"
      by (rule mirror_write)
    then have both: "?real = (q, w')" "?ref = (q, v1)"
      by (simp_all add: PlanService_Patch_write_then_invalidate [OF None] del: reference_repository_simps)
    then have "coherent_state X w'" using PlanPatch_coherent [OF mirrorsD(1) [OF m] dec] by blast
    with both same show ?thesis unfolding mirrors_def by blast
  qed
qed

lemma mirror_Health: "agrees (mirrors X) Cache_Health Cache_Health"
proof (rule agreesI)
  fix w v assume m: "mirrors X w v"
  have c: "w_cache w = []" "w_cache v = []"
    using mirrorsD(1,2) [OF m] same_tablesD [of w v] by (simp_all add: coherent_state_def steady_def)
  obtain r w' where h: "Cache_Health w = (r, w')" by force
  have "coherent_state X w'"
    using leaves_coherent_state [OF mirrorsD(1) [OF m] leaves_Cache(4) [OF h] db_unchanged_Cache(4) [OF h]] .
  moreover have "same_tables w' (pop_cache v)"
    using same_tables_db_side [OF mirrorsD(2) [OF m] Cache_db_side(4) [OF h]] c by (simp add: same_tables_def)
  ultimately show "\<exists>r w' v'. Cache_Health w = (r, w') \<and> Cache_Health v = (r, v') \<and> mirrors X w' v'"
    using h c by (simp add: Cache_Health_def mirrors_def)
qed

section \<open>The server\<close>

interpretation reference: service_simulation "mirrors X" X "pg_config X ttl d" "reference_config X d" for X ttl d
  by unfold_locales
    (simp_all add: mirror_DeptList mirror_DeptGet mirror_DeptCreate mirror_DeptPatch mirror_PlanList mirror_PlanGet
      mirror_PlanPatch mirror_Health, auto simp: mirrors_def same_tables_def db_side_def)

text \<open>Requests one after the other, each after a wait in nanoseconds: the answers and the last state.\<close>

fun serve_all :: "gin_env \<Rightarrow> ext \<Rightarrow> router_config \<Rightarrow> (int \<times> request) list \<Rightarrow> world \<Rightarrow> response list \<times> world" where
  "serve_all G X cfg [] w = ([], w)"
| "serve_all G X cfg ((wait, c) # cs) w =
     (case serve G X cfg c (w\<lparr>w_now := w_now w + wait\<rparr>) of
        (r, w1) \<Rightarrow> (case serve_all G X cfg cs w1 of (rs, w2) \<Rightarrow> (r # rs, w2)))"

lemma serve_all_mirrors:
  assumes "\<And>u v. mirrors X u v \<Longrightarrow> g_pool_healthy G u = g_pool_healthy G v"
    and "list_all (\<lambda>(wait, c). 0 \<le> wait) reqs" and "mirrors X w v"
  shows "\<exists>rs w' v'. serve_all G X (pg_config X ttl d) reqs w = (rs, w')
     \<and> serve_all G X (reference_config X d) reqs v = (rs, v') \<and> mirrors X w' v'"
  using assms(2,3)
proof (induction reqs arbitrary: w v)
  case Nil
  then show ?case by simp
next
  case (Cons a reqs)
  obtain wait c where a: "a = (wait, c)" by force
  with Cons.prems have "mirrors X (w\<lparr>w_now := w_now w + wait\<rparr>) (v\<lparr>w_now := w_now v + wait\<rparr>)"
    by (intro mirrors_later) simp_all
  moreover have "agrees (mirrors X) (serve G X (pg_config X ttl d) c) (serve G X (reference_config X d) c)"
    by (rule handlers_agreeD, rule reference.serve_agree [OF assms(1)]) simp_all
  ultimately obtain r w1 v1 where "serve G X (pg_config X ttl d) c (w\<lparr>w_now := w_now w + wait\<rparr>) = (r, w1)"
    "serve G X (reference_config X d) c (v\<lparr>w_now := w_now v + wait\<rparr>) = (r, v1)" and m: "mirrors X w1 v1"
    by (auto elim: agreesE)
  moreover from Cons.prems(1) a have "list_all (\<lambda>(wait, c). 0 \<le> wait) reqs" by simp
  from Cons.IH [OF this m] obtain rs w2 v2 where "serve_all G X (pg_config X ttl d) reqs w1 = (rs, w2)"
    "serve_all G X (reference_config X d) reqs v1 = (rs, v2)" "mirrors X w2 v2" by blast
  ultimately show ?case by (simp add: a)
qed

text \<open>
  C6. The server refines the reference server. It starts with well-formed tables and a cache in which
  an entry that is live and can be decoded agrees with the tables (an empty cache, for one; the race of
  Served_Runs leaves a cache that does not), and nothing fails: no transaction, no cache call, and the
  health of the pool is constant. Then the server main.go composes answers every sequence of requests,
  served one after the other with any waits between them, exactly as the same handlers and services
  over an ideal store do, and leaves the same tables: neither the cache nor the expiry of its entries,
  nor the generated SQL with its probing reads, constraints and error translation can be told from
  outside.
\<close>

theorem server_refines_reference:
  assumes "coherent_state X w" and "w_tx w = []"
    and "\<And>u v. g_pool_healthy G u = g_pool_healthy G v"
    and "list_all (\<lambda>(wait, c). 0 \<le> wait) reqs"
    and "serve_all G X (pg_config X ttl d) reqs w = (rs, w')"
    and "serve_all G X (reference_config X d) reqs (w\<lparr>w_store := Map.empty\<rparr>) = (rs', v')"
  shows "rs' = rs \<and> w_db v' = w_db w'"
proof -
  have "mirrors X w (w\<lparr>w_store := Map.empty\<rparr>)"
    using assms(1,2) by (simp add: mirrors_def same_tables_def db_side_def coherent_state_def steady_def)
  from serve_all_mirrors [OF assms(3,4) this, of ttl d] assms(5,6) show ?thesis
    by (auto dest: mirrorsD)
qed

text \<open>A creation, a listing a minute later and the same creation again, on the migrated database.\<close>

definition sample_session :: "(int \<times> request) list" where
  "sample_session =
     [(0, sample_request ''POST'' ''/api/v1/operator/departments'' create_body),
      (60000000000, sample_request ''GET'' ''/api/v1/departments'' EmptyBody),
      (0, sample_request ''POST'' ''/api/v1/operator/departments'' create_body)]"

theorem server_refines_reference_witness:
  "fst (serve_all operator_gin ext_ref sample_config sample_session sample_world)
     = fst (serve_all operator_gin ext_ref (reference_config ext_ref sample_docs) sample_session
              (sample_world\<lparr>w_store := Map.empty\<rparr>))"
proof -
  obtain rs w' where real: "serve_all operator_gin ext_ref (pg_config ext_ref (seconds 60) sample_docs)
      sample_session sample_world = (rs, w')" by force
  obtain rs' v' where ref: "serve_all operator_gin ext_ref (reference_config ext_ref sample_docs)
      sample_session (sample_world\<lparr>w_store := Map.empty\<rparr>) = (rs', v')" by force
  have "rs' = rs \<and> w_db v' = w_db w'"
    by (rule server_refines_reference [OF sample_coherent _ _ _ real ref])
      (simp_all add: operator_gin_def sample_gin_def sample_session_def)
  then show ?thesis using real ref by (simp add: sample_config_def)
qed

end
