(* ===== verification/Shared_Catalog.thy ===== *)
theory Shared_Catalog
  imports Running_Coherence "HOL-Library.Multiset"
begin

text \<open>
  A catalog that many requests use at once: a cached listing of rows in front of a repository. A
  request is a few calls to its ports, and the calls of different requests interleave: a listing reads
  the cache, and on a miss reads the table and then stores what it read; a write commits and then
  deletes the cached entry; an UPDATE that finds no row to change leaves its transaction open and reads
  the row again, and other transactions can commit in between. What is in flight is what a request
  still has to do. The departments and the plans are the two instances.
\<close>

section \<open>Catalogs and steps\<close>

text \<open>
  The repository of a catalog as its requests use it, and the encoding of the cached entry. An update
  is refused when its transaction has begun and its UPDATE has matched no row; what is left is the fate
  of the transaction and the read that follows. The commands that are admitted are the ones the service
  can build from a request.
\<close>

record ('r, 'a) catalog =
  ca_key :: string
  ca_encode :: "'r list \<Rightarrow> body_bytes"
  ca_decode :: "body_bytes \<Rightarrow> 'r list option"
  ca_list :: "world \<Rightarrow> 'r list res \<times> world"
  ca_admits :: "'a \<Rightarrow> bool"
  ca_write :: "'a \<Rightarrow> world \<Rightarrow> 'r res \<times> world"
  ca_refused :: "'a \<Rightarrow> world \<Rightarrow> (tx_fate \<times> world) option"
  ca_probe :: "'a \<Rightarrow> tx_fate \<Rightarrow> world \<Rightarrow> 'r res \<times> world"

datatype ('r, 'a) flight = Missed | Fetched "'r list" | Written | Refused 'a tx_fate

text \<open>A new request makes its first call.\<close>

inductive arrives ::
  "('r, 'a) catalog \<Rightarrow> world \<times> ('r, 'a) flight multiset \<Rightarrow> world \<times> ('r, 'a) flight multiset \<Rightarrow> bool"
  for C :: "('r, 'a) catalog" where
  hit: "Cache_Get (ca_key C) w = (Inr (Some raw), w') \<Longrightarrow> ca_decode C raw = Some rs \<Longrightarrow>
    arrives C (w, fs) (w', fs)"
| miss: "Cache_Get (ca_key C) w = (rg, w') \<Longrightarrow>
    (\<And>raw. rg = Inr (Some raw) \<Longrightarrow> ca_decode C raw = None) \<Longrightarrow>
    arrives C (w, fs) (w', add_mset Missed fs)"
| written: "ca_admits C a \<Longrightarrow> ca_write C a w = (Inr r, w') \<Longrightarrow>
    arrives C (w, fs) (w', add_mset Written fs)"
| write_failed: "ca_admits C a \<Longrightarrow> ca_write C a w = (Inl e, w') \<Longrightarrow> arrives C (w, fs) (w', fs)"
| refused: "ca_admits C a \<Longrightarrow> ca_refused C a w = Some (t, w') \<Longrightarrow>
    arrives C (w, fs) (w', add_mset (Refused a t) fs)"

text \<open>A request in flight makes its next call.\<close>

inductive continues ::
  "('r, 'a) catalog \<Rightarrow> duration \<Rightarrow> world \<times> ('r, 'a) flight multiset \<Rightarrow> world \<times> ('r, 'a) flight multiset \<Rightarrow> bool"
  for C :: "('r, 'a) catalog" and ttl :: duration where
  fetched: "ca_list C w = (Inr rs, w') \<Longrightarrow>
    continues C ttl (w, add_mset Missed fs) (w', add_mset (Fetched rs) fs)"
| fetch_failed: "ca_list C w = (Inl e, w') \<Longrightarrow> continues C ttl (w, add_mset Missed fs) (w', fs)"
| stored: "Cache_Set (ca_key C) (ca_encode C rs) ttl w = (r, w') \<Longrightarrow>
    continues C ttl (w, add_mset (Fetched rs) fs) (w', fs)"
| invalidated: "Cache_Delete [ca_key C] w = (r, w') \<Longrightarrow> continues C ttl (w, add_mset Written fs) (w', fs)"
| probed: "ca_probe C a t w = (r, w') \<Longrightarrow> continues C ttl (w, add_mset (Refused a t) fs) (w', fs)"

text \<open>Requests can also disappear between two calls.\<close>

inductive catalog_step ::
  "('r, 'a) catalog \<Rightarrow> duration \<Rightarrow> world \<times> ('r, 'a) flight multiset \<Rightarrow> world \<times> ('r, 'a) flight multiset \<Rightarrow> bool"
  for C :: "('r, 'a) catalog" and ttl :: duration where
  arrival: "arrives C s s' \<Longrightarrow> catalog_step C ttl s s'"
| call: "continues C ttl s s' \<Longrightarrow> catalog_step C ttl s s'"
| abandoned: "catalog_step C ttl (w, add_mset f fs) (w, fs)"

section \<open>What a provider promises\<close>

text \<open>
  The rows of the tables that are the catalog, how they evolve, and what the calls of its repository
  keep. A row descends from another if it can be what the other has become.
\<close>

locale catalog_provider =
  fixes C :: "('r, 'a) catalog" and evolves :: "db \<Rightarrow> db \<Rightarrow> bool" and good :: "db \<Rightarrow> bool"
    and rows :: "db \<Rightarrow> 'r list" and descends :: "'r \<Rightarrow> 'r \<Rightarrow> bool" and storable :: "'r \<Rightarrow> bool"
  assumes evolves_refl: "evolves db db"
    and evolves_good: "evolves db db' \<Longrightarrow> good db \<Longrightarrow> good db'"
    and evolves_rows: "evolves db db' \<Longrightarrow> good db \<Longrightarrow> x \<in> set (rows db) \<Longrightarrow> \<exists>y \<in> set (rows db'). descends x y"
    and descends_trans: "descends x y \<Longrightarrow> descends y z \<Longrightarrow> descends x z"
    and descends_refl: "descends x x"
    and rows_storable: "good db \<Longrightarrow> x \<in> set (rows db) \<Longrightarrow> storable x"
    and snapshot: "(\<And>x. x \<in> set rs \<Longrightarrow> storable x) \<Longrightarrow> ca_decode C (ca_encode C rs) = Some rs"
    and list_frame: "ca_list C w = (rl, w') \<Longrightarrow> w_db w' = w_db w \<and> live_value w' = live_value w"
    and list_rows: "good (w_db w) \<Longrightarrow> ca_list C w = (Inr rs, w') \<Longrightarrow> set rs \<subseteq> set (rows (w_db w))"
    and write_evolves: "ca_admits C a \<Longrightarrow> ca_write C a w = (rw, w') \<Longrightarrow> evolves (w_db w) (w_db w')"
    and write_frame: "ca_write C a w = (rw, w') \<Longrightarrow> live_value w' = live_value w"
    and refused_frame: "ca_refused C a w = Some (t, w') \<Longrightarrow> w_db w' = w_db w \<and> live_value w' = live_value w"
    and probe_frame: "ca_probe C a t w = (rw, w') \<Longrightarrow> w_db w' = w_db w \<and> live_value w' = live_value w"
begin

text \<open>What a cached row, or one that is about to be cached, is worth.\<close>

definition ancestors :: "world \<Rightarrow> 'r list \<Rightarrow> bool" where
  "ancestors w rs \<longleftrightarrow> (\<forall>x \<in> set rs. storable x \<and> (\<exists>y \<in> set (rows (w_db w)). descends x y))"

definition inv :: "world \<times> ('r, 'a) flight multiset \<Rightarrow> bool" where
  "inv s \<longleftrightarrow>
     (case s of (w, fs) \<Rightarrow>
        good (w_db w)
      \<and> (\<forall>rs. Fetched rs \<in># fs \<longrightarrow> ancestors w rs)
      \<and> (\<forall>raw rs. live_value w (ca_key C) = Some raw \<longrightarrow> ca_decode C raw = Some rs \<longrightarrow>
           (\<forall>x \<in> set rs. \<exists>y \<in> set (rows (w_db w)). descends x y)))"

lemma invI:
  assumes "good (w_db w)" and "\<And>rs. Fetched rs \<in># fs \<Longrightarrow> ancestors w rs"
    and "\<And>raw rs x. live_value w (ca_key C) = Some raw \<Longrightarrow> ca_decode C raw = Some rs \<Longrightarrow> x \<in> set rs \<Longrightarrow>
           \<exists>y \<in> set (rows (w_db w)). descends x y"
  shows "inv (w, fs)"
  using assms by (simp add: inv_def)

lemma invD:
  assumes "inv (w, fs)"
  shows "good (w_db w)" and "Fetched rs \<in># fs \<Longrightarrow> ancestors w rs"
    and "live_value w (ca_key C) = Some raw \<Longrightarrow> ca_decode C raw = Some rs \<Longrightarrow> x \<in> set rs \<Longrightarrow>
           \<exists>y \<in> set (rows (w_db w)). descends x y"
  using assms by (simp_all add: inv_def)

lemma rows_evolve:
  assumes "evolves db db'" and "good db" and "\<exists>y \<in> set (rows db). descends x y"
  shows "\<exists>y \<in> set (rows db'). descends x y"
  using assms evolves_rows descends_trans by meson

text \<open>Any evolution of the tables keeps the invariant if nothing new appears under the key.\<close>

lemma inv_evolve:
  assumes inv: "inv (w, fs)" and ev: "evolves (w_db w) (w_db w')"
    and live: "\<And>raw. live_value w' (ca_key C) = Some raw \<Longrightarrow> live_value w (ca_key C) = Some raw"
    and sub: "\<And>rs. Fetched rs \<in># fs' \<Longrightarrow> Fetched rs \<in># fs"
  shows "inv (w', fs')"
proof (rule invI)
  note ok = invD(1) [OF inv]
  show "good (w_db w')" using evolves_good [OF ev ok] .
  show "ancestors w' rs" if "Fetched rs \<in># fs'" for rs
    using rows_evolve [OF ev ok] invD(2) [OF inv sub [OF that]] by (simp add: ancestors_def)
  show "\<exists>y \<in> set (rows (w_db w')). descends x y"
    if "live_value w' (ca_key C) = Some raw" "ca_decode C raw = Some rs" "x \<in> set rs" for raw rs x
    by (rule rows_evolve [OF ev ok invD(3) [OF inv live [OF that(1)] that(2,3)]])
qed

lemma inv_quiet:
  assumes "inv (w, fs)" and "w_db w' = w_db w" and "live_value w' = live_value w"
    and "\<And>rs. Fetched rs \<in># fs' \<Longrightarrow> Fetched rs \<in># fs"
  shows "inv (w', fs')"
  by (rule inv_evolve [OF assms(1)]) (use assms evolves_refl in auto)

lemma arrives_inv:
  assumes "arrives C s s'" and "inv s"
  shows "inv s'"
  using assms(1)
proof (cases rule: arrives.cases)
  case (hit w raw w' rs fs)
  have "w_db w' = w_db w" "live_value w' = live_value w"
    using hit(3) db_unchanged_Cache(1) valkey.Get_frame by (blast, simp)
  then show ?thesis using hit assms(2) inv_quiet by auto
next
  case (miss w rg w' fs)
  have "w_db w' = w_db w" "live_value w' = live_value w"
    using miss(3) db_unchanged_Cache(1) valkey.Get_frame by (blast, simp)
  then show ?thesis using miss(1,2) assms(2) inv_quiet [of w fs w' "add_mset Missed fs"] by simp
next
  case (written a w r w' fs)
  have "inv (w', add_mset Written fs)"
    by (rule inv_evolve [of w fs]) (use written assms(2) write_evolves write_frame in auto)
  then show ?thesis using written(2) by simp
next
  case (write_failed a w e w' fs)
  have "inv (w', fs)" by (rule inv_evolve [of w fs]) (use write_failed assms(2) write_evolves write_frame in auto)
  then show ?thesis using write_failed(2) by simp
next
  case (refused a w t w' fs)
  then show ?thesis using refused_frame [OF refused(4)] assms(2) inv_quiet [of w fs w' "add_mset (Refused a t) fs"] by simp
qed

lemma continues_inv:
  assumes "continues C ttl s s'" and inv: "inv s"
  shows "inv s'"
  using assms(1)
proof (cases rule: continues.cases)
  case (fetched w rs w' fs)
  note frame = list_frame [OF fetched(3)]
  have i: "inv (w', fs)" using fetched(1) inv frame inv_quiet [of w "add_mset Missed fs" w' fs] by auto
  have good: "good (w_db w)" using inv fetched(1) invD(1) by simp
  have "ancestors w' rs"
    using list_rows [OF good fetched(3)] rows_storable [OF good] descends_refl frame by (auto simp: ancestors_def)
  then show ?thesis unfolding fetched(2) using invD [OF i] by (intro invI) auto
next
  case (fetch_failed w e w' fs)
  then show ?thesis using list_frame [OF fetch_failed(3)] inv inv_quiet [of w "add_mset Missed fs" w' fs] by auto
next
  case (stored rs w r w' fs)
  have db: "w_db w' = w_db w" using stored(3) db_unchanged_Cache(2) by blast
  note i = inv [unfolded stored(1)]
  have anc: "ancestors w rs" using invD(2) [OF i] by simp
  then have dec: "ca_decode C (ca_encode C rs) = Some rs" by (intro snapshot) (simp add: ancestors_def)
  show ?thesis unfolding stored(2)
  proof (rule invI)
    show "good (w_db w')" using invD(1) [OF i] db by simp
    show "ancestors w' es" if "Fetched es \<in># fs" for es
      using invD(2) [OF i, of es] that db by (simp add: ancestors_def)
    show "\<exists>y \<in> set (rows (w_db w')). descends x y"
      if raw: "live_value w' (ca_key C) = Some raw" "ca_decode C raw = Some es" "x \<in> set es" for raw es x
    proof -
      have "cache_Set valkey_port (ca_key C) (ca_encode C rs) ttl w = (r, w')" using stored(3) by simp
      from valkey.Set_value [OF this raw(1)] show ?thesis
        using dec raw(2,3) anc invD(3) [OF i _ raw(2,3)] db by (auto simp: ancestors_def)
    qed
  qed
next
  case (invalidated w r w' fs)
  have "w_db w' = w_db w" using invalidated(3) db_unchanged_Cache(3) by blast
  moreover have "live_value w (ca_key C) = Some raw" if "live_value w' (ca_key C) = Some raw" for raw
    using valkey.Delete_value [of _ w r w', OF _ that] invalidated(3) by simp
  ultimately show ?thesis
    using invalidated(1,2) inv inv_evolve [of w "add_mset Written fs" w' fs] evolves_refl by simp
next
  case (probed a t w r w' fs)
  then show ?thesis using probe_frame [OF probed(3)] inv inv_quiet [of w "add_mset (Refused a t) fs" w' fs] by auto
qed

lemma step_inv:
  assumes "catalog_step C ttl s s'" and "inv s"
  shows "inv s'"
  using assms(1)
proof (cases rule: catalog_step.cases)
  case (abandoned w f fs)
  then show ?thesis using inv_quiet [of w "add_mset f fs" w fs] assms(2) by auto
qed (use assms(2) arrives_inv continues_inv in auto)

text \<open>What a step does to the rest of the service: the tables evolve, and no other key gets a value.\<close>

lemma step_frame:
  assumes "catalog_step C ttl s s'" and "k \<noteq> ca_key C"
  shows "evolves (w_db (fst s)) (w_db (fst s'))
     \<and> (\<forall>raw. live_value (fst s') k = Some raw \<longrightarrow> live_value (fst s) k = Some raw)"
  using assms(1)
proof (cases rule: catalog_step.cases)
  case arrival
  then show ?thesis
  proof (cases rule: arrives.cases)
    case (hit w raw w' rs fs)
    then show ?thesis using db_unchanged_Cache(1) [OF hit(3)] valkey.Get_frame [of _ w _ w'] evolves_refl by simp
  next
    case (miss w rg w' fs)
    then show ?thesis using db_unchanged_Cache(1) [OF miss(3)] valkey.Get_frame [of _ w _ w'] evolves_refl by simp
  next
    case (refused a w t w' fs)
    then show ?thesis using refused_frame [OF refused(4)] evolves_refl by simp
  qed (use write_evolves write_frame in auto)
next
  case call
  then show ?thesis
  proof (cases rule: continues.cases)
    case (stored rs w r w' fs)
    have "cache_Set valkey_port (ca_key C) (ca_encode C rs) ttl w = (r, w')" using stored(3) by simp
    then have "live_value w k = Some raw" if "live_value w' k = Some raw" for raw
      using valkey.Set_value that assms(2) by blast
    then show ?thesis using stored db_unchanged_Cache(2) [OF stored(3)] evolves_refl by simp
  next
    case (invalidated w r w' fs)
    have "live_value w k = Some raw" if "live_value w' k = Some raw" for raw
      using valkey.Delete_value [of "[ca_key C]" w r w', OF _ that] invalidated(3) by simp
    then show ?thesis using invalidated db_unchanged_Cache(3) [OF invalidated(3)] evolves_refl by simp
  qed (use list_frame probe_frame evolves_refl in auto)
qed (simp add: evolves_refl)

lemma inv_start: "good (w_db w) \<Longrightarrow> live_value w (ca_key C) = None \<Longrightarrow> inv (w, {#})"
  by (simp add: inv_def)

end

end
