(* ===== verification/Catalogs.thy ===== *)
theory Catalogs
  imports Shared_Catalog
begin

text \<open>
  The departments and the plans as catalogs that requests share. The update of a row is one
  transaction of up to two statements, an UPDATE and, if that matches no row, a read of its version:
  the two statements are taken apart here, so that other transactions can commit between them.
\<close>

section \<open>Updates of departments in two phases\<close>

text \<open>The transaction begins and its UPDATE matches no row.\<close>

definition dept_refused ::
  "ext \<Rightarrow> uuid \<Rightarrow> string option \<Rightarrow> bool option \<Rightarrow> int \<Rightarrow> world \<Rightarrow> (tx_fate \<times> world) option" where
  "dept_refused X u name isActive expectedVersion w =
     (if name = None \<and> isActive = None \<or> tf_begin (next_tx w) \<noteq> None then None
      else case dept_update_sql u name isActive expectedVersion of
             (sets, args) \<Rightarrow>
               (case exec (tf_stmt (next_tx w)) (sql_update_department X (db_now w) sets args) (pop_tx w) of
                  (r, w1) \<Rightarrow> if scanDepartment r = Inl (EDriver ErrNoRows) then Some (next_tx w, w1) else None))"

text \<open>The read that tells a row that is gone from one that has another version, and the rollback.\<close>

definition dept_probe :: "ext \<Rightarrow> uuid \<Rightarrow> tx_fate \<Rightarrow> world \<Rightarrow> department res \<times> world" where
  "dept_probe X u t w =
     (let e = (case query (tf_probe t) (\<lambda>db. Inr (sql_select_department_version u db)) w of
                 Inl perr \<Rightarrow>
                   (if perr = ErrNoRows then EDomain (NewError ErrDepartmentNotFound ''department not found'')
                    else EDriver perr)
               | Inr None \<Rightarrow> EDomain (NewError ErrDepartmentNotFound ''department not found'')
               | Inr (Some currentVersion) \<Rightarrow> version_conflict currentVersion)
      in (Inl (wrapConnErr X e),
          if errors_Is e ErrOptimisticLockConflict then inc_metric (OptimisticLockConflicts ''departments'') w else w))"

lemma scanDepartment_NoRows: "scanDepartment r = Inl (EDriver ErrNoRows) \<longleftrightarrow> r = Inl ErrNoRows \<or> r = Inr None"
  by (auto simp: scanDepartment_def split: sum.splits option.splits)

lemma exec_department_NoRows:
  assumes "exec f (sql_update_department X now sets args) w = (r, w1)" and "scanDepartment r = Inl (EDriver ErrNoRows)"
  shows "w_db w1 = w_db w"
proof (cases f)
  case None
  obtain q db' where s: "sql_update_department X now sets args (w_db w) = (q, db')" by force
  with None assms have "scanDepartment q = Inl (EDriver ErrNoRows)" "w_db w1 = db'" by (auto simp: exec_def)
  with s show ?thesis by (cases rule: sql_update_department_cases) (auto simp: scanDepartment_NoRows)
qed (use assms in \<open>auto simp: exec_def\<close>)

lemma exec_update_frame:
  "exec f stmt w = (r, w1) \<Longrightarrow> live_value w1 = live_value w"
  by (rule live_value_cong) (auto dest: exec_frame)

lemma dept_refusedE:
  assumes "dept_refused X u name isActive v w = Some (t, w1)"
  obtains sets args r where "name \<noteq> None \<or> isActive \<noteq> None" and "t = next_tx w" and "tf_begin t = None"
    and "dept_update_sql u name isActive v = (sets, args)"
    and "exec (tf_stmt t) (sql_update_department X (db_now w) sets args) (pop_tx w) = (r, w1)"
    and "scanDepartment r = Inl (EDriver ErrNoRows)"
  using assms by (auto simp: dept_refused_def split: if_splits prod.splits)

lemma dept_refused_frame:
  assumes "dept_refused X u name isActive v w = Some (t, w1)"
  shows "w_db w1 = w_db w \<and> live_value w1 = live_value w"
proof -
  from assms obtain sets args r
    where ex: "exec (tf_stmt t) (sql_update_department X (db_now w) sets args) (pop_tx w) = (r, w1)"
      and "scanDepartment r = Inl (EDriver ErrNoRows)" by (rule dept_refusedE)
  from exec_department_NoRows [OF this] exec_update_frame [OF ex] show ?thesis by simp
qed

lemma dept_probe_frame: "dept_probe X u t w = (r, w1) \<Longrightarrow> w_db w1 = w_db w \<and> live_value w1 = live_value w"
  by (auto simp: dept_probe_def Let_def)

text \<open>When nothing comes between them, the two phases are the method of the repository.\<close>

lemma dept_two_phases:
  assumes "dept_refused X u name isActive v w = Some (t, w1)"
  shows "DepartmentRepository_Update X u name isActive v w = dept_probe X u t w1"
proof -
  from assms obtain sets args r where given: "name \<noteq> None \<or> isActive \<noteq> None" "t = next_tx w" "tf_begin t = None"
      "dept_update_sql u name isActive v = (sets, args)"
    and ex: "exec (tf_stmt t) (sql_update_department X (db_now w) sets args) (pop_tx w) = (r, w1)"
    and none: "scanDepartment r = Inl (EDriver ErrNoRows)" by (rule dept_refusedE)
  have now: "db_now (pop_tx w) = db_now w" by (simp add: db_now_def)
  have db: "w_db w1 = w_db w" using exec_department_NoRows [OF ex none] by simp
  have same: "set_db (w_db w) w1 = w1" "set_db (w_db w) (inc_metric m w1) = inc_metric m w1" for m
    using db by (simp_all add: set_db_def inc_metric_def)
  from given ex none show ?thesis
    by (auto simp: DepartmentRepository_Update_def withPool_def RunInTx_def Let_def now deptUpdateBody_def
        deptUpdateFromTx_def dept_probe_def version_conflict_def same split: sum.split option.split)
qed

section \<open>Updates of plans in two phases\<close>

definition plan_refused :: "ext \<Rightarrow> tenant_plan \<Rightarrow> plan_patch \<Rightarrow> world \<Rightarrow> (tx_fate \<times> world) option" where
  "plan_refused X code patch w =
     (case plan_update_sql X code patch of
        (sets, args) \<Rightarrow>
          if length sets = 0 \<or> tf_begin (next_tx w) \<noteq> None then None
          else (case exec (tf_stmt (next_tx w)) (sql_update_plan X (db_now w) sets args) (pop_tx w) of
                  (r, w1) \<Rightarrow> if scanPlan X r = Inl (EDriver ErrNoRows) then Some (next_tx w, w1) else None))"

definition plan_probe :: "ext \<Rightarrow> tenant_plan \<Rightarrow> tx_fate \<Rightarrow> world \<Rightarrow> plan res \<times> world" where
  "plan_probe X code t w =
     (let e = (case query (tf_probe t) (sql_select_plan_version X code) w of
                 Inl perr \<Rightarrow>
                   (if perr = ErrNoRows then EDomain (NewError ErrPlanNotFound ''plan not found'') else EDriver perr)
               | Inr None \<Rightarrow> EDomain (NewError ErrPlanNotFound ''plan not found'')
               | Inr (Some v) \<Rightarrow> version_conflict v)
      in (Inl (wrapConnErr X e),
          if errors_Is e ErrOptimisticLockConflict then inc_metric (OptimisticLockConflicts ''plans'') w else w))"

lemma scanPlan_NoRows: "scanPlan X r = Inl (EDriver ErrNoRows) \<longleftrightarrow> r = Inl ErrNoRows \<or> r = Inr None"
  by (auto simp: scanPlan_def split: sum.splits option.splits)

lemma exec_plan_NoRows:
  assumes "exec f (sql_update_plan X now sets args) w = (r, w1)" and "scanPlan X r = Inl (EDriver ErrNoRows)"
  shows "w_db w1 = w_db w"
proof (cases f)
  case None
  obtain q db' where s: "sql_update_plan X now sets args (w_db w) = (q, db')" by force
  with None assms have "scanPlan X q = Inl (EDriver ErrNoRows)" "w_db w1 = db'" by (auto simp: exec_def)
  with s show ?thesis by (cases rule: sql_update_plan_cases) (auto simp: scanPlan_NoRows)
qed (use assms in \<open>auto simp: exec_def\<close>)

lemma plan_refusedE:
  assumes "plan_refused X code patch w = Some (t, w1)"
  obtains sets args r where "length sets \<noteq> 0" and "t = next_tx w" and "tf_begin t = None"
    and "plan_update_sql X code patch = (sets, args)"
    and "exec (tf_stmt t) (sql_update_plan X (db_now w) sets args) (pop_tx w) = (r, w1)"
    and "scanPlan X r = Inl (EDriver ErrNoRows)"
  using assms by (auto simp: plan_refused_def split: if_splits prod.splits)

lemma plan_refused_frame:
  assumes "plan_refused X code patch w = Some (t, w1)"
  shows "w_db w1 = w_db w \<and> live_value w1 = live_value w"
proof -
  from assms obtain sets args r
    where ex: "exec (tf_stmt t) (sql_update_plan X (db_now w) sets args) (pop_tx w) = (r, w1)"
      and "scanPlan X r = Inl (EDriver ErrNoRows)" by (rule plan_refusedE)
  from exec_plan_NoRows [OF this] exec_update_frame [OF ex] show ?thesis by simp
qed

lemma plan_probe_frame: "plan_probe X code t w = (r, w1) \<Longrightarrow> w_db w1 = w_db w \<and> live_value w1 = live_value w"
  by (auto simp: plan_probe_def Let_def)

lemma plan_two_phases:
  assumes "plan_refused X code patch w = Some (t, w1)"
  shows "PlanRepository_Update X code (Some patch) w = plan_probe X code t w1"
proof -
  from assms obtain sets args r where given: "length sets \<noteq> 0" "t = next_tx w" "tf_begin t = None"
      "plan_update_sql X code patch = (sets, args)"
    and ex: "exec (tf_stmt t) (sql_update_plan X (db_now w) sets args) (pop_tx w) = (r, w1)"
    and none: "scanPlan X r = Inl (EDriver ErrNoRows)" by (rule plan_refusedE)
  have now: "db_now (pop_tx w) = db_now w" by (simp add: db_now_def)
  have db: "w_db w1 = w_db w" using exec_plan_NoRows [OF ex none] by simp
  have same: "set_db (w_db w) w1 = w1" "set_db (w_db w) (inc_metric m w1) = inc_metric m w1" for m
    using db by (simp_all add: set_db_def inc_metric_def)
  from given ex none show ?thesis
    by (auto simp: PlanRepository_Update_def withPool_def RunInTx_def Let_def now planUpdateBody_def
        planUpdateFromTx_def plan_probe_def version_conflict_def same split: sum.split option.split)
qed

section \<open>The departments\<close>

datatype dept_command = InsertDepartment department | UpdateDepartment uuid "string option" "bool option" int

fun dept_write :: "ext \<Rightarrow> dept_command \<Rightarrow> world \<Rightarrow> department res \<times> world" where
  "dept_write X (InsertDepartment d) w = DepartmentRepository_Insert X d w"
| "dept_write X (UpdateDepartment u name isActive v) w = DepartmentRepository_Update X u name isActive v w"

fun dept_command_refused :: "ext \<Rightarrow> dept_command \<Rightarrow> world \<Rightarrow> (tx_fate \<times> world) option" where
  "dept_command_refused X (InsertDepartment d) w = None"
| "dept_command_refused X (UpdateDepartment u name isActive v) w = dept_refused X u name isActive v w"

fun dept_command_probe :: "ext \<Rightarrow> dept_command \<Rightarrow> tx_fate \<Rightarrow> world \<Rightarrow> department res \<times> world" where
  "dept_command_probe X (InsertDepartment d) t w = (Inr d, w)"
| "dept_command_probe X (UpdateDepartment u name isActive v) t w = dept_probe X u t w"

definition departments_catalog :: "ext \<Rightarrow> (department, dept_command) catalog" where
  "departments_catalog X =
     \<lparr>ca_key = ''cat:departments'', ca_encode = encode_departments X, ca_decode = decode_departments X,
      ca_list = DepartmentRepository_List X False, ca_admits = (\<lambda>_. True), ca_write = dept_write X,
      ca_refused = dept_command_refused X, ca_probe = dept_command_probe X\<rparr>"

lemma departments_catalog_simps [simp]:
  "ca_key (departments_catalog X) = ''cat:departments''" "ca_encode (departments_catalog X) = encode_departments X"
  "ca_decode (departments_catalog X) = decode_departments X"
  "ca_list (departments_catalog X) = DepartmentRepository_List X False" "ca_admits (departments_catalog X) a"
  "ca_write (departments_catalog X) = dept_write X" "ca_refused (departments_catalog X) = dept_command_refused X"
  "ca_probe (departments_catalog X) = dept_command_probe X"
  by (simp_all add: departments_catalog_def)

definition departments_good :: "ext \<Rightarrow> db \<Rightarrow> bool" where
  "departments_good X db \<longleftrightarrow> ext_ok X \<and> db_ok db"

definition dept_storable :: "ext \<Rightarrow> department \<Rightarrow> bool" where
  "dept_storable X d \<longleftrightarrow> ext_ok X \<and> int64_ok (d_RecordVersion d)"

interpretation departments: catalog_provider "departments_catalog X" "db_evolves X" "departments_good X"
  t_departments dept_descends "dept_storable X" for X
proof (unfold_locales, goal_cases)
  case (1 db) then show ?case by (rule db_evolves.unchanged)
next
  case (2 db db') then show ?case using db_evolves_plans_ok by (auto simp: departments_good_def)
next
  case (3 db db' x) then show ?case using db_evolves_department by (auto simp: departments_good_def)
next
  case (4 x y z) then show ?case using dept_descends_trans by blast
next
  case (5 x) then show ?case by simp
next
  case (6 db x) then show ?case
    by (auto simp: departments_good_def dept_storable_def db_ok_def departments_ok_def list_all_iff)
next
  case (7 rs)
  show ?case
  proof (cases rs)
    case Nil then show ?thesis by (simp add: decode_departments_def encode_departments_def unmarshal_all_def encode_slice_def decode_slice_def)
  next
    case (Cons x xs)
    then have "ext_ok X" using 7 [of x] by (simp add: dept_storable_def)
    then show ?thesis using departments_snapshot_roundtrip 7 by (simp add: dept_storable_def)
  qed
next
  case (8 w rl w')
  then have "DepartmentRepository_List X False w = (rl, w')" by simp
  from DepartmentRepository_List_frame [OF this] show ?case using cache_side_live by blast
next
  case (9 w rs w')
  then have "DepartmentRepository_List X False w = (Inr rs, w')" by simp
  from DepartmentRepository_List_result [OF this] show ?case by (simp add: sql_select_departments_set)
next
  case (10 a w rw w')
  then show ?case
    by (cases a) (auto dest: DepartmentRepository_Insert_evolves DepartmentRepository_Update_evolves)
next
  case (11 a w rw w')
  then have "cache_side w' = cache_side w"
    by (cases a) (auto dest: DepartmentRepository_Insert_frame DepartmentRepository_Update_frame)
  then show ?case by (rule cache_side_live)
next
  case (12 a w t w') then show ?case by (cases a) (auto dest: dept_refused_frame)
next
  case (13 a t w rw w') then show ?case by (cases a) (auto dest: dept_probe_frame)
qed

section \<open>The plans\<close>

type_synonym plan_command = "tenant_plan \<times> plan_patch"

text \<open>The patches the service builds have a feature set that was decoded from JSON, or none.\<close>

definition plans_catalog :: "ext \<Rightarrow> (plan, plan_command) catalog" where
  "plans_catalog X =
     \<lparr>ca_key = ''cat:plans'', ca_encode = encode_plans X, ca_decode = decode_plans X,
      ca_list = PlanRepository_List X, ca_admits = (\<lambda>(code, patch). patch_decoded X patch),
      ca_write = (\<lambda>(code, patch). PlanRepository_Update X code (Some patch)),
      ca_refused = (\<lambda>(code, patch). plan_refused X code patch), ca_probe = (\<lambda>(code, patch). plan_probe X code)\<rparr>"

lemma plans_catalog_simps [simp]:
  "ca_key (plans_catalog X) = ''cat:plans''" "ca_encode (plans_catalog X) = encode_plans X"
  "ca_decode (plans_catalog X) = decode_plans X" "ca_list (plans_catalog X) = PlanRepository_List X"
  "ca_admits (plans_catalog X) (code, patch) = patch_decoded X patch"
  "ca_write (plans_catalog X) (code, patch) = PlanRepository_Update X code (Some patch)"
  "ca_refused (plans_catalog X) (code, patch) = plan_refused X code patch"
  "ca_probe (plans_catalog X) (code, patch) = plan_probe X code"
  by (simp_all add: plans_catalog_def)

definition plans_good :: "ext \<Rightarrow> db \<Rightarrow> bool" where
  "plans_good X db \<longleftrightarrow> ext_ok X \<and> db_ok db \<and> plans_scan X db"

definition plan_rows :: "ext \<Rightarrow> db \<Rightarrow> plan list" where
  "plan_rows X db = map (plan_of X) (t_plans db)"

definition plan_follows :: "plan \<Rightarrow> plan \<Rightarrow> bool" where
  "plan_follows p p' \<longleftrightarrow>
     p_Code p' = p_Code p \<and> p_CreatedAt p' = p_CreatedAt p \<and> p_RecordVersion p \<le> p_RecordVersion p'
   \<and> (p_RecordVersion p' = p_RecordVersion p \<longrightarrow> p' = p)"

lemma plan_follows_trans: "plan_follows a b \<Longrightarrow> plan_follows b c \<Longrightarrow> plan_follows a c"
  unfolding plan_follows_def by (metis order_antisym order_trans)

lemma plan_of_simps [simp]:
  "p_Code (plan_of X r) = pr_code r" "p_CreatedAt (plan_of X r) = pr_created_at r"
  "p_RecordVersion (plan_of X r) = pr_record_version r"
  by (simp_all add: plan_of_def plan_of_row_def)

lemma plan_descends_follows: "plan_descends r r' \<Longrightarrow> plan_follows (plan_of X r) (plan_of X r')"
  by (auto simp: plan_descends_def plan_follows_def)

definition plan_storable :: "ext \<Rightarrow> plan \<Rightarrow> bool" where
  "plan_storable X p \<longleftrightarrow> ext_ok X \<and> cacheable_plan X p"

interpretation plans: catalog_provider "plans_catalog X" "db_evolves X" "plans_good X"
  "plan_rows X" plan_follows "plan_storable X" for X
proof (unfold_locales, goal_cases)
  case (1 db) then show ?case by (rule db_evolves.unchanged)
next
  case (2 db db') then show ?case using db_evolves_plans_ok db_evolves_scans by (auto simp: plans_good_def)
next
  case (3 db db' x)
  then obtain r where r: "r \<in> set (t_plans db)" "x = plan_of X r" by (auto simp: plan_rows_def)
  have "db_ok db" using 3(2) by (simp add: plans_good_def)
  from db_evolves_plan [OF 3(1) this r(1)] show ?case
    unfolding r(2) plan_rows_def set_map using plan_descends_follows by blast
next
  case (4 x y z) then show ?case using plan_follows_trans by blast
next
  case (5 x) then show ?case by (simp add: plan_follows_def)
next
  case (6 db x)
  then obtain r where "r \<in> set (t_plans db)" "x = plan_of X r" by (auto simp: plan_rows_def)
  with 6(1) show ?case
    by (auto simp: plans_good_def plan_storable_def db_ok_def plans_ok_def plans_scan_def list_all_iff intro: cacheable_plan_of)
next
  case (7 rs)
  show ?case
  proof (cases rs)
    case Nil then show ?thesis by (simp add: decode_plans_def encode_plans_def unmarshal_all_def encode_slice_def decode_slice_def)
  next
    case (Cons x xs)
    then have "ext_ok X" using 7 [of x] by (simp add: plan_storable_def)
    then show ?thesis using plans_snapshot_roundtrip 7 by (simp add: plan_storable_def)
  qed
next
  case (8 w rl w')
  then have "PlanRepository_List X w = (rl, w')" by simp
  from PlanRepository_List_frame [OF this] show ?case using cache_side_live by blast
next
  case (9 w rs w')
  then have l: "PlanRepository_List X w = (Inr rs, w')" by simp
  have "list_all (row_scans X) (sql_select_plans (w_db w))"
    using 9(1) by (simp add: plans_good_def plans_scan_def list_all_iff set_sql_select_plans)
  from scan_rows_ok [OF this] PlanRepository_List_result [OF l]
  have "rs = map (plan_of X) (sql_select_plans (w_db w))" by simp
  then show ?case by (auto simp: plan_rows_def set_sql_select_plans)
next
  case (10 a w rw w')
  then show ?case by (cases a) (auto elim!: PlanRepository_Update_evolves)
next
  case (11 a w rw w')
  then have "cache_side w' = cache_side w" by (cases a) (auto dest: PlanRepository_Update_frame)
  then show ?case by (rule cache_side_live)
next
  case (12 a w t w') then show ?case by (cases a) (auto dest: plan_refused_frame)
next
  case (13 a t w rw w') then show ?case by (cases a) (auto dest: plan_probe_frame)
qed

end
