(* ===== verification/Interleaving.thy ===== *)
theory Interleaving
  imports Write_Properties Cache_Properties Catalogs
begin

text \<open>
  The service with all its requests: the steps of requests on the departments and of requests on the
  plans interleave freely over one state, and time passes and faults come and go. What holds under
  every interleaving, and the run of a race.
\<close>

section \<open>Steps of the service\<close>

type_synonym dept_flights = "(department, dept_command) flight multiset"
type_synonym plan_flights = "(plan, plan_command) flight multiset"
type_synonym service_state = "world \<times> dept_flights \<times> plan_flights"

inductive shared_step :: "ext \<Rightarrow> duration \<Rightarrow> duration \<Rightarrow> service_state \<Rightarrow> service_state \<Rightarrow> bool"
  for X :: ext and dttl :: duration and pttl :: duration where
  on_departments: "catalog_step (departments_catalog X) dttl (w, ds) (w', ds') \<Longrightarrow>
    shared_step X dttl pttl (w, ds, ps) (w', ds', ps)"
| on_plans: "catalog_step (plans_catalog X) pttl (w, ps) (w', ps') \<Longrightarrow>
    shared_step X dttl pttl (w, ds, ps) (w', ds, ps')"
| environment: "w_db w' = w_db w \<Longrightarrow> w_store w' = w_store w \<Longrightarrow> w_now w \<le> w_now w' \<Longrightarrow>
    shared_step X dttl pttl (w, ds, ps) (w', ds, ps)"

inductive_cases shared_stepE: "shared_step X dttl pttl (w, ds, ps) (w', ds', ps')"

abbreviation shared_steps :: "ext \<Rightarrow> duration \<Rightarrow> duration \<Rightarrow> service_state \<Rightarrow> service_state \<Rightarrow> bool" where
  "shared_steps X dttl pttl \<equiv> (shared_step X dttl pttl)\<^sup>*\<^sup>*"

lemma run_one: "shared_step X dttl pttl s s' \<Longrightarrow> shared_steps X dttl pttl s s'"
  by (rule r_into_rtranclp)

lemma run_snoc: "shared_steps X dttl pttl s s' \<Longrightarrow> shared_step X dttl pttl s' s'' \<Longrightarrow> shared_steps X dttl pttl s s''"
  by (rule rtranclp.rtrancl_into_rtrancl)

lemmas dept_arrival = on_departments [OF catalog_step.arrival]
lemmas dept_call = on_departments [OF catalog_step.call]

section \<open>Invariants\<close>

definition shared_inv :: "ext \<Rightarrow> service_state \<Rightarrow> bool" where
  "shared_inv X s \<longleftrightarrow> (case s of (w, ds, ps) \<Rightarrow> departments.inv X (w, ds) \<and> plans.inv X (w, ps))"

lemma live_value_environment:
  "w_store w' = w_store w \<Longrightarrow> w_now w \<le> w_now w' \<Longrightarrow> live_value w' k = Some raw \<Longrightarrow> live_value w k = Some raw"
  by (auto simp: live_value_def split: option.splits if_splits)

lemma shared_step_inv:
  assumes "shared_step X dttl pttl s s'" and "shared_inv X s"
  shows "shared_inv X s'"
  using assms(1)
proof (cases rule: shared_step.cases)
  case (on_departments w ds w' ds' ps)
  have "departments.inv X (w', ds')"
    using departments.step_inv [OF on_departments(3)] assms(2) on_departments(1) by (simp add: shared_inv_def)
  moreover have "plans.inv X (w', ps)"
    using departments.step_frame [OF on_departments(3), of "''cat:plans''"] assms(2) on_departments(1)
      plans.inv_evolve [of X w ps w' ps] by (simp add: shared_inv_def)
  ultimately show ?thesis using on_departments(2) by (simp add: shared_inv_def)
next
  case (on_plans w ps w' ps' ds)
  have "plans.inv X (w', ps')"
    using plans.step_inv [OF on_plans(3)] assms(2) on_plans(1) by (simp add: shared_inv_def)
  moreover have "departments.inv X (w', ds)"
    using plans.step_frame [OF on_plans(3), of "''cat:departments''"] assms(2) on_plans(1)
      departments.inv_evolve [of X w ds w' ds] by (simp add: shared_inv_def)
  ultimately show ?thesis using on_plans(2) by (simp add: shared_inv_def)
next
  case (environment w' w ds ps)
  then show ?thesis
    using assms(2) departments.inv_evolve [of X w ds w' ds] plans.inv_evolve [of X w ps w' ps]
      live_value_environment [OF environment(4,5)] db_evolves.unchanged [of X "w_db w"]
    by (simp add: shared_inv_def)
qed

lemma shared_steps_inv: "shared_steps X dttl pttl s s' \<Longrightarrow> shared_inv X s \<Longrightarrow> shared_inv X s'"
  by (induction rule: rtranclp_induct) (auto intro: shared_step_inv)

text \<open>A service that starts with well-formed tables and nothing in its cache.\<close>

definition fresh :: "ext \<Rightarrow> world \<Rightarrow> bool" where
  "fresh X w \<longleftrightarrow> ext_ok X \<and> db_ok (w_db w) \<and> plans_scan X (w_db w)
     \<and> live_value w ''cat:departments'' = None \<and> live_value w ''cat:plans'' = None"

lemma fresh_inv: "fresh X w \<Longrightarrow> shared_inv X (w, {#}, {#})"
  unfolding shared_inv_def fresh_def
  by (simp add: departments_good_def plans_good_def departments.inv_start plans.inv_start)

text \<open>The tables evolve along every run.\<close>

lemma shared_step_evolves:
  assumes "shared_step X dttl pttl s s'"
  shows "db_evolves X (w_db (fst s)) (w_db (fst s'))"
  using assms
proof (cases rule: shared_step.cases)
  case (on_departments w ds w' ds' ps)
  then show ?thesis using departments.step_frame [OF on_departments(3), of "''cat:plans''"] by simp
next
  case (on_plans w ps w' ps' ds)
  then show ?thesis using plans.step_frame [OF on_plans(3), of "''cat:departments''"] by simp
qed (simp add: db_evolves.unchanged)

lemma shared_steps_evolution:
  "shared_steps X dttl pttl s s' \<Longrightarrow> (db_evolves X)\<^sup>*\<^sup>* (w_db (fst s)) (w_db (fst s'))"
  by (induction rule: rtranclp_induct) (auto intro: rtranclp.rtrancl_into_rtrancl shared_step_evolves)

section \<open>A listing that races with a write\<close>

text \<open>The state after a listing has read the table and before it stores what it read.\<close>

lemma custom_listed:
  assumes "t_departments (w_db w) = [d]" and "next_tx w = tx_ok"
  shows "DepartmentRepository_List X False w = (Inr [d], pop_tx w)"
  unfolding DepartmentRepository_List_def withPool_no_fault [OF assms(2)]
  by (simp add: deptListFromTx_def query_def sql_select_departments_def assms(1))

lemma live_value_no_tx: "live_value (w\<lparr>w_tx := fs\<rparr>) k = live_value w k"
  by (simp add: live_value_def split: option.split)

text \<open>
  The run of the race: a listing misses and reads the table, a rename commits and deletes the cached
  entry, and the listing stores what it read.
\<close>

lemma race_run:
  "\<exists>w raw. shared_steps ext_ref (seconds 60) (seconds 60) (custom_world, {#}, {#}) (w, {#}, {#})
     \<and> live_value w ''cat:departments'' = Some raw \<and> decode_departments ext_ref raw = Some [custom_department]
     \<and> t_departments (w_db w) = [renamed_department (db_now custom_world)] \<and> next_tx w = tx_ok
     \<and> w_now w = w_now custom_world"
proof -
  let ?k = "''cat:departments''" and ?now = "db_now custom_world" and ?C = "departments_catalog ext_ref" and ?ttl = "seconds 60"
  let ?w1 = "inc_metric (CacheMisses ?k) (pop_cache custom_world)"
  have live: "live_value custom_world ?k = None" by (simp add: custom_world_def live_value_def sample_world_def)
  then have get: "Cache_Get ?k custom_world = (Inr None, ?w1)" by (simp add: Cache_Get_def)
  have s1: "arrives ?C (custom_world, {#}) (?w1, {#Missed#})" by (rule arrives.miss [where rg = "Inr None"]) (use get in simp_all)
  have l: "DepartmentRepository_List ext_ref False ?w1 = (Inr [custom_department], pop_tx ?w1)"
    by (rule custom_listed) (simp_all add: next_tx_def)
  let ?w2 = "pop_tx ?w1"
  have s2: "continues ?C ?ttl (?w1, {#Missed#}) (?w2, {#Fetched [custom_department]#})"
    by (rule continues.fetched) (use l in simp)
  have db2: "w_db ?w2 = w_db custom_world" and now2: "db_now ?w2 = ?now" by (simp_all add: db_now_def)
  have "distinct (map d_ID (t_departments (w_db ?w2)))" by (simp add: db2)
  then obtain w3 where upd: "DepartmentRepository_Update ext_ref 9 (Some ''Renamed'') None 1 ?w2 = (Inr (renamed_department ?now), w3)"
    and db3: "w_db w3 = (w_db custom_world)\<lparr>t_departments := [renamed_department ?now]\<rparr>" and c3: "w_cache w3 = []"
    and n3: "w_now w3 = w_now custom_world"
    using DepartmentRepository_Update_abs [of ?w2 "Some ''Renamed''" None ext_ref 9 1] rename_abs [of ?now]
    by (simp add: now2 next_tx_def)
  have s3: "arrives ?C (?w2, {#Fetched [custom_department]#}) (w3, {#Written, Fetched [custom_department]#})"
    by (rule arrives.written [where a = "UpdateDepartment 9 (Some ''Renamed'') None 1"]) (use upd in simp_all)
  have del: "Cache_Delete [?k] w3 = (Inr (), store_del [?k] (pop_cache w3))" using c3 by (simp add: Cache_Delete_def)
  let ?w4 = "store_del [?k] (pop_cache w3)"
  have s4: "continues ?C ?ttl (w3, {#Written, Fetched [custom_department]#}) (?w4, {#Fetched [custom_department]#})"
    by (rule continues.invalidated) (use del in simp)
  let ?raw = "encode_departments ext_ref [custom_department]"
  let ?w5 = "store_set ?k ?raw ?ttl (pop_cache ?w4)"
  have "Cache_Set ?k ?raw ?ttl ?w4 = (Inr (), ?w5)" using c3 by (simp add: Cache_Set_def)
  then have s5: "continues ?C ?ttl (?w4, {#Fetched [custom_department]#}) (?w5, {#})"
    by (intro continues.stored) simp
  let ?w6 = "?w5\<lparr>w_tx := []\<rparr>"
  have s6: "shared_step ext_ref ?ttl ?ttl (?w5, {#}, {#}) (?w6, {#}, {#})" by (rule shared_step.environment) simp_all
  have "shared_steps ext_ref ?ttl ?ttl (custom_world, {#}, {#}) (?w6, {#}, {#})"
    by (rule run_snoc [OF run_snoc [OF run_snoc [OF run_snoc [OF run_snoc [OF run_one [OF dept_arrival [OF s1]]
          dept_call [OF s2]] dept_arrival [OF s3]] dept_call [OF s4]] dept_call [OF s5]] s6])
  moreover have "live_value ?w6 ?k = Some ?raw"
    by (simp add: live_value_no_tx live_value_store_set)
  moreover have "decode_departments ext_ref ?raw = Some [custom_department]"
    by (rule departments_snapshot_roundtrip [OF ext_ref_ok]) (simp add: custom_department_def int64_ok_def)
  moreover have "t_departments (w_db ?w6) = [renamed_department ?now]" by (simp add: db3)
  moreover have "next_tx ?w6 = tx_ok" by (simp add: next_tx_def)
  moreover have "w_now ?w6 = w_now custom_world" by (simp add: n3)
  ultimately show ?thesis by blast
qed

lemma renamed_differs: "custom_department \<noteq> renamed_department t"
  by (simp add: renamed_department_def custom_department_def)

lemma custom_fresh: "fresh ext_ref custom_world"
  using ext_ref_ok custom_db_ok custom_scans
  by (simp add: fresh_def) (simp add: custom_world_def live_value_def sample_world_def)

section \<open>An update that is refused\<close>

text \<open>What an UPDATE that matched no row has seen.\<close>

lemma dept_refused_row:
  assumes "dept_refused X u name isActive v w = Some (t, w1)" and "tf_stmt t = None"
    and ids: "distinct (map d_ID (t_departments (w_db w)))" and d: "d \<in> set (t_departments (w_db w))" "d_ID d = u"
  shows "d_RecordVersion d \<noteq> v"
proof -
  from assms(1) obtain sets args r where sets: "dept_update_sql u name isActive v = (sets, args)"
    and ex: "exec (tf_stmt t) (sql_update_department X (db_now w) sets args) (pop_tx w) = (r, w1)"
    and none: "scanDepartment r = Inl (EDriver ErrNoRows)" by (rule dept_refusedE)
  have "find (\<lambda>r. d_ID r = u) (t_departments (w_db w)) = Some d" using find_key_Some [OF ids] d by simp
  then have s: "sql_update_department X (db_now w) sets args (w_db w) =
      (if name \<noteq> None \<and> has_nul (the name) then (Inl nul_error, w_db w)
       else if d_RecordVersion d \<noteq> v then (Inr None, w_db w)
       else case dept_update_spec (db_now w) name isActive d of
              Inl e \<Rightarrow> (Inl e, w_db w)
            | Inr new \<Rightarrow> (Inr (Some new), (w_db w)\<lparr>t_departments := put_row d_ID new (t_departments (w_db w))\<rparr>))"
    using sql_update_department_abs [OF sets ids] by simp
  show ?thesis
    using ex none assms(2) dept_update_spec_error [of "db_now w" name isActive d]
    by (auto simp: exec_def s scanDepartment_NoRows split: if_splits sum.splits)
qed

lemma dept_probe_result:
  assumes "dept_probe X u t w = (r, w')" and "tf_probe t = None"
  shows "r = Inl (case find (\<lambda>d. d_ID d = u) (t_departments (w_db w)) of
                    None \<Rightarrow> dept_not_found | Some d \<Rightarrow> version_conflict (d_RecordVersion d))"
  using assms
  by (auto simp: dept_probe_def Let_def query_def sql_select_department_version_def sql_select_department_def
      dept_not_found_def version_conflict_def split: option.splits)

section \<open>Properties\<close>

text \<open>
  C22. Under every interleaving of requests on both catalogs, with any failures, a cached listing of
  departments can be old but not made up: each of its rows is an ancestor of a row of the table, the
  same department with the same code, system flag and creation time, at a version that is not newer,
  and with exactly the current content if the version is the current one.
\<close>

theorem cached_rows_are_ancestors:
  assumes "fresh X w0" and "shared_steps X dttl pttl (w0, {#}, {#}) (w, ds, ps)"
    and "live_value w ''cat:departments'' = Some raw" and "decode_departments X raw = Some rs" and "x \<in> set rs"
  shows "\<exists>y \<in> set (t_departments (w_db w)). d_ID y = d_ID x \<and> d_Code y = d_Code x \<and> d_IsSystem y = d_IsSystem x
     \<and> d_CreatedAt y = d_CreatedAt x \<and> d_RecordVersion x \<le> d_RecordVersion y
     \<and> (d_RecordVersion y = d_RecordVersion x \<longrightarrow> y = x)"
proof -
  have "departments.inv X (w, ds)"
    using shared_steps_inv [OF assms(2) fresh_inv [OF assms(1)]] by (simp add: shared_inv_def)
  then obtain y where "y \<in> set (t_departments (w_db w))" "dept_descends x y"
    using departments.invD(3) [of X w ds raw rs x] assms(3-5) by auto
  then show ?thesis by (auto simp: dept_descends_def)
qed

lemma cached_rows_are_ancestors_witness:
  "\<exists>w raw. decode_departments ext_ref raw = Some [custom_department] \<and> live_value w ''cat:departments'' = Some raw
     \<and> (\<exists>y \<in> set (t_departments (w_db w)). d_ID y = 9 \<and> d_RecordVersion custom_department \<le> d_RecordVersion y)"
proof -
  obtain w raw where r: "shared_steps ext_ref (seconds 60) (seconds 60) (custom_world, {#}, {#}) (w, {#}, {#})"
    "live_value w ''cat:departments'' = Some raw" "decode_departments ext_ref raw = Some [custom_department]"
    using race_run by blast
  from cached_rows_are_ancestors [OF custom_fresh r, of custom_department] r
  show ?thesis by (force simp: custom_department_def)
qed

text \<open>
  The same for the plans: under every interleaving of requests on both catalogs each plan of a
  cached listing is one of the three plans of the table at a version that is not newer, and exactly
  what the table has if the version is the current one.
\<close>

theorem cached_plans_are_ancestors:
  assumes "fresh X w0" and "shared_steps X dttl pttl (w0, {#}, {#}) (w, ds, ps)"
    and "live_value w ''cat:plans'' = Some raw" and "decode_plans X raw = Some rs" and "p \<in> set rs"
  shows "\<exists>r \<in> set (t_plans (w_db w)). pr_code r = p_Code p \<and> pr_created_at r = p_CreatedAt p
     \<and> p_RecordVersion p \<le> pr_record_version r \<and> (pr_record_version r = p_RecordVersion p \<longrightarrow> plan_of X r = p)"
proof -
  have "plans.inv X (w, ps)"
    using shared_steps_inv [OF assms(2) fresh_inv [OF assms(1)]] by (simp add: shared_inv_def)
  then obtain y where "y \<in> set (plan_rows X (w_db w))" "plan_follows p y"
    using plans.invD(3) [of X w ps raw rs p] assms(3-5) by auto
  then show ?thesis by (auto simp: plan_rows_def plan_follows_def)
qed

text \<open>The plans of a fresh service, listed and cached.\<close>

lemma plans_cached_run:
  "\<exists>w raw. shared_steps ext_ref (seconds 60) (seconds 60) (sample_world, {#}, {#}) (w, {#}, {#})
     \<and> live_value w ''cat:plans'' = Some raw
     \<and> decode_plans ext_ref raw = Some (plans_truth ext_ref sample_world) \<and> w_db w = w_db sample_world"
proof -
  let ?k = "''cat:plans''" and ?C = "plans_catalog ext_ref" and ?ps = "plans_truth ext_ref sample_world" and ?ttl = "seconds 60"
  let ?w1 = "inc_metric (CacheMisses ?k) (pop_cache sample_world)" and ?raw = "encode_plans ext_ref ?ps"
  have get: "Cache_Get ?k sample_world = (Inr None, ?w1)" by (simp add: Cache_Get_def)
  have s1: "arrives ?C (sample_world, {#}) (?w1, {#Missed#})"
    by (rule arrives.miss [where rg = "Inr None"]) (use get in simp_all)
  have tx: "next_tx ?w1 = tx_ok" by (simp add: next_tx_def)
  have "list_all (row_scans ext_ref) (sql_select_plans (w_db sample_world))"
    using sample_scans by (simp add: plans_scan_def list_all_iff set_sql_select_plans)
  from scan_rows_ok [OF this] have l: "PlanRepository_List ext_ref ?w1 = (Inr ?ps, pop_tx ?w1)"
    unfolding PlanRepository_List_def withPool_no_fault [OF tx]
    by (simp add: planListFromTx_def query_def plans_truth_def)
  let ?w2 = "pop_tx ?w1"
  have s2: "continues ?C ?ttl (?w1, {#Missed#}) (?w2, {#Fetched ?ps#})"
    by (rule continues.fetched) (use l in simp)
  let ?w3 = "store_set ?k ?raw ?ttl (pop_cache ?w2)"
  have "Cache_Set ?k ?raw ?ttl ?w2 = (Inr (), ?w3)" by (simp add: Cache_Set_def next_cache_def)
  then have s3: "continues ?C ?ttl (?w2, {#Fetched ?ps#}) (?w3, {#})" by (intro continues.stored) simp
  have "shared_steps ext_ref ?ttl ?ttl (sample_world, {#}, {#}) (?w3, {#}, {#})"
    by (rule run_snoc [OF run_snoc [OF run_one [OF shared_step.on_plans [OF catalog_step.arrival [OF s1]]]
          shared_step.on_plans [OF catalog_step.call [OF s2]]] shared_step.on_plans [OF catalog_step.call [OF s3]]])
  moreover have "live_value ?w3 ?k = Some ?raw" by (simp add: live_value_store_set)
  moreover have "decode_plans ext_ref ?raw = Some ?ps"
    by (rule plans_snapshot_roundtrip [OF ext_ref_ok], rule plans_truth_cacheable [of _ sample_world])
       (use sample_coherent catalogs_ok_sound in \<open>auto simp: coherent_state_def\<close>)
  moreover have "w_db ?w3 = w_db sample_world" by (simp add: store_set_def)
  ultimately show ?thesis by blast
qed

lemma sample_fresh: "fresh ext_ref sample_world"
  using ext_ref_ok sample_db_ok sample_scans by (simp add: fresh_def)

lemma cached_plans_are_ancestors_witness:
  "\<exists>w raw rs. live_value w ''cat:plans'' = Some raw \<and> decode_plans ext_ref raw = Some rs
     \<and> list_ex (\<lambda>p. list_ex (\<lambda>r. pr_code r = p_Code p \<and> plan_of ext_ref r = p) (t_plans (w_db w))) rs"
proof -
  obtain w raw where r: "shared_steps ext_ref (seconds 60) (seconds 60) (sample_world, {#}, {#}) (w, {#}, {#})"
    "live_value w ''cat:plans'' = Some raw" "decode_plans ext_ref raw = Some (plans_truth ext_ref sample_world)"
    and db: "w_db w = w_db sample_world"
    using plans_cached_run by blast
  obtain r0 where r0: "r0 \<in> set (t_plans (w_db sample_world))" by (auto simp: sample_departments seed_plans_def)
  then have p: "plan_of ext_ref r0 \<in> set (plans_truth ext_ref sample_world)"
    by (simp add: plans_truth_def set_sql_select_plans)
  obtain r' where r': "r' \<in> set (t_plans (w_db w))" "pr_code r' = pr_code r0"
    using cached_plans_are_ancestors [OF sample_fresh r p] by (auto simp: plan_of_def plan_of_row_def)
  have "r' = r0"
    using distinct_key_inj [OF db_ok_ids(2) [OF sample_db_ok]] r' r0 db by auto
  with p r' have "list_ex (\<lambda>p. list_ex (\<lambda>r. pr_code r = p_Code p \<and> plan_of ext_ref r = p) (t_plans (w_db w)))
      (plans_truth ext_ref sample_world)"
    unfolding list_ex_iff by (intro bexI [of _ "plan_of ext_ref r0"] bexI [of _ r0]) simp_all
  with r show ?thesis by blast
qed

text \<open>
  C23. A version of a department read from the cache is as good a lock as one read from the table:
  after every interleaving, an update that sends the version of a cached row the table has moved past is
  refused with a conflict, and changes nothing. Its own transaction is undisturbed, it sends a field to
  change, and the name has no NUL, which PostgreSQL would refuse first.
\<close>

theorem stale_cached_version_refused:
  assumes start: "fresh X w0" and run: "shared_steps X dttl pttl (w0, {#}, {#}) (w, ds, ps)"
    and cached: "live_value w ''cat:departments'' = Some raw" "decode_departments X raw = Some rs" "x \<in> set rs"
    and stale: "x \<notin> set (t_departments (w_db w))" and tx: "next_tx w = tx_ok"
    and some: "name \<noteq> None \<or> isActive \<noteq> None" and nul: "name = None \<or> \<not> has_nul (the name)"
    and upd: "DepartmentRepository_Update X (d_ID x) name isActive (d_RecordVersion x) w = (r, w')"
  shows "(\<exists>v. r = Inl (version_conflict v)) \<and> w_db w' = w_db w"
proof -
  have inv: "departments.inv X (w, ds)"
    using shared_steps_inv [OF run fresh_inv [OF start]] by (simp add: shared_inv_def)
  have db: "db_ok (w_db w)" using departments.invD(1) [OF inv] by (simp add: departments_good_def)
  obtain y where y: "y \<in> set (t_departments (w_db w))" "dept_descends x y"
    using departments.invD(3) [OF inv, of raw rs x] cached by auto
  then have "d_RecordVersion y \<noteq> d_RecordVersion x" and "d_ID y = d_ID x"
    using stale by (auto simp: dept_descends_def)
  then have "dept_update_abs (db_now w) (d_ID x) name isActive (d_RecordVersion x) (w_db w) =
      (Inl (version_conflict (d_RecordVersion y)), w_db w)"
    using find_key_Some [OF db_ok_ids(1) [OF db], of "d_ID x" y] y nul by (auto simp: dept_update_abs_def)
  then show ?thesis
    using DepartmentRepository_Update_abs [OF db_ok_ids(1) [OF db] tx some, of X "d_ID x" "d_RecordVersion x"] upd
    by (auto split: if_splits)
qed

lemma stale_cached_version_refused_witness:
  "\<exists>w v. fst (DepartmentRepository_Update ext_ref 9 (Some ''Late'') None 1 w) = Inl (version_conflict v)
     \<and> t_departments (w_db w) = [renamed_department (db_now custom_world)]"
proof -
  obtain w raw where r: "shared_steps ext_ref (seconds 60) (seconds 60) (custom_world, {#}, {#}) (w, {#}, {#})"
    "live_value w ''cat:departments'' = Some raw" "decode_departments ext_ref raw = Some [custom_department]"
    and t: "t_departments (w_db w) = [renamed_department (db_now custom_world)]" and tx: "next_tx w = tx_ok"
    using race_run by blast
  have upd: "DepartmentRepository_Update ext_ref (d_ID custom_department) (Some ''Late'') None (d_RecordVersion custom_department) w
      = (fst (DepartmentRepository_Update ext_ref 9 (Some ''Late'') None 1 w), snd (DepartmentRepository_Update ext_ref 9 (Some ''Late'') None 1 w))"
    by (simp add: custom_department_def)
  have stale: "custom_department \<notin> set (t_departments (w_db w))" using renamed_differs t by simp
  from stale_cached_version_refused [OF custom_fresh r _ stale tx _ _ upd] t
  show ?thesis by (auto simp: has_nul_def)
qed

text \<open>
  C24. A refused update tells the truth although other transactions commit between its UPDATE, which
  matched no row, and the read that explains why: not found is answered only if the department was not
  there at the UPDATE either, and a conflict reports the version the row has at the read, which is not
  older than the one at the UPDATE, and that one was not the version the client sent. So a client that
  sent a version it was once given learns a newer one.
\<close>

theorem refused_update_tells_the_truth:
  assumes db: "db_ok (w_db w)" and refused: "dept_refused X u name isActive v w = Some (t, w1)"
    and ok: "tf_stmt t = None" "tf_probe t = None"
    and run: "shared_steps X dttl pttl (w1, ds, ps) (w2, ds', ps')"
    and probe: "dept_probe X u t w2 = (r, w3)"
  shows "case find (\<lambda>d. d_ID d = u) (t_departments (w_db w2)) of
           None \<Rightarrow> r = Inl dept_not_found \<and> u \<notin> d_ID ` set (t_departments (w_db w))
         | Some y \<Rightarrow> r = Inl (version_conflict (d_RecordVersion y))
             \<and> (\<forall>d \<in> set (t_departments (w_db w)). d_ID d = u \<longrightarrow> d_RecordVersion d \<noteq> v \<and> d_RecordVersion d \<le> d_RecordVersion y)"
proof -
  have same: "w_db w1 = w_db w" using dept_refused_frame [OF refused] by simp
  have ev: "(db_evolves X)\<^sup>*\<^sup>* (w_db w) (w_db w2)" using shared_steps_evolution [OF run] same by simp
  note ids = db_ok_ids(1) [OF db] and ids2 = db_ok_ids(1) [OF evolution_ok [OF ev db]]
  have later: "\<exists>y. find (\<lambda>d. d_ID d = u) (t_departments (w_db w2)) = Some y \<and> d_RecordVersion d \<le> d_RecordVersion y"
    if d: "d \<in> set (t_departments (w_db w))" "d_ID d = u" for d
  proof -
    from evolution_department [OF ev db d(1)] obtain y where "y \<in> set (t_departments (w_db w2))" "dept_descends d y" by blast
    moreover from this have "find (\<lambda>d. d_ID d = u) (t_departments (w_db w2)) = Some y"
      using find_key_Some [OF ids2] d(2) by (auto simp: dept_descends_def)
    ultimately show ?thesis by (auto simp: dept_descends_def)
  qed
  note answer = dept_probe_result [OF probe ok(2)]
  show ?thesis
  proof (cases "find (\<lambda>d. d_ID d = u) (t_departments (w_db w2))")
    case None
    with later have "u \<notin> d_ID ` set (t_departments (w_db w))" by fastforce
    with None answer show ?thesis by simp
  next
    case (Some y)
    with later have "d_RecordVersion d \<le> d_RecordVersion y" if "d \<in> set (t_departments (w_db w))" "d_ID d = u" for d
      using that by fastforce
    with Some answer dept_refused_row [OF refused ok(1) ids] show ?thesis by simp
  qed
qed

text \<open>An update with version 5 meets version 1, a rename commits, and the answer names version 2.\<close>

lemma refused_update_tells_the_truth_witness:
  "\<exists>t w1 w2 w3. dept_refused ext_ref 9 (Some ''Late'') None 5 custom_world = Some (t, w1)
     \<and> t_departments (w_db w2) = [renamed_department (db_now custom_world)]
     \<and> dept_probe ext_ref 9 t w2 = (Inl (version_conflict 2), w3)"
proof -
  let ?now = "db_now custom_world" and ?w1 = "pop_tx custom_world"
  have ids: "distinct (map d_ID (t_departments (w_db custom_world)))" by simp
  obtain sets args where sets: "dept_update_sql 9 (Some ''Late'') None 5 = (sets, args)" by force
  have "sql_update_department ext_ref ?now sets args (w_db custom_world) = (Inr None, w_db custom_world)"
    using sql_update_department_abs [OF sets ids] by (simp add: custom_department_def has_nul_def)
  then have refused: "dept_refused ext_ref 9 (Some ''Late'') None 5 custom_world = Some (tx_ok, ?w1)"
    using sets by (simp add: dept_refused_def next_tx_def exec_def scanDepartment_NoRows set_db_def)
  have "distinct (map d_ID (t_departments (w_db ?w1)))" and now: "db_now ?w1 = ?now" by (simp_all add: db_now_def)
  then obtain w2 where upd: "DepartmentRepository_Update ext_ref 9 (Some ''Renamed'') None 1 ?w1 = (Inr (renamed_department ?now), w2)"
    and db2: "t_departments (w_db w2) = [renamed_department ?now]"
    using DepartmentRepository_Update_abs [of ?w1 "Some ''Renamed''" None ext_ref 9 1] rename_abs [of ?now]
    by (simp add: next_tx_def)
  have "arrives (departments_catalog ext_ref) (?w1, {#}) (w2, {#Written#})"
    by (rule arrives.written [where a = "UpdateDepartment 9 (Some ''Renamed'') None 1"]) (use upd in simp_all)
  then have run: "shared_steps ext_ref 0 0 (?w1, {#}, {#}) (w2, {#Written#}, {#})"
    by (rule run_one [OF dept_arrival])
  obtain r w3 where probe: "dept_probe ext_ref 9 tx_ok w2 = (r, w3)" by force
  from refused_update_tells_the_truth [OF custom_db_ok refused _ _ run probe] db2
  have "r = Inl (version_conflict 2)" by (simp add: renamed_department_def custom_department_def)
  with refused probe db2 show ?thesis by blast
qed

end
