(* ===== verification/Staleness.thy ===== *)
theory Staleness
  imports Interleaving
begin

text \<open>
  How old a cached catalog can be. Requests carry the time of their arrival and make no call after
  their deadline, which the router sets for every request. Under every interleaving a cached listing is
  then the whole table of a moment that lies at most the time to live and one deadline back.
\<close>

section \<open>Requests with a deadline\<close>

type_synonym ('r, 'a) dated = "(('r, 'a) flight \<times> int) multiset"

definition dated :: "int \<Rightarrow> ('r, 'a) flight multiset \<Rightarrow> ('r, 'a) dated" where
  "dated t fs = image_mset (\<lambda>f. (f, t)) fs"

lemma dated_simps [simp]:
  "dated t {#} = {#}" "dated t (add_mset f fs) = add_mset (f, t) (dated t fs)" "dated t (fs + gs) = dated t fs + dated t gs"
  "image_mset fst (dated t fs) = fs" "x \<in># dated t fs \<longleftrightarrow> (\<exists>f \<in># fs. x = (f, t))"
  by (auto simp: dated_def image_mset.compositionality comp_def)

text \<open>The steps of a catalog, with dates: what a request leaves in flight keeps the date of its arrival.\<close>

inductive dated_step ::
  "('r, 'a) catalog \<Rightarrow> duration \<Rightarrow> int \<Rightarrow> world \<times> ('r, 'a) dated \<Rightarrow> world \<times> ('r, 'a) dated \<Rightarrow> bool"
  for C :: "('r, 'a) catalog" and ttl :: duration and deadline :: int where
  arrival: "arrives C (w, {#}) (w', fs) \<Longrightarrow> dated_step C ttl deadline (w, gs) (w', gs + dated (w_now w) fs)"
| call: "continues C ttl (w, {#f#}) (w', fs) \<Longrightarrow> w_now w \<le> t + deadline \<Longrightarrow>
    dated_step C ttl deadline (w, add_mset (f, t) gs) (w', gs + dated t fs)"
| abandoned: "dated_step C ttl deadline (w, add_mset g gs) (w, gs)"

text \<open>Without the dates these are the steps of before.\<close>

lemma arrives_beside: "arrives C (w, fs) (w', fs') \<longleftrightarrow> (\<exists>new. fs' = fs + new \<and> arrives C (w, {#}) (w', new))"
proof
  assume "arrives C (w, fs) (w', fs')"
  then show "\<exists>new. fs' = fs + new \<and> arrives C (w, {#}) (w', new)"
    by (cases rule: arrives.cases) (auto intro: arrives.intros)
next
  assume "\<exists>new. fs' = fs + new \<and> arrives C (w, {#}) (w', new)"
  then obtain new where fs': "fs' = fs + new" and a: "arrives C (w, {#}) (w', new)" by blast
  from a show "arrives C (w, fs) (w', fs')" unfolding fs'
    by (cases rule: arrives.cases) (auto intro: arrives.intros)
qed

lemma continues_beside: "continues C ttl (w, {#f#}) (w', new) \<Longrightarrow> continues C ttl (w, add_mset f fs) (w', fs + new)"
  by (cases rule: continues.cases) (auto intro: continues.intros)

lemma continues_one:
  assumes "continues C ttl (w, fs) (w', fs')"
  obtains f gs new where "fs = add_mset f gs" and "fs' = gs + new" and "continues C ttl (w, {#f#}) (w', new)"
  using assms
proof (cases rule: continues.cases)
  case (fetched rs gs)
  then show ?thesis using that [of Missed gs "{#Fetched rs#}"] continues.fetched [of C w rs w' ttl "{#}"] by simp
next
  case (fetch_failed e)
  then show ?thesis using that [of Missed fs' "{#}"] continues.fetch_failed [of C w e w' ttl "{#}"] by simp
next
  case (stored rs r)
  then show ?thesis using that [of "Fetched rs" fs' "{#}"] continues.stored [of C rs ttl w r w' "{#}"] by simp
next
  case (invalidated r)
  then show ?thesis using that [of Written fs' "{#}"] continues.invalidated [of C w r w' ttl "{#}"] by simp
next
  case (probed a t r)
  then show ?thesis using that [of "Refused a t" fs' "{#}"] continues.probed [of C a t w r w' ttl "{#}"] by simp
qed

lemma dated_step_undated:
  "dated_step C ttl deadline (w, gs) (w', gs') \<Longrightarrow> catalog_step C ttl (w, image_mset fst gs) (w', image_mset fst gs')"
  by (cases rule: dated_step.cases)
    (auto intro: catalog_step.intros catalog_step.call [OF continues_beside] simp: arrives_beside [of C w "image_mset fst _"])

lemma catalog_step_dated:
  assumes "catalog_step C ttl (w, fs) (w', fs')" and "0 \<le> deadline"
  shows "dated_step C ttl deadline (w, dated (w_now w) fs) (w', dated (w_now w) fs')"
  using assms(1)
proof (cases rule: catalog_step.cases)
  case arrival
  then show ?thesis unfolding arrives_beside [of C w fs] using dated_step.arrival by fastforce
next
  case call
  then obtain f gs new where "fs = add_mset f gs" "fs' = gs + new" "continues C ttl (w, {#f#}) (w', new)"
    by (rule continues_one)
  then show ?thesis using dated_step.call [of C ttl w f w' new "w_now w" deadline "dated (w_now w) gs"] assms(2) by simp
next
  case (abandoned f)
  then show ?thesis by (simp add: dated_step.abandoned)
qed

section \<open>What a provider promises on top\<close>

text \<open>Its repository leaves the keyspace and the clock alone, and a listing is a function of the tables.\<close>

lemma Cache_Get_side: "Cache_Get k w = (r, w') \<Longrightarrow> w_db w' = w_db w \<and> w_now w' = w_now w \<and> w_store w' = w_store w"
  by (auto simp: Cache_Get_def split: cache_fate.splits option.splits)

lemma Cache_Set_side: "Cache_Set k v ttl w = (r, w') \<Longrightarrow> w_db w' = w_db w \<and> w_now w' = w_now w
    \<and> (w_store w' = w_store w \<or> w_store w' = w_store (store_set k v ttl w))"
  by (auto simp: Cache_Set_def store_set_def split: cache_fate.splits if_splits)

lemma Cache_Delete_side: "Cache_Delete ks w = (r, w') \<Longrightarrow> w_db w' = w_db w \<and> w_now w' = w_now w
    \<and> (w_store w' = w_store w \<or> w_store w' = w_store (store_del ks w))"
  by (auto simp: Cache_Delete_def store_del_def split: cache_fate.splits if_splits)

locale timed_provider = catalog_provider C evolves good rows descends storable
  for C :: "('r, 'a) catalog" and evolves :: "db \<Rightarrow> db \<Rightarrow> bool" and good :: "db \<Rightarrow> bool"
    and rows :: "db \<Rightarrow> 'r list" and descends :: "'r \<Rightarrow> 'r \<Rightarrow> bool" and storable :: "'r \<Rightarrow> bool" +
  fixes listing :: "db \<Rightarrow> 'r list"
  assumes list_side: "ca_list C w = (rl, w') \<Longrightarrow> cache_side w' = cache_side w"
    and write_side: "ca_write C a w = (rw, w') \<Longrightarrow> cache_side w' = cache_side w"
    and refused_side: "ca_refused C a w = Some (t, w') \<Longrightarrow> cache_side w' = cache_side w"
    and probe_side: "ca_probe C a t w = (rw, w') \<Longrightarrow> cache_side w' = cache_side w"
    and list_result: "good (w_db w) \<Longrightarrow> ca_list C w = (Inr rs, w') \<Longrightarrow> rs = listing (w_db w)"
    and listing_rows: "good db \<Longrightarrow> set (listing db) \<subseteq> set (rows db)"
begin

text \<open>
  The past is a set of moments with their tables. A listing about to be stored was read at one of them,
  after its request arrived; what is stored expires a time to live and a deadline after one of them.
\<close>

definition read_back :: "(int \<times> db) set \<Rightarrow> int \<Rightarrow> 'r list \<Rightarrow> bool" where
  "read_back past t rs \<longleftrightarrow> (\<exists>(t1, db1) \<in> past. t \<le> t1 \<and> good db1 \<and> rs = listing db1)"

definition timely :: "duration \<Rightarrow> int \<Rightarrow> (int \<times> db) set \<Rightarrow> world \<times> ('r, 'a) dated \<Rightarrow> bool" where
  "timely ttl deadline past s \<longleftrightarrow>
     (case s of (w, gs) \<Rightarrow>
        good (w_db w)
      \<and> (\<forall>(f, t) \<in># gs. t \<le> w_now w \<and> (\<forall>rs. f = Fetched rs \<longrightarrow> read_back past t rs))
      \<and> (\<forall>e. w_store w (ca_key C) = Some e \<longrightarrow>
           (\<exists>x rs. se_expiry e = Some x \<and> se_value e = ca_encode C rs \<and> read_back past (x - sint ttl - deadline) rs)))"

lemma timelyI:
  assumes "good (w_db w)" and "\<And>f t. (f, t) \<in># gs \<Longrightarrow> t \<le> w_now w"
    and "\<And>rs t. (Fetched rs, t) \<in># gs \<Longrightarrow> read_back past t rs"
    and "\<And>e. w_store w (ca_key C) = Some e \<Longrightarrow>
      \<exists>x rs. se_expiry e = Some x \<and> se_value e = ca_encode C rs \<and> read_back past (x - sint ttl - deadline) rs"
  shows "timely ttl deadline past (w, gs)"
  using assms by (auto simp: timely_def)

lemma timelyD:
  assumes "timely ttl deadline past (w, gs)"
  shows "good (w_db w)" and "(f, t) \<in># gs \<Longrightarrow> t \<le> w_now w" and "(Fetched rs, t) \<in># gs \<Longrightarrow> read_back past t rs"
    and "w_store w (ca_key C) = Some e \<Longrightarrow>
      \<exists>x rs. se_expiry e = Some x \<and> se_value e = ca_encode C rs \<and> read_back past (x - sint ttl - deadline) rs"
  using assms by (auto simp: timely_def)

lemma read_back_mono:
  assumes "read_back past t rs" and "past \<subseteq> past'" and "t' \<le> t"
  shows "read_back past' t' rs"
proof -
  from assms(1) obtain t1 db1 where "(t1, db1) \<in> past" "t \<le> t1" "good db1" "rs = listing db1"
    by (auto simp: read_back_def)
  with assms(2,3) show ?thesis unfolding read_back_def by (intro bexI [of _ "(t1, db1)"]) auto
qed

lemma timely_mono:
  assumes "timely ttl deadline past s" and "past \<subseteq> past'"
  shows "timely ttl deadline past' s"
proof -
  obtain w gs where s: "s = (w, gs)" by force
  note t = assms(1) [unfolded s] and later = read_back_mono [OF _ assms(2) order_refl]
  show ?thesis unfolding s
  proof (rule timelyI)
    show "\<exists>x rs. se_expiry e = Some x \<and> se_value e = ca_encode C rs \<and> read_back past' (x - sint ttl - deadline) rs"
      if "w_store w (ca_key C) = Some e" for e
      using timelyD(4) [OF t that] later by blast
  qed (use timelyD(1-3) [OF t] later in blast)+
qed

text \<open>Anything that evolves the tables, lets time pass and stores nothing under the key keeps it.\<close>

lemma timely_evolve:
  assumes t: "timely ttl deadline past (w, gs)" and ev: "evolves (w_db w) (w_db w')" and now: "w_now w \<le> w_now w'"
    and store: "\<And>e. w_store w' (ca_key C) = Some e \<Longrightarrow> w_store w (ca_key C) = Some e"
    and sub: "\<And>f t. (f, t) \<in># gs' \<Longrightarrow> (f, t) \<in># gs \<or> (t \<le> w_now w' \<and> (\<forall>rs. f \<noteq> Fetched rs))"
  shows "timely ttl deadline past (w', gs')"
proof (rule timelyI)
  show "good (w_db w')" using evolves_good [OF ev timelyD(1) [OF t]] .
  show "s \<le> w_now w'" if "(f, s) \<in># gs'" for f s
    using sub [OF that] timelyD(2) [OF t, of f s] now by auto
  show "read_back past s rs" if "(Fetched rs, s) \<in># gs'" for rs s
    using sub [OF that] timelyD(3) [OF t] by auto
  show "\<exists>x rs. se_expiry e = Some x \<and> se_value e = ca_encode C rs \<and> read_back past (x - sint ttl - deadline) rs"
    if "w_store w' (ca_key C) = Some e" for e
    using timelyD(4) [OF t store [OF that]] .
qed

lemma arrives_side:
  assumes "arrives C (w, {#}) (w', new)"
  shows "evolves (w_db w) (w_db w')" and "w_now w' = w_now w" and "w_store w' = w_store w" and "Fetched rs \<notin># new"
proof -
  have "evolves (w_db w) (w_db w') \<and> w_now w' = w_now w \<and> w_store w' = w_store w \<and> Fetched rs \<notin># new"
    using assms
  proof (cases rule: arrives.cases)
    case (hit raw rs)
    then show ?thesis using Cache_Get_side [OF hit(2)] evolves_refl by simp
  next
    case (miss rg)
    then show ?thesis using Cache_Get_side [OF miss(2)] evolves_refl by simp
  next
    case (written a r)
    then show ?thesis using write_evolves write_side [of a w _ w'] by (auto simp: cache_side_def)
  next
    case (write_failed a e)
    then show ?thesis using write_evolves write_side [of a w _ w'] by (auto simp: cache_side_def)
  next
    case (refused a t)
    then show ?thesis using refused_frame [OF refused(3)] refused_side [OF refused(3)] evolves_refl by (simp add: cache_side_def)
  qed
  then show "evolves (w_db w) (w_db w')" and "w_now w' = w_now w" and "w_store w' = w_store w" and "Fetched rs \<notin># new"
    by blast+
qed

lemma continues_side:
  assumes "continues C ttl (w, {#f#}) (w', new)"
  shows "w_db w' = w_db w" and "w_now w' = w_now w" and "k \<noteq> ca_key C \<Longrightarrow> w_store w' k = w_store w k"
proof -
  have "w_db w' = w_db w \<and> w_now w' = w_now w \<and> (k \<noteq> ca_key C \<longrightarrow> w_store w' k = w_store w k)"
    using assms
  proof (cases rule: continues.cases)
    case (fetched rs)
    then show ?thesis using list_frame list_side by (force simp: cache_side_def)
  next
    case (fetch_failed e)
    then show ?thesis using list_frame list_side by (force simp: cache_side_def)
  next
    case (stored rs r)
    then show ?thesis using Cache_Set_side [OF stored(2)] by (auto simp: store_set_def)
  next
    case (invalidated r)
    then show ?thesis using Cache_Delete_side [OF invalidated(2)] by (auto simp: store_del_def)
  next
    case (probed a t r)
    then show ?thesis using probe_frame probe_side by (force simp: cache_side_def)
  qed
  then show "w_db w' = w_db w" and "w_now w' = w_now w" and "k \<noteq> ca_key C \<Longrightarrow> w_store w' k = w_store w k" by blast+
qed

lemma dated_step_side:
  assumes "dated_step C ttl deadline (w, gs) (w', gs')"
  shows "evolves (w_db w) (w_db w')" and "w_now w' = w_now w" and "k \<noteq> ca_key C \<Longrightarrow> w_store w' k = w_store w k"
  using assms by (cases rule: dated_step.cases, auto dest: arrives_side continues_side simp: evolves_refl)+

text \<open>A step on the catalog keeps it: what is stored was read after its request arrived, and before its deadline.\<close>

lemma dated_step_timely:
  assumes step: "dated_step C ttl deadline (w, gs) (w', gs')" and t: "timely ttl deadline past (w, gs)"
    and here: "(w_now w, w_db w) \<in> past" and ttl: "0 < sint ttl"
  shows "timely ttl deadline past (w', gs')"
  using step
proof (cases rule: dated_step.cases)
  case (arrival new)
  note side = arrives_side [OF arrival(2)]
  show ?thesis
    by (rule timely_evolve [OF t side(1)]) (use side arrival(1) in auto)
next
  case (call f new s rest)
  have good: "good (w_db w)" and arrived: "s \<le> w_now w"
    using timelyD(1) [OF t] timelyD(2) [OF t, of f s] call(1) by auto
  from call(3) show ?thesis
  proof (cases rule: continues.cases)
    case (fetched rs)
    have side: "w_db w' = w_db w" "w_store w' = w_store w" "w_now w' = w_now w"
      using list_frame [OF fetched(3)] list_side [OF fetched(3)] by (simp_all add: cache_side_def)
    have new: "read_back past s rs"
      using here arrived good list_result [OF good fetched(3)] unfolding read_back_def by force
    show ?thesis
    proof (rule timelyI)
      show "u \<le> w_now w'" if "(g, u) \<in># gs'" for g u
        using that call(1,2) fetched(1,2) arrived timelyD(2) [OF t, of g u] side by auto
      show "read_back past u es" if "(Fetched es, u) \<in># gs'" for es u
        using that call(1,2) fetched(1,2) new timelyD(3) [OF t, of es u] by auto
    qed (use good side timelyD(4) [OF t] in auto)
  next
    case (fetch_failed e)
    have "w_db w' = w_db w" "w_store w' = w_store w" "w_now w' = w_now w"
      using list_frame [OF fetch_failed(2)] list_side [OF fetch_failed(2)] by (simp_all add: cache_side_def)
    then show ?thesis by (intro timely_evolve [OF t]) (use evolves_refl call(1,2) fetch_failed(1) in auto)
  next
    case (stored rs r)
    from timelyD(3) [OF t, of rs s] call(1) stored(1) have rb: "read_back past s rs" by simp
    have db: "w_db w' = w_db w" and now: "w_now w' = w_now w"
      using Cache_Set_side [OF stored(2)] by (auto simp: store_set_def)
    show ?thesis
    proof (rule timelyI)
      show "\<exists>x es. se_expiry e = Some x \<and> se_value e = ca_encode C es \<and> read_back past (x - sint ttl - deadline) es"
        if e: "w_store w' (ca_key C) = Some e" for e
      proof (cases "w_store w' = w_store w")
        case True
        with e show ?thesis using timelyD(4) [OF t] by simp
      next
        case False
        with e Cache_Set_side [OF stored(2)] ttl
        have "se_expiry e = Some (w_now w + sint ttl)" "se_value e = ca_encode C rs" by (auto simp: store_set_def)
        then show ?thesis using read_back_mono [OF rb subset_refl, of "w_now w - deadline"] call(4) by auto
      qed
    qed (use good db now call(1,2) stored(1) timelyD(2,3) [OF t] in auto)
  next
    case (invalidated r)
    show ?thesis
      by (rule timely_evolve [OF t])
        (use Cache_Delete_side [OF invalidated(2)] evolves_refl call(1,2) invalidated(1) in \<open>auto simp: store_del_def\<close>)
  next
    case (probed a u r)
    have "w_db w' = w_db w" "w_store w' = w_store w" "w_now w' = w_now w"
      using probe_frame [OF probed(2)] probe_side [OF probed(2)] by (simp_all add: cache_side_def)
    then show ?thesis by (intro timely_evolve [OF t]) (use evolves_refl call(1,2) probed(1) in auto)
  qed
next
  case (abandoned g)
  show ?thesis by (rule timely_evolve [OF t]) (use abandoned evolves_refl in auto)
qed

text \<open>What a timely state has cached and not expired is a listing of a moment not long ago.\<close>

lemma timely_cached:
  assumes t: "timely ttl deadline past (w, gs)" and live: "live_value w (ca_key C) = Some raw"
  shows "\<exists>(t1, db1) \<in> past. w_now w < t1 + sint ttl + deadline \<and> good db1 \<and> ca_decode C raw = Some (listing db1)"
proof -
  from live obtain e where e: "w_store w (ca_key C) = Some e" and raw: "raw = se_value e"
    and unexpired: "\<And>x. se_expiry e = Some x \<Longrightarrow> w_now w < x"
    by (auto simp: live_value_def split: option.splits if_splits)
  from timelyD(4) [OF t e] obtain x t1 db1 where "se_expiry e = Some x" and m: "(t1, db1) \<in> past"
    and "x - sint ttl - deadline \<le> t1" and good: "good db1" and val: "se_value e = ca_encode C (listing db1)"
    unfolding read_back_def by blast
  moreover from this unexpired have "w_now w < t1 + sint ttl + deadline" by force
  moreover have "ca_decode C raw = Some (listing db1)" unfolding raw val
    by (rule snapshot) (use listing_rows [OF good] rows_storable [OF good] in blast)
  ultimately show ?thesis by blast
qed

end

section \<open>Both catalogs\<close>

lemma dept_refused_side: "dept_refused X u name isActive v w = Some (t, w1) \<Longrightarrow> cache_side w1 = cache_side w"
  by (auto elim!: dept_refusedE dest!: exec_cache_side)

lemma plan_refused_side: "plan_refused X code patch w = Some (t, w1) \<Longrightarrow> cache_side w1 = cache_side w"
  by (auto elim!: plan_refusedE dest!: exec_cache_side)

lemma dept_probe_side: "dept_probe X u t w = (r, w1) \<Longrightarrow> cache_side w1 = cache_side w"
  by (auto simp: dept_probe_def Let_def)

lemma plan_probe_side: "plan_probe X code t w = (r, w1) \<Longrightarrow> cache_side w1 = cache_side w"
  by (auto simp: plan_probe_def Let_def)

definition plans_listing :: "ext \<Rightarrow> db \<Rightarrow> plan list" where
  "plans_listing X db = map (plan_of X) (sql_select_plans db)"

interpretation dated_departments: timed_provider "departments_catalog X" "db_evolves X" "departments_good X"
  t_departments dept_descends "dept_storable X" "sql_select_departments X False" for X
proof (unfold_locales, goal_cases)
  case (1 w rl w') then show ?case by (auto dest: DepartmentRepository_List_frame)
next
  case (2 a w rw w')
  then show ?case by (cases a) (auto dest: DepartmentRepository_Insert_frame DepartmentRepository_Update_frame)
next
  case (3 a w t w') then show ?case by (cases a) (auto dest: dept_refused_side)
next
  case (4 a t w rw w') then show ?case by (cases a) (auto dest: dept_probe_side)
next
  case (5 w rs w') then show ?case by (auto dest: DepartmentRepository_List_result)
next
  case (6 db) then show ?case by (simp add: sql_select_departments_set)
qed

interpretation dated_plans: timed_provider "plans_catalog X" "db_evolves X" "plans_good X"
  "plan_rows X" plan_follows "plan_storable X" "plans_listing X" for X
proof (unfold_locales, goal_cases)
  case (1 w rl w') then show ?case by (auto dest: PlanRepository_List_frame)
next
  case (2 a w rw w') then show ?case by (cases a) (auto dest: PlanRepository_Update_frame)
next
  case (3 a w t w') then show ?case by (cases a) (auto dest: plan_refused_side)
next
  case (4 a t w rw w') then show ?case by (cases a) (auto dest: plan_probe_side)
next
  case (5 w rs w')
  then have l: "PlanRepository_List X w = (Inr rs, w')" by simp
  have "list_all (row_scans X) (sql_select_plans (w_db w))"
    using 5(1) by (simp add: plans_good_def plans_scan_def list_all_iff set_sql_select_plans)
  from scan_rows_ok [OF this] PlanRepository_List_result [OF l] show ?case by (simp add: plans_listing_def)
next
  case (6 db) then show ?case by (simp add: plans_listing_def plan_rows_def set_sql_select_plans)
qed

section \<open>Steps of the service\<close>

type_synonym dated_state = "world \<times> (department, dept_command) dated \<times> (plan, plan_command) dated"

inductive timed_step :: "ext \<Rightarrow> duration \<Rightarrow> duration \<Rightarrow> int \<Rightarrow> dated_state \<Rightarrow> dated_state \<Rightarrow> bool"
  for X :: ext and dttl :: duration and pttl :: duration and deadline :: int where
  on_departments: "dated_step (departments_catalog X) dttl deadline (w, ds) (w', ds') \<Longrightarrow>
    timed_step X dttl pttl deadline (w, ds, ps) (w', ds', ps)"
| on_plans: "dated_step (plans_catalog X) pttl deadline (w, ps) (w', ps') \<Longrightarrow>
    timed_step X dttl pttl deadline (w, ds, ps) (w', ds, ps')"
| environment: "w_db w' = w_db w \<Longrightarrow> w_store w' = w_store w \<Longrightarrow> w_now w \<le> w_now w' \<Longrightarrow>
    timed_step X dttl pttl deadline (w, ds, ps) (w', ds, ps)"

abbreviation timed_steps :: "ext \<Rightarrow> duration \<Rightarrow> duration \<Rightarrow> int \<Rightarrow> dated_state \<Rightarrow> dated_state \<Rightarrow> bool" where
  "timed_steps X dttl pttl deadline \<equiv> (timed_step X dttl pttl deadline)\<^sup>*\<^sup>*"

text \<open>They are steps of the service without dates, so what holds under every interleaving holds here.\<close>

definition undated :: "dated_state \<Rightarrow> service_state" where
  "undated s = (case s of (w, ds, ps) \<Rightarrow> (w, image_mset fst ds, image_mset fst ps))"

lemma timed_step_undated: "timed_step X dttl pttl deadline s s' \<Longrightarrow> shared_step X dttl pttl (undated s) (undated s')"
  by (erule timed_step.cases) (auto simp: undated_def intro: shared_step.intros dated_step_undated)

lemma timed_steps_undated:
  "timed_steps X dttl pttl deadline s s' \<Longrightarrow> shared_steps X dttl pttl (undated s) (undated s')"
  by (induction rule: rtranclp_induct) (auto intro: rtranclp.rtrancl_into_rtrancl timed_step_undated)

text \<open>Conversely, a run of the service during which no time passes meets every deadline.\<close>

lemma shared_step_dated:
  assumes "shared_step X dttl pttl (w, ds, ps) (w', ds', ps')" and "0 \<le> deadline"
  shows "w_now w \<le> w_now w'" and "w_now w' = w_now w \<Longrightarrow> timed_step X dttl pttl deadline
      (w, dated (w_now w) ds, dated (w_now w) ps) (w', dated (w_now w') ds', dated (w_now w') ps')"
proof -
  have "w_now w \<le> w_now w' \<and> (w_now w' = w_now w \<longrightarrow> timed_step X dttl pttl deadline
      (w, dated (w_now w) ds, dated (w_now w) ps) (w', dated (w_now w') ds', dated (w_now w') ps'))"
    using assms(1)
  proof (cases rule: shared_step.cases)
    case on_departments
    note d = catalog_step_dated [OF on_departments(2) assms(2)]
    show ?thesis using dated_departments.dated_step_side(2) [OF d] timed_step.on_departments [OF d] on_departments(1) by simp
  next
    case on_plans
    note d = catalog_step_dated [OF on_plans(2) assms(2)]
    show ?thesis using dated_plans.dated_step_side(2) [OF d] timed_step.on_plans [OF d] on_plans(1) by simp
  next
    case environment
    then show ?thesis by (simp add: timed_step.environment)
  qed
  then show "w_now w \<le> w_now w'" and "w_now w' = w_now w \<Longrightarrow> timed_step X dttl pttl deadline
      (w, dated (w_now w) ds, dated (w_now w) ps) (w', dated (w_now w') ds', dated (w_now w') ps')" by blast+
qed

definition all_dated :: "service_state \<Rightarrow> dated_state" where
  "all_dated s = (case s of (w, ds, ps) \<Rightarrow> (w, dated (w_now w) ds, dated (w_now w) ps))"

lemma instant_run:
  assumes "shared_steps X dttl pttl s s'" and "0 \<le> deadline" and "w_now (fst s') = w_now (fst s)"
  shows "timed_steps X dttl pttl deadline (all_dated s) (all_dated s')"
proof -
  have "w_now (fst s) \<le> w_now (fst s')
      \<and> (w_now (fst s') = w_now (fst s) \<longrightarrow> timed_steps X dttl pttl deadline (all_dated s) (all_dated s'))"
    using assms(1)
  proof (induction rule: rtranclp_induct)
    case base
    show ?case by simp
  next
    case (step m s')
    obtain w ds ps w' ds' ps' where s: "m = (w, ds, ps)" "s' = (w', ds', ps')" by (metis prod_cases3)
    note d = shared_step_dated [OF step.hyps(2) [unfolded s] assms(2)]
    show ?case
    proof (cases "w_now w' = w_now (fst s)")
      case True
      then have "w_now w' = w_now w" "w_now w = w_now (fst s)" using d(1) step.IH s by auto
      with d(2) step.IH s show ?thesis by (auto simp: all_dated_def intro: rtranclp.rtrancl_into_rtrancl)
    qed (use d(1) step.IH s in auto)
  qed
  with assms(3) show ?thesis by simp
qed

section \<open>Staleness\<close>

text \<open>The moments of a run, with their tables.\<close>

definition moments :: "ext \<Rightarrow> duration \<Rightarrow> duration \<Rightarrow> int \<Rightarrow> dated_state \<Rightarrow> dated_state \<Rightarrow> (int \<times> db) set" where
  "moments X dttl pttl deadline s0 s =
     {(w_now w1, w_db w1) | w1 ds1 ps1. timed_steps X dttl pttl deadline s0 (w1, ds1, ps1)
        \<and> timed_steps X dttl pttl deadline (w1, ds1, ps1) s}"

lemma moments_now: "timed_steps X dttl pttl deadline s0 (w, ds, ps) \<Longrightarrow> (w_now w, w_db w) \<in> moments X dttl pttl deadline s0 (w, ds, ps)"
  unfolding moments_def by blast

lemma moments_mono: "timed_step X dttl pttl deadline s s' \<Longrightarrow> moments X dttl pttl deadline s0 s \<subseteq> moments X dttl pttl deadline s0 s'"
  unfolding moments_def by (auto intro: rtranclp.rtrancl_into_rtrancl)

definition both_timely :: "ext \<Rightarrow> duration \<Rightarrow> duration \<Rightarrow> int \<Rightarrow> (int \<times> db) set \<Rightarrow> dated_state \<Rightarrow> bool" where
  "both_timely X dttl pttl deadline past s \<longleftrightarrow>
     (case s of (w, ds, ps) \<Rightarrow> dated_departments.timely X dttl deadline past (w, ds) \<and> dated_plans.timely X pttl deadline past (w, ps))"

lemma timed_step_timely:
  assumes "timed_step X dttl pttl deadline s s'" and t: "both_timely X dttl pttl deadline past s"
    and here: "(w_now (fst s), w_db (fst s)) \<in> past" and ttl: "0 < sint dttl" "0 < sint pttl"
  shows "both_timely X dttl pttl deadline past s'"
  using assms(1)
proof (cases rule: timed_step.cases)
  case (on_departments w ds w' ds' ps)
  note side = dated_departments.dated_step_side [OF on_departments(3)]
  have "dated_departments.timely X dttl deadline past (w', ds')"
    by (rule dated_departments.dated_step_timely [OF on_departments(3)])
      (use t here ttl on_departments(1) in \<open>simp_all add: both_timely_def\<close>)
  moreover have "dated_plans.timely X pttl deadline past (w', ps)"
    by (rule dated_plans.timely_evolve [of X pttl deadline past w ps])
      (use t on_departments(1) side(1,2) side(3) [of "''cat:plans''"] in \<open>simp_all add: both_timely_def\<close>)
  ultimately show ?thesis using on_departments(2) by (simp add: both_timely_def)
next
  case (on_plans w ps w' ps' ds)
  note side = dated_plans.dated_step_side [OF on_plans(3)]
  have "dated_plans.timely X pttl deadline past (w', ps')"
    by (rule dated_plans.dated_step_timely [OF on_plans(3)])
      (use t here ttl on_plans(1) in \<open>simp_all add: both_timely_def\<close>)
  moreover have "dated_departments.timely X dttl deadline past (w', ds)"
    by (rule dated_departments.timely_evolve [of X dttl deadline past w ds])
      (use t on_plans(1) side(1,2) side(3) [of "''cat:departments''"] in \<open>simp_all add: both_timely_def\<close>)
  ultimately show ?thesis using on_plans(2) by (simp add: both_timely_def)
next
  case (environment w' w ds ps)
  have "dated_departments.timely X dttl deadline past (w', ds)"
    by (rule dated_departments.timely_evolve [of X dttl deadline past w ds])
      (use t environment db_evolves.unchanged [of X "w_db w"] in \<open>simp_all add: both_timely_def\<close>)
  moreover have "dated_plans.timely X pttl deadline past (w', ps)"
    by (rule dated_plans.timely_evolve [of X pttl deadline past w ps])
      (use t environment db_evolves.unchanged [of X "w_db w"] in \<open>simp_all add: both_timely_def\<close>)
  ultimately show ?thesis using environment(2) by (simp add: both_timely_def)
qed

text \<open>A service that starts with well-formed tables and an empty keyspace.\<close>

lemma timed_run_timely:
  assumes start: "fresh X w0" "w_store w0 = Map.empty" and ttl: "0 < sint dttl" "0 < sint pttl"
    and run: "timed_steps X dttl pttl deadline (w0, {#}, {#}) s"
  shows "both_timely X dttl pttl deadline (moments X dttl pttl deadline (w0, {#}, {#}) s) s"
  using run
proof (induction rule: rtranclp_induct)
  case base
  show ?case
    using start by (auto simp: both_timely_def fresh_def departments_good_def plans_good_def
        intro!: dated_departments.timelyI dated_plans.timelyI)
next
  case (step s s')
  obtain w ds ps where s: "s = (w, ds, ps)" by (metis prod_cases3)
  have "both_timely X dttl pttl deadline (moments X dttl pttl deadline (w0, {#}, {#}) s) s'"
    by (rule timed_step_timely [OF step.hyps(2) step.IH _ ttl]) (use moments_now step.hyps(1) s in auto)
  then show ?case
    using moments_mono [OF step.hyps(2)] dated_departments.timely_mono dated_plans.timely_mono
    by (auto simp: both_timely_def)
qed

lemma pg_plan_ttl_positive: "0 < sint (ps_cacheTTL (pg_plan_service X ttl))"
  using seconds_60
  by (simp add: pg_plan_service_def PlanService_WithCacheTTL_def NewPlanService_def defaultPlansCacheTTL_def)

lemma moments_past:
  "(\<exists>(t1, db1) \<in> moments X dttl pttl deadline s0 s. P t1 db1) \<longleftrightarrow>
     (\<exists>w1 ds1 ps1. timed_steps X dttl pttl deadline s0 (w1, ds1, ps1)
        \<and> timed_steps X dttl pttl deadline (w1, ds1, ps1) s \<and> P (w_now w1) (w_db w1))"
  unfolding moments_def by blast

text \<open>A run of the service that main composes, with the times to live it takes from its environment.\<close>

definition service_run :: "ext \<Rightarrow> environ \<Rightarrow> int \<Rightarrow> dated_state \<Rightarrow> dated_state \<Rightarrow> bool" where
  "service_run X env deadline =
     timed_steps X (ds_cacheTTL (rt_Departments (compose X env))) (ps_cacheTTL (rt_Plans (compose X env))) deadline"

text \<open>
  C27. How old a cached catalog can be. If no request makes a call after its deadline, then whatever
  CATALOG_TTL_SECONDS says (nothing, garbage, a negative number, one that overflows) and under every
  interleaving of requests on both catalogs, with any failures, what is cached of a catalog and has not
  expired is the whole table, in its order, as it was at one moment of the run, and that moment is less
  than the time to live and the deadline ago. With the deadline the router sets (30 s) and the default
  time to live (60 s) no listing is a minute and a half old. Entries expire to the nanosecond here;
  go-redis sends whole milliseconds, rounded down, and one millisecond for less, so the bound is the
  same but for a setting that overflows to less than a millisecond.
\<close>

theorem cached_catalogs_are_recent:
  assumes "fresh X w0" and "w_store w0 = Map.empty"
    and "service_run X env deadline (w0, {#}, {#}) (w, ds, ps)"
  shows "(\<forall>raw. live_value w ''cat:departments'' = Some raw \<longrightarrow>
            (\<exists>w1 ds1 ps1. service_run X env deadline (w0, {#}, {#}) (w1, ds1, ps1)
              \<and> service_run X env deadline (w1, ds1, ps1) (w, ds, ps)
              \<and> w_now w < w_now w1 + sint (ds_cacheTTL (rt_Departments (compose X env))) + deadline
              \<and> decode_departments X raw = Some (sql_select_departments X False (w_db w1))))
       \<and> (\<forall>raw. live_value w ''cat:plans'' = Some raw \<longrightarrow>
            (\<exists>w1 ds1 ps1. service_run X env deadline (w0, {#}, {#}) (w1, ds1, ps1)
              \<and> service_run X env deadline (w1, ds1, ps1) (w, ds, ps)
              \<and> w_now w < w_now w1 + sint (ps_cacheTTL (rt_Plans (compose X env))) + deadline
              \<and> decode_plans X raw = Some (map (plan_of X) (sql_select_plans (w_db w1)))))"
proof -
  let ?d = "ds_cacheTTL (rt_Departments (compose X env))" and ?p = "ps_cacheTTL (rt_Plans (compose X env))"
  let ?past = "moments X ?d ?p deadline (w0, {#}, {#}) (w, ds, ps)"
  have "both_timely X ?d ?p deadline ?past (w, ds, ps)"
    by (rule timed_run_timely [OF assms(1,2) _ _ assms(3) [unfolded service_run_def]])
      (simp_all add: compose_def pg_ttl_positive pg_plan_ttl_positive)
  then have d: "dated_departments.timely X ?d deadline ?past (w, ds)" and p: "dated_plans.timely X ?p deadline ?past (w, ps)"
    by (simp_all add: both_timely_def)
  have "\<exists>(t1, db1) \<in> ?past. w_now w < t1 + sint ?d + deadline \<and> decode_departments X raw = Some (sql_select_departments X False db1)"
    if "live_value w ''cat:departments'' = Some raw" for raw
    using dated_departments.timely_cached [OF d, of raw] that by auto
  moreover have "\<exists>(t1, db1) \<in> ?past. w_now w < t1 + sint ?p + deadline \<and> decode_plans X raw = Some (map (plan_of X) (sql_select_plans db1))"
    if "live_value w ''cat:plans'' = Some raw" for raw
    using dated_plans.timely_cached [OF p, of raw] that by (auto simp: plans_listing_def)
  ultimately show ?thesis unfolding moments_past service_run_def by blast
qed

text \<open>
  The race of a listing with a rename: the cached listing is the table of a moment before the rename.
\<close>

theorem cached_catalogs_are_recent_witness:
  "\<exists>w (w1 :: world) raw. live_value w ''cat:departments'' = Some raw
     \<and> decode_departments ext_ref raw = Some (sql_select_departments ext_ref False (w_db w1))
     \<and> t_departments (w_db w) = [renamed_department (db_now custom_world)]
     \<and> sql_select_departments ext_ref False (w_db w1) = [custom_department]
     \<and> w_now w < w_now w1 + sint (seconds 60) + 30000000000"
proof -
  obtain w raw where r: "shared_steps ext_ref (seconds 60) (seconds 60) (custom_world, {#}, {#}) (w, {#}, {#})"
    "live_value w ''cat:departments'' = Some raw" "decode_departments ext_ref raw = Some [custom_department]"
    "t_departments (w_db w) = [renamed_department (db_now custom_world)]" "w_now w = w_now custom_world"
    using race_run by blast
  have "catalogTTL (\<lambda>v. ''x'') = seconds 60"
    by (simp add: catalogTTL_def catalogTTLSeconds_def envOr_def Atoi_def is_digit_def seconds_def)
  then have ttl: "ds_cacheTTL (rt_Departments (compose ext_ref (\<lambda>v. ''x''))) = seconds 60"
    "ps_cacheTTL (rt_Plans (compose ext_ref (\<lambda>v. ''x''))) = seconds 60"
    by (simp_all add: compose_def pg_department_service_def DepartmentService_WithCacheTTL_def NewDepartmentService_def
        pg_plan_service_def PlanService_WithCacheTTL_def NewPlanService_def seconds_60)
  have run: "service_run ext_ref (\<lambda>v. ''x'') 30000000000 (custom_world, {#}, {#}) (w, {#}, {#})"
    unfolding service_run_def ttl using instant_run [OF r(1), of 30000000000] r(5) by (simp add: all_dated_def)
  have "w_store custom_world = Map.empty" by (simp add: custom_world_def sample_world_def)
  note recent = conjunct1 [OF cached_catalogs_are_recent [OF custom_fresh this run], THEN spec, THEN mp, OF r(2), unfolded ttl]
  show ?thesis
  proof (rule exE [OF recent], elim exE conjE)
    fix w1 :: world and ds1 ps1 assume n: "w_now w < w_now w1 + sint (seconds 60) + 30000000000"
      and d: "decode_departments ext_ref raw = Some (sql_select_departments ext_ref False (w_db w1))"
    have rows: "sql_select_departments ext_ref False (w_db w1) = [custom_department]"
      using d unfolding r(3) by (simp only: option.inject)
    show ?thesis
      by (rule exI [of _ w], rule exI [of _ w1], rule exI [of _ raw]) (intro conjI r(2,4) n d rows)
  qed
qed

end
