(* ===== verification/Served_Runs.thy ===== *)
theory Served_Runs
  imports Interleaving
begin

text \<open>
  How the interleaving model relates to the server, and the race the server has. A request that is
  served alone is a run of port calls as the model has them, which it leaves nothing of in flight; and
  a listing between whose two calls a rename is served puts the old catalog back into the cache.
\<close>

section \<open>The calls of a catalog\<close>

text \<open>The calls requests make on a catalog: no faults of its own, and nothing is abandoned.\<close>

inductive call_of :: "('r, 'a) catalog \<Rightarrow> duration \<Rightarrow> world \<times> ('r, 'a) flight multiset \<Rightarrow> world \<times> ('r, 'a) flight multiset \<Rightarrow> bool"
  for C :: "('r, 'a) catalog" and ttl :: duration where
  first: "arrives C s s' \<Longrightarrow> call_of C ttl s s'"
| next_call: "continues C ttl s s' \<Longrightarrow> call_of C ttl s s'"

abbreviation calls_of :: "('r, 'a) catalog \<Rightarrow> duration \<Rightarrow> world \<times> ('r, 'a) flight multiset \<Rightarrow> world \<times> ('r, 'a) flight multiset \<Rightarrow> bool" where
  "calls_of C ttl \<equiv> (call_of C ttl)\<^sup>*\<^sup>*"

lemma calls_snoc: "calls_of C ttl s s' \<Longrightarrow> call_of C ttl s' s'' \<Longrightarrow> calls_of C ttl s s''"
  by (rule rtranclp.rtrancl_into_rtrancl)

text \<open>The two patterns of the services, a read-through and a write that invalidates, are such calls.\<close>

lemma read_through_calls:
  assumes rt: "read_through (Some valkey_port) (ca_key C) (ca_decode C) (ca_encode C) ttl (ca_list C) w = (r, w')"
  shows "calls_of C ttl (w, fs) (w', fs)"
proof -
  obtain rg w1 where get: "Cache_Get (ca_key C) w = (rg, w1)" by force
  let ?h = "case rg of Inr (Some raw) \<Rightarrow> ca_decode C raw | _ \<Rightarrow> None"
  show ?thesis
  proof (cases ?h)
    case (Some rs)
    then obtain raw where "rg = Inr (Some raw)" "ca_decode C raw = Some rs" by (auto split: sum.splits option.splits)
    moreover have "w' = w1" using rt get Some by (simp add: read_through_def)
    ultimately have "arrives C (w, fs) (w', fs)" using get by (auto intro: arrives.hit)
    then show ?thesis by (blast intro: first)
  next
    case None
    then have "arrives C (w, fs) (w1, add_mset Missed fs)" using get by (intro arrives.miss) auto
    then have s1: "calls_of C ttl (w, fs) (w1, add_mset Missed fs)" by (blast intro: first)
    obtain q w2 where f: "ca_list C w1 = (q, w2)" by force
    show ?thesis
    proof (cases q)
      case (Inl e)
      then have "continues C ttl (w1, add_mset Missed fs) (w2, fs)" using f by (intro continues.fetch_failed) simp
      moreover have "w' = w2" using rt get None f Inl by (simp add: read_through_def)
      ultimately show ?thesis using s1 by (blast intro: calls_snoc next_call)
    next
      case (Inr rs)
      then have c1: "continues C ttl (w1, add_mset Missed fs) (w2, add_mset (Fetched rs) fs)"
        using f by (intro continues.fetched) simp
      obtain rset w3 where st: "Cache_Set (ca_key C) (ca_encode C rs) ttl w2 = (rset, w3)" by force
      then have "continues C ttl (w2, add_mset (Fetched rs) fs) (w3, fs)" by (rule continues.stored)
      moreover have "w' = w3" using rt get None f Inr st by (simp add: read_through_def)
      ultimately show ?thesis using calls_snoc [OF s1 next_call [OF c1]] by (blast intro: calls_snoc next_call)
    qed
  qed
qed

lemma write_then_invalidate_calls:
  assumes "write_then_invalidate (Some valkey_port) (ca_key C) (ca_write C a) w = (r, w')" and "ca_admits C a"
  shows "calls_of C ttl (w, fs) (w', fs)"
  using assms(1)
proof (cases rule: write_then_invalidate_pg)
  case (error e)
  then have "arrives C (w, fs) (w', fs)" using assms(2) by (auto intro: arrives.write_failed)
  then show ?thesis by (blast intro: first)
next
  case (done' b w1 rd)
  then have "arrives C (w, fs) (w1, add_mset Written fs)" using assms(2) by (auto intro: arrives.written)
  moreover have "continues C ttl (w1, add_mset Written fs) (w', fs)" using done'(2) by (rule continues.invalidated)
  ultimately show ?thesis by (blast intro: first next_call calls_snoc)
qed

section \<open>The calls of the service\<close>

text \<open>
  A call on one of the catalogs, a read of a single row, a ping of the cache, or nothing but counters
  and log lines. The tables, the cache, the clock and the faults to come are touched by the calls only.
\<close>

inductive service_call :: "ext \<Rightarrow> duration \<Rightarrow> duration \<Rightarrow> service_state \<Rightarrow> service_state \<Rightarrow> bool"
  for X :: ext and dttl :: duration and pttl :: duration where
  on_departments: "call_of (departments_catalog X) dttl (w, ds) (w', ds') \<Longrightarrow> service_call X dttl pttl (w, ds, ps) (w', ds', ps)"
| on_plans: "call_of (plans_catalog X) pttl (w, ps) (w', ps') \<Longrightarrow> service_call X dttl pttl (w, ds, ps) (w', ds, ps')"
| read_department: "DepartmentRepository_FindByID X u w = (rd, w') \<Longrightarrow> service_call X dttl pttl (w, ds, ps) (w', ds, ps)"
| read_plan: "PlanRepository_FindByCode X c w = (rp, w') \<Longrightarrow> service_call X dttl pttl (w, ds, ps) (w', ds, ps)"
| ping: "Cache_Health w = (rh, w') \<Longrightarrow> service_call X dttl pttl (w, ds, ps) (w', ds, ps)"
| aside: "w' = w\<lparr>w_metrics := m, w_log := l\<rparr> \<Longrightarrow> service_call X dttl pttl (w, ds, ps) (w', ds, ps)"

abbreviation service_calls :: "ext \<Rightarrow> duration \<Rightarrow> duration \<Rightarrow> service_state \<Rightarrow> service_state \<Rightarrow> bool" where
  "service_calls X dttl pttl \<equiv> (service_call X dttl pttl)\<^sup>*\<^sup>*"

text \<open>All of them are steps of the interleaving model.\<close>

lemma call_of_step: "call_of C ttl s s' \<Longrightarrow> catalog_step C ttl s s'"
  by (erule call_of.cases) (auto intro: catalog_step.intros)

lemma service_call_step: "service_call X dttl pttl s s' \<Longrightarrow> shared_step X dttl pttl s s'"
proof (erule service_call.cases, goal_cases)
  case (3 u w rd w' ds ps)
  then show ?case by (auto simp: cache_side_def dest!: DepartmentRepository_FindByID_frame intro: shared_step.environment)
next
  case (4 c w rp w' ds ps)
  then show ?case by (auto simp: cache_side_def dest!: PlanRepository_FindByCode_frame intro: shared_step.environment)
next
  case (5 w rh w' ds ps)
  then show ?case by (auto simp: Cache_Health_def intro!: shared_step.environment split: cache_fate.splits)
qed (auto intro: shared_step.intros dest: call_of_step)

lemma service_calls_steps: "service_calls X dttl pttl s s' \<Longrightarrow> shared_steps X dttl pttl s s'"
  by (rule mono_rtranclp [rule_format, OF service_call_step])

lemma department_calls:
  assumes "calls_of (departments_catalog X) dttl s s'"
  shows "service_calls X dttl pttl (fst s, snd s, ps) (fst s', snd s', ps)"
  using assms
proof (induction rule: rtranclp_induct)
  case (step y z)
  have "service_call X dttl pttl (fst y, snd y, ps) (fst z, snd z, ps)"
    using step.hyps(2) by (cases y; cases z) (simp add: service_call.on_departments)
  with step.IH show ?case by (rule rtranclp.rtrancl_into_rtrancl)
qed simp

lemma plan_calls:
  assumes "calls_of (plans_catalog X) pttl s s'"
  shows "service_calls X dttl pttl (fst s, ds, snd s) (fst s', ds, snd s')"
  using assms
proof (induction rule: rtranclp_induct)
  case (step y z)
  have "service_call X dttl pttl (fst y, ds, snd y) (fst z, ds, snd z)"
    using step.hyps(2) by (cases y; cases z) (simp add: service_call.on_plans)
  with step.IH show ?case by (rule rtranclp.rtrancl_into_rtrancl)
qed simp

section \<open>Requests are runs of calls\<close>

text \<open>What a request does when nothing is in flight before it; at its end nothing is in flight again.\<close>

definition served_alone :: "ext \<Rightarrow> duration \<Rightarrow> world \<Rightarrow> world \<Rightarrow> bool" where
  "served_alone X ttl w w' \<longleftrightarrow>
     (ext_ok X \<longrightarrow>
        service_calls X (ds_cacheTTL (pg_department_service X ttl)) (ps_cacheTTL (pg_plan_service X ttl))
          (w, {#}, {#}) (w', {#}, {#}))"

lemma served_alone_refl: "served_alone X ttl w w"
  by (simp add: served_alone_def)

lemma served_alone_snoc:
  assumes "served_alone X ttl w v"
    and "\<And>dttl pttl. service_call X dttl pttl (v, {#}, {#}) (w', {#}, {#})"
  shows "served_alone X ttl w w'"
  using assms unfolding served_alone_def by (blast intro: rtranclp.rtrancl_into_rtrancl)

lemma served_alone_aside:
  "served_alone X ttl w v \<Longrightarrow> served_alone X ttl w (v\<lparr>w_metrics := m, w_log := l\<rparr>)"
  by (erule served_alone_snoc) (rule service_call.aside, rule refl)

lemma served_alone_metrics: "served_alone X ttl w v \<Longrightarrow> served_alone X ttl w (v\<lparr>w_metrics := m\<rparr>)"
  by (drule served_alone_aside [where m = m and l = "w_log v"]) simp

lemma served_alone_log: "served_alone X ttl w v \<Longrightarrow> served_alone X ttl w (add_log l v)"
  by (drule served_alone_aside [where m = "w_metrics v" and l = "w_log v @ [l]"]) (simp add: add_log_def)

lemmas served_alone_call = served_alone_snoc [OF served_alone_refl]

lemma served_alone_departments:
  "calls_of (departments_catalog X) (ds_cacheTTL (pg_department_service X ttl)) (w, {#}) (w', {#}) \<Longrightarrow> served_alone X ttl w w'"
  unfolding served_alone_def by (auto dest: department_calls)

lemma served_alone_plans:
  "calls_of (plans_catalog X) (ps_cacheTTL (pg_plan_service X ttl)) (w, {#}) (w', {#}) \<Longrightarrow> served_alone X ttl w w'"
  unfolding served_alone_def by (auto dest: plan_calls)

lemma dept_write_commands:
  "dept_write X (InsertDepartment d) = DepartmentRepository_Insert X d"
  "dept_write X (UpdateDepartment u name isActive v) = DepartmentRepository_Update X u name isActive v"
  by (simp_all add: fun_eq_iff)

lemma dept_write_calls:
  assumes "write_then_invalidate (Some valkey_port) ''cat:departments'' (dept_write X a) w = (r, w')"
  shows "served_alone X ttl w w'"
  by (rule served_alone_departments, rule write_then_invalidate_calls [where a = a]) (use assms in simp_all)

lemma plan_write_calls:
  assumes "write_then_invalidate (Some valkey_port) ''cat:plans'' (PlanRepository_Update X code (Some p)) w = (r, w')"
    and "ext_ok X \<Longrightarrow> patch_decoded X p"
  shows "served_alone X ttl w w'"
proof (cases "ext_ok X")
  case True
  have "calls_of (plans_catalog X) (ps_cacheTTL (pg_plan_service X ttl)) (w, {#}) (w', {#})"
    by (rule write_then_invalidate_calls [where a = "(code, p)"]) (use assms True in simp_all)
  then show ?thesis by (rule served_alone_plans)
qed (simp add: served_alone_def)

interpretation alone: server_contract "served_alone X ttl" X "pg_config X ttl d" for X ttl d
proof (unfold_locales, goal_cases)
  case (1 w) then show ?case by (rule served_alone_refl)
next
  case (2 w w' m) then show ?case by (simp add: inc_metric_def served_alone_metrics)
next
  case (3 w w' l) then show ?case by (auto intro: served_alone_log)
next
  case (4 b w rl w')
  then obtain q where "DepartmentService_listAllCached X (pg_department_service X ttl) w = (q, w')"
    using DepartmentService_List_pg by fastforce
  then show ?case
    by (intro served_alone_departments read_through_calls) (simp add: listAllCached_read_through)
next
  case (5 u w rd w')
  then show ?case
    by (intro served_alone_call service_call.read_department) (simp add: DepartmentService_Get_def)
next
  case (6 cd nm sy w rd w')
  then have "DepartmentService_Create (pg_department_service X ttl) cd nm sy w = (rd, w')" by simp
  then show ?case
  proof (cases rule: DepartmentService_Create_pg)
    case (wrote d)
    then show ?thesis by (intro dept_write_calls [where a = "InsertDepartment d"]) (simp add: dept_write_commands)
  qed (simp add: served_alone_refl)
next
  case (7 u nmo ac v w rd w')
  then have "DepartmentService_Patch X (pg_department_service X ttl) u nmo ac v w = (rd, w')" by simp
  then show ?case
  proof (cases rule: DepartmentService_Patch_pg)
    case (wrote q)
    then show ?thesis by (intro dept_write_calls [where a = "UpdateDepartment u nmo ac v"]) (simp add: dept_write_commands)
  qed (simp add: served_alone_refl)
next
  case (8 w rpl w')
  then show ?case by (intro served_alone_plans read_through_calls) (simp add: PlanService_List_read_through)
next
  case (9 cd w rp w')
  then show ?case
    by (auto simp: PlanService_GetByCode_def served_alone_refl intro: served_alone_call service_call.read_plan
        split: if_splits)
next
  case (10 cd p w rp w')
  then have "PlanService_Patch (pg_plan_service X ttl) cd p w = (rp, w')" by simp
  then show ?case
    by (cases rule: PlanService_Patch_pg) (use 10(2) in \<open>auto simp: served_alone_refl intro: plan_write_calls\<close>)
next
  case (11 w rh w')
  then show ?case by (intro served_alone_call service_call.ping) simp
next
  case (12 w w' route status d) then show ?case by (simp add: count_request_def served_alone_metrics)
qed

text \<open>
  C25. The interleaving model is about this server: whatever request it serves and whatever fails while
  it does, what the request does to the shared state (tables, cache, clock, faults to come) is a
  sequence of the port calls of the model, with the times to live the server has. In it nothing is
  abandoned, no fault appears that was not there before, and nothing is left in flight at its end: a
  listing stores only what it has just read under its own key, and a write call that succeeds is
  followed by the call that deletes its cached entry.
\<close>

theorem served_requests_are_calls:
  assumes "ext_ok X" and "serve G X (compose X env) q w = (r, w')"
  shows "service_calls X (ds_cacheTTL (rt_Departments (compose X env))) (ps_cacheTTL (rt_Plans (compose X env)))
           (w, {#}, {#}) (w', {#}, {#})"
proof -
  have cfg: "compose X env = pg_config X (catalogTTL env) (docs_from_env env)"
    by (simp add: compose_def pg_config_def)
  from handler_keepsD [OF alone.serve_keeps assms(2) [unfolded cfg]] show ?thesis
    using assms(1) by (simp add: served_alone_def cfg)
qed

text \<open>The patch of a plan, with its invalidation.\<close>

lemma served_requests_are_calls_witness:
  "service_calls ext_ref (ds_cacheTTL (rt_Departments (compose ext_ref (\<lambda>v. ''x'')))) (ps_cacheTTL (rt_Plans (compose ext_ref (\<lambda>v. ''x''))))
     (sample_world, {#}, {#}) (snd (serve operator_gin ext_ref (compose ext_ref (\<lambda>v. ''x'')) sample_plan_request sample_world), {#}, {#})"
  by (rule served_requests_are_calls [OF ext_ref_ok prod.collapse [symmetric]])

section \<open>A listing that races with a write\<close>

text \<open>
  The repository of the departments as a listing sees it when something else happens right after each
  of its reads of the table. The listing itself is the one of the service.
\<close>

definition interposed :: "(world \<Rightarrow> world) \<Rightarrow> world department_repository \<Rightarrow> world department_repository" where
  "interposed other repo =
     repo\<lparr>repo_List := (\<lambda>activeOnly w. case repo_List repo activeOnly w of (r, w1) \<Rightarrow> (r, other w1))\<rparr>"

text \<open>A state in which nothing is going to fail.\<close>

definition calm :: "world \<Rightarrow> bool" where
  "calm w \<longleftrightarrow> w_tx w = [] \<and> w_cache w = []"

lemma calm_simps [simp]:
  "calm (pop_tx w) = calm (w\<lparr>w_tx := tl (w_tx w)\<rparr>)" "calm w \<Longrightarrow> next_tx w = tx_ok" "calm w \<Longrightarrow> next_cache w = CacheFine"
  by (simp_all add: calm_def pop_tx_def next_tx_def next_cache_def)

lemma list_calm:
  assumes "next_tx w = tx_ok"
  shows "DepartmentRepository_List X False w = (Inr (sql_select_departments X False (w_db w)), pop_tx w)"
  unfolding DepartmentRepository_List_def withPool_no_fault [OF assms] by (simp add: deptListFromTx_def query_def)

text \<open>A patch that succeeds in a calm state, with the state it leaves.\<close>

definition patched_world :: "db \<Rightarrow> world \<Rightarrow> world" where
  "patched_world db w =
     store_del [''cat:departments''] (pop_cache (inc_metric (WritesTotal ''departments'' ''update'') (set_db db (pop_tx w))))"

lemma patch_calm:
  assumes ids: "distinct (map d_ID (t_departments (w_db w)))" and calm: "calm w"
    and ok: "fst (DepartmentService_Patch X (pg_department_service X ttl) u name isActive v w) = Inr d"
  obtains db where "dept_update_abs (db_now w) u name isActive v (w_db w) = (Inr d, db)"
    and "\<And>w1. calm w1 \<Longrightarrow> w_db w1 = w_db w \<Longrightarrow> w_now w1 = w_now w \<Longrightarrow>
           DepartmentService_Patch X (pg_department_service X ttl) u name isActive v w1 = (Inr d, patched_world db w1)"
proof -
  have some: "name \<noteq> None \<or> isActive \<noteq> None" and nm: "name = None \<or> trim_space (the name) \<noteq> ''''"
    using ok by (auto simp: DepartmentService_Patch_def split: if_splits)
  obtain q db where abs: "dept_update_abs (db_now w) u name isActive v (w_db w) = (q, db)" by force
  have patch: "DepartmentService_Patch X (pg_department_service X ttl) u name isActive v w1 =
      (case q of Inl e \<Rightarrow> (Inl (patch_error X (wrapConnErr X e)), snd (DepartmentRepository_Update X u name isActive v w1))
       | Inr d \<Rightarrow> (Inr d, patched_world db w1))"
    if w1: "calm w1" "w_db w1 = w_db w" "w_now w1 = w_now w" for w1
  proof -
    have now: "db_now w1 = db_now w" using w1(3) by (simp add: db_now_def)
    have "w_cache w1 = []" using w1(1) by (simp add: calm_def)
    then have del: "Cache_Delete [''cat:departments''] (inc_metric m (set_db db (pop_tx w1))) =
        (Inr (), store_del [''cat:departments''] (pop_cache (inc_metric m (set_db db (pop_tx w1)))))" for m
      by (simp add: Cache_Delete_def next_cache_def)
    have tx1: "next_tx w1 = tx_ok" using w1(1) by simp
    show ?thesis
      using DepartmentRepository_Update_abs [OF ids [folded w1(2)] tx1 some, of X u v] abs some nm del
      by (cases q) (auto simp: DepartmentService_Patch_def DepartmentService_invalidateCache_def w1(2) now patched_world_def)
  qed
  from patch [OF calm refl refl] ok have q: "q = Inr d" by (cases q) simp_all
  show ?thesis by (rule that [OF abs [unfolded q]]) (simp add: patch q)
qed

text \<open>
  C26. A listing that races with a write puts the old catalog back into the cache. The listing finds
  nothing cached and reads the table; a patch that changes a department is served from its beginning to
  the deletion of the cached entry; then the listing goes on as the service has it. Although nothing
  fails, the cache then holds the table as it was before the patch, and every listing gets it until the
  entry expires, if no request deletes it before.
\<close>

theorem racing_listing_caches_the_past:
  fixes X :: ext and ttl :: duration
  defines "svc \<equiv> pg_department_service X ttl"
  assumes X: "ext_ok X" and db: "db_ok (w_db w)" and calm: "calm w" and cold: "live_value w ''cat:departments'' = None"
    and patch: "fst (DepartmentService_Patch X svc u name isActive v w) = Inr d" and changes: "d \<notin> set (t_departments (w_db w))"
    and listing: "DepartmentService_List X
        (svc\<lparr>ds_repo := interposed (\<lambda>w1. snd (DepartmentService_Patch X svc u name isActive v w1)) (ds_repo svc)\<rparr>) False w = (r, w')"
    and later: "w_now w \<le> t" "t < w_now w + sint (ds_cacheTTL svc)"
  shows "w_db w' = w_db (snd (DepartmentService_Patch X svc u name isActive v w)) \<and> d \<in> set (t_departments (w_db w')) \<and> calm w'
     \<and> fst (DepartmentService_List X svc False (w'\<lparr>w_now := t\<rparr>)) = Inr (sql_select_departments X False (w_db w))"
proof -
  let ?k = "''cat:departments''" and ?old = "sql_select_departments X False (w_db w)"
  let ?raw = "encode_departments X ?old" and ?ttl = "ds_cacheTTL svc"
  note ids = db_ok_ids(1) [OF db]
  obtain db' where abs: "dept_update_abs (db_now w) u name isActive v (w_db w) = (Inr d, db')"
    and patched: "\<And>w1. calm w1 \<Longrightarrow> w_db w1 = w_db w \<Longrightarrow> w_now w1 = w_now w \<Longrightarrow>
        DepartmentService_Patch X svc u name isActive v w1 = (Inr d, patched_world db' w1)"
    using patch_calm [OF ids calm patch [unfolded svc_def]] unfolding svc_def by blast
  let ?w1 = "inc_metric (CacheMisses ?k) (pop_cache w)"
  let ?w2 = "pop_tx ?w1"
  let ?w3 = "patched_world db' ?w2"
  let ?w4 = "store_set ?k ?raw ?ttl (pop_cache ?w3)"
  have faults: "w_tx w = []" "w_cache w = []" using calm by (simp_all add: calm_def)
  have get: "Cache_Get ?k w = (Inr None, ?w1)" using faults cold by (simp add: Cache_Get_def next_cache_def)
  have lst: "DepartmentRepository_List X False ?w1 = (Inr ?old, ?w2)"
    using list_calm [of ?w1 X] faults by (simp add: next_tx_def)
  have "snd (DepartmentService_Patch X svc u name isActive v ?w2) = ?w3"
    using patched [of ?w2] faults by (simp add: calm_def)
  then have w': "w' = ?w4"
    using listing get lst faults
    by (simp add: DepartmentService_List_def DepartmentService_listAllCached_def departments_hit_def interposed_def
        svc_def Cache_Set_def next_cache_def patched_world_def)
  have now: "w_now ?w4 = w_now w" "w_db ?w4 = db'" and fl: "w_tx ?w4 = []" "w_cache ?w4 = []"
    using faults by (simp_all add: patched_world_def store_set_def store_del_def)
  have in_new: "d \<in> set (t_departments db')"
    using abs changes by (auto simp: dept_update_abs_def split: if_splits option.splits sum.splits dest!: find_SomeD dept_update_spec_Inr(1)
        intro!: put_row_in)
  have pos: "0 < sint ?ttl" using later by linarith
  have hit: "live_value (?w4\<lparr>w_now := t\<rparr>) ?k = Some ?raw"
    using later pos now unfolding w' by (simp add: live_value_def store_set_def patched_world_def)
  have dec: "decode_departments X ?raw = Some ?old"
    by (rule departments_snapshot_roundtrip [OF X])
       (use db in \<open>auto simp: sql_select_departments_set db_ok_def departments_ok_def list_all_iff\<close>)
  have "fst (DepartmentService_List X svc False (?w4\<lparr>w_now := t\<rparr>)) = Inr ?old"
    using hit dec fl
    by (simp add: DepartmentService_List_def DepartmentService_listAllCached_def departments_hit_def svc_def Cache_Get_def
        next_cache_def)
  moreover have "w_db (snd (DepartmentService_Patch X svc u name isActive v w)) = db'"
    using patched [OF calm] by (simp add: patched_world_def store_del_def)
  ultimately show ?thesis using in_new now fl unfolding w' by (simp add: calm_def)
qed

text \<open>The race with a rename, and a listing 59 seconds later.\<close>

theorem racing_listing_caches_the_past_witness:
  "\<exists>w' :: world. t_departments (w_db w') = [renamed_department (db_now custom_world)]
     \<and> fst (DepartmentService_List ext_ref (pg_department_service ext_ref (seconds 60)) False (w'\<lparr>w_now := 64000000000\<rparr>))
       = Inr [custom_department]"
proof -
  let ?svc = "pg_department_service ext_ref (seconds 60)" and ?d = "renamed_department (db_now custom_world)"
  let ?race = "?svc\<lparr>ds_repo := interposed (\<lambda>w1. snd (DepartmentService_Patch ext_ref ?svc 9 (Some ''Renamed'') None 1 w1)) (ds_repo ?svc)\<rparr>"
  have ttl: "sint (ds_cacheTTL ?svc) = 60000000000"
    by (simp add: pg_department_service_def DepartmentService_WithCacheTTL_def NewDepartmentService_def seconds_60)
  have calm: "calm custom_world" and cold: "live_value custom_world ''cat:departments'' = None"
    by (simp_all add: calm_def custom_world_def sample_world_def live_value_def)
  obtain w2 where p: "DepartmentService_Patch ext_ref ?svc 9 (Some ''Renamed'') None 1 custom_world = (Inr ?d, w2)"
    and db2: "w_db w2 = (w_db custom_world)\<lparr>t_departments := [?d]\<rparr>"
    using pg_patch_steps [OF custom_db_ok calm_simps(2) [OF calm] _ _ rename_abs]
    by (auto simp: trim_space_def ascii_space_def space2_def space3_def)
  then have patch: "fst (DepartmentService_Patch ext_ref ?svc 9 (Some ''Renamed'') None 1 custom_world) = Inr ?d" by simp
  have changes: "?d \<notin> set (t_departments (w_db custom_world))" using renamed_differs by (simp add: eq_commute)
  obtain r w' where listing: "DepartmentService_List ext_ref ?race False custom_world = (r, w')" by force
  have "w_now custom_world = 5000000000" by (simp add: custom_world_def sample_world_def)
  then have "w_now custom_world \<le> 64000000000" "64000000000 < w_now custom_world + sint (ds_cacheTTL ?svc)"
    unfolding ttl by simp_all
  from racing_listing_caches_the_past [OF ext_ref_ok custom_db_ok calm cold patch changes listing this] p db2
  show ?thesis by (intro exI [of _ w']) (simp add: sql_select_departments_def)
qed

end
