(* ===== verification/Plan_Limits.thy ===== *)
theory Plan_Limits
  imports Write_Properties
begin

text \<open>
  The tri-state limits of CAT-5 from the request to the row: the handler tells an absent member from
  null and from a number, the double pointer of the patch keeps the three apart, and the SET list of
  the repository leaves the column alone, sets it to NULL or to the number.
\<close>

section \<open>The member that counts\<close>

text \<open>
  encoding/json assigns the members of an object in order, so of several that match a field (by name
  or by folded name) the last one counts.
\<close>

definition sent_members :: "(string \<times> json) list \<Rightarrow> (string \<times> json) list" where
  "sent_members kvs =
     List.map_filter (\<lambda>(k, j). map_option (\<lambda>f. (f, j)) (match_field patch_field_names k)) kvs"

definition sent :: "string \<Rightarrow> (string \<times> json) list \<Rightarrow> json option" where
  "sent f kvs = map_of (rev (sent_members kvs)) f"

lemma sent_Cons:
  "sent f ((k, j) # kvs) =
     (case sent f kvs of Some v \<Rightarrow> Some v | None \<Rightarrow> if match_field patch_field_names k = Some f then Some j else None)"
  by (auto simp: sent_def sent_members_def List.map_filter_simps map_add_def split: option.splits)

lemma sent_Nil [simp]: "sent f [] = None"
  by (simp add: sent_def sent_members_def List.map_filter_simps)

lemma member_limits:
  assumes "plan_patch_member X k j r = Some r'"
  shows "pb_WorkflowTemplateLimit r' =
      (if match_field patch_field_names k = Some ''workflow_template_limit'' then Some j else pb_WorkflowTemplateLimit r)"
    and "pb_TenderLimit r' = (if match_field patch_field_names k = Some ''tender_limit'' then Some j else pb_TenderLimit r)"
  using assms by (auto simp: plan_patch_member_def split: option.splits if_splits)

lemma decoded_limits:
  assumes "decode_members (plan_patch_member X) kvs r = Some body"
  shows "pb_WorkflowTemplateLimit body =
      (case sent ''workflow_template_limit'' kvs of Some j \<Rightarrow> Some j | None \<Rightarrow> pb_WorkflowTemplateLimit r)"
    and "pb_TenderLimit body = (case sent ''tender_limit'' kvs of Some j \<Rightarrow> Some j | None \<Rightarrow> pb_TenderLimit r)"
proof -
  have "pb_WorkflowTemplateLimit body =
      (case sent ''workflow_template_limit'' kvs of Some j \<Rightarrow> Some j | None \<Rightarrow> pb_WorkflowTemplateLimit r)
    \<and> pb_TenderLimit body = (case sent ''tender_limit'' kvs of Some j \<Rightarrow> Some j | None \<Rightarrow> pb_TenderLimit r)"
    using assms
  proof (induction "plan_patch_member X" kvs r rule: decode_members.induct)
    case (2 k j kvs r)
    then obtain r1 where "plan_patch_member X k j r = Some r1" "decode_members (plan_patch_member X) kvs r1 = Some body"
      by (auto split: option.splits)
    with 2 member_limits [of X k j r r1] show ?case by (auto simp: sent_Cons split: option.splits)
  qed simp
  then show "pb_WorkflowTemplateLimit body =
      (case sent ''workflow_template_limit'' kvs of Some j \<Rightarrow> Some j | None \<Rightarrow> pb_WorkflowTemplateLimit r)"
    and "pb_TenderLimit body = (case sent ''tender_limit'' kvs of Some j \<Rightarrow> Some j | None \<Rightarrow> pb_TenderLimit r)"
    by blast+
qed

section \<open>From the member to the column\<close>

definition limit_set :: "json option \<Rightarrow> int option \<Rightarrow> int option \<Rightarrow> bool" where
  "limit_set sent_value old new \<longleftrightarrow>
     (case sent_value of
        None \<Rightarrow> new = old
      | Some JNull \<Rightarrow> new = None
      | Some (JNum (JInt n)) \<Rightarrow> new = Some n
      | Some _ \<Rightarrow> False)"

lemma parseLimit_set:
  "parseLimit raw field = Inr l \<Longrightarrow> limit_set raw old (case l of None \<Rightarrow> old | Some v \<Rightarrow> v)"
  by (auto simp: parseLimit_def limit_set_def dec_int64_def split: option.splits json.splits jnum.splits if_splits)

lemma parse_patch_limits:
  "parse_patch body = Inr p \<Longrightarrow> parseLimit (pb_WorkflowTemplateLimit body) ''workflow_template_limit'' = Inr (pp_WorkflowTemplateLimit p)
     \<and> parseLimit (pb_TenderLimit body) ''tender_limit'' = Inr (pp_TenderLimit p)"
  by (auto simp: parse_patch_def split: sum.splits)

lemma plan_after_limits:
  "pr_workflow_template_limit (plan_after X now p old) =
     (case pp_WorkflowTemplateLimit p of None \<Rightarrow> pr_workflow_template_limit old | Some v \<Rightarrow> v)"
  "pr_tender_limit (plan_after X now p old) = (case pp_TenderLimit p of None \<Rightarrow> pr_tender_limit old | Some v \<Rightarrow> v)"
  "pr_code (plan_after X now p old) = pr_code old"
  using plan_patched_simps(1,6,7) [of X p old]
  by (cases "plan_patched X p old = old"; simp add: plan_after_def del: plan_patched_simps)+

text \<open>A successful patch of the service: the row it found and the row it left.\<close>

lemma plan_patch_success:
  assumes X: "ext_ok X" and db: "db_ok (w_db w)" and scans: "plans_scan X (w_db w)" and tx: "next_tx w = tx_ok"
    and dec: "patch_decoded X p" and ok: "PlanService_Patch (pg_plan_service X ttl) code p w = (Inr d, w')"
  obtains old where "old \<in> set (t_plans (w_db w))" and "pr_code old = code"
    and "w_db w' = (w_db w)\<lparr>t_plans := put_row pr_code (plan_after X (db_now w) p old) (t_plans (w_db w))\<rparr>"
proof -
  have chk: "check_patch code p = None" using ok by (auto simp: PlanService_Patch_def split: option.splits)
  obtain q db' where abs: "plan_update_abs X (db_now w) code p (w_db w) = (q, db')" by force
  have "map_sum (wrapConnErr X) (\<lambda>d. d) q = Inr d"
    using plan_repo_result [OF X db scans tx chk dec, of ttl] ok abs by simp
  then have q: "q = Inr d" by (cases q) simp_all
  then have "w_db w' = db'" using pg_plan_patch_steps [OF X db scans tx chk dec, of d db' ttl] abs ok by simp
  then have db': "w_db w' = db'" .
  from abs q obtain old new where f: "find (\<lambda>r. pr_code r = code) (t_plans (w_db w)) = Some old"
    and new: "plan_update_spec X (db_now w) p old = Inr new"
    and put: "db' = (w_db w)\<lparr>t_plans := put_row pr_code new (t_plans (w_db w))\<rparr>"
    by (auto simp: plan_update_abs_def split: option.splits if_splits sum.splits)
  have "new = plan_after X (db_now w) p old" using plan_update_spec_row(2) [OF new] by (simp only: plan_after_def)
  then show thesis using that [of old] find_SomeD [OF f] db' put by simp
qed


text \<open>
  C13. The tri-state limits, end to end: when CAT-5 answers 200, each limit of the plan is what the
  request's JSON said of it. A limit the body does not name is the one the row had, null makes it
  unlimited, an integer is the new cap, and a body with anything else in its place is never answered
  with 200.
\<close>

theorem plan_limits_tristate:
  assumes X: "ext_ok X" and db: "db_ok (w_db w)" and scans: "plans_scan X (w_db w)" and tx: "next_tx w = tx_ok"
    and body: "q_body c = DocBody (JObj kvs) trailing"
    and run: "PlanHandler_Patch X (pg_plan_service X ttl) c w = (r, w')" and ok: "rs_status r = 200"
  shows "\<exists>old new. old \<in> set (t_plans (w_db w)) \<and> new \<in> set (t_plans (w_db w'))
     \<and> pr_code old = lookup_or_empty ''code'' (q_params c) \<and> pr_code new = pr_code old
     \<and> limit_set (sent ''workflow_template_limit'' kvs) (pr_workflow_template_limit old) (pr_workflow_template_limit new)
     \<and> limit_set (sent ''tender_limit'' kvs) (pr_tender_limit old) (pr_tender_limit new)"
proof -
  let ?code = "lookup_or_empty ''code'' (q_params c)"
  have bad: "rs_status (fst (HandleError X c e v)) \<noteq> 200" for e v
    by (auto simp: HandleError_def Let_def domainErrorStatus_def error_reply_def split: go_error.split)
  have no: "HandleError X c e v \<noteq> (r, w')" for e v using bad [of e v] ok by auto
  from run no obtain b p d w1 where b: "bind_plan_patch X (q_body c) = Inr b" and p: "parse_patch b = Inr p"
    and svc: "PlanService_Patch (pg_plan_service X ttl) ?code p w = (Inr d, w1)"
    and w': "w' = inc_metric (WritesTotal ''plans'' ''update'') w1"
    unfolding PlanHandler_Patch_def by (fastforce split: option.splits sum.splits prod.splits)
  have dec: "patch_decoded X p" by (rule parse_patch_decoded [OF p bind_plan_patch_decoded [OF X b]])
  obtain old where old: "old \<in> set (t_plans (w_db w))" "pr_code old = ?code"
    and upd: "w_db w1 = (w_db w)\<lparr>t_plans := put_row pr_code (plan_after X (db_now w) p old) (t_plans (w_db w))\<rparr>"
    by (rule plan_patch_success [OF X db scans tx dec svc])
  have "decode_members (plan_patch_member X) kvs zero_patch_body = Some b"
    using b by (simp add: bind_plan_patch_def ShouldBindJSON_def body decode_first_def decode_struct_def split: option.splits)
  from decoded_limits [OF this] have raw: "pb_WorkflowTemplateLimit b = sent ''workflow_template_limit'' kvs"
    "pb_TenderLimit b = sent ''tender_limit'' kvs"
    by (simp_all add: zero_patch_body_def split: option.splits)
  note lim = parse_patch_limits [OF p, unfolded raw]
  let ?new = "plan_after X (db_now w) p old"
  have "?new \<in> set (t_plans (w_db w'))"
    using old(1) by (auto simp: w' upd plan_after_limits(3) intro!: put_row_in)
  then show ?thesis
    by (intro exI [of _ old] exI [of _ ?new])
      (use old plan_after_limits [of X "db_now w" p old] parseLimit_set [OF lim [THEN conjunct1], of "pr_workflow_template_limit old"]
      parseLimit_set [OF lim [THEN conjunct2], of "pr_tender_limit old"] in simp)
qed

lemma plan_limits_tristate_witness:
  "\<exists>w' new. PlanHandler_Patch ext_ref (pg_plan_service ext_ref (seconds 60))
       (identified (sample_identity [''platform_operator'']) operator_context
          (routed ''/api/v1/operator/plans/:code'' [(''code'', ''starter'')] sample_plan_request)) sample_world
       = (json_response 200 (plan_response_json ext_ref (planToResponse (plan_of ext_ref (patched_row (db_now sample_world))))), w')
     \<and> new \<in> set (t_plans (w_db w')) \<and> pr_code new = ''starter'' \<and> pr_tender_limit new = None"
proof -
  let ?q = "identified (sample_identity [''platform_operator'']) operator_context
      (routed ''/api/v1/operator/plans/:code'' [(''code'', ''starter'')] sample_plan_request)"
  let ?d = "plan_of ext_ref (patched_row (db_now sample_world))"
  obtain w1 where svc: "PlanService_Patch (pg_plan_service ext_ref (seconds 60)) ''starter'' sample_patch sample_world = (Inr ?d, w1)"
    using pg_plan_patch_steps [OF ext_ref_ok sample_db_ok sample_scans sample_tx(3) sample_checked sample_decoded plan_patch_abs]
    by blast
  have run: "PlanHandler_Patch ext_ref (pg_plan_service ext_ref (seconds 60)) ?q sample_world =
      (json_response 200 (plan_response_json ext_ref (planToResponse ?d)), inc_metric (WritesTotal ''plans'' ''update'') w1)"
    by (rule plan_patch_handled [OF _ _ _ svc])
       (simp_all add: lookup_or_empty_def operator_context_def sample_plan_request_def sample_request_def)
  have body: "q_body ?q = DocBody (JObj [(''display_name'', JStr ''Starter+''), (''tender_limit'', JNull),
      (''record_version'', JNum (JInt 1))]) False"
    by (simp add: sample_plan_request_def sample_request_def plan_body_def)
  have sent: "sent ''tender_limit'' [(''display_name'', JStr ''Starter+''), (''tender_limit'', JNull),
      (''record_version'', JNum (JInt 1))] = Some JNull"
    by (simp add: sent_Cons match_field_def patch_field_names_def)
  have code: "lookup_or_empty ''code'' (q_params ?q) = ''starter''" by (simp add: lookup_or_empty_def)
  from plan_limits_tristate [OF ext_ref_ok sample_db_ok sample_scans sample_tx(3) body run] run sent code
  show ?thesis by (auto simp: limit_set_def)
qed

end
