(* ===== verification/Http_Properties.thy ===== *)
theory Http_Properties
  imports Dispatch
begin

text \<open>
  What the HTTP layer guarantees whatever the handlers behind it do: which requests can write, who
  may reach which route, what an error body says, how failures of the database are reported, and what
  is counted.
\<close>

section \<open>Requests that cannot write\<close>

abbreviation same_tables :: "world \<Rightarrow> world \<Rightarrow> bool" where
  "same_tables w w' \<equiv> w_db w' = w_db w"

interpretation untouched: chain_contract same_tables
  by unfold_locales simp_all

lemma tables_kept_reads:
  "handler_keeps same_tables (DepartmentHandler_List X (pg_department_service X ttl))"
  "handler_keeps same_tables (DepartmentHandler_Get X (pg_department_service X ttl))"
  "handler_keeps same_tables (DepartmentHandler_DeleteBlocked X)"
  "handler_keeps same_tables (PlanHandler_List X (pg_plan_service X ttl))"
  "handler_keeps same_tables (PlanHandler_Get X (pg_plan_service X ttl))"
  "handler_keeps same_tables (InternalHandler_Departments X (pg_department_service X ttl))"
  "handler_keeps same_tables (InternalHandler_Plans X (pg_plan_service X ttl))"
proof -
  have dl: "w_db w' = w_db w" if "DepartmentService_List X (pg_department_service X ttl) b w = (r, w')" for b w r w'
    using DepartmentService_List_pg [OF that] listAllCached_pg(1) by blast
  have dg: "w_db w' = w_db w" if "DepartmentService_Get (pg_department_service X ttl) u w = (r, w')" for u w r w'
    using DepartmentService_Get_pg [OF that] by blast
  have pl: "w_db w' = w_db w" if "PlanService_List X (pg_plan_service X ttl) w = (r, w')" for w r w'
    using that by (rule PlanService_List_pg(1))
  have pg: "w_db w' = w_db w" if "PlanService_GetByCode (pg_plan_service X ttl) code w = (r, w')" for code w r w'
    using PlanService_GetByCode_pg [OF that] by blast
  note err = untouched.keeps_HandleError
  show "handler_keeps same_tables (DepartmentHandler_List X (pg_department_service X ttl))"
    by (rule handler_keepsI) (auto simp: DepartmentHandler_List_def dest: err dl split: prod.splits sum.splits)
  show "handler_keeps same_tables (DepartmentHandler_Get X (pg_department_service X ttl))"
    by (rule handler_keepsI) (auto simp: DepartmentHandler_Get_def dest: err dg split: prod.splits sum.splits)
  show "handler_keeps same_tables (DepartmentHandler_DeleteBlocked X)"
    by (rule handler_keepsI)
       (auto simp: DepartmentHandler_DeleteBlocked_def DepartmentService_DeleteBlocked_def dest: err split: option.splits)
  show "handler_keeps same_tables (PlanHandler_List X (pg_plan_service X ttl))"
    by (rule handler_keepsI) (auto simp: PlanHandler_List_def dest: err pl split: prod.splits sum.splits option.splits)
  show "handler_keeps same_tables (PlanHandler_Get X (pg_plan_service X ttl))"
    by (rule handler_keepsI) (auto simp: PlanHandler_Get_def dest: err pg split: prod.splits sum.splits option.splits)
  show "handler_keeps same_tables (InternalHandler_Departments X (pg_department_service X ttl))"
    by (rule handler_keepsI)
       (auto simp: InternalHandler_Departments_def dest: err dl split: prod.splits sum.splits option.splits)
  show "handler_keeps same_tables (InternalHandler_Plans X (pg_plan_service X ttl))"
    by (rule handler_keepsI)
       (auto simp: InternalHandler_Plans_def dest: err pl split: prod.splits sum.splits option.splits)
qed

definition write_endpoint :: "endpoint \<Rightarrow> bool" where
  "write_endpoint e \<longleftrightarrow> e = EDeptCreate \<or> e = EDeptPatch \<or> e = EPlanPatch"

lemma tables_kept_api:
  "\<not> write_endpoint e \<Longrightarrow> handler_keeps same_tables (api_handler X (pg_config X ttl d) e)"
  by (cases e) (auto simp: api_handler_def write_endpoint_def
      intro!: tables_kept_reads untouched.keeps_gates untouched.keeps_return)

lemma tables_kept_readyz: "handler_keeps same_tables (readyz G (pg_config X ttl d))"
  by (rule handler_keepsI)
     (auto simp: readyz_def dest: db_unchanged_Cache(4) split: if_splits prod.splits sum.splits)

lemma tables_kept_endpoint:
  assumes "\<not> write_endpoint e"
  shows "handler_keeps same_tables (endpoint_handler G X (pg_config X ttl d) e)"
proof (cases "infra_endpoint e")
  case True
  then show ?thesis
    by (auto simp: infra_endpoint_def endpoint_handler_def
        intro!: untouched.keeps_docs untouched.keeps_gates untouched.keeps_return tables_kept_readyz)
next
  case False
  then show ?thesis
    unfolding endpoint_handler_api [OF False]
    by (intro untouched.keeps_gates untouched.keeps_api_chain tables_kept_api assms)
qed

lemma route_endpoint_writes:
  "route_endpoint d m t = Some e \<Longrightarrow> write_endpoint e \<Longrightarrow> m = ''POST'' \<or> m = ''PATCH''"
  by (auto simp: route_endpoint_def write_endpoint_def routes_def docs_routes_def infra_routes_def api_routes_def
      dest!: find_SomeD split: if_splits)

text \<open>
  C15. Only POST and PATCH can change the tables: whatever gin's matcher, the auth middleware and the
  caller do, a request with any other method (GET and DELETE included) leaves both tables as they were.
\<close>

theorem only_writes_change_tables:
  assumes "q_method c \<noteq> ''POST''" and "q_method c \<noteq> ''PATCH''"
    and "serve G X (pg_config X ttl d) c w = (r, w')"
  shows "w_db w' = w_db w"
proof -
  have none: "handler_keeps same_tables (body_cap (normalized G X u (\<lambda>c w. (unwritten, w))))" for u
    by (intro untouched.keeps_gates untouched.keeps_return)
  have nm: "handler_keeps same_tables (body_cap (normalized G X 405 NoMethod))"
    by (intro untouched.keeps_gates untouched.keeps_NoMethod)
  have ep: "\<not> write_endpoint e" if "route_endpoint d (q_method c) t = Some e" for t e
    using route_endpoint_writes [OF that] assms(1,2) by blast
  show ?thesis using assms(3)
    by (auto simp: serve_def dest: handler_keepsD [OF none] handler_keepsD [OF nm]
        handler_keepsD [OF tables_kept_endpoint [OF ep]] split: gin_match.splits option.splits)
qed

theorem only_writes_change_tables_witness:
  "w_db (snd (serve operator_gin ext_ref sample_config
     (sample_request ''DELETE'' ''/api/v1/operator/departments/x'' EmptyBody) sample_world)) = w_db sample_world"
proof -
  let ?q = "sample_request ''DELETE'' ''/api/v1/operator/departments/x'' EmptyBody"
  have "q_method ?q \<noteq> ''POST''" "q_method ?q \<noteq> ''PATCH''" by (simp_all add: sample_request_def)
  from only_writes_change_tables [OF this prod.collapse [symmetric]] show ?thesis
    unfolding sample_config_def by blast
qed

section \<open>Authorization\<close>

definition required_role :: "endpoint \<Rightarrow> string option" where
  "required_role e =
     (case e of
        EDeptCreate \<Rightarrow> Some ''platform_operator'' | EDeptPatch \<Rightarrow> Some ''platform_operator''
      | EDeptDelete \<Rightarrow> Some ''platform_operator'' | EPlanList \<Rightarrow> Some ''platform_operator''
      | EPlanGet \<Rightarrow> Some ''platform_operator'' | EPlanPatch \<Rightarrow> Some ''platform_operator''
      | EInternalDepartments \<Rightarrow> Some ''iam-system'' | EInternalPlans \<Rightarrow> Some ''iam-system''
      | _ \<Rightarrow> None)"

lemma error_reply_not_null [simp]: "rs_body (error_reply q s code msg) \<noteq> RJson JNull"
  by (simp add: error_reply_def error_response_json_def)

lemma api_handler_refuses:
  assumes "required_role e = Some role" and "\<And>rc. q_context q = Some rc \<Longrightarrow> \<not> HasRole rc role"
  shows "\<exists>r. api_handler X cfg e q w = (r, w) \<and> rs_status r = 403 \<and> rs_body r \<noteq> RJson JNull"
  using assms by (cases e; cases "q_context q")
    (auto simp: required_role_def api_handler_def RequireOperatorRole_def RequireSystemRole_def IsOperator_def)

lemma bridge_identity_Inr: "bridge_identity X c i = Inr rc \<Longrightarrow> rc_Roles rc = pi_Roles i"
  by (auto simp: bridge_identity_def split: option.splits if_splits)

lemma bridge_identity_Inl:
  "bridge_identity X c i = Inl r \<Longrightarrow> rs_status r = 401 \<and> rs_body r \<noteq> RJson JNull \<and> body_field ''code'' r = Some (JStr ''missing_identity_headers'')"
  by (auto simp: bridge_identity_def error_reply_fields split: option.splits if_splits)

definition gate_reply :: "response \<Rightarrow> bool" where
  "gate_reply r \<longleftrightarrow> rs_status r \<in> {401, 403, 415} \<and> rs_body r \<noteq> RJson JNull"

lemma chain_refuses:
  assumes "required_role e = Some role" and "g_auth G q = Inr io" and "q_context q = None"
    and "\<And>i. io = Some i \<Longrightarrow> role \<notin> set (pi_Roles i)"
  shows "\<exists>r rt st d. api_chain G X cfg e q w = (r, count_request rt st d w) \<and> gate_reply r"
proof -
  let ?h = "api_handler X cfg e"
  note refuses = api_handler_refuses [OF assms(1), where X = X and cfg = cfg]
  have h: "\<exists>r. RequireJSONContentType ?h q' v = (r, v) \<and> gate_reply r"
    if "\<And>rc. q_context q' = Some rc \<Longrightarrow> \<not> HasRole rc role" for q' v
    using refuses [of q' v, OF that] by (auto simp: RequireJSONContentType_def gate_reply_def)
  have "\<exists>r. ProtectedMiddlewares G (IdentityBridgeMiddleware X (RequireJSONContentType ?h)) q w = (r, w)
      \<and> gate_reply r"
  proof (cases io)
    case None
    have "\<exists>r. RequireJSONContentType ?h (q\<lparr>q_identity := None\<rparr>) w = (r, w) \<and> gate_reply r"
      by (rule h) (use assms(3) in simp)
    then show ?thesis using assms(2) None by (simp add: ProtectedMiddlewares_def IdentityBridgeMiddleware_def)
  next
    case (Some i)
    let ?q = "q\<lparr>q_identity := Some i\<rparr>"
    show ?thesis
    proof (cases "bridge_identity X ?q i")
      case (Inl r)
      then show ?thesis using assms(2) Some bridge_identity_Inl [OF Inl]
        by (simp add: ProtectedMiddlewares_def IdentityBridgeMiddleware_def gate_reply_def)
    next
      case (Inr rc)
      have "\<exists>r. RequireJSONContentType ?h (?q\<lparr>q_context := Some rc\<rparr>) w = (r, w) \<and> gate_reply r"
        by (rule h) (use assms(4) [OF Some] bridge_identity_Inr [OF Inr] in \<open>simp add: HasRole_iff\<close>)
      then show ?thesis using assms(2) Some Inr by (simp add: ProtectedMiddlewares_def IdentityBridgeMiddleware_def)
    qed
  qed
  then obtain r where "ProtectedMiddlewares G (IdentityBridgeMiddleware X (RequireJSONContentType ?h)) q w = (r, w)"
    and gate: "gate_reply r" by blast
  then have "api_chain G X cfg e q w =
      (r, count_request (if q_route q = '''' then q_path q else q_route q) (show_nat (bufferedWriter_Status 200 (buffered r)))
            (g_elapsed G q w) w)"
    by (simp add: api_chain_def requestMetricsMiddleware_def)
  with gate show ?thesis by blast
qed

lemma route_required_not_infra: "required_role e = Some role \<Longrightarrow> \<not> infra_endpoint e"
  by (auto simp: required_role_def infra_endpoint_def)

text \<open>
  C16. The operator and internal routes do nothing for a caller whom the authentication of gincommon
  lets through, as somebody or as nobody, without their role (platform_operator, iam-system): the answer is 401, 403, 413 or 415 and, but for the request counter, the whole state is
  the one before: no transaction is begun and neither the tables nor the cache are looked at.
\<close>

theorem role_gate_noninterference:
  assumes "g_match G (map (\<lambda>(m, t, e). (m, t)) (routes (rt_Docs cfg))) (q_method q) (q_path q) = Matched t ps"
    and "route_endpoint (rt_Docs cfg) (q_method q) t = Some e" and "required_role e = Some role"
    and "g_auth G (routed t ps q) = Inr io" and "\<And>i. io = Some i \<Longrightarrow> role \<notin> set (pi_Roles i)"
    and "serve G X cfg q w = (r, w')"
  shows "(w' = w \<or> (\<exists>rt st d. w' = count_request rt st d w)) \<and> rs_status r \<in> {401, 403, 413, 415}"
proof -
  obtain r0 rt st d where chain: "api_chain G X cfg e (routed t ps q) w = (r0, count_request rt st d w)"
    and gate: "gate_reply r0"
    using chain_refuses [where X = X and cfg = cfg and w = w, OF assms(3,4) _ assms(5)] by force
  have serve: "serve G X cfg q w = body_cap (normalized G X 200 (api_chain G X cfg e)) (routed t ps q) w"
    using serve_endpoint [OF assms(1,2)] endpoint_handler_api [OF route_required_not_infra [OF assms(3)]] by simp
  show ?thesis
  proof (cases "q_content_length q > 2 ^ 20")
    case True
    then show ?thesis using assms(6) unfolding serve by (auto simp: body_cap_def too_large_reply_def)
  next
    case False
    then have "(r, w') = (case NormalizeAuthErrors X 200 r0 of None \<Rightarrow> g_recovered G | Some r' \<Rightarrow> r', count_request rt st d w)"
      using assms(6) unfolding serve by (simp add: body_cap_def normalized_def chain)
    moreover have "NormalizeAuthErrors X 200 r0 \<noteq> None"
      using gate by (simp add: NormalizeAuthErrors_panic gate_reply_def)
    ultimately show ?thesis using gate NormalizeAuthErrors_status [of X 200 r0]
      by (auto simp: bufferedWriter_Status_def gate_reply_def)
  qed
qed

theorem role_gate_noninterference_witness:
  "rs_status (fst (serve tenant_gin ext_ref sample_config (sample_request ''GET'' ''/api/v1/operator/plans'' EmptyBody) sample_world))
     \<in> {401, 403, 413, 415}"
proof -
  let ?q = "sample_request ''GET'' ''/api/v1/operator/plans'' EmptyBody"
  obtain r w' where s: "serve tenant_gin ext_ref sample_config ?q sample_world = (r, w')" by force
  have m: "g_match tenant_gin (map (\<lambda>(m, t, e). (m, t)) (routes (rt_Docs sample_config))) (q_method ?q) (q_path ?q)
      = Matched ''/api/v1/operator/plans'' []"
    by (simp add: tenant_gin_def sample_gin_def sample_config_def sample_match_def route_defs sample_request_def)
  have e: "route_endpoint (rt_Docs sample_config) (q_method ?q) ''/api/v1/operator/plans'' = Some EPlanList"
    by (simp add: sample_config_def sample_request_def route_endpoint_def route_defs)
  have "(w' = sample_world \<or> (\<exists>rt st d. w' = count_request rt st d sample_world)) \<and> rs_status r \<in> {401, 403, 413, 415}"
    by (rule role_gate_noninterference [OF m e, where role = "''platform_operator''"
          and io = "Some (sample_identity [''tenant_admin''])", OF _ _ _ s])
       (simp_all add: required_role_def tenant_gin_def sample_gin_def sample_identity_def)
  then show ?thesis by (simp add: s)
qed

section \<open>Errors that write nothing\<close>

lemma service_error_tables:
  "DepartmentService_Create (pg_department_service X ttl) code name sys w = (Inl e, w') \<Longrightarrow> \<not> lost_ack w \<Longrightarrow> w_db w' = w_db w"
  "DepartmentService_Patch X (pg_department_service X ttl) u nm act v w = (Inl e, w') \<Longrightarrow> \<not> lost_ack w \<Longrightarrow> w_db w' = w_db w"
  "PlanService_Patch (pg_plan_service X ttl) pcode p w = (Inl e, w') \<Longrightarrow> \<not> lost_ack w \<Longrightarrow> w_db w' = w_db w"
  subgoal
    by (erule DepartmentService_Create_pg, simp)
       (erule write_then_invalidate_pg; auto dest: DepartmentRepository_Insert_error)
  subgoal
    by (erule DepartmentService_Patch_pg, simp)
       (erule write_then_invalidate_pg; auto dest: DepartmentRepository_Update_error)
  subgoal
    by (erule PlanService_Patch_pg, simp)
       (erule write_then_invalidate_pg; auto dest: PlanRepository_Update_error)
  done

text \<open>
  C18. An error answer means that nothing was written: unless the acknowledgement of the commit was
  lost, a request whose handler answers anything but 200 or 201 leaves both tables as they were,
  whatever failed (validation, a constraint, the connection, the commit).
\<close>

theorem error_reply_means_no_write:
  assumes "api_handler X (pg_config X ttl d) e c w = (r, w')" and "\<not> lost_ack w"
    and "rs_status r \<noteq> 200" and "rs_status r \<noteq> 201"
  shows "w_db w' = w_db w"
proof (cases "write_endpoint e")
  case False
  from handler_keepsD [OF tables_kept_api [OF this] assms(1)] show ?thesis .
next
  case True
  note err = untouched.keeps_HandleError
  have errm: "w_db w' = w_db w" if "HandleError X c q (inc_metric m v) = (r, w')" "w_db v = w_db w" for q m v
    using err [OF that(1)] that(2) by simp
  consider "e = EDeptCreate" | "e = EDeptPatch" | "e = EPlanPatch" using True by (auto simp: write_endpoint_def)
  then show ?thesis
  proof cases
    case 1
    then show ?thesis using assms
      by (auto simp: api_handler_def RequireOperatorRole_def DepartmentHandler_Create_def
          split: option.splits if_splits prod.splits sum.splits dest: err service_error_tables(1))
  next
    case 2
    then show ?thesis using assms
      by (auto simp: api_handler_def RequireOperatorRole_def DepartmentHandler_Patch_def
          split: option.splits if_splits prod.splits sum.splits dest: err errm service_error_tables(2))
  next
    case 3
    then show ?thesis using assms
      by (auto simp: api_handler_def RequireOperatorRole_def PlanHandler_Patch_def
          split: option.splits if_splits prod.splits sum.splits dest: err errm service_error_tables(3))
  qed
qed

theorem error_reply_means_no_write_witness:
  "w_db (snd (api_handler ext_ref sample_config EDeptCreate
     ((sample_request ''POST'' ''/api/v1/operator/departments'' BadBody)\<lparr>q_context := Some operator_context\<rparr>) sample_world))
   = w_db sample_world"
proof -
  let ?c = "(sample_request ''POST'' ''/api/v1/operator/departments'' BadBody)\<lparr>q_context := Some operator_context\<rparr>"
  have h: "api_handler ext_ref sample_config EDeptCreate ?c sample_world = HandleError ext_ref ?c invalid_body sample_world"
    by (simp add: api_handler_def RequireOperatorRole_def DepartmentHandler_Create_def requireOperator_def
        operator_context_def IsOperator_def HasRole_def bind_create_def ShouldBindJSON_def decode_first_def sample_request_def)
  obtain r w' where r: "api_handler ext_ref sample_config EDeptCreate ?c sample_world = (r, w')" by force
  have "rs_status r = 400"
    using r unfolding h by (auto simp: invalid_body_def HandleError_domain domainErrorStatus_def)
  then show ?thesis
    using error_reply_means_no_write [OF r [unfolded sample_config_def]] r
    by (simp add: lost_ack_def sample_config_def)
qed

section \<open>Failures of the database\<close>

definition availability_class :: "string \<Rightarrow> bool" where
  "availability_class code \<longleftrightarrow>
     has_prefix ''08'' code \<or> has_prefix ''53'' code \<or> has_prefix ''57'' code \<or> has_prefix ''58'' code"

lemma contains_sqlstate:
  assumes "has_prefix d (pg_Code e)"
  shows "contains_str (''SQLSTATE '' @ d) (pg_text_ref e)"
proof -
  obtain r where "pg_Code e = d @ r" using assms unfolding has_prefix_append by blast
  then have "pg_text_ref e = (pg_Severity e @ '': '' @ pg_Message e @ '' ('') @ (''SQLSTATE '' @ d) @ (r @ '')'')"
    by (simp add: pg_text_ref_def)
  then show ?thesis unfolding contains_str_iff by blast
qed

lemma wrap_availability:
  assumes "ext_ok X" and "availability_class (pg_Code e)"
  shows "wrapConnErr X (EDriver (PgErr e)) = EDomain (NewError ErrDBUnavailable ''database unavailable'')"
proof -
  consider "has_prefix ''08'' (pg_Code e)" | "has_prefix ''53'' (pg_Code e)"
    | "has_prefix ''57'' (pg_Code e)" | "has_prefix ''58'' (pg_Code e)"
    using assms(2) by (auto simp: availability_class_def)
  then show ?thesis
    by cases (use contains_sqlstate [of "''57''" e] contains_sqlstate [of "''58''" e] assms(1) in
      \<open>simp_all add: wrapConnErr_def isOperatorOrSystemErrorSQLState_def ext_okD pg_class_is_def\<close>)
qed

text \<open>
  The status each failure is meant to have. Classes 57 and 58 are recognised by the text of the error,
  so an error of another class whose message quotes such a SQLSTATE counts as one of them.
\<close>

fun failure_status :: "driver_error \<Rightarrow> nat" where
  "failure_status (PgErr e) =
     (if availability_class (pg_Code e) \<or> contains_str ''SQLSTATE 57'' (pg_text_ref e)
         \<or> contains_str ''SQLSTATE 58'' (pg_text_ref e) then 503 else 500)"
| "failure_status (OtherErr s) = 503"
| "failure_status ErrNoRows = 500"
| "failure_status CtxCanceled = 500"
| "failure_status CtxDeadlineExceeded = 500"

lemma wrap_other_class:
  assumes "ext_ok X" and "failure_status (PgErr e) = 500"
  shows "wrapConnErr X (EDriver (PgErr e)) = EDriver (PgErr e)"
  using assms
  by (auto simp: wrapConnErr_def isOperatorOrSystemErrorSQLState_def ext_okD pg_class_is_def availability_class_def
      split: if_splits)

lemma wrap_text_class:
  assumes "ext_ok X" and "failure_status (PgErr e) = 503"
  shows "wrapConnErr X (EDriver (PgErr e)) = EDomain (NewError ErrDBUnavailable ''database unavailable'')"
proof (cases "availability_class (pg_Code e)")
  case True
  then show ?thesis by (rule wrap_availability [OF assms(1)])
next
  case False
  then show ?thesis using assms
    by (simp add: wrapConnErr_def isOperatorOrSystemErrorSQLState_def ext_okD split: if_splits)
qed

lemma untranslated_status:
  assumes "ext_ok X"
  shows "rs_status (fst (HandleError X c (EDriver (PgErr e)) v)) = failure_status (PgErr e)"
  using contains_sqlstate [of "''57''" e] contains_sqlstate [of "''58''" e]
  by (auto simp: HandleError_def ext_okD [OF assms] pg_class_is_def availability_class_def
      http_isOperatorOrSystemErrorSQLState_def Let_def)

lemma translated_status:
  assumes "ext_ok X"
  shows "rs_status (fst (HandleError X c (wrapConnErr X (EDriver d)) v)) = failure_status d"
proof (cases d)
  case (PgErr e)
  show ?thesis
  proof (cases "failure_status (PgErr e) = 503")
    case True
    then show ?thesis using wrap_text_class [OF assms True] PgErr by (auto simp: HandleError_domain domainErrorStatus_def)
  next
    case False
    then have "failure_status (PgErr e) = 500" by (auto split: if_splits)
    from wrap_other_class [OF assms this] show ?thesis using untranslated_status [OF assms] PgErr by simp
  qed
qed (simp_all add: wrapConnErr_def ext_okD [OF assms] pg_class_is_def isOperatorOrSystemErrorSQLState_def
       HandleError_def domainErrorStatus_def http_isOperatorOrSystemErrorSQLState_def Let_def)

text \<open>A transaction that fails with an error of the driver: it does not begin, its body stops with the error, or its commit fails.\<close>

definition tx_fails_with :: "(tx_fate \<Rightarrow> world \<Rightarrow> 'a res \<times> world) \<Rightarrow> world \<Rightarrow> driver_error \<Rightarrow> bool" where
  "tx_fails_with fn w d \<longleftrightarrow>
     (let t = next_tx w in
      tf_begin t = Some d
    \<or> tf_begin t = None \<and>
        (case fst (fn t (pop_tx w)) of
           Inl e \<Rightarrow> e = EDriver d
         | Inr x \<Rightarrow> (case tf_commit t of Some (e, applied) \<Rightarrow> e = d | None \<Rightarrow> False)))"

lemma withPool_fails:
  assumes "tx_fails_with fn w d"
  shows "fst (withPool X fn w) = Inl (wrapConnErr X (EDriver d))"
  using assms by (auto simp: tx_fails_with_def withPool_def RunInTx_def Let_def split: option.splits sum.splits prod.splits)

lemma read_fails:
  assumes "tf_begin (next_tx w) = Some d \<or> tf_begin (next_tx w) = None \<and> tf_stmt (next_tx w) = Some d \<and> d \<noteq> ErrNoRows"
  shows "tx_fails_with (deptFindByIDFromTx u) w d"
  using assms by (auto simp: tx_fails_with_def deptFindByIDFromTx_def query_def scanDepartment_def)

text \<open>
  C29. How a failure of the database reaches the client. Whatever is run in the transaction wrapper of
  the repositories, if it fails with an error of the driver, at its begin, in its body or at its commit,
  HandleError turns the error the wrapper returns into 503 for the SQLSTATE classes 08, 53, 57 and 58,
  for a server error whose text quotes a SQLSTATE of class 57 or 58, and for failures that are not errors
  of the server; into 500 for every other error of the server, a cancelled or late context and a bare
  no-rows error. (Bodies and services that translate a violation of a constraint themselves replace that
  error before HandleError sees it.) A server error that reached the HTTP layer without the wrapper would
  get the same status. The read of a department (CAT-7) answers just so when its transaction cannot begin
  or its SELECT fails, and it answers 404 when the SELECT finds no row.
\<close>

theorem database_failures_classified:
  assumes X: "ext_ok X" and id: "parseUUIDParam X c ''id'' = Inr u"
  shows "(tx_fails_with fn w d \<longrightarrow>
            (\<exists>err. fst (withPool X fn w) = Inl err \<and> rs_status (fst (HandleError X c err v)) = failure_status d))
     \<and> rs_status (fst (HandleError X c (EDriver (PgErr e)) v)) = failure_status (PgErr e)
     \<and> (tf_begin (next_tx w) = Some d \<or> tf_begin (next_tx w) = None \<and> tf_stmt (next_tx w) = Some d \<and> d \<noteq> ErrNoRows \<longrightarrow>
          rs_status (fst (DepartmentHandler_Get X (pg_department_service X ttl) c w)) = failure_status d)
     \<and> (next_tx w = tx_ok \<and> u \<notin> d_ID ` set (t_departments (w_db w)) \<longrightarrow>
          rs_status (fst (DepartmentHandler_Get X (pg_department_service X ttl) c w)) = 404)"
proof (intro conjI impI)
  show "\<exists>err. fst (withPool X fn w) = Inl err \<and> rs_status (fst (HandleError X c err v)) = failure_status d"
    if "tx_fails_with fn w d"
    using withPool_fails [OF that, of X] translated_status [OF X] by simp
  show "rs_status (fst (HandleError X c (EDriver (PgErr e)) v)) = failure_status (PgErr e)"
    by (rule untranslated_status [OF X])
  show "rs_status (fst (DepartmentHandler_Get X (pg_department_service X ttl) c w)) = failure_status d"
    if "tf_begin (next_tx w) = Some d \<or> tf_begin (next_tx w) = None \<and> tf_stmt (next_tx w) = Some d \<and> d \<noteq> ErrNoRows"
    using withPool_fails [OF read_fails [OF that], of X u] translated_status [OF X]
    by (auto simp: DepartmentHandler_Get_def id DepartmentService_Get_def DepartmentRepository_FindByID_def split: prod.split)
  show "rs_status (fst (DepartmentHandler_Get X (pg_department_service X ttl) c w)) = 404"
    if missing: "next_tx w = tx_ok \<and> u \<notin> d_ID ` set (t_departments (w_db w))"
  proof -
    have "find (\<lambda>r. d_ID r = u) (t_departments (w_db w)) = None" using missing by (auto simp: find_None_iff)
    then show ?thesis
      using withPool_no_fault [OF conjunct1 [OF missing], of X "deptFindByIDFromTx u"]
      by (simp add: DepartmentHandler_Get_def id DepartmentService_Get_def DepartmentRepository_FindByID_def
          deptFindByIDFromTx_def query_def sql_select_department_def scanDepartment_def HandleError_domain domainErrorStatus_def)
  qed
qed

text \<open>An administrator stops the server while a department is read.\<close>

theorem database_failures_classified_witness:
  "rs_status (fst (DepartmentHandler_Get ext_ref (pg_department_service ext_ref (seconds 60))
     ((sample_request ''GET'' ''/'' EmptyBody)\<lparr>q_params := [(''id'', x_uuid_string ext_ref 9)]\<rparr>)
     (sample_world\<lparr>w_tx := [tx_ok\<lparr>tf_stmt := Some (pg_raise ''57P01'' '''' ''terminating connection'')\<rparr>]\<rparr>))) = 503"
proof -
  let ?d = "pg_raise ''57P01'' '''' ''terminating connection''"
  let ?w = "sample_world\<lparr>w_tx := [tx_ok\<lparr>tf_stmt := Some ?d\<rparr>]\<rparr>"
  let ?c = "(sample_request ''GET'' ''/'' EmptyBody)\<lparr>q_params := [(''id'', x_uuid_string ext_ref 9)]\<rparr>"
  have id: "parseUUIDParam ext_ref ?c ''id'' = Inr 9"
    using sample_uuids [of 9] by (simp add: parseUUIDParam_def lookup_or_empty_def custom_uuid)
  have "tf_begin (next_tx ?w) = None \<and> tf_stmt (next_tx ?w) = Some ?d \<and> ?d \<noteq> ErrNoRows"
    by (simp add: next_tx_def pg_raise_def)
  moreover have "failure_status ?d = 503" by (simp add: pg_raise_def availability_class_def has_prefix_def)
  ultimately show ?thesis
    using database_failures_classified [OF ext_ref_ok id, of _ ?w ?d] by metis
qed

section \<open>The errors the handlers report\<close>

text \<open>
  An error that reaches HandleError is never the reader's size error, and the details of a domain
  error are a code and the fields the catalogue of errors names, each once.
\<close>

definition detail_ok :: "string \<times> go_any \<Rightarrow> bool" where
  "detail_ok kv \<longleftrightarrow>
     (case kv of (k, a) \<Rightarrow> k = ''field'' \<or> k = ''key'' \<or> k = ''record_version'' \<or> k = ''code'' \<and> (\<exists>s. a = AStr s))"

definition ordinary_error :: "go_error \<Rightarrow> bool" where
  "ordinary_error e =
     (case e of
        EMaxBytes \<Rightarrow> False
      | EDriver _ \<Rightarrow> True
      | EDomain de \<Rightarrow> distinct (map fst (de_Details de)) \<and> list_all detail_ok (de_Details de))"

lemma ordinary_simps [simp]:
  "ordinary_error (EDriver d)" "\<not> ordinary_error EMaxBytes"
  "ordinary_error (EDomain (NewError s m))"
  "ordinary_error (EDomain (WithDetails de ds)) \<longleftrightarrow> distinct (map fst ds) \<and> list_all detail_ok ds"
  by (simp_all add: ordinary_error_def NewError_def WithDetails_def)

lemma detail_ok_simps [simp]:
  "detail_ok (''field'', a)" "detail_ok (''key'', a)" "detail_ok (''record_version'', a)" "detail_ok (''code'', AStr s)"
  by (simp_all add: detail_ok_def)

lemma wrap_ordinary: "ordinary_error e \<Longrightarrow> ordinary_error (wrapConnErr X e)"
  by (cases e) (simp_all add: wrapConnErr_def)

lemma pool_ordinary:
  assumes "withPool X fn w = (Inl e, w')" and "\<And>t v e0 v'. fn t v = (Inl e0, v') \<Longrightarrow> ordinary_error e0"
  shows "ordinary_error e"
  using assms(1) by (rule withPool_Inl) (auto simp: wrap_ordinary dest: assms(2))

lemma scan_ordinary: "scanDepartment q = Inl e \<Longrightarrow> ordinary_error e" "scanPlan X p = Inl e \<Longrightarrow> ordinary_error e"
  "scan_rows X rows = Inl e \<Longrightarrow> ordinary_error e"
proof -
  show "scanDepartment q = Inl e \<Longrightarrow> ordinary_error e" by (auto simp: scanDepartment_def split: sum.splits option.splits)
  show p: "scanPlan X p = Inl e \<Longrightarrow> ordinary_error e" for p by (auto simp: scanPlan_def split: sum.splits option.splits)
  show "scan_rows X rows = Inl e \<Longrightarrow> ordinary_error e"
    by (induction rows) (auto simp: sum_bind_def dest: p split: sum.splits)
qed

lemma repository_ordinary:
  "DepartmentRepository_List X b w = (Inl e, w') \<Longrightarrow> ordinary_error e"
  "DepartmentRepository_FindByID X u w = (Inl e, w') \<Longrightarrow> ordinary_error e"
  "DepartmentRepository_Insert X dp w = (Inl e, w') \<Longrightarrow> ordinary_error e"
  "DepartmentRepository_Update X u nm act v w = (Inl e, w') \<Longrightarrow> ordinary_error e"
  "PlanRepository_List X w = (Inl e, w') \<Longrightarrow> ordinary_error e"
  "PlanRepository_FindByCode X code w = (Inl e, w') \<Longrightarrow> ordinary_error e"
  "PlanRepository_Update X code patch w = (Inl e, w') \<Longrightarrow> ordinary_error e"
  by (auto simp: DepartmentRepository_List_def DepartmentRepository_FindByID_def DepartmentRepository_Insert_def
      DepartmentRepository_Update_def PlanRepository_List_def PlanRepository_FindByCode_def PlanRepository_Update_def
      deptListFromTx_def deptFindByIDFromTx_def deptInsertFromTx_def deptUpdateBody_def deptUpdateFromTx_def
      planListFromTx_def planFindFromTx_def planUpdateBody_def planUpdateFromTx_def Let_def
      elim!: pool_ordinary dest: scan_ordinary split: if_splits prod.splits option.splits sum.splits)

lemma write_error_source:
  "write_then_invalidate (Some valkey_port) k f w = (Inl e, w') \<Longrightarrow> f w = (Inl e, w')"
  by (erule write_then_invalidate_pg) auto

lemma read_error_source:
  assumes "read_through (Some valkey_port) k dec enc ttl fetch w = (Inl e, w')"
  shows "\<exists>w1. fetch w1 = (Inl e, w')"
  using assms by (auto simp: read_through_def split: prod.splits option.splits sum.splits)

lemma check_patch_ordinary: "check_patch code p = Some de \<Longrightarrow> ordinary_error (EDomain de)"
proof -
  have f: "check_features m = Some de \<Longrightarrow> ordinary_error (EDomain de)" for m
    by (induction m rule: check_features.induct) (auto split: if_splits)
  show "check_patch code p = Some de \<Longrightarrow> ordinary_error (EDomain de)"
    by (auto simp: check_patch_def dest: f split: if_splits)
qed

lemma service_ordinary:
  "DepartmentService_List X (pg_department_service X ttl) b w = (Inl e, w') \<Longrightarrow> ordinary_error e"
  "DepartmentService_Get (pg_department_service X ttl) u w = (Inl e, w') \<Longrightarrow> ordinary_error e"
  "DepartmentService_Create (pg_department_service X ttl) code name sys w = (Inl e, w') \<Longrightarrow> ordinary_error e"
  "DepartmentService_Patch X (pg_department_service X ttl) u nm act v w = (Inl e, w') \<Longrightarrow> ordinary_error e"
  "PlanService_List X (pg_plan_service X ttl) w = (Inl e, w') \<Longrightarrow> ordinary_error e"
  "PlanService_GetByCode (pg_plan_service X ttl) pcode w = (Inl e, w') \<Longrightarrow> ordinary_error e"
  "PlanService_Patch (pg_plan_service X ttl) pcode p w = (Inl e, w') \<Longrightarrow> ordinary_error e"
proof -
  note repo = repository_ordinary
  show "ordinary_error e" if "DepartmentService_List X (pg_department_service X ttl) b w = (Inl e, w')"
    using DepartmentService_List_pg [OF that] read_error_source repo(1)
    by (fastforce simp: listAllCached_read_through split: sum.splits)
  show "ordinary_error e" if "DepartmentService_Get (pg_department_service X ttl) u w = (Inl e, w')"
    using that repo(2) by (simp add: DepartmentService_Get_def)
  show "ordinary_error e" if "DepartmentService_Create (pg_department_service X ttl) code name sys w = (Inl e, w')"
    using that repo(3) by (auto simp: DepartmentService_Create_def split: if_splits prod.splits sum.splits)
  show "ordinary_error e" if "DepartmentService_Patch X (pg_department_service X ttl) u nm act v w = (Inl e, w')"
    using that repo(4) by (auto simp: DepartmentService_Patch_def patch_error_def split: if_splits prod.splits sum.splits)
  show "ordinary_error e" if "PlanService_List X (pg_plan_service X ttl) w = (Inl e, w')"
    using that read_error_source repo(5) by (fastforce simp: PlanService_List_read_through)
  show "ordinary_error e" if "PlanService_GetByCode (pg_plan_service X ttl) pcode w = (Inl e, w')"
    using that repo(6) by (auto simp: PlanService_GetByCode_def split: if_splits)
  show "ordinary_error e" if "PlanService_Patch (pg_plan_service X ttl) pcode p w = (Inl e, w')"
    using that repo(7) check_patch_ordinary
    by (auto simp: PlanService_Patch_def split: if_splits prod.splits sum.splits option.splits)
qed

lemma request_error_ordinary:
  "parseUUIDParam X c n = Inl e \<Longrightarrow> ordinary_error e"
  "requireOperator c = Some e \<Longrightarrow> ordinary_error e" "requireSystem c = Some e \<Longrightarrow> ordinary_error e"
  "parse_patch b = Inl e \<Longrightarrow> ordinary_error e" "DepartmentService_DeleteBlocked = Inl e \<Longrightarrow> ordinary_error e"
  by (auto simp: parseUUIDParam_def requireOperator_def requireSystem_def parse_patch_def parseLimit_def
      DepartmentService_DeleteBlocked_def Let_def split: if_splits option.splits sum.splits json.splits)

lemma handler_errors_ordinary [simp]: "ordinary_error (field_immutable f)" "ordinary_error invalid_body"
  by (simp_all add: field_immutable_def invalid_body_def)

text \<open>Every answer of a handler is a success, a refusal by a role gate, or an ordinary error.\<close>

definition handler_answer :: "ext \<Rightarrow> request \<Rightarrow> response \<times> world \<Rightarrow> bool" where
  "handler_answer X c o' \<longleftrightarrow>
     rs_status (fst o') = 200 \<or> rs_status (fst o') = 201
   \<or> (\<exists>msg. fst o' = error_reply c 403 ''insufficient_role'' msg)
   \<or> (\<exists>err w1. ordinary_error err \<and> o' = HandleError X c err w1)"

lemma handler_answerI:
  "rs_status r = 200 \<Longrightarrow> handler_answer X c (r, w)" "rs_status r = 201 \<Longrightarrow> handler_answer X c (r, w)"
  "handler_answer X c (error_reply c 403 ''insufficient_role'' msg, w)"
  "ordinary_error err \<Longrightarrow> handler_answer X c (HandleError X c err w)"
  by (auto simp: handler_answer_def)

lemma handler_answer_simps [simp]:
  "handler_answer X c (json_response 200 j, w)" "handler_answer X c (json_response 201 j, w)"
  "handler_answer X c (HandleError X c invalid_body w)" "handler_answer X c (HandleError X c (field_immutable f) w)"
  by (simp_all add: handler_answerI)

text \<open>A service call that ends a handler: its errors are ordinary ones, its results are reported as successes.\<close>

lemma service_call_answer:
  assumes "\<And>e w'. call = (Inl e, w') \<Longrightarrow> ordinary_error e"
  shows "handler_answer X c (case call of (Inl e, w1) \<Rightarrow> HandleError X c e (f e w1) | (Inr a, w1) \<Rightarrow> (json_response 200 (g a w1), h w1))"
    and "handler_answer X c (case call of (Inl e, w1) \<Rightarrow> HandleError X c e (f e w1) | (Inr a, w1) \<Rightarrow> (json_response 201 (g a w1), h w1))"
  using assms by (auto intro: handler_answerI split: prod.split sum.split)

lemma department_answers:
  "handler_answer X c (DepartmentHandler_List X (pg_department_service X ttl) c w)"
  "handler_answer X c (DepartmentHandler_Get X (pg_department_service X ttl) c w)"
  "handler_answer X c (DepartmentHandler_Create X (pg_department_service X ttl) c w)"
  "handler_answer X c (DepartmentHandler_Patch X (pg_department_service X ttl) c w)"
  "handler_answer X c (DepartmentHandler_DeleteBlocked X c w)"
  "handler_answer X c (InternalHandler_Departments X (pg_department_service X ttl) c w)"
proof -
  note call = service_call_answer [OF service_ordinary(1)] service_call_answer [OF service_ordinary(2)]
    service_call_answer [OF service_ordinary(3)] service_call_answer [OF service_ordinary(4)]
  note err = handler_answerI(4) [OF request_error_ordinary(1)] handler_answerI(4) [OF request_error_ordinary(2)]
    handler_answerI(4) [OF request_error_ordinary(3)] handler_answerI(4) [OF request_error_ordinary(5)]
  show "handler_answer X c (DepartmentHandler_List X (pg_department_service X ttl) c w)"
    unfolding DepartmentHandler_List_def Let_def by (rule call)
  show "handler_answer X c (DepartmentHandler_Get X (pg_department_service X ttl) c w)"
    unfolding DepartmentHandler_Get_def by (cases "parseUUIDParam X c ''id''") (simp_all add: err call)
  show "handler_answer X c (DepartmentHandler_Create X (pg_department_service X ttl) c w)"
    unfolding DepartmentHandler_Create_def
    by (cases "requireOperator c"; cases "bind_create (q_body c)") (simp_all add: err call)
  show "handler_answer X c (DepartmentHandler_Patch X (pg_department_service X ttl) c w)"
    unfolding DepartmentHandler_Patch_def
    by (cases "requireOperator c"; cases "parseUUIDParam X c ''id''"; cases "raw_members (q_body c)"; cases "bind_dept_patch (q_body c)")
       (simp_all add: err call)
  show "handler_answer X c (DepartmentHandler_DeleteBlocked X c w)"
    unfolding DepartmentHandler_DeleteBlocked_def
    by (cases "requireOperator c") (simp_all add: err DepartmentService_DeleteBlocked_def handler_answerI)
  show "handler_answer X c (InternalHandler_Departments X (pg_department_service X ttl) c w)"
    unfolding InternalHandler_Departments_def by (cases "requireSystem c") (simp_all add: err call)
qed

lemma plan_answers:
  "handler_answer X c (PlanHandler_List X (pg_plan_service X ttl) c w)"
  "handler_answer X c (PlanHandler_Get X (pg_plan_service X ttl) c w)"
  "handler_answer X c (PlanHandler_Patch X (pg_plan_service X ttl) c w)"
  "handler_answer X c (InternalHandler_Plans X (pg_plan_service X ttl) c w)"
proof -
  note call = service_call_answer [OF service_ordinary(5)] service_call_answer [OF service_ordinary(6)]
    service_call_answer [OF service_ordinary(7)]
  note err = handler_answerI(4) [OF request_error_ordinary(2)] handler_answerI(4) [OF request_error_ordinary(3)]
    handler_answerI(4) [OF request_error_ordinary(4)]
  show "handler_answer X c (PlanHandler_List X (pg_plan_service X ttl) c w)"
    unfolding PlanHandler_List_def by (cases "requireOperator c") (simp_all add: err call)
  show "handler_answer X c (PlanHandler_Get X (pg_plan_service X ttl) c w)"
    unfolding PlanHandler_Get_def by (cases "requireOperator c") (simp_all add: err call)
  show "handler_answer X c (PlanHandler_Patch X (pg_plan_service X ttl) c w)"
    unfolding PlanHandler_Patch_def
    by (cases "requireOperator c"; cases "bind_plan_patch X (q_body c)") (simp_all add: err call split: sum.split)
  show "handler_answer X c (InternalHandler_Plans X (pg_plan_service X ttl) c w)"
    unfolding InternalHandler_Plans_def by (cases "requireSystem c") (simp_all add: err call)
qed

lemma role_gate_answers:
  "(\<And>w. handler_answer X c (h c w)) \<Longrightarrow> handler_answer X c (RequireOperatorRole h c w)"
  "(\<And>w. handler_answer X c (h c w)) \<Longrightarrow> handler_answer X c (RequireSystemRole h c w)"
  by (auto simp: RequireOperatorRole_def RequireSystemRole_def handler_answerI split: option.split)

lemma api_handler_answer:
  assumes "\<not> infra_endpoint e"
  shows "handler_answer X c (api_handler X (pg_config X ttl d) e c w)"
  using assms by (cases e) (simp_all add: api_handler_def infra_endpoint_def department_answers plan_answers role_gate_answers)

section \<open>The error envelope\<close>

lemma HandleError_envelope:
  assumes "\<And>de. e = EDomain de \<Longrightarrow> distinct (map fst (de_Details de)) \<and> map_of (de_Details de) ''status'' = None"
  shows "body_field ''error'' (fst (HandleError X c e w)) = body_field ''code'' (fst (HandleError X c e w))
     \<and> body_field ''code'' (fst (HandleError X c e w)) \<noteq> None
     \<and> body_field ''status'' (fst (HandleError X c e w)) = Some (JNum (JInt (int (rs_status (fst (HandleError X c e w))))))"
proof (cases e)
  case (EDomain de)
  let ?m = "errorResponseWithDetails
      ((newErrorResponse (Some c) (de_Code de) (de_Message de))\<lparr>er_Status := domainErrorStatus de\<rparr>) (de_Details de)"
  have d: "distinct (map fst (de_Details de))" and s: "map_of (de_Details de) ''status'' = None"
    using assms [OF EDomain] by blast+
  have f: "body_field k (fst (HandleError X c e w)) = map_option (any_to_json (x_format_float X)) (map_of ?m k)" for k
    unfolding EDomain HandleError_domain body_field_def fst_conv json_response_simps resp_body.case
    by (rule jfield_object [OF distinct_errorResponseWithDetails])
  have st: "rs_status (fst (HandleError X c e w)) = domainErrorStatus de" by (simp add: EDomain HandleError_domain)
  have "map_of ?m ''status'' = Some (AInt (int (domainErrorStatus de)))"
    using errorResponse_fields(1) [OF d] s by simp
  moreover have "map_of ?m ''code'' \<noteq> None"
    using errorResponse_fields(2) [OF d] by (simp split: option.split)
  moreover have "map_of ?m ''error'' = map_of ?m ''code''" by (rule errorResponse_code_error)
  ultimately show ?thesis unfolding f st by simp
qed (simp_all add: HandleError_def error_reply_fields)

lemma ordinary_envelope:
  assumes "ordinary_error e" and "HandleError X c e w = (r, w')"
  shows "body_field ''error'' r = body_field ''code'' r \<and> body_field ''code'' r \<noteq> None
     \<and> body_field ''status'' r = Some (JNum (JInt (int (rs_status r))))"
proof -
  have "distinct (map fst (de_Details de)) \<and> map_of (de_Details de) ''status'' = None" if "e = EDomain de" for de
    using assms(1) that by (auto simp: ordinary_error_def detail_ok_def list_all_iff map_of_eq_None_iff)
  from HandleError_envelope [of e X c w, OF this] show ?thesis using assms(2) by simp
qed

text \<open>
  C30. The error envelope: every answer of an API handler that is not a success has a JSON body with a
  code, the same under \<open>error\<close> and \<open>code\<close> even when the details of a domain error
  override it, and its \<open>status\<close> is the status of the response.
\<close>

theorem error_envelope:
  assumes "\<not> infra_endpoint e" and "api_handler X (pg_config X ttl d) e c w = (r, w')"
    and "rs_status r \<noteq> 200" and "rs_status r \<noteq> 201"
  shows "body_field ''error'' r = body_field ''code'' r \<and> body_field ''code'' r \<noteq> None
     \<and> body_field ''status'' r = Some (JNum (JInt (int (rs_status r))))"
proof -
  from api_handler_answer [OF assms(1), of X c ttl d w] assms(2-4)
  consider msg where "r = error_reply c 403 ''insufficient_role'' msg"
    | err w1 where "ordinary_error err" "HandleError X c err w1 = (r, w')"
    by (auto simp: handler_answer_def dest: sym)
  then show ?thesis
  proof cases
    case 1
    have "rs_status r = 403" by (simp add: 1 error_reply_def)
    then show ?thesis by (simp add: 1 error_reply_fields)
  next
    case 2
    then show ?thesis by (rule ordinary_envelope)
  qed
qed

theorem error_envelope_witness:
  "body_field ''error'' (fst (api_handler ext_ref sample_config EDeptPatch (sample_request ''PATCH'' ''/'' EmptyBody) sample_world))
     = body_field ''code'' (fst (api_handler ext_ref sample_config EDeptPatch (sample_request ''PATCH'' ''/'' EmptyBody) sample_world))"
proof -
  let ?o = "api_handler ext_ref sample_config EDeptPatch (sample_request ''PATCH'' ''/'' EmptyBody) sample_world"
  have "rs_status (fst ?o) = 403"
    by (simp add: api_handler_def RequireOperatorRole_def sample_request_def error_reply_def)
  then show ?thesis
    using error_envelope [OF _ prod.collapse [symmetric, of "api_handler ext_ref (pg_config ext_ref (seconds 60) sample_docs) EDeptPatch (sample_request ''PATCH'' ''/'' EmptyBody) sample_world"]]
    by (simp add: infra_endpoint_def sample_config_def)
qed

section \<open>Bodies over the limit\<close>

lemma HandleError_413: "HandleError X c e w = (r, w') \<Longrightarrow> ordinary_error e \<Longrightarrow> rs_status r \<noteq> 413"
  by (auto simp: HandleError_def Let_def domainErrorStatus_def split: go_error.splits if_splits)

text \<open>The three handlers that bind a body, given one the reader has cut off.\<close>

lemma requireOperator_role: "requireOperator c = None \<Longrightarrow> RequireOperatorRole h c w = h c w"
  by (auto simp: requireOperator_def RequireOperatorRole_def split: option.splits if_splits)

lemma cut_body_binds:
  "bind_create CutBody = Inl EMaxBytes" "bind_dept_patch CutBody = Inl EMaxBytes" "bind_plan_patch X CutBody = Inl EMaxBytes"
  by (simp_all add: bind_create_def bind_dept_patch_def bind_plan_patch_def ShouldBindJSON_def decode_first_def binding_error_def)

lemma cut_body_handled:
  assumes "q_body c = CutBody" and "requireOperator c = None"
    and "e = EDeptCreate \<or> e = EPlanPatch \<or> e = EDeptPatch \<and> parseUUIDParam X c ''id'' = Inr u"
  shows "api_handler X cfg e c w = HandleError X c invalid_body w"
  using assms(3)
  by (auto simp: api_handler_def requireOperator_role [OF assms(2)] DepartmentHandler_Create_def DepartmentHandler_Patch_def
      PlanHandler_Patch_def assms(1,2) cut_body_binds raw_members_def body_nonempty_def unmarshal_all_def)

lemma invalid_body_reply:
  assumes "HandleError X c invalid_body w = (r, w')"
  shows "rs_status r = 400 \<and> body_field ''code'' r = Some (JStr ''validation_error'')
     \<and> body_field ''message'' r = Some (JStr ''invalid request body'') \<and> w' = w"
proof -
  let ?er = "(newErrorResponse (Some c) ''validation_error'' ''invalid request body'')\<lparr>er_Status := 400\<rparr>"
  have de: "HandleError X c invalid_body w = (json_response 400 (any_to_json (x_format_float X) (AMap (errorResponseWithDetails ?er []))), w)"
    by (simp add: invalid_body_def HandleError_domain domainErrorStatus_def)
  have f: "body_field k r = map_option (any_to_json (x_format_float X)) (map_of (errorResponseWithDetails ?er []) k)" for k
    using assms unfolding de prod.inject by (auto simp: body_field_def jfield_object [OF distinct_errorResponseWithDetails] simp del: any_to_json.simps)
  have "er_Code ?er = ''validation_error''" "er_Message ?er = ''invalid request body''"
    by (simp_all add: newErrorResponse_def Let_def)
  then show ?thesis using assms unfolding de f by (auto simp: errorResponse_fields)
qed

text \<open>
  C33. A body over 1 MiB is never answered with 413 by a handler, only by its Content-Length. If the
  reader of the body fails at 1 MiB before the first document is complete, decoding the body gives the
  reader's size error, and HandleError would answer 413 to it; but the three handlers that bind a body
  replace every binding error by a validation error, so an operator gets 400 with the message of a
  malformed body, and nothing is changed.
\<close>

theorem handlers_never_answer_413:
  assumes "api_handler X (pg_config X ttl d) e c w = (r, w')"
  shows "rs_status r \<noteq> 413
     \<and> (q_body c = CutBody \<and> requireOperator c = None
          \<and> (e = EDeptCreate \<or> e = EPlanPatch \<or> e = EDeptPatch \<and> parseUUIDParam X c ''id'' = Inr u) \<longrightarrow>
        rs_status r = 400 \<and> body_field ''code'' r = Some (JStr ''validation_error'')
        \<and> body_field ''message'' r = Some (JStr ''invalid request body'') \<and> w' = w)
     \<and> bind_create CutBody = Inl EMaxBytes \<and> bind_dept_patch CutBody = Inl EMaxBytes
     \<and> bind_plan_patch X CutBody = Inl EMaxBytes \<and> rs_status (fst (HandleError X c EMaxBytes w)) = 413"
proof (intro conjI impI)
  show "rs_status r \<noteq> 413"
  proof (cases "infra_endpoint e")
    case True
    then show ?thesis using assms by (cases e) (auto simp: infra_endpoint_def api_handler_def unwritten_def)
  next
    case False
    from api_handler_answer [OF this, of X c ttl d w] show ?thesis
      using HandleError_413 [OF sym] unfolding handler_answer_def assms by (auto simp: error_reply_def)
  qed
  assume "q_body c = CutBody \<and> requireOperator c = None
    \<and> (e = EDeptCreate \<or> e = EPlanPatch \<or> e = EDeptPatch \<and> parseUUIDParam X c ''id'' = Inr u)"
  then have "HandleError X c invalid_body w = (r, w')" using cut_body_handled [of c e X u] assms by metis
  note reply = invalid_body_reply [OF this]
  from reply show "rs_status r = 400" "body_field ''code'' r = Some (JStr ''validation_error'')"
    "body_field ''message'' r = Some (JStr ''invalid request body'')" "w' = w" by simp_all
qed (simp_all add: cut_body_binds HandleError_def error_reply_def)

theorem handlers_never_answer_413_witness:
  "rs_status (fst (api_handler ext_ref sample_config EPlanPatch
     ((sample_request ''PATCH'' ''/api/v1/operator/plans/pro'' CutBody)\<lparr>q_context := Some operator_context\<rparr>) sample_world)) = 400"
  using handlers_never_answer_413 [OF prod.collapse [symmetric], of ext_ref "seconds 60" sample_docs EPlanPatch
      "(sample_request ''PATCH'' ''/api/v1/operator/plans/pro'' CutBody)\<lparr>q_context := Some operator_context\<rparr>" sample_world]
  unfolding sample_config_def
  by (simp add: sample_request_def requireOperator_def operator_context_def IsOperator_def HasRole_def)

section \<open>Authentication replies\<close>

lemma NormalizeAuthErrors_object:
  assumes "rs_status r = 401" and "rs_body r = RJson (JObj kvs)"
    and raw: "any_of_json (x_parse_float X) (JObj kvs) = Some (AMap m)"
  shows "NormalizeAuthErrors X u r =
     Some (if map_of m ''code'' = None
           then json_response 401 (any_to_json (x_format_float X)
                  (AMap (map_put ''error'' (AStr ''missing_identity_headers'')
                          (map_put ''code'' (AStr ''missing_identity_headers'') m))))
           else r)"
  using assms by (auto simp: NormalizeAuthErrors_def flush_buffer_def bufferedWriter_Status_def simp del: any_of_json.simps)

lemma any_of_json_object_fields:
  assumes "any_of_json f64 (JObj kvs) = Some (AMap m)"
  shows "distinct (map fst m)" and "map_of m k = None \<longleftrightarrow> jfield k (JObj kvs) = None"
proof -
  obtain es where es: "collect_options (map (\<lambda>(k, j). map_option (Pair k) (any_of_json f64 j)) kvs) = Some es"
    and m: "m = map_put_all [] es" using assms by auto
  show "distinct (map fst m)" unfolding m by (rule distinct_map_put_all) simp
  have keys: "map fst es = map fst kvs"
    using es by (induction kvs arbitrary: es) (auto simp: collect_options_Some_iff split: option.splits)
  have put: "map_of (map_put_all m0 fs) k = None \<longleftrightarrow> map_of m0 k = None \<and> k \<notin> fst ` set fs"
    for m0 fs :: "(string \<times> go_any) list"
    by (induction m0 fs rule: map_put_all.induct) auto
  have "map_of m k = None \<longleftrightarrow> k \<notin> fst ` set es" unfolding m put by simp
  also have "fst ` set es = fst ` set kvs" using keys by (metis set_map)
  also have "k \<notin> fst ` set kvs \<longleftrightarrow> jfield k (JObj kvs) = None" by (simp add: map_of_eq_None_iff)
  finally show "map_of m k = None \<longleftrightarrow> jfield k (JObj kvs) = None" .
qed

text \<open>
  C32. NormalizeAuthErrors: of a 401 with a decodable JSON object the client always gets a code. A body
  that has one is passed on as it is; one that has none gets missing_identity_headers under code and
  error and keeps its other fields.
\<close>

theorem auth_errors_get_a_code:
  assumes "rs_status r = 401" and "rs_body r = RJson (JObj kvs)"
    and raw: "any_of_json (x_parse_float X) (JObj kvs) = Some (AMap m)"
  shows "\<exists>r'. NormalizeAuthErrors X u r = Some r' \<and> rs_status r' = 401 \<and> body_field ''code'' r' \<noteq> None
     \<and> (body_field ''code'' r \<noteq> None \<longrightarrow> r' = r)
     \<and> (body_field ''code'' r = None \<longrightarrow>
          body_field ''code'' r' = Some (JStr ''missing_identity_headers'') \<and> body_field ''error'' r' = body_field ''code'' r'
        \<and> (\<forall>k. k \<noteq> ''code'' \<longrightarrow> k \<noteq> ''error'' \<longrightarrow> body_field k r' = map_option (any_to_json (x_format_float X)) (map_of m k)))"
proof -
  note fld = any_of_json_object_fields [OF raw]
  have code: "body_field ''code'' r = None \<longleftrightarrow> map_of m ''code'' = None"
    using fld(2) [of "''code''"] assms(2) by (simp add: body_field_def)
  show ?thesis
  proof (cases "map_of m ''code'' = None")
    case True
    let ?m = "map_put ''error'' (AStr ''missing_identity_headers'') (map_put ''code'' (AStr ''missing_identity_headers'') m)"
    have d: "distinct (map fst ?m)" by (intro distinct_map_put fld(1))
    have f: "body_field k (json_response 401 (any_to_json (x_format_float X) (AMap ?m)))
        = map_option (any_to_json (x_format_float X)) (map_of ?m k)" for k
      unfolding body_field_def json_response_simps resp_body.case by (rule jfield_object [OF d])
    show ?thesis unfolding NormalizeAuthErrors_object [OF assms] using True code f by simp
  next
    case False
    with code have "body_field ''code'' r \<noteq> None" by simp
    then show ?thesis unfolding NormalizeAuthErrors_object [OF assms] if_not_P [OF False]
      by (intro exI [of _ r]) (simp add: assms(1))
  qed
qed

theorem auth_errors_get_a_code_witness:
  "\<exists>r'. NormalizeAuthErrors ext_ref 200 (json_response 401 (JObj [(''error'', JStr ''no token'')])) = Some r'
     \<and> body_field ''code'' r' = Some (JStr ''missing_identity_headers'')"
  using auth_errors_get_a_code [of "json_response 401 (JObj [(''error'', JStr ''no token'')])"
      "[(''error'', JStr ''no token'')]" ext_ref "[(''error'', AStr ''no token'')]" 200]
  by (auto simp: body_field_def map_put_def)

section \<open>Probes and documentation\<close>

text \<open>
  /readyz answers 200 exactly when the pool is healthy and the cache answers a ping, and 503
  otherwise; it never touches the tables or the keyspace.
\<close>

lemma readyz_needs_both:
  "rs_status (fst (readyz G (pg_config X ttl d) c w)) =
     (if g_pool_healthy G w \<and> valkey_healthy w then 200 else 503)
   \<and> w_db (snd (readyz G (pg_config X ttl d) c w)) = w_db w
   \<and> w_store (snd (readyz G (pg_config X ttl d) c w)) = w_store w"
  by (auto simp: readyz_def Cache_Health_def valkey_healthy_def split: cache_fate.splits)

lemma foldl_OR_zero: "foldl (\<lambda>v x. v OR f x) (a :: 8 word) xs = 0 \<longleftrightarrow> a = 0 \<and> (\<forall>x \<in> set xs. f x = 0)"
  by (induction xs arbitrary: a) (auto simp: or_eq_0_iff)

lemma char_xor_zero: "(of_char a XOR of_char b :: 8 word) = 0 \<longleftrightarrow> a = b"
proof -
  have val: "unat (of_char c :: 8 word) = of_char c" for c
  proof -
    have "unat (of_nat (of_char c) :: 8 word) = of_char c mod 256" by (simp add: unat_of_nat)
    then show ?thesis unfolding of_nat_of_char of_char_mod_256 .
  qed
  have "(of_char a XOR of_char b :: 8 word) = 0 \<longleftrightarrow> (of_char a :: 8 word) = of_char b"
    by (auto simp: bit_eq_iff bit_xor_iff)
  also have "\<dots> \<longleftrightarrow> unat (of_char a :: 8 word) = unat (of_char b :: 8 word)" by (rule word_unat_eq_iff)
  also have "\<dots> \<longleftrightarrow> a = b" unfolding val by (rule of_char_eq_iff)
  finally show ?thesis .
qed

lemma compare_one: "ConstantTimeCompare x y = 1 \<longleftrightarrow> x = y"
proof (cases "length x = length y")
  case True
  have "(\<forall>p \<in> set (zip x y). fst p = snd p) \<longleftrightarrow> x = y"
    using True by (auto simp: list_eq_iff_nth_eq set_zip)
  moreover have "foldl (\<lambda>v (a, b). v OR (of_char a XOR of_char b)) (0 :: 8 word) (zip x y) = 0
      \<longleftrightarrow> (\<forall>p \<in> set (zip x y). fst p = snd p)"
    unfolding case_prod_beta foldl_OR_zero [of "\<lambda>p. of_char (fst p) XOR of_char (snd p)"] char_xor_zero by simp
  ultimately show ?thesis using True by (simp add: ConstantTimeCompare_def)
qed (auto simp: ConstantTimeCompare_def)

text \<open>
  C36. In production with a token configured, a documentation request gets a page exactly if its
  Authorization header is \<open>Bearer\<close> and the token (the fold over the bytes that crypto/subtle computes
  is zero for equal strings only), and anything else gets the 401; either way the answer carries the
  security headers and the state is unchanged.
\<close>

theorem docs_gate:
  assumes "dc_Environment dcs = ''production''" and "dc_AuthToken dcs \<noteq> ''''"
  shows "docs_handler G dcs c w =
      (dr_response (if lookup_or_empty ''Authorization'' (q_headers c) = ''Bearer '' @ dc_AuthToken dcs
                    then docs_page G c else docs_refusal), w)
    \<and> (\<exists>hs. dr_headers (docs_chain G dcs c) = sec_headers @ hs)"
proof -
  let ?got = "lookup_or_empty ''Authorization'' (q_headers c)" and ?want = "''Bearer '' @ dc_AuthToken dcs"
  have "docs_auth dcs c \<longleftrightarrow> ?got = ?want"
    using assms compare_one by (auto simp: docs_auth_def Let_def simp del: append_Cons append.simps)
  then show ?thesis unfolding docs_handler_def docs_chain_def secHeaders_def Let_def
    by (auto simp del: append_Cons append.simps)
qed

theorem docs_gate_witness:
  "docs_handler operator_gin sample_docs
     ((sample_request ''GET'' ''/swagger/index.css'' EmptyBody)\<lparr>q_headers := [(''Authorization'', ''Bearer s3creT'')]\<rparr>)
     sample_world = (dr_response docs_refusal, sample_world)
   \<and> docs_handler operator_gin sample_docs
     ((sample_request ''GET'' ''/swagger/index.css'' EmptyBody)\<lparr>q_headers := [(''Authorization'', ''Bearer s3cret'')]\<rparr>)
     sample_world = (\<lparr>rs_status = 200, rs_body = RText ''css''\<rparr>, sample_world)"
proof -
  have prod: "dc_Environment sample_docs = ''production''" "dc_AuthToken sample_docs \<noteq> ''''" by (simp_all add: sample_docs_def)
  show ?thesis
    by (intro conjI; subst docs_gate [OF prod, THEN conjunct1])
       (simp_all add: lookup_or_empty_def sample_docs_def docs_page_def has_suffix_def has_prefix_def SwaggerThemeHandler_def asset_reply_def
          operator_gin_def sample_gin_def sample_request_def)
qed

section \<open>Immutable fields\<close>

text \<open>
  A PATCH of a department whose body names code or is_system is refused with 422 field_immutable
  and the name of the field, before anything is looked up, whatever else the body asks for.
\<close>

theorem immutable_fields_refused:
  assumes "requireOperator c = None" and "parseUUIDParam X c ''id'' = Inr u"
    and "raw_members (q_body c) = Some raw"
    and "map_of raw ''code'' \<noteq> None \<or> map_of raw ''is_system'' \<noteq> None"
  shows "\<exists>r. DepartmentHandler_Patch X svc c w = (r, w) \<and> rs_status r = 422
     \<and> body_field ''code'' r = Some (JStr ''field_immutable'')
     \<and> body_field ''field'' r = Some (JStr (if map_of raw ''code'' \<noteq> None then ''code'' else ''is_system''))"
proof -
  let ?f = "if map_of raw ''code'' \<noteq> None then ''code'' else ''is_system''"
  have h: "DepartmentHandler_Patch X svc c w = HandleError X c (field_immutable ?f) w"
    using assms by (auto simp: DepartmentHandler_Patch_def)
  let ?de = "WithDetails (NewError ErrFieldImmutable (?f @ '' is immutable'')) [(''code'', AStr ''field_immutable''), (''field'', AStr ?f)]"
  let ?m = "errorResponseWithDetails ((newErrorResponse (Some c) (de_Code ?de) (de_Message ?de))\<lparr>er_Status := 422\<rparr>) (de_Details ?de)"
  have st: "domainErrorStatus ?de = 422" by (simp add: domainErrorStatus_def)
  have r: "HandleError X c (field_immutable ?f) w = (json_response 422 (any_to_json (x_format_float X) (AMap ?m)), w)"
    unfolding field_immutable_def HandleError_domain st ..
  have f: "body_field k (json_response 422 (any_to_json (x_format_float X) (AMap ?m)))
      = map_option (any_to_json (x_format_float X)) (map_of ?m k)" for k
    unfolding body_field_def json_response_simps resp_body.case
    by (rule jfield_object [OF distinct_errorResponseWithDetails])
  have m: "map_of ?m ''code'' = Some (AStr ''field_immutable'')" "map_of ?m ''field'' = Some (AStr ?f)"
    by (simp_all add: errorResponse_base)
  show ?thesis
    unfolding h r by (intro exI conjI, rule refl, simp, unfold f m, simp_all)
qed

theorem immutable_fields_refused_witness:
  "\<exists>r. DepartmentHandler_Patch ext_ref (pg_department_service ext_ref 0)
        ((sample_request ''PATCH'' ''/'' (DocBody (JObj [(''is_system'', JBool False)]) False))
           \<lparr>q_context := Some operator_context, q_params := [(''id'', x_uuid_string ext_ref 9)]\<rparr>) sample_world = (r, sample_world)
      \<and> body_field ''field'' r = Some (JStr ''is_system'')"
proof -
  let ?c = "(sample_request ''PATCH'' ''/'' (DocBody (JObj [(''is_system'', JBool False)]) False))
           \<lparr>q_context := Some operator_context, q_params := [(''id'', x_uuid_string ext_ref 9)]\<rparr>"
  have "parseUUIDParam ext_ref ?c ''id'' = Inr 9"
    using sample_uuids [of 9] by (simp add: parseUUIDParam_def lookup_or_empty_def Let_def custom_uuid)
  moreover have "requireOperator ?c = None"
    by (simp add: requireOperator_def operator_context_def IsOperator_def HasRole_def)
  moreover have "raw_members (q_body ?c) = Some [(''is_system'', JBool False)]"
    by (simp add: raw_members_def sample_request_def body_nonempty_def unmarshal_all_def)
  ultimately show ?thesis using immutable_fields_refused [of ?c ext_ref 9 "[(''is_system'', JBool False)]"] by fastforce
qed

end
