(* ===== verification/Api_Contract.thy ===== *)
theory Api_Contract
  imports Http_Properties Cache_Properties
begin

text \<open>
  The published API: the Swagger document the service serves (docs/swagger/docs.go, generated from the
  annotations of the handlers and the structs of dto.go), as schemas of JSON bodies and a table of the
  documented answers of each endpoint. What the handlers answer is checked against it.
\<close>

section \<open>Schemas\<close>

text \<open>
  A struct has its properties, of which those of the second list can be missing (\<open>omitempty\<close>); it is
  open if it may have members beyond them, as an error may have that carries details.
\<close>

datatype schema =
    AnyValue
  | Text
  | Enum "string list"
  | Integer
  | Flag
  | Nullable schema
  | ListOf schema
  | MapOf schema
  | Struct "(string \<times> schema) list" "string list" bool

function conforms :: "schema \<Rightarrow> json \<Rightarrow> bool" where
  "conforms AnyValue j = True"
| "conforms Text j = (case j of JStr _ \<Rightarrow> True | _ \<Rightarrow> False)"
| "conforms (Enum es) j = (case j of JStr s \<Rightarrow> s \<in> set es | _ \<Rightarrow> False)"
| "conforms Integer j = (case j of JNum (JInt _) \<Rightarrow> True | _ \<Rightarrow> False)"
| "conforms Flag j = (case j of JBool _ \<Rightarrow> True | _ \<Rightarrow> False)"
| "conforms (Nullable t) j = (if j = JNull then True else conforms t j)"
| "conforms (ListOf t) j = (case j of JArr js \<Rightarrow> list_all (conforms t) js | _ \<Rightarrow> False)"
| "conforms (MapOf t) j = (case j of JObj kvs \<Rightarrow> list_all (\<lambda>kv. conforms t (snd kv)) kvs | _ \<Rightarrow> False)"
| "conforms (Struct ps opt open') j =
     (case j of
        JObj kvs \<Rightarrow>
          list_all (\<lambda>p. case map_of (rev kvs) (fst p) of None \<Rightarrow> fst p \<in> set opt | Some v \<Rightarrow> conforms (snd p) v) ps
        \<and> (open' \<or> list_all (\<lambda>kv. fst kv \<in> fst ` set ps) kvs)
      | _ \<Rightarrow> False)"
  by pat_completeness auto
termination
proof (relation "measure (\<lambda>(t, j). size t)", goal_cases)
  case (5 ps opt open' j kvs p v)
  then have "size (snd p) \<le> size_list (size_prod (\<lambda>_. 0) size) ps" 
    by (induction ps) auto
  then show ?case by simp
qed auto


declare conforms.simps [simp del]

lemma conforms_simps [simp]:
  "conforms AnyValue j" "conforms Text (JStr s)" "conforms Flag (JBool b)" "conforms Integer (JNum (JInt n))"
  "conforms (Enum es) (JStr s) \<longleftrightarrow> s \<in> set es"
  "conforms (ListOf t) (JArr js) \<longleftrightarrow> list_all (conforms t) js"
  "conforms (MapOf t) (JObj kvs) \<longleftrightarrow> list_all (\<lambda>kv. conforms t (snd kv)) kvs"
  by (simp_all add: conforms.simps)

section \<open>The document\<close>

definition department_schema :: schema where
  "department_schema =
     Struct [(''code'', Text), (''id'', Text), (''is_active'', Flag), (''is_system'', Flag), (''name'', Text),
             (''record_version'', Integer)] [] False"

definition plan_schema :: schema where
  "plan_schema =
     Struct [(''code'', Enum [''starter'', ''pro'', ''enterprise'']), (''custom_branding'', Enum [''none'', ''logo'']),
             (''display_name'', Text), (''feature_set'', MapOf AnyValue), (''record_version'', Integer),
             (''sso_enabled'', Flag), (''tender_limit'', Nullable Integer), (''trial_duration_days'', Integer),
             (''workflow_template_limit'', Nullable Integer)] [] False"

definition department_list_schema :: schema where
  "department_list_schema = Struct [(''items'', ListOf department_schema)] [] False"

definition plans_list_schema :: schema where
  "plans_list_schema = Struct [(''items'', ListOf plan_schema)] [] False"

definition internal_departments_schema :: schema where
  "internal_departments_schema = Struct [(''as_of'', Text), (''departments'', ListOf department_schema)] [] False"

definition internal_plans_schema :: schema where
  "internal_plans_schema =
     Struct [(''plans'', ListOf plan_schema), (''record_versions'', MapOf Integer)] [] False"

definition error_schema :: schema where
  "error_schema =
     Struct [(''code'', Text), (''error'', Text), (''message'', Text), (''request_id'', Text), (''status'', Integer),
             (''trace_id'', Text)] [''request_id'', ''trace_id''] True"

definition documented_errors :: "nat list \<Rightarrow> (nat \<times> schema) list" where
  "documented_errors ss = map (\<lambda>s. (s, error_schema)) ss"

definition documented_departments :: "endpoint \<Rightarrow> (nat \<times> schema) list" where
  "documented_departments e =
     (case e of
        EDeptList \<Rightarrow> (200, department_list_schema) # documented_errors [401]
      | EDeptGet \<Rightarrow> (200, department_schema) # documented_errors [401, 404]
      | _ \<Rightarrow> [])"

definition documented_internal :: "endpoint \<Rightarrow> (nat \<times> schema) list" where
  "documented_internal e =
     (case e of
        EInternalDepartments \<Rightarrow> (200, internal_departments_schema) # documented_errors [401, 403]
      | EInternalPlans \<Rightarrow> (200, internal_plans_schema) # documented_errors [401, 403]
      | _ \<Rightarrow> [])"

definition documented_operator_departments :: "endpoint \<Rightarrow> (nat \<times> schema) list" where
  "documented_operator_departments e =
     (case e of
        EDeptCreate \<Rightarrow> (201, department_schema) # documented_errors [400, 401, 403, 409]
      | EDeptDelete \<Rightarrow> documented_errors [401, 403, 405]
      | EDeptPatch \<Rightarrow> (200, department_schema) # documented_errors [400, 401, 403, 404, 409, 422]
      | _ \<Rightarrow> [])"

definition documented_operator_plans :: "endpoint \<Rightarrow> (nat \<times> schema) list" where
  "documented_operator_plans e =
     (case e of
        EPlanList \<Rightarrow> (200, plans_list_schema) # documented_errors [401, 403]
      | EPlanGet \<Rightarrow> (200, plan_schema) # documented_errors [401, 403, 404]
      | EPlanPatch \<Rightarrow> (200, plan_schema) # documented_errors [400, 401, 403, 404, 409]
      | _ \<Rightarrow> [])"

definition documented :: "endpoint \<Rightarrow> (nat \<times> schema) list" where
  "documented e =
     documented_departments e @ documented_internal e @ documented_operator_departments e @ documented_operator_plans e"

lemmas documented_defs = documented_def documented_departments_def documented_internal_def
  documented_operator_departments_def documented_operator_plans_def

section \<open>Success bodies\<close>

lemma department_conforms [simp]: "conforms department_schema (department_response_json r)"
  by (simp add: department_schema_def department_response_json_def conforms.simps(9))

definition plan_published :: "plan \<Rightarrow> bool" where
  "plan_published p \<longleftrightarrow>
     p_Code p \<in> set tenant_plan_enum \<and> p_CustomBranding p \<in> set branding_level_enum \<and> p_FeatureSet p \<noteq> None"

lemma plan_conforms [simp]:
  assumes "plan_published p"
  shows "conforms plan_schema (plan_response_json X (planToResponse p))"
proof -
  have lim: "conforms (Nullable Integer) (int_ptr_json n)" for n
    by (simp add: conforms.simps int_ptr_json_def split: option.split)
  obtain m where "p_FeatureSet p = Some m" using assms by (auto simp: plan_published_def)
  then have fs: "conforms (MapOf AnyValue) (map_json (x_format_float X) (p_FeatureSet p))"
    by (simp add: map_json_def list_all_iff)
  show ?thesis
    using assms lim fs unfolding plan_schema_def plan_response_json_def planToResponse_def
    by (simp add: conforms.simps(9) plan_published_def tenant_plan_enum_def branding_level_enum_def)
qed

lemma row_published:
  assumes "db_ok db" and "row \<in> set (t_plans db)" and "scanPlan X (Inr (Some row)) = Inr p"
  shows "plan_published p"
proof -
  have "map pr_code (t_plans db) = tenant_plan_enum" and "plan_row_ok row"
    using assms(1,2) by (auto simp: db_ok_def plans_ok_def list_all_iff)
  moreover from this(1) assms(2) have "pr_code row \<in> set tenant_plan_enum" by (metis image_eqI list.set_map)
  ultimately show ?thesis
    using assms(3) by (auto simp: scanPlan_def plan_of_row_def plan_published_def plan_row_ok_def split: option.splits)
qed

lemma found_published:
  assumes "PlanRepository_FindByCode X code w = (Inr p, w')" and "db_ok (w_db w)"
  shows "plan_published p"
proof -
  have "planFindFromTx X code (next_tx w) (pop_tx w) = (Inr p, w')"
    using assms(1) unfolding PlanRepository_FindByCode_def by (auto dest: withPool_Inr)
  then obtain row where "query (tf_stmt (next_tx w)) (sql_select_plan X code) (pop_tx w) = Inr (Some row)"
    and scan: "scanPlan X (Inr (Some row)) = Inr p"
    by (auto simp: planFindFromTx_def scanPlan_def split: sum.splits option.splits if_splits)
  then have "row \<in> set (t_plans (w_db w))"
    by (auto simp: query_def sql_select_plan_def split: option.splits dest: find_SomeD)
  with assms(2) show ?thesis using scan by (rule row_published)
qed

lemma updated_published:
  assumes "PlanRepository_Update X code patch w = (Inr p, w')" and ok: "db_ok (w_db w)"
  shows "plan_published p"
  using assms(1)
proof (cases rule: PlanRepository_Update_cases)
  case (ran q sets args)
  then have "planUpdateBody X code sets args (next_tx w) (pop_tx w) = (Inr p, w')" by (auto dest: withPool_Inr)
  then obtain new w1 db' where "exec (tf_stmt (next_tx w)) (sql_update_plan X (db_now (pop_tx w)) sets args) (pop_tx w) = (Inr (Some new), w1)"
    and scan: "scanPlan X (Inr (Some new)) = Inr p"
    by (auto simp: planUpdateBody_def planUpdateFromTx_def scanPlan_def split: prod.splits sum.splits option.splits if_splits)
  then obtain db' where upd: "sql_update_plan X (db_now (pop_tx w)) sets args (w_db w) = (Inr (Some new), db')"
    by (auto simp: exec_def split: option.splits prod.splits)
  then have "new \<in> set (t_plans db')"
  proof (cases rule: sql_update_plan_cases)
    case (updated old new')
    then have "pr_code new' = pr_code old" using update_plan_row_spec [OF ran(2)] plan_update_spec_Inr(1) by metis
    then show ?thesis using updated by (auto intro: put_row_in)
  qed simp_all
  then show ?thesis using row_published [OF sql_update_plan_ok [OF ran(2) upd ok] _ scan] by blast
qed simp


section \<open>Error bodies\<close>

lemma detail_lookup:
  assumes "list_all detail_ok d"
  shows "k \<noteq> ''field'' \<Longrightarrow> k \<noteq> ''key'' \<Longrightarrow> k \<noteq> ''record_version'' \<Longrightarrow> k \<noteq> ''code'' \<Longrightarrow> map_of d k = None"
    and "map_of d ''code'' = Some a \<Longrightarrow> \<exists>s. a = AStr s"
proof -
  have d: "detail_ok kv" if "kv \<in> set d" for kv using assms that by (auto simp: list_all_iff)
  show "map_of d k = None" if "k \<noteq> ''field''" "k \<noteq> ''key''" "k \<noteq> ''record_version''" "k \<noteq> ''code''"
    using d that unfolding map_of_eq_None_iff detail_ok_def by fastforce
  show "\<exists>s. a = AStr s" if "map_of d ''code'' = Some a"
    using d [OF map_of_SomeD [OF that]] by (simp add: detail_ok_def)
qed

lemma error_base_ids:
  "map_of (error_base er) ''trace_id'' = (if er_TraceID er = '''' then None else Some (AStr (er_TraceID er)))"
  "map_of (error_base er) ''request_id'' = (if er_RequestID er = '''' then None else Some (AStr (er_RequestID er)))"
  by (simp_all add: error_base_def Let_def)

lemma detailed_error_conforms:
  assumes "distinct (map fst d)" and "list_all detail_ok d"
  shows "conforms error_schema (any_to_json fmt (AMap (errorResponseWithDetails er d)))"
proof -
  let ?m = "errorResponseWithDetails er d"
  let ?kvs = "map (\<lambda>(k, a). (k, any_to_json fmt a)) ?m"
  have look: "map_of (rev ?kvs) k = map_option (any_to_json fmt) (map_of ?m k)" for k
    using jfield_object [OF distinct_errorResponseWithDetails, of k fmt er d] by simp
  note none = detail_lookup(1) [OF assms(2)] and fields = errorResponse_fields [OF assms(1), of er]
  obtain cd where cd: "map_of ?m ''code'' = Some (AStr cd)"
    using fields(2) detail_lookup(2) [OF assms(2)] by (cases "map_of d ''code''") fastforce+
  then have er: "map_of ?m ''error'' = Some (AStr cd)" by (simp add: errorResponse_code_error)
  have st: "map_of ?m ''status'' = Some (AInt (int (er_Status er)))" "map_of ?m ''message'' = Some (AStr (er_Message er))"
    using fields(1,3) none by simp_all
  have ids: "map_of ?m ''trace_id'' = (if er_TraceID er = '''' then None else Some (AStr (er_TraceID er)))"
    "map_of ?m ''request_id'' = (if er_RequestID er = '''' then None else Some (AStr (er_RequestID er)))"
    using none by (simp_all add: errorResponse_base map_of_map_put_all [OF assms(1)] error_base_ids)
  show ?thesis
    unfolding error_schema_def any_to_json.simps conforms.simps(9) json.case look list.pred_inject fst_conv cd er st ids
    by simp
qed

lemma error_reply_conforms: "conforms error_schema (error_response_json er)"
  by (simp add: error_schema_def error_response_json_def omit_empty_def conforms.simps(9) map_add_def)

lemma HandleError_conforms:
  assumes "ordinary_error e"
  shows "\<exists>j. rs_body (fst (HandleError X c e w)) = RJson j \<and> conforms error_schema j
     \<and> rs_status (fst (HandleError X c e w)) \<noteq> 200 \<and> rs_status (fst (HandleError X c e w)) \<noteq> 201"
proof (cases e)
  case (EDomain de)
  then show ?thesis
    using assms unfolding EDomain HandleError_domain
    by (simp add: ordinary_error_def detailed_error_conforms domainErrorStatus_def del: any_to_json.simps)
next
  case (EDriver d)
  then show ?thesis by (simp add: HandleError_def error_reply_def error_reply_conforms)
qed (use assms in simp)


section \<open>Every answer is documented\<close>

definition answer_documented :: "endpoint \<Rightarrow> response \<Rightarrow> bool" where
  "answer_documented e r \<longleftrightarrow>
     (\<exists>j. rs_body r = RJson j
        \<and> conforms (case map_of (documented e) (rs_status r) of Some t \<Rightarrow> t | None \<Rightarrow> error_schema) j
        \<and> (rs_status r \<in> {200, 201} \<longrightarrow> map_of (documented e) (rs_status r) \<noteq> None))"

lemma documented_error:
  "s \<noteq> 200 \<Longrightarrow> s \<noteq> 201 \<Longrightarrow> (case map_of (documented e) s of Some t \<Rightarrow> t | None \<Rightarrow> error_schema) = error_schema"
  by (cases e) (simp_all add: documented_defs documented_errors_def)

lemma HandleError_documented: "ordinary_error err \<Longrightarrow> answer_documented e (fst (HandleError X c err w))"
  using HandleError_conforms [of err X c w] documented_error by (auto simp: answer_documented_def)

lemma gate_documented: "answer_documented e (error_reply c 403 code msg)"
  using documented_error [of 403 e] by (simp add: answer_documented_def error_reply_def error_reply_conforms)

lemma call_documented:
  assumes "\<And>e' w'. call = (Inl e', w') \<Longrightarrow> ordinary_error e'"
    and "\<And>a w'. call = (Inr a, w') \<Longrightarrow> conforms t (g a w')" and "map_of (documented e) s = Some t"
  shows "answer_documented e (fst (case call of (Inl e', w1) \<Rightarrow> HandleError X c e' (f e' w1)
                                             | (Inr a, w1) \<Rightarrow> (json_response s (g a w1), h w1)))"
proof (cases call)
  case (Pair q w1)
  then show ?thesis
    using assms by (cases q) (simp_all add: HandleError_documented, simp add: answer_documented_def)
qed

lemma listed_conforms:
  "conforms department_list_schema (JObj [(''items'', JArr (map (\<lambda>d. department_response_json (departmentToResponse X d)) ds))])"
  "conforms internal_departments_schema
     (JObj [(''departments'', JArr (map (\<lambda>d. department_response_json (departmentToResponse X d)) ds)), (''as_of'', JStr t)])"
  "list_all plan_published ps \<Longrightarrow>
     conforms plans_list_schema (JObj [(''items'', JArr (map (\<lambda>p. plan_response_json X (planToResponse p)) ps))])"
  "list_all plan_published ps \<Longrightarrow>
     conforms internal_plans_schema
       (JObj [(''plans'', JArr (map (\<lambda>p. plan_response_json X (planToResponse p)) ps)),
              (''record_versions'', JObj (map (\<lambda>(k, v). (k, JNum (JInt v))) vs))])"
  by (auto simp: department_list_schema_def internal_departments_schema_def plans_list_schema_def internal_plans_schema_def
      conforms.simps(9) list_all_iff)

lemma department_documented:
  "answer_documented EDeptList (fst (DepartmentHandler_List X (pg_department_service X ttl) c w))"
  "answer_documented EDeptGet (fst (DepartmentHandler_Get X (pg_department_service X ttl) c w))"
  "answer_documented EDeptCreate (fst (DepartmentHandler_Create X (pg_department_service X ttl) c w))"
  "answer_documented EDeptPatch (fst (DepartmentHandler_Patch X (pg_department_service X ttl) c w))"
  "answer_documented EDeptDelete (fst (DepartmentHandler_DeleteBlocked X c w))"
  "answer_documented EInternalDepartments (fst (InternalHandler_Departments X (pg_department_service X ttl) c w))"
proof -
  note err = request_error_ordinary HandleError_documented
  show "answer_documented EDeptList (fst (DepartmentHandler_List X (pg_department_service X ttl) c w))"
    unfolding DepartmentHandler_List_def Let_def
    by (rule call_documented) (auto simp: listed_conforms documented_defs dest: service_ordinary)
  show "answer_documented EDeptGet (fst (DepartmentHandler_Get X (pg_department_service X ttl) c w))"
    unfolding DepartmentHandler_Get_def
    by (cases "parseUUIDParam X c ''id''")
       (auto simp: err documented_defs intro!: call_documented dest: service_ordinary)
  show "answer_documented EDeptCreate (fst (DepartmentHandler_Create X (pg_department_service X ttl) c w))"
    unfolding DepartmentHandler_Create_def
    by (cases "requireOperator c"; cases "bind_create (q_body c)")
       (auto simp: err documented_defs intro!: call_documented dest: service_ordinary)
  show "answer_documented EDeptPatch (fst (DepartmentHandler_Patch X (pg_department_service X ttl) c w))"
    unfolding DepartmentHandler_Patch_def
    by (cases "requireOperator c"; cases "parseUUIDParam X c ''id''"; cases "raw_members (q_body c)"; cases "bind_dept_patch (q_body c)")
       (auto simp: err documented_defs intro!: call_documented dest: service_ordinary)
  show "answer_documented EDeptDelete (fst (DepartmentHandler_DeleteBlocked X c w))"
    unfolding DepartmentHandler_DeleteBlocked_def
    by (cases "requireOperator c") (simp_all add: err DepartmentService_DeleteBlocked_def)
  show "answer_documented EInternalDepartments (fst (InternalHandler_Departments X (pg_department_service X ttl) c w))"
    unfolding InternalHandler_Departments_def
    by (cases "requireSystem c")
       (auto simp: err listed_conforms documented_defs intro!: call_documented dest: service_ordinary)
qed


lemma found_list_published:
  assumes "coherent_state X w" and "PlanService_List X (pg_plan_service X ttl) w = (Inr ps, w')"
  shows "list_all plan_published ps"
proof -
  have "ps = plans_truth X w" by (rule coherent_PlanList [OF assms])
  moreover have ok: "db_ok (w_db w)" and scans: "plans_scan X (w_db w)"
    using assms(1) by (simp_all add: coherent_state_def catalogs_ok_def)
  moreover have "plan_published (plan_of X row)" if "row \<in> set (t_plans (w_db w))" for row
    using row_published [OF ok that] scanPlan_row [of X row] scans that by (simp add: plans_scan_def list_all_iff)
  ultimately show ?thesis by (simp add: plans_truth_def sql_select_plans_def list_all_iff)
qed

lemma got_published:
  "PlanService_GetByCode (pg_plan_service X ttl) code w = (Inr p, w') \<Longrightarrow> db_ok (w_db w) \<Longrightarrow> plan_published p"
  by (auto simp: PlanService_GetByCode_def dest: found_published split: if_splits)

lemma patched_published:
  "PlanService_Patch (pg_plan_service X ttl) code q w = (Inr p, w') \<Longrightarrow> db_ok (w_db w) \<Longrightarrow> plan_published p"
  by (auto simp: PlanService_Patch_def dest: updated_published split: option.splits prod.splits sum.splits)

lemma plan_documented:
  assumes co: "coherent_state X w"
  shows "answer_documented EPlanList (fst (PlanHandler_List X (pg_plan_service X ttl) c w))"
    and "answer_documented EPlanGet (fst (PlanHandler_Get X (pg_plan_service X ttl) c w))"
    and "answer_documented EPlanPatch (fst (PlanHandler_Patch X (pg_plan_service X ttl) c w))"
    and "answer_documented EInternalPlans (fst (InternalHandler_Plans X (pg_plan_service X ttl) c w))"
proof -
  note err = request_error_ordinary HandleError_documented
  have db: "db_ok (w_db w)" using co by (simp add: coherent_state_def catalogs_ok_def)
  show "answer_documented EPlanList (fst (PlanHandler_List X (pg_plan_service X ttl) c w))"
    unfolding PlanHandler_List_def
    by (cases "requireOperator c")
       (auto simp: err listed_conforms documented_defs intro!: call_documented dest: service_ordinary found_list_published [OF co])
  show "answer_documented EPlanGet (fst (PlanHandler_Get X (pg_plan_service X ttl) c w))"
    unfolding PlanHandler_Get_def
    by (cases "requireOperator c") (auto simp: err documented_defs db intro!: call_documented dest: service_ordinary got_published)
  show "answer_documented EPlanPatch (fst (PlanHandler_Patch X (pg_plan_service X ttl) c w))"
    unfolding PlanHandler_Patch_def
    by (cases "requireOperator c"; cases "bind_plan_patch X (q_body c)")
       (auto simp: err documented_defs db intro!: call_documented dest: service_ordinary patched_published split: sum.split)
  show "answer_documented EInternalPlans (fst (InternalHandler_Plans X (pg_plan_service X ttl) c w))"
    unfolding InternalHandler_Plans_def
    by (cases "requireSystem c")
       (auto simp: err listed_conforms documented_defs intro!: call_documented dest: service_ordinary found_list_published [OF co])
qed

lemma role_gate_documented:
  "answer_documented e (fst (h c w)) \<Longrightarrow> answer_documented e (fst (RequireOperatorRole h c w))"
  "answer_documented e (fst (h c w)) \<Longrightarrow> answer_documented e (fst (RequireSystemRole h c w))"
  by (simp_all add: RequireOperatorRole_def RequireSystemRole_def gate_documented split: option.split)

text \<open>
  C17. The answers of the API are typed as its document says: in every coherent state each answer of
  a handler has a JSON body, a success has a documented status and a body of exactly the schema
  documented for it (all properties with their types, the enumerations and the nullable limits
  included, and no others), and every other answer, of a documented status or not, has the body
  documented for errors.
\<close>

theorem answers_conform:
  assumes "coherent_state X w" and "\<not> infra_endpoint e"
  shows "answer_documented e (fst (api_handler X (pg_config X ttl d) e c w))"
  using assms
  by (cases e)
     (simp_all add: api_handler_def infra_endpoint_def department_documented plan_documented role_gate_documented)

lemma answers_conform_witness:
  "answer_documented EPlanGet
     (fst (api_handler ext_ref sample_config EPlanGet (sample_request ''GET'' ''/api/v1/operator/plans/pro'' EmptyBody) sample_world))"
  unfolding sample_config_def by (rule answers_conform [OF sample_coherent]) (simp add: infra_endpoint_def)

text \<open>
  A status the document leaves out: a department id that is not a UUID is answered with 400, which
  the document does not list for this endpoint.
\<close>

lemma bad_id_undocumented:
  assumes "x_parse_uuid X (lookup_or_empty ''id'' (q_params c)) = None"
  shows "rs_status (fst (api_handler X cfg EDeptGet c w)) = 400 \<and> map_of (documented EDeptGet) 400 = None"
  using assms
  by (auto simp: api_handler_def DepartmentHandler_Get_def parseUUIDParam_def HandleError_def domainErrorStatus_def
      WithDetails_def NewError_def documented_defs documented_errors_def Let_def)

end
