(* ===== verification/Request_Contract.thy ===== *)
theory Request_Contract
  imports Api_Contract
begin

text \<open>
  The requests the published document describes (docs/swagger/docs.go): its paths, and the schemas of
  the three request bodies (the request structs of dto.go). The paths are the routes of the router, and
  what the handlers bind is what a body of the documented shape says.
\<close>

section \<open>Paths\<close>

definition base_path :: string where
  "base_path = ''/api/v1''"

definition documented_paths :: "(string \<times> string \<times> endpoint) list" where
  "documented_paths =
     [(''/departments'', ''GET'', EDeptList),
      (''/departments/{id}'', ''GET'', EDeptGet),
      (''/internal/departments'', ''GET'', EInternalDepartments),
      (''/internal/plans'', ''GET'', EInternalPlans),
      (''/operator/departments'', ''POST'', EDeptCreate),
      (''/operator/departments/{id}'', ''DELETE'', EDeptDelete),
      (''/operator/departments/{id}'', ''PATCH'', EDeptPatch),
      (''/operator/plans'', ''GET'', EPlanList),
      (''/operator/plans/{code}'', ''GET'', EPlanGet),
      (''/operator/plans/{code}'', ''PATCH'', EPlanPatch)]"

text \<open>A parameter in braces is one after a colon in the templates of the router.\<close>

definition gin_template :: "string \<Rightarrow> string" where
  "gin_template p = filter (\<lambda>ch. ch \<noteq> CHR ''}'') (map (\<lambda>ch. if ch = CHR ''{'' then CHR '':'' else ch) p)"

lemma documented_paths_routed:
  "set (map (\<lambda>(p, m, e). (m, base_path @ gin_template p, e)) documented_paths) = set api_routes"
  by code_simp

section \<open>Request bodies\<close>

definition create_schema :: schema where
  "create_schema = Struct [(''code'', Text), (''is_system'', Flag), (''name'', Text)] [''is_system''] False"

definition dept_patch_schema :: schema where
  "dept_patch_schema =
     Struct [(''is_active'', Flag), (''name'', Text), (''record_version'', Integer)]
       [''is_active'', ''name'', ''record_version''] False"

definition plan_patch_properties :: "(string \<times> schema) list" where
  "plan_patch_properties =
     [(''custom_branding'', Enum [''none'', ''logo'']), (''display_name'', Text), (''feature_set'', MapOf AnyValue),
      (''record_version'', Integer), (''sso_enabled'', Flag), (''tender_limit'', Nullable Integer),
      (''trial_duration_days'', Integer), (''workflow_template_limit'', Nullable Integer)]"

definition plan_patch_schema :: schema where
  "plan_patch_schema =
     Struct plan_patch_properties
       [''custom_branding'', ''display_name'', ''feature_set'', ''record_version'', ''sso_enabled'', ''tender_limit'',
        ''trial_duration_days'', ''workflow_template_limit''] False"

text \<open>
  What a document cannot say in a schema of this kind: no member is repeated, integers have 64 bits,
  and the numbers among the features are in the range of float64.
\<close>

definition member_fits :: "ext \<Rightarrow> json \<Rightarrow> bool" where
  "member_fits X j \<longleftrightarrow>
     (case j of
        JNum (JInt n) \<Rightarrow> int64_ok n
      | JObj kvs \<Rightarrow> list_all (\<lambda>kv. any_of_json (x_parse_float X) (snd kv) \<noteq> None) kvs
      | _ \<Rightarrow> True)"

definition body_fits :: "ext \<Rightarrow> (string \<times> json) list \<Rightarrow> bool" where
  "body_fits X kvs \<longleftrightarrow> distinct (map fst kvs) \<and> list_all (\<lambda>kv. member_fits X (snd kv)) kvs"

text \<open>The value of a member, by its type.\<close>

definition text_of :: "json option \<Rightarrow> string option" where
  "text_of v = (case v of Some (JStr s) \<Rightarrow> Some s | _ \<Rightarrow> None)"

definition flag_of :: "json option \<Rightarrow> bool option" where
  "flag_of v = (case v of Some (JBool b) \<Rightarrow> Some b | _ \<Rightarrow> None)"

definition int_of_json :: "json option \<Rightarrow> int option" where
  "int_of_json v = (case v of Some (JNum (JInt n)) \<Rightarrow> Some n | _ \<Rightarrow> None)"

definition limit_of :: "json option \<Rightarrow> int option option" where
  "limit_of v = (case v of Some JNull \<Rightarrow> Some None | Some (JNum (JInt n)) \<Rightarrow> Some (Some n) | _ \<Rightarrow> None)"

definition features_of :: "ext \<Rightarrow> json option \<Rightarrow> go_map option" where
  "features_of X v =
     (case v of
        Some (JObj kvs) \<Rightarrow>
          map_option (map_put_all []) (collect_options (map (\<lambda>(k, j). map_option (Pair k) (any_of_json (x_parse_float X) j)) kvs))
      | _ \<Rightarrow> None)"

definition or_else :: "'a option \<Rightarrow> 'a \<Rightarrow> 'a" where
  "or_else v d = (case v of Some a \<Rightarrow> a | None \<Rightarrow> d)"

lemmas value_defs = text_of_def flag_of_def int_of_json_def limit_of_def features_of_def or_else_def

section \<open>Binding a documented body\<close>

text \<open>A member of a documented body is one of the properties, with a value of its type.\<close>

lemma conforms_member:
  assumes "conforms (Struct ps opt False) (JObj kvs)" and "distinct (map fst kvs)" and "distinct (map fst ps)"
    and "(k, v) \<in> set kvs"
  obtains t where "(k, t) \<in> set ps" and "conforms t v"
proof -
  from assms(1,4) obtain t where t: "(k, t) \<in> set ps" by (force simp: conforms.simps(9) list_all_iff)
  have "map_of (rev kvs) k = Some v" using assms(2,4) by (intro map_of_is_SomeI) (simp_all add: rev_map [symmetric])
  with assms(1) t have "conforms t v" by (force simp: conforms.simps(9) list_all_iff)
  with t show thesis by (rule that)
qed

lemma conforms_kinds:
  "conforms Text v \<longleftrightarrow> (\<exists>s. v = JStr s)" "conforms Flag v \<longleftrightarrow> (\<exists>b. v = JBool b)"
  "conforms Integer v \<longleftrightarrow> (\<exists>n. v = JNum (JInt n))" "conforms (Enum es) v \<longleftrightarrow> (\<exists>s \<in> set es. v = JStr s)"
  "conforms (Nullable t) v \<longleftrightarrow> v = JNull \<or> conforms t v" "conforms (MapOf AnyValue) v \<longleftrightarrow> (\<exists>kvs. v = JObj kvs)"
  by (auto simp: conforms.simps list_all_iff split: json.splits jnum.splits)

text \<open>
  Decoding members that are all different is one update of the struct: \<open>put m\<close> is the update with the
  members of m.
\<close>

lemma decode_members_put:
  assumes "distinct (map fst kvs)"
    and step: "\<And>k v r. (k, v) \<in> set kvs \<Longrightarrow> step k v r = Some (put [k \<mapsto> v] r)"
    and none: "\<And>r. put Map.empty r = r"
    and more: "\<And>m k v r. m k = None \<Longrightarrow> put m (put [k \<mapsto> v] r) = put (m(k \<mapsto> v)) r"
  shows "decode_members step kvs r = Some (put (map_of kvs) r)"
  using assms(1) step
proof (induction kvs arbitrary: r)
  case (Cons kv kvs)
  obtain k v where kv: "kv = (k, v)" by force
  have "map_of kvs k = None" using Cons.prems(1) kv by (simp add: map_of_eq_None_iff)
  moreover have "step k v r = Some (put [k \<mapsto> v] r)" by (rule Cons.prems(2)) (simp add: kv)
  moreover have "decode_members step kvs r' = Some (put (map_of kvs) r')" for r'
    using Cons.IH Cons.prems by simp
  ultimately show ?case using more [of "map_of kvs" k v r] by (simp add: kv del: fun_upd_apply)
qed (simp add: none)

definition or_keep :: "'a option \<Rightarrow> 'a option \<Rightarrow> 'a option" where
  "or_keep v d = (case v of Some a \<Rightarrow> Some a | None \<Rightarrow> d)"

lemma or_update:
  assumes "m k = None" and "f None = None"
  shows "or_else (f (m c)) (or_else (f ([k \<mapsto> v] c)) x) = or_else (f ((m(k \<mapsto> v)) c)) x"
    and "or_keep (f (m c)) (or_keep (f ([k \<mapsto> v] c)) y) = or_keep (f ((m(k \<mapsto> v)) c)) y"
  using assms by (auto simp: or_else_def or_keep_def split: option.split)

lemma or_none [simp]: "or_else None x = x" "or_else (Some a) x = a" "or_keep None y = y" "or_keep (Some a) y = Some a" "or_keep z None = z"
  by (simp_all add: or_else_def or_keep_def split: option.split)

lemma of_none [simp]: "text_of None = None" "flag_of None = None" "int_of_json None = None" "limit_of None = None" "features_of X None = None"
  by (simp_all add: text_of_def flag_of_def int_of_json_def limit_of_def features_of_def)

lemma of_some [simp]:
  "text_of (Some (JStr s)) = Some s" "flag_of (Some (JBool b)) = Some b" "int_of_json (Some (JNum (JInt n))) = Some n"
  "limit_of (Some JNull) = Some None" "limit_of (Some (JNum (JInt n))) = Some (Some n)"
  by (simp_all add: text_of_def flag_of_def int_of_json_def limit_of_def)

definition put_create :: "(string \<Rightarrow> json option) \<Rightarrow> department_create_request \<Rightarrow> department_create_request" where
  "put_create m r =
     \<lparr>cr_Code = or_else (text_of (m ''code'')) (cr_Code r), cr_Name = or_else (text_of (m ''name'')) (cr_Name r),
      cr_IsSystem = or_else (flag_of (m ''is_system'')) (cr_IsSystem r)\<rparr>"

definition put_dept_patch :: "(string \<Rightarrow> json option) \<Rightarrow> department_patch_request \<Rightarrow> department_patch_request" where
  "put_dept_patch m r =
     \<lparr>dpr_Name = or_keep (text_of (m ''name'')) (dpr_Name r), dpr_IsActive = or_keep (flag_of (m ''is_active'')) (dpr_IsActive r),
      dpr_RecordVersion = or_else (int_of_json (m ''record_version'')) (dpr_RecordVersion r)\<rparr>"

definition put_features :: "ext \<Rightarrow> json option \<Rightarrow> go_map option \<Rightarrow> go_map option" where
  "put_features X v cur = (case v of None \<Rightarrow> cur | Some j \<Rightarrow> the (dec_map (x_parse_float X) j cur))"

definition put_plan_patch :: "ext \<Rightarrow> (string \<Rightarrow> json option) \<Rightarrow> plan_patch_body \<Rightarrow> plan_patch_body" where
  "put_plan_patch X m r =
     \<lparr>pb_DisplayName = or_keep (text_of (m ''display_name'')) (pb_DisplayName r),
      pb_WorkflowTemplateLimit = or_keep (m ''workflow_template_limit'') (pb_WorkflowTemplateLimit r),
      pb_TenderLimit = or_keep (m ''tender_limit'') (pb_TenderLimit r),
      pb_TrialDurationDays = or_keep (int_of_json (m ''trial_duration_days'')) (pb_TrialDurationDays r),
      pb_SSOEnabled = or_keep (flag_of (m ''sso_enabled'')) (pb_SSOEnabled r),
      pb_CustomBranding = or_keep (text_of (m ''custom_branding'')) (pb_CustomBranding r),
      pb_FeatureSet = put_features X (m ''feature_set'') (pb_FeatureSet r),
      pb_RecordVersion = or_else (int_of_json (m ''record_version'')) (pb_RecordVersion r)\<rparr>"

lemma create_step:
  assumes "(k, t) \<in> set [(''code'', Text), (''is_system'', Flag), (''name'', Text)]" and "conforms t v"
  shows "create_member k v r = Some (put_create [k \<mapsto> v] r)"
proof -
  note defs = create_member_def match_field_def dec_string_def dec_bool_def put_create_def
  from assms(1) consider "k = ''code''" "t = Text" | "k = ''is_system''" "t = Flag" | "k = ''name''" "t = Text"
    unfolding list.set insert_iff prod.inject by blast
  then show ?thesis
  proof cases
    case 1
    with assms(2) obtain s where "v = JStr s" by (auto simp only: conforms_kinds)
    with 1 show ?thesis by (cases r) (simp add: defs)
  next
    case 2
    with assms(2) obtain b where "v = JBool b" by (auto simp only: conforms_kinds)
    with 2 show ?thesis by (cases r) (simp add: defs)
  next
    case 3
    with assms(2) obtain s where "v = JStr s" by (auto simp only: conforms_kinds)
    with 3 show ?thesis by (cases r) (simp add: defs)
  qed
qed

lemma conforms_Integer_fits: "conforms Integer v \<Longrightarrow> member_fits X v \<Longrightarrow> \<exists>n. v = JNum (JInt n) \<and> int64_ok n"
  by (auto simp: conforms_kinds member_fits_def)

lemma dept_patch_step:
  assumes "(k, t) \<in> set [(''is_active'', Flag), (''name'', Text), (''record_version'', Integer)]" and "conforms t v"
    and "member_fits X v"
  shows "dept_patch_member k v r = Some (put_dept_patch [k \<mapsto> v] r)"
proof -
  note defs = dept_patch_member_def match_field_def dec_string_def dec_bool_def dec_int64_def dec_ptr_def put_dept_patch_def
  from assms(1) consider "k = ''is_active''" "t = Flag" | "k = ''name''" "t = Text" | "k = ''record_version''" "t = Integer"
    unfolding list.set insert_iff prod.inject by blast
  then show ?thesis
  proof cases
    case 1
    with assms(2) obtain b where "v = JBool b" by (auto simp only: conforms_kinds)
    with 1 show ?thesis by (cases r) (simp add: defs)
  next
    case 2
    with assms(2) obtain s where "v = JStr s" by (auto simp only: conforms_kinds)
    with 2 show ?thesis by (cases r) (simp add: defs)
  next
    case 3
    with assms(2,3) conforms_Integer_fits obtain n where "v = JNum (JInt n)" "int64_ok n" by blast
    with 3 show ?thesis by (cases r) (simp add: defs)
  qed
qed

lemma create_members:
  assumes "conforms create_schema (JObj kvs)" and "distinct (map fst kvs)"
  shows "decode_members create_member kvs r = Some (put_create (map_of kvs) r)"
  using assms(2)
proof (rule decode_members_put)
  show "create_member k v r = Some (put_create [k \<mapsto> v] r)" if kv: "(k, v) \<in> set kvs" for k v r
  proof -
    obtain t where "(k, t) \<in> set [(''code'', Text), (''is_system'', Flag), (''name'', Text)]" "conforms t v"
      by (rule conforms_member [OF assms(1)[unfolded create_schema_def] assms(2) _ kv]) (simp, erule (1) that)
    then show ?thesis by (rule create_step)
  qed
  show "put_create Map.empty r = r" for r by (simp add: put_create_def)
  show "put_create m (put_create [k \<mapsto> v] r) = put_create (m(k \<mapsto> v)) r" if "m k = None" for m k v r
    unfolding put_create_def department_create_request.simps by (simp only: or_update [of m k, OF that] of_none)
qed

lemma dept_patch_members:
  assumes "conforms dept_patch_schema (JObj kvs)" and "body_fits X kvs"
  shows "decode_members dept_patch_member kvs r = Some (put_dept_patch (map_of kvs) r)"
proof (rule decode_members_put)
  show d: "distinct (map fst kvs)" using assms(2) by (simp add: body_fits_def)
  show "dept_patch_member k v r = Some (put_dept_patch [k \<mapsto> v] r)" if kv: "(k, v) \<in> set kvs" for k v r
  proof -
    have fits: "member_fits X v" using assms(2) kv by (auto simp: body_fits_def list_all_iff)
    obtain t where "(k, t) \<in> set [(''is_active'', Flag), (''name'', Text), (''record_version'', Integer)]" "conforms t v"
      by (rule conforms_member [OF assms(1)[unfolded dept_patch_schema_def] d _ kv]) (simp, erule (1) that)
    from this fits show ?thesis by (rule dept_patch_step)
  qed
  show "put_dept_patch Map.empty r = r" for r by (simp add: put_dept_patch_def)
  show "put_dept_patch m (put_dept_patch [k \<mapsto> v] r) = put_dept_patch (m(k \<mapsto> v)) r" if "m k = None" for m k v r
    unfolding put_dept_patch_def department_patch_request.simps by (simp only: or_update [of m k, OF that] of_none)
qed

lemma collect_options_total:
  "(\<And>x. x \<in> set xs \<Longrightarrow> f x \<noteq> None) \<Longrightarrow> collect_options (map f xs) = Some (map (the \<circ> f) xs)"
  by (induction xs) (fastforce simp: collect_options_Some_iff)+

lemma dec_map_fits:
  assumes "member_fits X (JObj kvs)"
  shows "\<exists>m. dec_map (x_parse_float X) (JObj kvs) cur = Some (Some m)"
proof -
  have "any_of_json (x_parse_float X) v \<noteq> None" if "(k, v) \<in> set kvs" for k v
    using assms that by (force simp: member_fits_def list_all_iff)
  then have "\<exists>es. collect_options (map (\<lambda>(k, v). map_option (Pair k) (any_of_json (x_parse_float X) v)) kvs) = Some es"
    using collect_options_total [of kvs "\<lambda>(k, v). map_option (Pair k) (any_of_json (x_parse_float X) v)"] by auto
  then show ?thesis by (auto simp: dec_map_def)
qed

lemmas plan_patch_defs = plan_patch_member_def patch_field_names_def match_field_def put_plan_patch_def put_features_def
  dec_string_def dec_bool_def dec_int64_def dec_ptr_def

lemma plan_patch_fields:
  "conforms Text v \<Longrightarrow> plan_patch_member X ''display_name'' v r = Some (put_plan_patch X [''display_name'' \<mapsto> v] r)"
  "conforms (Enum es) v \<Longrightarrow> plan_patch_member X ''custom_branding'' v r = Some (put_plan_patch X [''custom_branding'' \<mapsto> v] r)"
  "conforms Flag v \<Longrightarrow> plan_patch_member X ''sso_enabled'' v r = Some (put_plan_patch X [''sso_enabled'' \<mapsto> v] r)"
  "plan_patch_member X ''tender_limit'' v r = Some (put_plan_patch X [''tender_limit'' \<mapsto> v] r)"
  "plan_patch_member X ''workflow_template_limit'' v r = Some (put_plan_patch X [''workflow_template_limit'' \<mapsto> v] r)"
  by (cases r; auto simp: conforms_kinds plan_patch_defs)+

lemma plan_patch_integers:
  assumes "conforms Integer v" and "member_fits X v"
  shows "plan_patch_member X ''record_version'' v r = Some (put_plan_patch X [''record_version'' \<mapsto> v] r)"
    and "plan_patch_member X ''trial_duration_days'' v r = Some (put_plan_patch X [''trial_duration_days'' \<mapsto> v] r)"
  using conforms_Integer_fits [OF assms] by (cases r; auto simp: plan_patch_defs)+

lemma plan_patch_features:
  assumes "conforms (MapOf AnyValue) v" and "member_fits X v"
  shows "plan_patch_member X ''feature_set'' v r = Some (put_plan_patch X [''feature_set'' \<mapsto> v] r)"
proof -
  obtain kvs where v: "v = JObj kvs" using assms(1) by (auto simp only: conforms_kinds)
  then obtain m where "dec_map (x_parse_float X) v (pb_FeatureSet r) = Some (Some m)" using dec_map_fits assms(2) by blast
  then show ?thesis by (cases r) (simp add: plan_patch_defs)
qed

lemma plan_patch_step:
  assumes "(k, t) \<in> set plan_patch_properties" and "conforms t v" and "member_fits X v"
  shows "plan_patch_member X k v r = Some (put_plan_patch X [k \<mapsto> v] r)"
  using assms(1) unfolding plan_patch_properties_def list.set insert_iff empty_iff prod.inject
  by (elim disjE conjE FalseE)
    (use assms(2,3) in \<open>simp_all only: plan_patch_fields plan_patch_integers plan_patch_features\<close>)

lemma put_features_update:
  "m k = None \<Longrightarrow> put_features X (m c) (put_features X ([k \<mapsto> v] c) x) = put_features X ((m(k \<mapsto> v)) c) x"
  by (auto simp: put_features_def split: option.split)

lemma plan_patch_members:
  assumes "conforms plan_patch_schema (JObj kvs)" and "body_fits X kvs"
  shows "decode_members (plan_patch_member X) kvs r = Some (put_plan_patch X (map_of kvs) r)"
proof (rule decode_members_put)
  show d: "distinct (map fst kvs)" using assms(2) by (simp add: body_fits_def)
  show "plan_patch_member X k v r = Some (put_plan_patch X [k \<mapsto> v] r)" if kv: "(k, v) \<in> set kvs" for k v r
  proof -
    have fits: "member_fits X v" using assms(2) kv by (auto simp: body_fits_def list_all_iff)
    obtain t where "(k, t) \<in> set plan_patch_properties" "conforms t v"
      by (rule conforms_member [OF assms(1)[unfolded plan_patch_schema_def] d _ kv]) (simp add: plan_patch_properties_def, erule (1) that)
    from this fits show ?thesis by (rule plan_patch_step)
  qed
  show "put_plan_patch X Map.empty r = r" for r by (simp add: put_plan_patch_def put_features_def)
  show "put_plan_patch X m (put_plan_patch X [k \<mapsto> v] r) = put_plan_patch X (m(k \<mapsto> v)) r" if "m k = None" for m k v r
    unfolding put_plan_patch_def plan_patch_body.simps
    by (simp only: or_update [of m k, OF that] or_update(2) [where f = "\<lambda>x. x", of m k, OF that] of_none put_features_update [of m k, OF that])
qed

text \<open>The limits and the features of a documented body.\<close>

lemma documented_member:
  assumes "conforms (Struct ps opt False) (JObj kvs)" and "distinct (map fst kvs)" and "(k, t) \<in> set ps"
  shows "case map_of kvs k of None \<Rightarrow> k \<in> set opt | Some v \<Rightarrow> conforms t v"
proof -
  have rev: "map_of (rev kvs) = map_of kvs"
    using assms(2) by (intro map_of_inject_set [THEN iffD2]) (auto simp: rev_map [symmetric])
  have "list_all (\<lambda>p. case map_of kvs (fst p) of None \<Rightarrow> fst p \<in> set opt | Some v \<Rightarrow> conforms (snd p) v) ps"
    using assms(1) by (simp add: conforms.simps(9) rev)
  from bspec [OF this [unfolded list_all_iff] assms(3)] show ?thesis by (simp only: fst_conv snd_conv)
qed

lemma parse_documented_limit:
  assumes "case v of None \<Rightarrow> True | Some j \<Rightarrow> conforms (Nullable Integer) j \<and> member_fits X j"
  shows "parseLimit v field = Inr (limit_of v)"
  using assms
  by (auto simp: parseLimit_def limit_of_def conforms_kinds member_fits_def dec_int64_def split: option.splits)

lemma documented_features:
  assumes "case v of None \<Rightarrow> True | Some j \<Rightarrow> conforms (MapOf AnyValue) j \<and> member_fits X j"
  shows "put_features X v None = features_of X v"
proof (cases v)
  case (Some j)
  with assms obtain kvs where j: "j = JObj kvs" "member_fits X (JObj kvs)" by (auto simp: conforms_kinds)
  with dec_map_fits obtain m where "dec_map (x_parse_float X) (JObj kvs) None = Some (Some m)" by blast
  with Some j show ?thesis by (auto simp: put_features_def features_of_def dec_map_def)
qed (simp add: put_features_def)

lemma documented_plan_member:
  assumes "conforms plan_patch_schema (JObj kvs)" and "body_fits X kvs" and "(k, t) \<in> set plan_patch_properties"
  shows "case map_of kvs k of None \<Rightarrow> True | Some j \<Rightarrow> conforms t j \<and> member_fits X j"
proof -
  have d: "distinct (map fst kvs)" using assms(2) by (simp add: body_fits_def)
  have fits: "member_fits X j" if "map_of kvs k = Some j" for j
    using assms(2) map_of_SomeD [OF that] by (auto simp: body_fits_def list_all_iff)
  show ?thesis
    using documented_member [OF assms(1)[unfolded plan_patch_schema_def] d assms(3)] fits by (cases "map_of kvs k") simp_all
qed

lemma documented_plan_patch:
  assumes "conforms plan_patch_schema (JObj kvs)" and "body_fits X kvs"
  shows "parse_patch (put_plan_patch X (map_of kvs) zero_patch_body) = Inr
    \<lparr>pp_DisplayName = text_of (map_of kvs ''display_name''),
     pp_WorkflowTemplateLimit = limit_of (map_of kvs ''workflow_template_limit''),
     pp_TenderLimit = limit_of (map_of kvs ''tender_limit''),
     pp_TrialDurationDays = int_of_json (map_of kvs ''trial_duration_days''),
     pp_SSOEnabled = flag_of (map_of kvs ''sso_enabled''), pp_CustomBranding = text_of (map_of kvs ''custom_branding''),
     pp_FeatureSet = features_of X (map_of kvs ''feature_set''),
     pp_RecordVersion = or_else (int_of_json (map_of kvs ''record_version'')) 0\<rparr>"
proof -
  note m = documented_plan_member [OF assms]
  have "parseLimit (map_of kvs ''workflow_template_limit'') f = Inr (limit_of (map_of kvs ''workflow_template_limit''))"
    "parseLimit (map_of kvs ''tender_limit'') f = Inr (limit_of (map_of kvs ''tender_limit''))" for f
    by (rule parse_documented_limit, rule m, simp add: plan_patch_properties_def)+
  moreover have "put_features X (map_of kvs ''feature_set'') None = features_of X (map_of kvs ''feature_set'')"
    by (rule documented_features, rule m, simp add: plan_patch_properties_def)
  ultimately show ?thesis by (simp add: parse_patch_def patch_of_body_def put_plan_patch_def zero_patch_body_def)
qed

text \<open>
  C37. A request body of the documented shape is understood as it is written: each of the three binders
  takes every body of its schema (with integers of 64 bits, features whose numbers float64 can hold, and
  no member twice) and fills the request
  with exactly the members that were sent, null limits included; only the create request is refused,
  and only for an empty code or name. A record_version that is left out, as the schema allows, is 0.
\<close>

theorem documented_bodies_bind:
  assumes b: "decode_first b = Some (JObj kvs)" and fits: "body_fits X kvs"
  shows "(conforms create_schema (JObj kvs) \<longrightarrow>
      (let code = or_else (text_of (map_of kvs ''code'')) ''''; name = or_else (text_of (map_of kvs ''name'')) ''''
       in bind_create b = (if code = '''' \<or> name = '''' then Inl (binding_error b)
            else Inr \<lparr>cr_Code = code, cr_Name = name, cr_IsSystem = or_else (flag_of (map_of kvs ''is_system'')) False\<rparr>)))
    \<and> (conforms dept_patch_schema (JObj kvs) \<longrightarrow>
       bind_dept_patch b = Inr
         \<lparr>dpr_Name = text_of (map_of kvs ''name''), dpr_IsActive = flag_of (map_of kvs ''is_active''),
          dpr_RecordVersion = or_else (int_of_json (map_of kvs ''record_version'')) 0\<rparr>)
    \<and> (conforms plan_patch_schema (JObj kvs) \<longrightarrow>
       (\<exists>body. bind_plan_patch X b = Inr body \<and> parse_patch body = Inr
         \<lparr>pp_DisplayName = text_of (map_of kvs ''display_name''),
          pp_WorkflowTemplateLimit = limit_of (map_of kvs ''workflow_template_limit''),
          pp_TenderLimit = limit_of (map_of kvs ''tender_limit''),
          pp_TrialDurationDays = int_of_json (map_of kvs ''trial_duration_days''),
          pp_SSOEnabled = flag_of (map_of kvs ''sso_enabled''), pp_CustomBranding = text_of (map_of kvs ''custom_branding''),
          pp_FeatureSet = features_of X (map_of kvs ''feature_set''),
          pp_RecordVersion = or_else (int_of_json (map_of kvs ''record_version'')) 0\<rparr>))"
proof (intro conjI impI)
  have d: "distinct (map fst kvs)" using fits by (simp add: body_fits_def)
  note bind = ShouldBindJSON_def b decode_struct_def
  assume "conforms create_schema (JObj kvs)"
  from create_members [OF this d] show "let code = or_else (text_of (map_of kvs ''code'')) ''''; name = or_else (text_of (map_of kvs ''name'')) ''''
       in bind_create b = (if code = '''' \<or> name = '''' then Inl (binding_error b)
            else Inr \<lparr>cr_Code = code, cr_Name = name, cr_IsSystem = or_else (flag_of (map_of kvs ''is_system'')) False\<rparr>)"
    by (simp add: bind_create_def bind put_create_def Let_def)
next
  assume "conforms dept_patch_schema (JObj kvs)"
  from dept_patch_members [OF this fits] show "bind_dept_patch b = Inr
         \<lparr>dpr_Name = text_of (map_of kvs ''name''), dpr_IsActive = flag_of (map_of kvs ''is_active''),
          dpr_RecordVersion = or_else (int_of_json (map_of kvs ''record_version'')) 0\<rparr>"
    by (simp add: bind_dept_patch_def ShouldBindJSON_def b decode_struct_def put_dept_patch_def)
next
  assume "conforms plan_patch_schema (JObj kvs)"
  note p = documented_plan_patch [OF this fits] and m = plan_patch_members [OF this fits]
  have "bind_plan_patch X b = Inr (put_plan_patch X (map_of kvs) zero_patch_body)"
    using m by (simp add: bind_plan_patch_def ShouldBindJSON_def b decode_struct_def)
  with p show "\<exists>body. bind_plan_patch X b = Inr body \<and> parse_patch body = Inr
         \<lparr>pp_DisplayName = text_of (map_of kvs ''display_name''),
          pp_WorkflowTemplateLimit = limit_of (map_of kvs ''workflow_template_limit''),
          pp_TenderLimit = limit_of (map_of kvs ''tender_limit''),
          pp_TrialDurationDays = int_of_json (map_of kvs ''trial_duration_days''),
          pp_SSOEnabled = flag_of (map_of kvs ''sso_enabled''), pp_CustomBranding = text_of (map_of kvs ''custom_branding''),
          pp_FeatureSet = features_of X (map_of kvs ''feature_set''),
          pp_RecordVersion = or_else (int_of_json (map_of kvs ''record_version'')) 0\<rparr>"
    by blast
qed

text \<open>A create request, a patch without a version, and a patch that lifts a limit.\<close>

lemma documented_bodies_bind_witness:
  "bind_create (DocBody (JObj [(''name'', JStr ''Quality''), (''code'', JStr ''QA'')]) False)
     = Inr \<lparr>cr_Code = ''QA'', cr_Name = ''Quality'', cr_IsSystem = False\<rparr>
   \<and> bind_dept_patch (DocBody (JObj [(''is_active'', JBool False)]) False)
     = Inr \<lparr>dpr_Name = None, dpr_IsActive = Some False, dpr_RecordVersion = 0\<rparr>
   \<and> (\<exists>body. bind_plan_patch ext_ref (DocBody (JObj [(''tender_limit'', JNull), (''record_version'', JNum (JInt 3))]) True) = Inr body
        \<and> parse_patch body = Inr
            \<lparr>pp_DisplayName = None, pp_WorkflowTemplateLimit = None, pp_TenderLimit = Some None, pp_TrialDurationDays = None,
             pp_SSOEnabled = None, pp_CustomBranding = None, pp_FeatureSet = None, pp_RecordVersion = 3\<rparr>)"
proof (intro conjI)
  let ?kvs = "[(''name'', JStr ''Quality''), (''code'', JStr ''QA'')]"
  have "conforms create_schema (JObj ?kvs)" by (simp add: create_schema_def conforms.simps(9))
  moreover have "body_fits ext_ref ?kvs" by (simp add: body_fits_def member_fits_def)
  ultimately show "bind_create (DocBody (JObj ?kvs) False) = Inr \<lparr>cr_Code = ''QA'', cr_Name = ''Quality'', cr_IsSystem = False\<rparr>"
    using documented_bodies_bind [of "DocBody (JObj ?kvs) False" ?kvs ext_ref] by (simp add: decode_first_def Let_def)
next
  let ?kvs = "[(''is_active'', JBool False)]"
  have "conforms dept_patch_schema (JObj ?kvs)" by (simp add: dept_patch_schema_def conforms.simps(9))
  moreover have "body_fits ext_ref ?kvs" by (simp add: body_fits_def member_fits_def)
  ultimately show "bind_dept_patch (DocBody (JObj ?kvs) False) = Inr \<lparr>dpr_Name = None, dpr_IsActive = Some False, dpr_RecordVersion = 0\<rparr>"
    using documented_bodies_bind [of "DocBody (JObj ?kvs) False" ?kvs ext_ref] by (simp add: decode_first_def)
next
  let ?kvs = "[(''tender_limit'', JNull), (''record_version'', JNum (JInt 3))]"
  have "conforms plan_patch_schema (JObj ?kvs)" by (simp add: plan_patch_schema_def plan_patch_properties_def conforms.simps(9) conforms_kinds)
  moreover have "body_fits ext_ref ?kvs" by (simp add: body_fits_def member_fits_def int64_ok_def)
  ultimately show "\<exists>body. bind_plan_patch ext_ref (DocBody (JObj ?kvs) True) = Inr body \<and> parse_patch body = Inr
            \<lparr>pp_DisplayName = None, pp_WorkflowTemplateLimit = None, pp_TenderLimit = Some None, pp_TrialDurationDays = None,
             pp_SSOEnabled = None, pp_CustomBranding = None, pp_FeatureSet = None, pp_RecordVersion = 3\<rparr>"
    using documented_bodies_bind [of "DocBody (JObj ?kvs) True" ?kvs ext_ref] by (simp add: decode_first_def)
qed

end
