(* ===== verification/Request_Parameters.thy ===== *)
theory Request_Parameters
  imports Request_Contract
begin

text \<open>
  The parameters of the published document (docs/swagger/docs.go): where each endpoint takes its input
  from. Those in the path are the placeholders of the path, and a handler reads nothing of a request
  beyond the documented parameters, the caller's identity and the identifiers it repeats in errors.
\<close>

datatype param_location = InQuery | InPath | InBody schema

record parameter =
  pm_name :: string
  pm_in :: param_location
  pm_required :: bool
  pm_schema :: schema

definition uuid_parameter :: parameter where
  "uuid_parameter = \<lparr>pm_name = ''id'', pm_in = InPath, pm_required = True, pm_schema = Text\<rparr>"

definition plan_code_parameter :: parameter where
  "plan_code_parameter =
     \<lparr>pm_name = ''code'', pm_in = InPath, pm_required = True, pm_schema = Enum [''starter'', ''pro'', ''enterprise'']\<rparr>"

definition body_parameter :: "schema \<Rightarrow> parameter" where
  "body_parameter t = \<lparr>pm_name = ''request'', pm_in = InBody t, pm_required = True, pm_schema = t\<rparr>"

definition documented_parameters :: "endpoint \<Rightarrow> parameter list" where
  "documented_parameters e =
     (case e of
        EDeptList \<Rightarrow> [\<lparr>pm_name = ''active_only'', pm_in = InQuery, pm_required = False, pm_schema = Flag\<rparr>]
      | EDeptGet \<Rightarrow> [uuid_parameter]
      | EDeptCreate \<Rightarrow> [body_parameter create_schema]
      | EDeptDelete \<Rightarrow> [uuid_parameter]
      | EDeptPatch \<Rightarrow> [uuid_parameter, body_parameter dept_patch_schema]
      | EPlanGet \<Rightarrow> [plan_code_parameter]
      | EPlanPatch \<Rightarrow> [plan_code_parameter, body_parameter plan_patch_schema]
      | _ \<Rightarrow> [])"

section \<open>The placeholders of the paths\<close>

fun placeholders :: "string \<Rightarrow> string list" where
  "placeholders [] = []"
| "placeholders (ch # p) =
     (if ch = CHR ''{'' then takeWhile (\<lambda>x. x \<noteq> CHR ''}'') p # placeholders p else placeholders p)"

lemma documented_path_parameters:
  "list_all (\<lambda>(p, m, e). map pm_name (filter (\<lambda>x. pm_in x = InPath \<and> pm_required x) (documented_parameters e)) = placeholders p)
     documented_paths"
  by code_simp

section \<open>What a handler reads\<close>

datatype input = NoInput | Value string | Payload body_bytes

definition parameter_input :: "request \<Rightarrow> parameter \<Rightarrow> input" where
  "parameter_input c p =
     (case pm_in p of
        InQuery \<Rightarrow> (case map_of (q_query c) (pm_name p) of None \<Rightarrow> NoInput | Some v \<Rightarrow> Value v)
      | InPath \<Rightarrow> (case map_of (q_params c) (pm_name p) of None \<Rightarrow> NoInput | Some v \<Rightarrow> Value v)
      | InBody _ \<Rightarrow> Payload (q_body c))"

text \<open>The caller and the identifiers that error bodies repeat.\<close>

definition same_caller :: "request \<Rightarrow> request \<Rightarrow> bool" where
  "same_caller c c' \<longleftrightarrow>
     q_context c = q_context c' \<and> q_trace_id c = q_trace_id c' \<and> q_request_id c = q_request_id c'
     \<and> q_request_id_header c = q_request_id_header c' \<and> q_response_request_id c = q_response_request_id c'"

definition same_input :: "endpoint \<Rightarrow> request \<Rightarrow> request \<Rightarrow> bool" where
  "same_input e c c' \<longleftrightarrow> list_all (\<lambda>p. parameter_input c p = parameter_input c' p) (documented_parameters e)"

lemma same_caller_HandleError:
  assumes "same_caller c c'"
  shows "HandleError X c = HandleError X c'" and "error_reply c = error_reply c'"
proof -
  have n: "newErrorResponse (Some c) = newErrorResponse (Some c')"
    using assms unfolding same_caller_def by (elim conjE) (simp only: fun_eq_iff newErrorResponse_def option.case simp_thms)
  show r: "error_reply c = error_reply c'" by (simp only: fun_eq_iff error_reply_def n simp_thms)
  show "HandleError X c = HandleError X c'" by (simp only: fun_eq_iff HandleError_def r n simp_thms)
qed

lemma same_caller_require:
  assumes "same_caller c c'"
  shows "requireOperator c = requireOperator c'" and "requireSystem c = requireSystem c'"
  using assms by (simp_all add: requireOperator_def requireSystem_def same_caller_def)

lemma same_caller_gates:
  assumes "same_caller c c'" and "next1 c w = next1 c' w"
  shows "RequireOperatorRole next1 c w = RequireOperatorRole next1 c' w"
    and "RequireSystemRole next1 c w = RequireSystemRole next1 c' w"
  using assms same_caller_HandleError [OF assms(1)]
  by (simp_all add: RequireOperatorRole_def RequireSystemRole_def same_caller_def split: option.split)

lemma input_lookup:
  "(case map_of xs k of None \<Rightarrow> NoInput | Some v \<Rightarrow> Value v) = (case map_of ys k of None \<Rightarrow> NoInput | Some v \<Rightarrow> Value v)
     \<Longrightarrow> lookup_or_empty k xs = lookup_or_empty k ys"
  by (auto simp: lookup_or_empty_def split: option.splits)

lemma same_input_simps:
  "same_input EDeptList c c' \<Longrightarrow> lookup_or_empty ''active_only'' (q_query c) = lookup_or_empty ''active_only'' (q_query c')"
  "same_input EDeptGet c c' \<Longrightarrow> parseUUIDParam X c ''id'' = parseUUIDParam X c' ''id''"
  "same_input EDeptPatch c c' \<Longrightarrow> parseUUIDParam X c ''id'' = parseUUIDParam X c' ''id'' \<and> q_body c = q_body c'"
  "same_input EDeptCreate c c' \<Longrightarrow> q_body c = q_body c'"
  "same_input EPlanGet c c' \<Longrightarrow> lookup_or_empty ''code'' (q_params c) = lookup_or_empty ''code'' (q_params c')"
  "same_input EPlanPatch c c' \<Longrightarrow> lookup_or_empty ''code'' (q_params c) = lookup_or_empty ''code'' (q_params c') \<and> q_body c = q_body c'"
  by (auto simp: same_input_def documented_parameters_def parameter_input_def uuid_parameter_def plan_code_parameter_def
      body_parameter_def parseUUIDParam_def dest: input_lookup)

lemma undocumented_input_ignored:
  assumes "same_caller c c'" and "same_input e c c'"
  shows "api_handler X cfg e c w = api_handler X cfg e c' w"
proof -
  note c = same_caller_HandleError [OF assms(1)] same_caller_require [OF assms(1)] and gates = same_caller_gates [OF assms(1)]
  show ?thesis
  proof (cases e)
    case EDeptList
    then have "lookup_or_empty ''active_only'' (q_query c) = lookup_or_empty ''active_only'' (q_query c')"
      using same_input_simps(1) assms(2) by blast
    then show ?thesis unfolding EDeptList by (simp only: api_handler_def endpoint.case DepartmentHandler_List_def c)
  next
    case EDeptGet
    then have "parseUUIDParam X c ''id'' = parseUUIDParam X c' ''id''" using same_input_simps(2) assms(2) by blast
    then show ?thesis unfolding EDeptGet by (simp only: api_handler_def endpoint.case DepartmentHandler_Get_def c)
  next
    case EDeptCreate
    then have "q_body c = q_body c'" using same_input_simps(4) assms(2) by blast
    then show ?thesis unfolding EDeptCreate api_handler_def endpoint.case
      by (intro gates) (simp only: DepartmentHandler_Create_def c)
  next
    case EDeptPatch
    then have "parseUUIDParam X c ''id'' = parseUUIDParam X c' ''id''" "q_body c = q_body c'"
      using same_input_simps(3) assms(2) by blast+
    then show ?thesis unfolding EDeptPatch api_handler_def endpoint.case
      by (intro gates) (simp only: DepartmentHandler_Patch_def c)
  next
    case EDeptDelete
    then show ?thesis unfolding EDeptDelete api_handler_def endpoint.case
      by (intro gates) (simp only: DepartmentHandler_DeleteBlocked_def c)
  next
    case EPlanList
    then show ?thesis unfolding EPlanList api_handler_def endpoint.case
      by (intro gates) (simp only: PlanHandler_List_def c)
  next
    case EPlanGet
    then have "lookup_or_empty ''code'' (q_params c) = lookup_or_empty ''code'' (q_params c')"
      using same_input_simps(5) assms(2) by blast
    then show ?thesis unfolding EPlanGet api_handler_def endpoint.case
      by (intro gates) (simp only: PlanHandler_Get_def c)
  next
    case EPlanPatch
    then have "lookup_or_empty ''code'' (q_params c) = lookup_or_empty ''code'' (q_params c')" "q_body c = q_body c'"
      using same_input_simps(6) assms(2) by blast+
    then show ?thesis unfolding EPlanPatch api_handler_def endpoint.case
      by (intro gates) (simp only: PlanHandler_Patch_def c)
  next
    case EInternalDepartments
    then show ?thesis unfolding EInternalDepartments api_handler_def endpoint.case
      by (intro gates) (simp only: InternalHandler_Departments_def c)
  next
    case EInternalPlans
    then show ?thesis unfolding EInternalPlans api_handler_def endpoint.case
      by (intro gates) (simp only: InternalHandler_Plans_def c)
  qed (simp_all add: api_handler_def)
qed

end
