(* ===== verification/Metrics_Properties.thy ===== *)
theory Metrics_Properties
  imports Http_Properties
begin

text \<open>
  What the business metrics of internal/adapter/outbound/metrics count: every request of the API once,
  with its status and its duration, and successful writes twice.
\<close>

section \<open>Requests\<close>

text \<open>The series only the middleware of the router touches.\<close>

definition request_series :: "world \<Rightarrow> counters" where
  "request_series w = (\<lambda>m. if business_metric m then None else w_metrics w m)"

lemma request_series_cong: "w_metrics w' = w_metrics w \<Longrightarrow> request_series w' = request_series w"
  by (simp add: request_series_def fun_eq_iff)

lemma request_series_simps [simp]:
  "request_series (pop_tx w) = request_series w" "request_series (pop_cache w) = request_series w"
  "request_series (set_db db w) = request_series w" "request_series (add_log l w) = request_series w"
  "request_series (store_set k v ttl w) = request_series w" "request_series (store_del ks w) = request_series w"
  "request_series (w\<lparr>w_uuids := n\<rparr>) = request_series w"
  by (rule request_series_cong; simp add: store_set_def store_del_def)+

lemma request_series_inc [simp]: "business_metric m \<Longrightarrow> request_series (inc_metric m w) = request_series w"
  by (auto simp: request_series_def Inc_def)

lemma request_series_Cache:
  "Cache_Get k w = (rg, w') \<Longrightarrow> request_series w' = request_series w"
  "Cache_Set k v ttl w = (rs, w') \<Longrightarrow> request_series w' = request_series w"
  "Cache_Delete ks w = (rd, w') \<Longrightarrow> request_series w' = request_series w"
  "Cache_Health w = (rh, w') \<Longrightarrow> request_series w' = request_series w"
  by (auto simp: Cache_Get_def Cache_Set_def Cache_Delete_def Cache_Health_def
      split: cache_fate.splits option.splits if_splits)

lemma request_series_Set [simp]: "request_series (snd (Cache_Set k v ttl w)) = request_series w"
  by (rule request_series_Cache(2) [OF prod.collapse [symmetric]])

lemma request_series_exec: "exec f stmt w = (r, w') \<Longrightarrow> request_series w' = request_series w"
  by (rule request_series_cong) (auto dest: exec_frame)

lemma request_series_pool:
  assumes "withPool X fn w = (r, w')"
    and "\<And>t v q v'. fn t v = (q, v') \<Longrightarrow> request_series v' = request_series v"
  shows "request_series w' = request_series w"
  by (rule withPool_frame [OF assms(1), where f = request_series]) (use assms(2) in auto)

lemma request_series_repository:
  "DepartmentRepository_List X b w = (rl, w') \<Longrightarrow> request_series w' = request_series w"
  "DepartmentRepository_FindByID X u w = (rd, w') \<Longrightarrow> request_series w' = request_series w"
  "DepartmentRepository_Insert X dp w = (ri, w') \<Longrightarrow> request_series w' = request_series w"
  "DepartmentRepository_Update X u nm act v w = (ru, w') \<Longrightarrow> request_series w' = request_series w"
  "PlanRepository_List X w = (rpl, w') \<Longrightarrow> request_series w' = request_series w"
  "PlanRepository_FindByCode X code w = (rp, w') \<Longrightarrow> request_series w' = request_series w"
  "PlanRepository_Update X code patch w = (rpu, w') \<Longrightarrow> request_series w' = request_series w"
proof -
  note ex = request_series_exec
  have find: "request_series w' = request_series w" if "DepartmentRepository_FindByID X u w = (rd, w')" for u rd
    using that unfolding DepartmentRepository_FindByID_def
    by (rule request_series_pool) (auto simp: deptFindByIDFromTx_def split: sum.splits if_splits)
  then show "DepartmentRepository_FindByID X u w = (rd, w') \<Longrightarrow> request_series w' = request_series w" .
  show "request_series w' = request_series w" if "DepartmentRepository_List X b w = (rl, w')"
    using that unfolding DepartmentRepository_List_def
    by (rule request_series_pool) (auto simp: deptListFromTx_def split: sum.splits)
  have ins: "request_series w' = request_series v" if "withPool X (deptInsertFromTx X d') v = (ri, w')" for d' v
    using that by (rule request_series_pool)
      (auto simp: deptInsertFromTx_def split: prod.splits sum.splits if_splits dest!: ex)
  show "request_series w' = request_series w" if "DepartmentRepository_Insert X dp w = (ri, w')"
    by (cases "d_ID dp = uuid_Nil") (use that in \<open>auto simp: DepartmentRepository_Insert_def dest!: ins\<close>)
  have upd: "request_series w' = request_series w" if "withPool X (deptUpdateBody X u sets args) w = (ru, w')" for u sets args
    using that by (rule request_series_pool)
      (auto simp: deptUpdateBody_def deptUpdateFromTx_def split: prod.splits sum.splits if_splits option.splits dest!: ex)
  show "request_series w' = request_series w" if "DepartmentRepository_Update X u nm act v w = (ru, w')"
    using that by (auto simp: DepartmentRepository_Update_def split: if_splits prod.splits dest: upd find)
  show "request_series w' = request_series w" if "PlanRepository_List X w = (rpl, w')"
    using that unfolding PlanRepository_List_def
    by (rule request_series_pool) (auto simp: planListFromTx_def split: sum.splits)
  show "request_series w' = request_series w" if "PlanRepository_FindByCode X code w = (rp, w')"
    using that unfolding PlanRepository_FindByCode_def
    by (rule request_series_pool) (auto simp: planFindFromTx_def split: sum.splits if_splits)
  have pupd: "request_series w' = request_series w" if "withPool X (planUpdateBody X code sets args) w = (rpu, w')" for sets args
    using that by (rule request_series_pool)
      (auto simp: planUpdateBody_def planUpdateFromTx_def split: prod.splits sum.splits if_splits option.splits dest!: ex)
  show "request_series w' = request_series w" if "PlanRepository_Update X code patch w = (rpu, w')"
    using that by (cases rule: PlanRepository_Update_cases) (auto dest: pupd)
qed

section \<open>Requests counted\<close>

abbreviation same_requests :: "world \<Rightarrow> world \<Rightarrow> bool" where
  "same_requests w w' \<equiv> request_series w' = request_series w"

lemma request_series_listAll:
  assumes "DepartmentService_listAllCached X (pg_department_service X ttl) w = (r, w')"
  shows "request_series w' = request_series w"
proof -
  obtain h w1 where hit: "departments_hit X (pg_department_service X ttl) w = (h, w1)" by force
  then have "request_series w1 = request_series w" using departments_hit_pg request_series_Cache(1) by blast
  with assms hit show ?thesis
    by (auto simp: DepartmentService_listAllCached_def split: option.splits prod.splits sum.splits
        dest!: request_series_repository(1))
qed

lemma request_series_PlanList:
  assumes "PlanService_List X (pg_plan_service X ttl) w = (r, w')"
  shows "request_series w' = request_series w"
proof -
  obtain h w1 where hit: "plans_hit X (pg_plan_service X ttl) w = (h, w1)" by force
  then have "request_series w1 = request_series w" using plans_hit_pg request_series_Cache(1) by blast
  with assms hit show ?thesis
    by (auto simp: PlanService_List_def split: option.splits prod.splits sum.splits
        dest!: request_series_repository(5))
qed

lemma request_series_write:
  assumes "write_then_invalidate (Some valkey_port) k f w = (r, w')"
    and "\<And>q v. f w = (q, v) \<Longrightarrow> request_series v = request_series w"
  shows "request_series w' = request_series w"
  using assms(1) by (cases rule: write_then_invalidate_pg) (use assms(2) in \<open>auto dest!: request_series_Cache(3)\<close>)

interpretation uncounted: service_contract same_requests X "pg_config X ttl d" for X ttl d
proof (unfold_locales, goal_cases)
  case (4 b w rl w')
  then show ?case by (auto dest!: DepartmentService_List_pg request_series_listAll)
next
  case (5 u w rd w')
  then show ?case by (auto simp: DepartmentService_Get_def dest!: request_series_repository(2))
next
  case (6 cd nm sy w rd w')
  then have "DepartmentService_Create (pg_department_service X ttl) cd nm sy w = (rd, w')" by simp
  then show ?case
    by (cases rule: DepartmentService_Create_pg) (auto elim!: request_series_write dest: request_series_repository(3))
next
  case (7 u nmo ac v w rd w')
  then have "DepartmentService_Patch X (pg_department_service X ttl) u nmo ac v w = (rd, w')" by simp
  then show ?case
    by (cases rule: DepartmentService_Patch_pg) (auto elim!: request_series_write dest: request_series_repository(4))
next
  case (8 w rpl w') then show ?case by (auto dest!: request_series_PlanList)
next
  case (9 cd w rp w')
  then show ?case by (auto simp: PlanService_GetByCode_def split: if_splits dest!: request_series_repository(6))
next
  case (10 cd p w rp w')
  then have "PlanService_Patch (pg_plan_service X ttl) cd p w = (rp, w')" by simp
  then show ?case
    by (cases rule: PlanService_Patch_pg) (auto elim!: request_series_write dest: request_series_repository(7))
next
  case (11 w rh w') then show ?case by (auto dest!: request_series_Cache(4))
qed simp_all

lemma request_series_read:
  "request_series w' = request_series w \<Longrightarrow> \<not> business_metric m \<Longrightarrow> w_metrics w' m = w_metrics w m"
  by (drule fun_cong [where x = m]) (simp add: request_series_def)

text \<open>The chain in front of a handler counts what the rest of the chain answers.\<close>

lemma chain_counts:
  "\<exists>r v. api_chain G X (pg_config X ttl d) e q w =
        (r, count_request (if q_route q = '''' then q_path q else q_route q) (show_nat (bufferedWriter_Status 200 (buffered r)))
              (g_elapsed G q w) v)
     \<and> request_series v = request_series w"
proof -
  let ?h = "ProtectedMiddlewares G (IdentityBridgeMiddleware X (RequireJSONContentType (api_handler X (pg_config X ttl d) e)))"
  have k: "handler_keeps same_requests ?h" by (intro uncounted.keeps_gates uncounted.keeps_api)
  obtain r v where h: "?h q w = (r, v)" by force
  from handler_keepsD [OF k h] show ?thesis by (auto simp: api_chain_def requestMetricsMiddleware_def h)
qed

lemma count_eqI: "c m = c' m \<Longrightarrow> count c m = count c' m"
  by (simp add: count_def)

lemma cumulative_eqI: "(\<And>j. c (RequestDurationBucket route j) = c' (RequestDurationBucket route j)) \<Longrightarrow>
    cumulative c route i = cumulative c' route i"
  unfolding cumulative_def by (intro arg_cong [where f = sum_list] map_cong refl count_eqI)

lemma same_requests_count:
  assumes "request_series v = request_series w" and "\<not> business_metric m"
  shows "count (w_metrics (count_request route st ns v)) m
       = count (Observe route ns (Inc (RequestsTotal route st) (w_metrics w))) m"
proof -
  have "count (w_metrics v) m = count (w_metrics w) m" using request_series_read [OF assms] by (rule count_eqI)
  then show ?thesis by (auto simp: Observe_def row_simps)
qed

text \<open>
  C34. Every request to the API that the body limit lets through and the chain of handlers answers is
  counted exactly once: one more
  request for the route template it matched and the status the chain below the counting middleware
  answered, and one more duration for that route, in every exported bucket whose bound the duration
  does not exceed. No other series of requests moves. The status is the one of the response that is
  written, unless the rewriting of a 401 panics and the recovery answers. Outside the model are the
  timeout middleware, which may answer 504 in the place of the chain, and a handler that panics, which
  would leave the counting middleware before it counts.
\<close>

theorem requests_counted_once:
  assumes "g_match G (map (\<lambda>(m, t, e). (m, t)) (routes dcs)) (q_method q) (q_path q) = Matched t ps"
    and "route_endpoint dcs (q_method q) t = Some e" and "\<not> infra_endpoint e" and "q_content_length q \<le> 2 ^ 20"
    and "serve G X (pg_config X ttl dcs) q w = (r, w')"
  shows "\<exists>status. (rs_status r = status \<or> r = g_recovered G)
     \<and> (\<forall>rt st. count (w_metrics w') (RequestsTotal rt st) =
           count (w_metrics w) (RequestsTotal rt st) + (if rt = t \<and> st = show_nat status then 1 else 0))
     \<and> (\<forall>rt i. i < length duration_buckets \<longrightarrow>
           cumulative (w_metrics w') rt i = cumulative (w_metrics w) rt i
             + (if rt = t \<and> g_elapsed G (routed t ps q) w \<le> duration_buckets ! i then 1 else 0))"
proof -
  let ?q = "routed t ps q" and ?ns = "g_elapsed G (routed t ps q) w"
  have "t \<noteq> ''''" using assms(2) by (auto simp: route_endpoint_def route_defs split: if_splits)
  then obtain r0 v where chain: "api_chain G X (pg_config X ttl dcs) e ?q w =
        (r0, count_request t (show_nat (bufferedWriter_Status 200 (buffered r0))) ?ns v)"
    and same: "request_series v = request_series w"
    using chain_counts [of G X ttl dcs e ?q w] by auto
  let ?st = "bufferedWriter_Status 200 (buffered r0)"
  have "serve G X (pg_config X ttl dcs) q w = normalized G X 200 (api_chain G X (pg_config X ttl dcs) e) ?q w"
    using assms(1-4) by (subst serve_endpoint) (auto simp: pg_config_simps endpoint_handler_api body_cap_def)
  then have out: "r = (case NormalizeAuthErrors X 200 r0 of None \<Rightarrow> g_recovered G | Some r' \<Rightarrow> r')"
    and w': "w' = count_request t (show_nat ?st) ?ns v"
    using assms(5) by (auto simp: normalized_def chain)
  have "rs_status r = ?st \<or> r = g_recovered G"
    using out NormalizeAuthErrors_status [of X 200 r0] by (auto split: option.splits)
  moreover have "count (w_metrics w') (RequestsTotal rt st) =
      count (w_metrics w) (RequestsTotal rt st) + (if rt = t \<and> st = show_nat ?st then 1 else 0)" for rt st
    unfolding w' same_requests_count [OF same business_metric_simps(5)] by (simp add: Observe_def row_simps)
  moreover have "cumulative (w_metrics w') rt i = cumulative (w_metrics w) rt i
       + (if rt = t \<and> ?ns \<le> duration_buckets ! i then 1 else 0)" if "i < length duration_buckets" for rt i
  proof -
    have "cumulative (w_metrics v) rt i = cumulative (w_metrics w) rt i"
      by (rule cumulative_eqI) (simp add: request_series_read [OF same] business_metric_def)
    moreover have "cumulative (Inc (RequestsTotal a b) c) rt i = cumulative c rt i" for a b c
      by (rule cumulative_eqI) (simp add: Inc_def)
    ultimately show ?thesis
      unfolding w' count_request_simps cumulative_Observe bucket_of_le [OF that] by simp
  qed
  ultimately show ?thesis by blast
qed

theorem requests_counted_once_witness:
  "cumulative (w_metrics (snd (serve tenant_gin ext_ref sample_config
       (sample_request ''GET'' ''/api/v1/operator/plans'' EmptyBody) sample_world))) ''/api/v1/operator/plans'' 1 = 0
   \<and> cumulative (w_metrics (snd (serve tenant_gin ext_ref sample_config
       (sample_request ''GET'' ''/api/v1/operator/plans'' EmptyBody) sample_world))) ''/api/v1/operator/plans'' 2 = 1"
proof -
  let ?q = "sample_request ''GET'' ''/api/v1/operator/plans'' EmptyBody"
  have m: "g_match tenant_gin (map (\<lambda>(m, t, e). (m, t)) (routes sample_docs)) (q_method ?q) (q_path ?q)
      = Matched ''/api/v1/operator/plans'' []"
    by (simp add: tenant_gin_def sample_gin_def sample_match_def route_defs sample_request_def)
  have e: "route_endpoint sample_docs (q_method ?q) ''/api/v1/operator/plans'' = Some EPlanList"
    by (simp add: sample_request_def route_endpoint_def route_defs)
  have "q_content_length ?q \<le> 2 ^ 20" by (simp add: sample_request_def)
  moreover have "cumulative (w_metrics sample_world) rt i = 0" for rt i
    unfolding cumulative_def by (simp add: sample_world_def count_known_label_values del: upt_Suc)
  ultimately show ?thesis
    using requests_counted_once [OF m e _ _ prod.collapse [symmetric], of ext_ref "seconds 60" sample_world]
    by (auto simp: infra_endpoint_def sample_config_def duration_buckets_def tenant_gin_def sample_gin_def)
qed

section \<open>Writes\<close>

definition write_metric :: "endpoint \<Rightarrow> metric" where
  "write_metric e =
     (if e = EDeptCreate then WritesTotal ''departments'' ''insert''
      else if e = EDeptPatch then WritesTotal ''departments'' ''update''
      else WritesTotal ''plans'' ''update'')"

lemma exec_metrics: "exec f stmt w = (r, w') \<Longrightarrow> w_metrics w' = w_metrics w"
  by (auto dest: exec_frame)

lemma repository_success_counted:
  "DepartmentRepository_Insert X dp w = (Inr d, w') \<Longrightarrow>
     w_metrics w' = Inc (WritesTotal ''departments'' ''insert'') (w_metrics w)"
  "DepartmentRepository_Update X u nm act v w = (Inr d, w') \<Longrightarrow> nm \<noteq> None \<or> act \<noteq> None \<Longrightarrow>
     w_metrics w' = Inc (WritesTotal ''departments'' ''update'') (w_metrics w)"
  "PlanRepository_Update X code patch w = (Inr p, w') \<Longrightarrow>
     w_metrics w' = Inc (WritesTotal ''plans'' ''update'') (w_metrics w)"
proof -
  have ins: "w_metrics w' = Inc (WritesTotal ''departments'' ''insert'') (w_metrics v)"
    if "withPool X (deptInsertFromTx X d') v = (Inr d, w')" for d' v
    using withPool_Inr [OF that]
    by (auto simp: deptInsertFromTx_def split: prod.splits sum.splits if_splits dest!: exec_metrics)
  show "w_metrics w' = Inc (WritesTotal ''departments'' ''insert'') (w_metrics w)"
    if "DepartmentRepository_Insert X dp w = (Inr d, w')"
    by (cases "d_ID dp = uuid_Nil") (use that ins in \<open>auto simp: DepartmentRepository_Insert_def dest!: ins\<close>)
  have upd: "w_metrics w' = Inc (WritesTotal ''departments'' ''update'') (w_metrics v)"
    if "withPool X (deptUpdateBody X u sets args) v = (Inr d, w')" for u sets args v
    using withPool_Inr [OF that]
    by (auto simp: deptUpdateBody_def deptUpdateFromTx_def split: prod.splits sum.splits if_splits option.splits
        dest!: exec_metrics)
  show "w_metrics w' = Inc (WritesTotal ''departments'' ''update'') (w_metrics w)"
    if "DepartmentRepository_Update X u nm act v w = (Inr d, w')" "nm \<noteq> None \<or> act \<noteq> None"
    using that by (auto simp: DepartmentRepository_Update_def split: if_splits prod.splits dest!: upd)
  have pl: "w_metrics w' = Inc (WritesTotal ''plans'' ''update'') (w_metrics v)"
    if "withPool X (planUpdateBody X code sets args) v = (Inr p, w')" for sets args v
    using withPool_Inr [OF that]
    by (auto simp: planUpdateBody_def planUpdateFromTx_def split: prod.splits sum.splits if_splits option.splits
        dest!: exec_metrics)
  show "w_metrics w' = Inc (WritesTotal ''plans'' ''update'') (w_metrics w)"
    if "PlanRepository_Update X code patch w = (Inr p, w')"
    using that by (cases rule: PlanRepository_Update_cases) (auto dest: pl)
qed

lemma Cache_Delete_metrics: "w_metrics (snd (Cache_Delete ks w)) = w_metrics w"
  by (auto simp: Cache_Delete_def split: cache_fate.splits)

lemma service_success_counted:
  "DepartmentService_Create (pg_department_service X ttl) code name sys w = (Inr d, w') \<Longrightarrow>
     w_metrics w' = Inc (WritesTotal ''departments'' ''insert'') (w_metrics w)"
  "DepartmentService_Patch X (pg_department_service X ttl) u nm act v w = (Inr d, w') \<Longrightarrow>
     w_metrics w' = Inc (WritesTotal ''departments'' ''update'') (w_metrics w)"
  "PlanService_Patch (pg_plan_service X ttl) pcode p w = (Inr pl, w') \<Longrightarrow>
     w_metrics w' = Inc (WritesTotal ''plans'' ''update'') (w_metrics w)"
proof -
  show "w_metrics w' = Inc (WritesTotal ''departments'' ''insert'') (w_metrics w)"
    if "DepartmentService_Create (pg_department_service X ttl) code name sys w = (Inr d, w')"
    using that by (auto simp: DepartmentService_Create_def DepartmentService_invalidateCache_def Cache_Delete_metrics
        split: if_splits prod.splits sum.splits intro: repository_success_counted(1))
  show "w_metrics w' = Inc (WritesTotal ''departments'' ''update'') (w_metrics w)"
    if run: "DepartmentService_Patch X (pg_department_service X ttl) u nm act v w = (Inr d, w')"
  proof -
    obtain w1 where "DepartmentRepository_Update X u nm act v w = (Inr d, w1)" "\<not> (nm = None \<and> act = None)"
      and "w' = snd (Cache_Delete [''cat:departments''] w1)"
      using run by (auto simp: DepartmentService_Patch_def DepartmentService_invalidateCache_def
          split: if_splits prod.splits sum.splits)
    then show ?thesis using repository_success_counted(2) Cache_Delete_metrics by metis
  qed
  show "w_metrics w' = Inc (WritesTotal ''plans'' ''update'') (w_metrics w)"
    if "PlanService_Patch (pg_plan_service X ttl) pcode p w = (Inr pl, w')"
    using that by (auto simp: PlanService_Patch_def Cache_Delete_metrics
        split: prod.splits sum.splits option.splits intro: repository_success_counted(3))
qed

text \<open>
  C35. A successful write is counted twice: the repository counts it and so does the handler, so the
  business counter catalog_admin_writes_total grows by two for every department created or updated and every
  plan updated through the API.
\<close>

theorem successful_write_counted_twice:
  assumes "api_handler X (pg_config X ttl d) e c w = (r, w')" and "write_endpoint e"
    and "rs_status r = 200 \<or> rs_status r = 201"
  shows "count (w_metrics w') (write_metric e) = count (w_metrics w) (write_metric e) + 2"
proof -
  have err: False if "HandleError X c' q v = (r, w')" for c' q v
    using that assms(3) by (auto simp: HandleError_def Let_def domainErrorStatus_def split: go_error.splits if_splits)
  consider "e = EDeptCreate" | "e = EDeptPatch" | "e = EPlanPatch" using assms(2) by (auto simp: write_endpoint_def)
  then show ?thesis
  proof cases
    case 1
    with assms(1,3) err show ?thesis
      by (auto simp: api_handler_def RequireOperatorRole_def DepartmentHandler_Create_def write_metric_def row_simps
          split: option.splits if_splits prod.splits sum.splits dest!: service_success_counted(1))
  next
    case 2
    with assms(1,3) err show ?thesis
      by (auto simp: api_handler_def RequireOperatorRole_def DepartmentHandler_Patch_def write_metric_def row_simps
          split: option.splits if_splits prod.splits sum.splits dest!: service_success_counted(2))
  next
    case 3
    with assms(1,3) err show ?thesis
      by (auto simp: api_handler_def RequireOperatorRole_def PlanHandler_Patch_def write_metric_def row_simps
          split: option.splits if_splits prod.splits sum.splits dest!: service_success_counted(3))
  qed
qed

theorem successful_write_counted_twice_witness:
  "\<exists>r w'. api_handler ext_ref (pg_config ext_ref (seconds 60) sample_docs) EPlanPatch
        (sample_plan_request\<lparr>q_context := Some operator_context, q_params := [(''code'', ''starter'')]\<rparr>) sample_world = (r, w')
     \<and> count (w_metrics w') (WritesTotal ''plans'' ''update'') = count (w_metrics sample_world) (WritesTotal ''plans'' ''update'') + 2"
proof -
  let ?c = "sample_plan_request\<lparr>q_context := Some operator_context, q_params := [(''code'', ''starter'')]\<rparr>"
  obtain w1 where svc: "PlanService_Patch (pg_plan_service ext_ref (seconds 60)) ''starter'' sample_patch sample_world
      = (Inr (plan_of ext_ref (patched_row (db_now sample_world))), w1)"
    using pg_plan_patch_steps [OF ext_ref_ok sample_db_ok sample_scans sample_tx(3) sample_checked sample_decoded plan_patch_abs]
    by blast
  have h: "api_handler ext_ref (pg_config ext_ref (seconds 60) sample_docs) EPlanPatch ?c sample_world =
     (json_response 200 (plan_response_json ext_ref (planToResponse (plan_of ext_ref (patched_row (db_now sample_world))))),
      inc_metric (WritesTotal ''plans'' ''update'') w1)"
    unfolding api_handler_def endpoint.case pg_config_simps
    by (subst gate_pass(1) [of _ operator_context])
       (simp_all add: operator_context_def IsOperator_def HasRole_def,
        rule plan_patch_handled [OF _ _ _ svc],
        simp_all add: lookup_or_empty_def operator_context_def sample_plan_request_def sample_request_def)
  show ?thesis
    using successful_write_counted_twice [OF h] h by (force simp: write_endpoint_def write_metric_def)
qed

end
