(* ===== verification/Config_Properties.thy ===== *)
theory Config_Properties
  imports Dispatch
begin

text \<open>
  What the configuration of main.go and db.go comes to: which environments the service starts in, the
  numbers it reads from them (strconv.Atoi and time.ParseDuration on what an operator writes), the
  statement timeout it puts into a connection string, and the time to live of the cached catalogs.
\<close>

section \<open>Reading numbers\<close>

lemma is_digit_char: "d < 10 \<Longrightarrow> is_digit (digit_char d)"
  by (simp add: is_digit_def digit_char_def Let_def)

lemma digit_zero: "digit_char 0 = CHR ''0''"
  by code_simp

lemma show_nat_digits: "c \<in> set (show_nat n) \<Longrightarrow> is_digit c"
proof (induction n rule: show_nat.induct)
  case (1 n)
  then show ?case by (cases "n < 10") (auto simp: show_nat.simps [of n] is_digit_char)
qed

lemma show_nat_Cons: "show_nat n = c # cs \<Longrightarrow> is_digit c"
  using show_nat_digits [of c n] by simp

lemma show_nat_nonempty [simp]: "show_nat n \<noteq> []"
  using show_nat_hd [of n] by auto

lemma sign_not_digit: "\<not> is_digit (CHR ''-'')" "\<not> is_digit (CHR ''+'')" "\<not> is_digit (CHR ''.'')"
  "\<not> is_digit (CHR ''m'')" "\<not> is_digit (CHR ''s'')"
  by (simp_all add: is_digit_def)

lemma show_nat_unsigned:
  "(case show_nat n @ r of [] \<Rightarrow> f | c # cs \<Rightarrow> if c = CHR ''-'' then g cs else if c = CHR ''+'' then h cs else k) = k"
proof -
  obtain c cs where s: "show_nat n = c # cs" using show_nat_nonempty by (cases "show_nat n") auto
  with show_nat_Cons sign_not_digit have "c \<noteq> CHR ''-''" "c \<noteq> CHR ''+''" by metis+
  with s show ?thesis by simp
qed

lemma list_all_show_nat: "list_all is_digit (show_nat n)"
  using show_nat_digits by (auto simp: list_all_iff)

lemma Atoi_show_int:
  assumes "int64_ok n"
  shows "Atoi (show_int n) = Some n"
proof (cases "n < 0")
  case True
  then show ?thesis using assms by (simp add: Atoi_def show_int_def list_all_show_nat nat_value_show Let_def)
next
  case False
  then show ?thesis
    using assms
    by (simp add: show_nat_unsigned [where r = "[]", simplified] Atoi_def show_int_def list_all_show_nat nat_value_show Let_def)
qed

lemma Atoi_range: "Atoi s = Some n \<Longrightarrow> int64_ok n"
  by (auto simp: Atoi_def Let_def split: prod.splits if_splits)

lemma take_digits: "\<not> is_digit c \<Longrightarrow> takeWhile is_digit (show_nat n @ c # r) = show_nat n"
  "\<not> is_digit c \<Longrightarrow> dropWhile is_digit (show_nat n @ c # r) = c # r"
  using show_nat_digits by (auto simp: takeWhile_append2 dropWhile_append2)

text \<open>A whole number of milliseconds, written the way the comment on ApplyStatementTimeout does.\<close>

lemma ParseDuration_ms:
  assumes "n * 1000000 < 2 ^ 63"
  shows "ParseDuration (show_nat n @ ''ms'') = Some (int n * 1000000)"
proof -
  have "duration_part (show_nat n @ ''ms'') = Some (n * 1000000, [])"
    using assms take_digits [OF sign_not_digit(4), of n "''s''"]
    by (simp add: duration_part_def fraction_of_def nat_value_show Let_def unit_char_def sign_not_digit unit_map_def)
  then have "duration_parts 0 (show_nat n @ ''ms'') = Some (n * 1000000)"
    using assms by (subst duration_parts.simps) (simp add: duration_parts.simps [of _ "[]"])
  moreover have "show_nat n @ ''ms'' \<noteq> ''0''" using take_digits(2) [OF sign_not_digit(4), of n "''s''"]
    by (auto dest: arg_cong [of _ _ length])
  ultimately show ?thesis
    using assms by (simp add: show_nat_unsigned ParseDuration_def Let_def)
qed

lemma ParseDuration_range:
  assumes "ParseDuration s = Some d"
  shows "int64_ok d"
proof -
  have "duration_parts a r = Some b \<Longrightarrow> a \<le> 2 ^ 63 \<Longrightarrow> b \<le> 2 ^ 63" for a r b
  proof (induction a r rule: duration_parts.induct)
    case (1 a r)
    from "1.prems" show ?case
      by (subst (asm) duration_parts.simps) (auto split: if_splits option.splits prod.splits dest: "1.IH")
  qed
  then have b: "duration_parts 0 r = Some b \<Longrightarrow> b \<le> 2 ^ 63" for r b by simp
  show ?thesis
    using assms by (auto simp: ParseDuration_def int64_ok_def Let_def split: prod.splits if_splits option.splits dest!: b)
qed


section \<open>Startup\<close>

lemma missing_env_Nil:
  "missing_env env a = [] \<longleftrightarrow> env ''VALKEY_URL'' \<noteq> ''''
     \<and> \<not> (env ''PG_BOUNCER_MODE'' = ''true'' \<and> env ''MIGRATION_DATABASE_URL'' = '''' \<and> env ''DATABASE_URL'' = '''')
     \<and> (is_prod a \<longrightarrow> has_prefix ''rediss://'' (env ''VALKEY_URL''))"
  by (auto simp: missing_env_def)

lemma concat_guarded_Nil: "concat (map (\<lambda>w. if P w then [f w] else []) ws) = [] \<longleftrightarrow> (\<forall>w \<in> set ws. \<not> P w)"
  by (induction ws) auto

lemma image_disjoint_pair: "f ` S \<inter> {a, b} = {} \<longleftrightarrow> (\<forall>x \<in> S. \<not> (f x = a \<or> f x = b))"
  by auto

lemma missing_postgres_Nil:
  "missing_postgres a dsn ws = [] \<longleftrightarrow> dsn \<noteq> ''''
     \<and> (is_prod a \<longrightarrow> cw_Key ` set ws \<inter> {''PG_SSLMODE'', ''DATABASE_URL''} = {})"
  unfolding missing_postgres_def append_is_Nil_conv image_disjoint_pair
  by (cases "is_prod a") (simp_all add: concat_guarded_Nil del: concat_eq_Nil_conv)

text \<open>
  The service starts exactly in the environments main.go means to accept: a cache address is
  given, migrations do not go through PgBouncer by accident, a connection string could be built, and
  in production and staging the cache is reached over TLS and no warning speaks of an insecure
  connection to the database. It then runs with the composed repositories, services and router.
\<close>

theorem startup_accepts_iff:
  "startup X ConfigFromEnv env = Inr cfg \<longleftrightarrow>
     cfg = compose X env
   \<and> env ''VALKEY_URL'' \<noteq> ''''
   \<and> \<not> (env ''PG_BOUNCER_MODE'' = ''true'' \<and> env ''MIGRATION_DATABASE_URL'' = '''' \<and> env ''DATABASE_URL'' = '''')
   \<and> DSNFromEnv ConfigFromEnv env \<noteq> ''''
   \<and> (is_prod (envOr env ''APP_ENV'' ''dev'') \<longrightarrow>
        has_prefix ''rediss://'' (env ''VALKEY_URL'')
      \<and> cw_Key ` set (snd (ConfigFromEnv env)) \<inter> {''PG_SSLMODE'', ''DATABASE_URL''} = {})"
  using missing_env_Nil [of env "envOr env ''APP_ENV'' ''dev''"]
    missing_postgres_Nil [of "envOr env ''APP_ENV'' ''dev''" "DSNFromEnv ConfigFromEnv env" "snd (ConfigFromEnv env)"]
  by (auto simp: startup_def validateRequiredEnv_def validatePostgresConfig_def Let_def)

definition prod_env :: "string \<Rightarrow> environ" where
  "prod_env valkey =
     (\<lambda>v. if v = ''APP_ENV'' then ''production'' else if v = ''VALKEY_URL'' then valkey
          else if v = ''PG_STATEMENT_TIMEOUT'' then ''500us'' else '''')"

lemma startup_accepts_iff_witness:
  "startup ext_ref (\<lambda>env. (''postgres://db/catalog'', [])) (prod_env ''rediss://cache:6379'')
     = Inr (compose ext_ref (prod_env ''rediss://cache:6379''))
   \<and> startup ext_ref (\<lambda>env. (''postgres://db/catalog'', [])) (prod_env ''redis://cache:6379'')
     \<noteq> Inr (compose ext_ref (prod_env ''redis://cache:6379''))"
  unfolding startup_accepts_iff
  by (simp add: prod_env_def DSNFromEnv_def ApplyStatementTimeout_def envOr_def is_prod_def has_prefix_def
      split: option.split)

section \<open>The statement timeout of a connection string\<close>

definition timeout_suffix :: "string \<Rightarrow> string \<Rightarrow> string" where
  "timeout_suffix dsn ms =
     (if contains_str ''?'' dsn then ''&'' else ''?'')
     @ ''options=-c'' @ [CHR 0x25] @ ''20statement_timeout'' @ [CHR 0x25] @ ''3D'' @ ms"

lemma ApplyStatementTimeout_set:
  assumes "dsn \<noteq> ''''" and "\<not> contains_str ''statement_timeout'' dsn"
    and "env ''PG_STATEMENT_TIMEOUT'' \<noteq> ''''" and "ParseDuration (env ''PG_STATEMENT_TIMEOUT'') = Some d" and "0 < d"
  shows "ApplyStatementTimeout env dsn = dsn @ timeout_suffix dsn (show_int (d div 1000000))"
  using assms by (simp add: ApplyStatementTimeout_def timeout_suffix_def statement_timeout_option_def Let_def)

lemma ApplyStatementTimeout_cases:
  "ApplyStatementTimeout env dsn = dsn \<or> contains_str ''statement_timeout'' (ApplyStatementTimeout env dsn)"
proof -
  have "contains_str ''statement_timeout'' (''20statement_timeout'' @ r)" for r
    unfolding contains_str_iff by (intro exI [of _ "''20''"] exI [of _ r]) simp
  then have "contains_str ''statement_timeout'' (statement_timeout_option d)" for d
    unfolding statement_timeout_option_def
    by (rule contains_str_append_right [OF contains_str_append_right])
  then show ?thesis
    unfolding ApplyStatementTimeout_def Let_def
    by (auto split: option.split simp del: append_Cons intro: contains_str_append_right)
qed

lemma ApplyStatementTimeout_idem:
  "ApplyStatementTimeout env (ApplyStatementTimeout env dsn) = ApplyStatementTimeout env dsn"
  using ApplyStatementTimeout_cases [of env dsn]
  by (cases "contains_str ''statement_timeout'' (ApplyStatementTimeout env dsn)")
     (auto simp: ApplyStatementTimeout_def [of _ "ApplyStatementTimeout env dsn"] Let_def split: option.split)

text \<open>
  A timeout of n milliseconds written as such in PG_STATEMENT_TIMEOUT arrives in the connection
  string as the number n, appended as a query parameter with the separator the string needs, and
  applying the function again adds nothing.
\<close>

theorem statement_timeout_exact:
  assumes "env ''PG_STATEMENT_TIMEOUT'' = show_nat n @ ''ms''" and "0 < n" and "n * 1000000 < 2 ^ 63"
    and "dsn \<noteq> ''''" and "\<not> contains_str ''statement_timeout'' dsn"
  shows "ApplyStatementTimeout env dsn = dsn @ timeout_suffix dsn (show_nat n)
       \<and> ApplyStatementTimeout env (ApplyStatementTimeout env dsn) = ApplyStatementTimeout env dsn"
proof -
  have "ApplyStatementTimeout env dsn = dsn @ timeout_suffix dsn (show_int (int n * 1000000 div 1000000))"
    by (rule ApplyStatementTimeout_set) (use ParseDuration_ms [OF assms(3)] assms in simp_all)
  moreover have "show_int (int n * 1000000 div 1000000) = show_nat n" by (simp add: show_int_def)
  ultimately show ?thesis using ApplyStatementTimeout_idem [of env dsn] by simp
qed

lemma statement_timeout_exact_witness:
  "ApplyStatementTimeout (\<lambda>v. show_nat 750 @ ''ms'') ''postgres://db/catalog''
     = ''postgres://db/catalog'' @ timeout_suffix ''postgres://db/catalog'' (show_nat 750)"
  using statement_timeout_exact [of "\<lambda>v. show_nat 750 @ ''ms''" 750 "''postgres://db/catalog''"]
  by (simp add: has_prefix_def)

text \<open>
  A statement timeout below one millisecond, which the configuration accepts, reaches the database
  as the number 0, and that means no timeout at all.
\<close>

theorem tiny_timeout_is_no_timeout:
  assumes "env ''PG_STATEMENT_TIMEOUT'' \<noteq> ''''" and "ParseDuration (env ''PG_STATEMENT_TIMEOUT'') = Some d"
    and "0 < d" and "d < 1000000" and "dsn \<noteq> ''''" and "\<not> contains_str ''statement_timeout'' dsn"
  shows "ApplyStatementTimeout env dsn = dsn @ timeout_suffix dsn ''0''"
proof -
  have "ApplyStatementTimeout env dsn = dsn @ timeout_suffix dsn (show_int (d div 1000000))"
    by (rule ApplyStatementTimeout_set) (use assms in simp_all)
  moreover have "show_int (d div 1000000) = ''0''" using assms(3,4) by (simp add: show_int_def show_nat.simps digit_zero)
  ultimately show ?thesis by simp
qed

lemma tiny_timeout_is_no_timeout_witness:
  "ApplyStatementTimeout (prod_env ''x'') ''postgres://db/catalog''
     = ''postgres://db/catalog'' @ timeout_suffix ''postgres://db/catalog'' ''0''"
proof -
  have "ParseDuration (prod_env ''x'' ''PG_STATEMENT_TIMEOUT'') = Some 500000"
    by (simp add: prod_env_def ParseDuration_def duration_parts.simps duration_part_def fraction_of_def unit_map_def
        unit_char_def is_digit_def digit_value_def)
  then show ?thesis
    using tiny_timeout_is_no_timeout [of "prod_env ''x''" 500000 "''postgres://db/catalog''"]
    by (simp add: prod_env_def has_prefix_def)
qed

section \<open>The time to live of the cached catalogs\<close>

text \<open>What a listing that finds nothing cached stores, and for how long.\<close>

lemma read_through_stores:
  assumes rt: "read_through (Some valkey_port) k dec enc ttl fetch w = (Inr a, w')"
    and cold: "live_value w k = None" and fine: "w_cache w = []" and pos: "0 < sint ttl"
    and frame: "\<And>v q v'. fetch v = (q, v') \<Longrightarrow> cache_side v' = cache_side v"
  shows "w_store w' k = Some \<lparr>se_value = enc a, se_expiry = Some (w_now w + sint ttl)\<rparr>"
proof -
  let ?w1 = "inc_metric (CacheMisses k) (pop_cache w)"
  have get: "Cache_Get k w = (Inr None, ?w1)" using cold fine by (simp add: Cache_Get_def next_cache_def)
  obtain q w2 where f: "fetch ?w1 = (q, w2)" by force
  have "cache_side w2 = cache_side ?w1" by (rule frame [OF f])
  then have same: "w_now w2 = w_now w" "w_cache w2 = []" using fine by (simp_all add: cache_side_def)
  have "q = Inr a \<and> w' = snd (Cache_Set k (enc a) ttl w2)"
    using rt get f by (auto simp: read_through_def split: sum.splits)
  then show ?thesis using same pos by (simp add: Cache_Set_def next_cache_def store_set_def)
qed

lemma composed_listings_store:
  "DepartmentService_List X (rt_Departments (compose X env)) b w = (Inr ds, w') \<Longrightarrow>
     live_value w ''cat:departments'' = None \<Longrightarrow> w_cache w = [] \<Longrightarrow> 0 < sint (ds_cacheTTL (rt_Departments (compose X env))) \<Longrightarrow>
     map_option se_expiry (w_store w' ''cat:departments'')
       = Some (Some (w_now w + sint (ds_cacheTTL (rt_Departments (compose X env)))))"
  "PlanService_List X (rt_Plans (compose X env)) w = (Inr ps, w') \<Longrightarrow>
     live_value w ''cat:plans'' = None \<Longrightarrow> w_cache w = [] \<Longrightarrow> 0 < sint (ps_cacheTTL (rt_Plans (compose X env))) \<Longrightarrow>
     map_option se_expiry (w_store w' ''cat:plans'') = Some (Some (w_now w + sint (ps_cacheTTL (rt_Plans (compose X env)))))"
proof -
  let ?s = "pg_department_service X (catalogTTL env)" and ?p = "pg_plan_service X (catalogTTL env)"
  have d: "rt_Departments (compose X env) = ?s" and p: "rt_Plans (compose X env) = ?p" by (simp_all add: compose_def)
  show "map_option se_expiry (w_store w' ''cat:departments'')
       = Some (Some (w_now w + sint (ds_cacheTTL (rt_Departments (compose X env)))))"
    if l: "DepartmentService_List X (rt_Departments (compose X env)) b w = (Inr ds, w')"
      and c: "live_value w ''cat:departments'' = None" "w_cache w = []" "0 < sint (ds_cacheTTL (rt_Departments (compose X env)))"
  proof -
    from DepartmentService_List_pg [OF l [unfolded d]] obtain q where
      q: "DepartmentService_listAllCached X ?s w = (q, w')" "Inr ds = (case q of Inl e \<Rightarrow> Inl e
         | Inr all \<Rightarrow> Inr (if b then filter d_IsActive all else all))" by blast
    then obtain all where "q = Inr all" by (cases q) simp_all
    with q have "read_through (Some valkey_port) ''cat:departments'' (decode_departments X) (encode_departments X)
        (ds_cacheTTL ?s) (DepartmentRepository_List X False) w = (Inr all, w')" by (simp add: listAllCached_read_through)
    from read_through_stores [OF this c [unfolded d]] show ?thesis using DepartmentRepository_List_frame by (simp add: d)
  qed
  show "map_option se_expiry (w_store w' ''cat:plans'') = Some (Some (w_now w + sint (ps_cacheTTL (rt_Plans (compose X env)))))"
    if l: "PlanService_List X (rt_Plans (compose X env)) w = (Inr ps, w')"
      and c: "live_value w ''cat:plans'' = None" "w_cache w = []" "0 < sint (ps_cacheTTL (rt_Plans (compose X env)))"
  proof -
    have "read_through (Some valkey_port) ''cat:plans'' (decode_plans X) (encode_plans X) (ps_cacheTTL ?p)
        (PlanRepository_List X) w = (Inr ps, w')" using l by (simp add: PlanService_List_read_through p)
    from read_through_stores [OF this c [unfolded p]] show ?thesis using PlanRepository_List_frame by (simp add: p)
  qed
qed

text \<open>
  C40. CATALOG_TTL_SECONDS means what it says exactly for the values from 1 to 9223372036: both services
  are then composed with that many seconds, and a listing of either catalog that finds nothing cached
  stores its rows to expire that many seconds later, if its cache calls work. A value that is not
  positive gives both another time to live, and so does any larger one, where the product with a second
  wraps around at 64 bits.
\<close>

theorem configured_ttl_exact:
  assumes "env ''CATALOG_TTL_SECONDS'' = show_int n" and "int64_ok n"
  shows "(sint (ds_cacheTTL (rt_Departments (compose X env))) = n * 1000000000 \<longleftrightarrow> 0 < n \<and> n \<le> 9223372036)
     \<and> (sint (ps_cacheTTL (rt_Plans (compose X env))) = n * 1000000000 \<longleftrightarrow> 0 < n \<and> n \<le> 9223372036)
     \<and> (0 < n \<and> n \<le> 9223372036 \<and> w_cache w = [] \<longrightarrow>
          (\<forall>b ds w'. live_value w ''cat:departments'' = None
             \<and> DepartmentService_List X (rt_Departments (compose X env)) b w = (Inr ds, w') \<longrightarrow>
               map_option se_expiry (w_store w' ''cat:departments'') = Some (Some (w_now w + n * 1000000000)))
        \<and> (\<forall>ps w'. live_value w ''cat:plans'' = None
             \<and> PlanService_List X (rt_Plans (compose X env)) w = (Inr ps, w') \<longrightarrow>
               map_option se_expiry (w_store w' ''cat:plans'') = Some (Some (w_now w + n * 1000000000))))"
proof -
  have "show_int n \<noteq> ''''" by (simp add: show_int_def)
  then have ttl: "catalogTTL env = word_of_int (n * 1000000000)"
    using assms Atoi_show_int [OF assms(2)]
    by (simp add: catalogTTL_def catalogTTLSeconds_def envOr_def seconds_def)
  let ?t = "sint (word_of_int (n * 1000000000) :: duration)"
  let ?d = "sint (ds_cacheTTL (rt_Departments (compose X env)))" and ?p = "sint (ps_cacheTTL (rt_Plans (compose X env)))"
  have used: "?d = (if 0 < ?t then ?t else 60000000000)" "?p = (if 0 < ?t then ?t else 60000000000)"
    unfolding compose_def ttl
    by (simp_all add: pg_department_service_def DepartmentService_WithCacheTTL_def NewDepartmentService_def
        defaultDepartmentsCacheTTL_def pg_plan_service_def PlanService_WithCacheTTL_def NewPlanService_def
        defaultPlansCacheTTL_def seconds_def)
  have eq: "?t = n * 1000000000" if "- (2 ^ 63) \<le> n * 1000000000" "n * 1000000000 < 2 ^ 63"
    unfolding sint_sbintrunc' using that by (simp add: signed_take_bit_int_eq_self)
  have less: "?t < 2 ^ 63" using sint_lt [of "word_of_int (n * 1000000000) :: duration"] by simp
  have exact: "x = n * 1000000000 \<longleftrightarrow> 0 < n \<and> n \<le> 9223372036" if x: "x = (if 0 < ?t then ?t else 60000000000)" for x
  proof (cases "0 < n \<and> n \<le> 9223372036")
    case True
    then show ?thesis using eq x by simp
  next
    case False
    then have "n * 1000000000 \<le> 0 \<or> 2 ^ 63 \<le> n * 1000000000" by auto
    then show ?thesis using less x False by auto
  qed
  note D = exact [OF used(1)] and P = exact [OF used(2)]
  have "map_option se_expiry (w_store w' ''cat:departments'') = Some (Some (w_now w + n * 1000000000))"
    if "0 < n \<and> n \<le> 9223372036 \<and> w_cache w = []" "live_value w ''cat:departments'' = None"
      "DepartmentService_List X (rt_Departments (compose X env)) b w = (Inr ds, w')" for b ds w'
    using composed_listings_store(1) [OF that(3,2)] that(1) D by auto
  moreover have "map_option se_expiry (w_store w' ''cat:plans'') = Some (Some (w_now w + n * 1000000000))"
    if "0 < n \<and> n \<le> 9223372036 \<and> w_cache w = []" "live_value w ''cat:plans'' = None"
      "PlanService_List X (rt_Plans (compose X env)) w = (Inr ps, w')" for ps w'
    using composed_listings_store(2) [OF that(3,2)] that(1) P by auto
  ultimately show ?thesis using D P by blast
qed

lemma configured_ttl_exact_witness:
  "sint (ds_cacheTTL (rt_Departments (compose ext_ref (\<lambda>v. show_int 300)))) = 300000000000
   \<and> sint (ps_cacheTTL (rt_Plans (compose ext_ref (\<lambda>v. show_int 18446744074)))) \<noteq> 18446744074000000000
   \<and> map_option se_expiry (w_store (snd (DepartmentService_List ext_ref (rt_Departments (compose ext_ref (\<lambda>v. show_int 300))) False
         sample_world)) ''cat:departments'') = Some (Some 305000000000)"
proof -
  have int: "int64_ok 300" "int64_ok 18446744074" by (simp_all add: int64_ok_def)
  let ?svc = "rt_Departments (compose ext_ref (\<lambda>v. show_int 300))"
  have w: "w_cache sample_world = []" "live_value sample_world ''cat:departments'' = None" "w_now sample_world = 5000000000"
    by (simp_all add: sample_world_def live_value_def)
  have svc: "?svc = pg_department_service ext_ref (catalogTTL (\<lambda>v. show_int 300))" by (simp add: compose_def)
  let ?w1 = "inc_metric (CacheMisses ''cat:departments'') (pop_cache sample_world)"
  have "DepartmentRepository_List ext_ref False ?w1 = (Inr (sql_select_departments ext_ref False (w_db sample_world)), pop_tx ?w1)"
    unfolding DepartmentRepository_List_def by (subst withPool_no_fault) (simp_all add: next_tx_def deptListFromTx_def query_def)
  moreover have "Cache_Get ''cat:departments'' sample_world = (Inr None, ?w1)"
    using w by (simp add: Cache_Get_def next_cache_def)
  ultimately obtain ds w' where l: "DepartmentService_List ext_ref ?svc False sample_world = (Inr ds, w')"
    unfolding svc by (simp add: DepartmentService_List_def DepartmentService_listAllCached_def departments_hit_def)
  note small = configured_ttl_exact [of "\<lambda>v. show_int 300" 300 ext_ref sample_world, OF refl int(1)]
    and large = configured_ttl_exact [of "\<lambda>v. show_int 18446744074" 18446744074 ext_ref sample_world, OF refl int(2)]
  have "map_option se_expiry (w_store w' ''cat:departments'') = Some (Some (w_now sample_world + 300 * 1000000000))"
    using small w(1,2) l by simp
  then show ?thesis using small large l w(3) by simp
qed

end
