(* ===== verification/Observability.thy ===== *)
theory Observability
  imports Json_Model
begin

text \<open>
  The adapters that hand this service's logger and tracer to platform-pgcommon: logger.go and
  otel_tracer.go of internal/adapter/outbound/postgres. A logger is a record of its four methods over
  a state of its own; the tracer of the telemetry library and its spans are arguments.
\<close>

section \<open>The logger\<close>

datatype log_level = Debug | Info | Warn | Error

record 'v field =
  f_Key :: string
  f_Value :: 'v

type_synonym 'v fields = "(string \<times> 'v) list"

record ('v, 's) logger =
  l_Debug :: "string \<Rightarrow> 'v fields option \<Rightarrow> 's \<Rightarrow> 's"
  l_Info :: "string \<Rightarrow> 'v fields option \<Rightarrow> 's \<Rightarrow> 's"
  l_Warn :: "string \<Rightarrow> 'v fields option \<Rightarrow> 's \<Rightarrow> 's"
  l_Error :: "string \<Rightarrow> 'v fields option \<Rightarrow> 's \<Rightarrow> 's"

record ('v, 's) domain_logger =
  dl_l :: "('v, 's) logger"

definition NewDomainLogger :: "('v, 's) logger \<Rightarrow> ('v, 's) domain_logger" where
  "NewDomainLogger l = \<lparr>dl_l = l\<rparr>"

text \<open>A map of nil for no fields; otherwise the last field of a key wins.\<close>

definition fieldsToMap :: "'v field list \<Rightarrow> 'v fields option" where
  "fieldsToMap fs =
     (if length fs = 0 then None
      else Some (foldl (\<lambda>m f. map_put (f_Key f) (f_Value f) m) [] fs))"

definition domainLogger_Debug :: "('v, 's) domain_logger \<Rightarrow> string \<Rightarrow> 'v field list \<Rightarrow> 's \<Rightarrow> 's" where
  "domainLogger_Debug d msg fs = l_Debug (dl_l d) msg (fieldsToMap fs)"

definition domainLogger_Info :: "('v, 's) domain_logger \<Rightarrow> string \<Rightarrow> 'v field list \<Rightarrow> 's \<Rightarrow> 's" where
  "domainLogger_Info d msg fs = l_Info (dl_l d) msg (fieldsToMap fs)"

definition domainLogger_Warn :: "('v, 's) domain_logger \<Rightarrow> string \<Rightarrow> 'v field list \<Rightarrow> 's \<Rightarrow> 's" where
  "domainLogger_Warn d msg fs = l_Warn (dl_l d) msg (fieldsToMap fs)"

definition domainLogger_Error :: "('v, 's) domain_logger \<Rightarrow> string \<Rightarrow> 'v field list \<Rightarrow> 's \<Rightarrow> 's" where
  "domainLogger_Error d msg fs = l_Error (dl_l d) msg (fieldsToMap fs)"

lemmas domainLogger_defs = domainLogger_Debug_def domainLogger_Info_def domainLogger_Warn_def domainLogger_Error_def
  NewDomainLogger_def

lemma map_of_last_wins: "map_of (foldl (\<lambda>m f. map_put (f_Key f) (f_Value f) m) m0 fs) k =
    (case map_of (rev (map (\<lambda>f. (f_Key f, f_Value f)) fs)) k of None \<Rightarrow> map_of m0 k | Some v \<Rightarrow> Some v)"
  by (induction fs arbitrary: m0) (auto simp: map_add_def split: option.splits)

lemma fieldsToMap_last_wins:
  "fieldsToMap fs = Some m \<Longrightarrow> map_of m k = map_of (rev (map (\<lambda>f. (f_Key f, f_Value f)) fs)) k"
  by (auto simp: fieldsToMap_def map_of_last_wins split: if_splits option.splits)

text \<open>
  Through the adapter a logger that records its lines gets each line once, at the level it was written
  at, with the last value of every field.
\<close>

definition recording :: "('v, (log_level \<times> string \<times> 'v fields option) list) logger" where
  "recording =
     \<lparr>l_Debug = (\<lambda>m fs ls. ls @ [(Debug, m, fs)]), l_Info = (\<lambda>m fs ls. ls @ [(Info, m, fs)]),
      l_Warn = (\<lambda>m fs ls. ls @ [(Warn, m, fs)]), l_Error = (\<lambda>m fs ls. ls @ [(Error, m, fs)])\<rparr>"

lemma domain_logger_forwards:
  "domainLogger_Debug (NewDomainLogger recording) msg fs ls = ls @ [(Debug, msg, fieldsToMap fs)]"
  "domainLogger_Info (NewDomainLogger recording) msg fs ls = ls @ [(Info, msg, fieldsToMap fs)]"
  "domainLogger_Warn (NewDomainLogger recording) msg fs ls = ls @ [(Warn, msg, fieldsToMap fs)]"
  "domainLogger_Error (NewDomainLogger recording) msg fs ls = ls @ [(Error, msg, fieldsToMap fs)]"
  by (simp_all add: domainLogger_defs recording_def)

section \<open>The tracer\<close>

record 't otel_tracer =
  ot_tracer :: 't

definition tracer_scope :: "string \<Rightarrow> string" where
  "tracer_scope serviceName = (if serviceName = '''' then ''catalog-admin-config'' else serviceName)"

definition NewOTelTracer :: "(string \<Rightarrow> 't) \<Rightarrow> string \<Rightarrow> 't otel_tracer" where
  "NewOTelTracer Tracer serviceName = \<lparr>ot_tracer = Tracer (tracer_scope serviceName)\<rparr>"

text \<open>The new context, and the function that ends the span.\<close>

definition StartSpan ::
  "('t \<Rightarrow> 'c \<Rightarrow> string \<Rightarrow> 's \<Rightarrow> ('c \<times> 'sp) \<times> 's) \<Rightarrow> ('sp \<Rightarrow> 's \<Rightarrow> 's)
   \<Rightarrow> 't otel_tracer \<Rightarrow> 'c \<Rightarrow> string \<Rightarrow> 's \<Rightarrow> ('c \<times> ('s \<Rightarrow> 's)) \<times> 's" where
  "StartSpan Start End o1 ctx name s =
     (case Start (ot_tracer o1) ctx name s of ((ctx1, sp), s1) \<Rightarrow> ((ctx1, End sp), s1))"

text \<open>
  With a tracer that keeps a stack of open spans, a span that is started and ended leaves the stack as
  it was, and while it is open it is the innermost one, in the scope of the service.
\<close>

lemma span_is_balanced:
  assumes "\<And>t c n s. Start t c n s = ((c', (t, n)), (t, n) # s)" and "\<And>sp s. End sp (sp # s) = s"
    and "StartSpan Start End (NewOTelTracer id scope) ctx name s = ((ctx1, finish), s1)"
  shows "s1 = (tracer_scope scope, name) # s \<and> finish s1 = s"
  using assms(3) by (auto simp: StartSpan_def NewOTelTracer_def assms(1,2))

end
