(* ===== verification/Lifecycle.thy ===== *)
theory Lifecycle
  imports Config_Properties Observability
begin

text \<open>
  One run of the process: main of cmd/catalog-admin-config/main.go from its first line to its return,
  with RunMigrations of internal/adapter/outbound/postgres/migrate.go. What the libraries answer (the
  logger, the pool, the migration runner, the shutdowns) and what the two server goroutines do until a
  signal arrives are arguments. A run leaves a trace of events; deferred calls are a stack that is
  run, last in first out, when main returns or panics, and not when os.Exit ends the process. After the
  signal the goroutines only return from listeners that were closed, which leaves no event; the gin mode
  and the installed loggers leave none either.
\<close>

section \<open>Processes\<close>

record pool_config =
  pc_DSN :: string
  pc_Scope :: string

record http_server =
  hs_Addr :: string
  hs_ReadTimeout :: duration
  hs_ReadHeaderTimeout :: duration
  hs_WriteTimeout :: duration
  hs_IdleTimeout :: duration

datatype event =
    Log log_level string
  | TracingOn
  | MetricsRegistered
  | PoolOpened pool_config
  | MigrationsRun string
  | CacheOpened redis_options
  | ListeningApi http_server
  | ListeningMetrics http_server
  | ApiShutdown
  | MetricsShutdown
  | BackgroundCancelled
  | MigrationCancelled
  | ShutdownCancelled
  | TracingStopped
  | LoggerFlushed
  | CacheClosed
  | PoolClosed
  | Crashed string
  | Exited nat

datatype server_event =
    ApiListens | MetricsStarts | MetricsListens
  | ApiFails string | MetricsFails string
  | ApiPanics | MetricsPanics

datatype deferred = DeferPool | DeferBackground | DeferMigration | DeferCache | DeferShutdown

record process =
  pr_trace :: "event list"
  pr_defers :: "deferred list"

record libraries =
  li_NewLogger :: "string \<Rightarrow> string option"
  li_ConfigFromEnv :: config_from_env
  li_NewPool :: "pool_config \<Rightarrow> string option"
  li_Up :: "duration \<Rightarrow> string \<Rightarrow> string option"
  li_ParseURL :: "string \<Rightarrow> redis_options option"
  li_CacheClose :: "string option"
  li_Servers :: "server_event list"
  li_ShutdownApi :: "duration \<Rightarrow> string option"
  li_ShutdownMetrics :: "duration \<Rightarrow> string option"
  li_Flush :: "string option"

datatype stop = Panic string | Exit nat

type_synonym 'a proc = "process \<Rightarrow> (stop + 'a) \<times> process"

definition proc_bind :: "'a proc \<Rightarrow> ('a \<Rightarrow> 'b proc) \<Rightarrow> 'b proc" where
  "proc_bind m f p = (case m p of (Inl s, p1) \<Rightarrow> (Inl s, p1) | (Inr a, p1) \<Rightarrow> f a p1)"

definition proc_then :: "'a proc \<Rightarrow> 'b proc \<Rightarrow> 'b proc" where
  "proc_then m k = proc_bind m (\<lambda>_. k)"

definition return :: "'a \<Rightarrow> 'a proc" where
  "return a p = (Inr a, p)"

definition emit :: "event \<Rightarrow> unit proc" where
  "emit e p = (Inr (), p\<lparr>pr_trace := pr_trace p @ [e]\<rparr>)"

definition emit_all :: "event list \<Rightarrow> unit proc" where
  "emit_all es p = (Inr (), p\<lparr>pr_trace := pr_trace p @ es\<rparr>)"

definition defer_call :: "deferred \<Rightarrow> unit proc" where
  "defer_call d p = (Inr (), p\<lparr>pr_defers := d # pr_defers p\<rparr>)"

definition stop_with :: "stop \<Rightarrow> 'a proc" where
  "stop_with s p = (Inl s, p)"

text \<open>The call panics with the message, if there is one.\<close>

definition panic_on :: "string option \<Rightarrow> unit proc" where
  "panic_on m = (case m of None \<Rightarrow> return () | Some s \<Rightarrow> stop_with (Panic s))"

definition log_failure :: "string \<Rightarrow> string option \<Rightarrow> event list" where
  "log_failure msg e = (case e of None \<Rightarrow> [] | Some _ \<Rightarrow> [Log Error msg])"

fun run_deferred :: "libraries \<Rightarrow> deferred \<Rightarrow> event list" where
  "run_deferred L DeferPool = [PoolClosed]"
| "run_deferred L DeferBackground = [BackgroundCancelled]"
| "run_deferred L DeferMigration = [MigrationCancelled]"
| "run_deferred L DeferCache = CacheClosed # log_failure ''valkey close error'' (li_CacheClose L)"
| "run_deferred L DeferShutdown = [ShutdownCancelled]"

definition unwind :: "libraries \<Rightarrow> process \<Rightarrow> event list" where
  "unwind L p = concat (map (run_deferred L) (pr_defers p))"

section \<open>Migrations\<close>

text \<open>
  fs.Sub fails on a path that is not valid; the runner is the library's. Of the context it runs under
  the timeout is kept.
\<close>

definition runMigrationsFrom ::
  "(duration \<Rightarrow> string \<Rightarrow> string option) \<Rightarrow> string option \<Rightarrow> duration \<Rightarrow> string \<Rightarrow> string option" where
  "runMigrationsFrom Up sub_error timeout dsn = (case sub_error of Some e \<Rightarrow> Some e | None \<Rightarrow> Up timeout dsn)"

definition RunMigrations :: "(duration \<Rightarrow> string \<Rightarrow> string option) \<Rightarrow> duration \<Rightarrow> string \<Rightarrow> string option" where
  "RunMigrations Up timeout dsn = runMigrationsFrom Up None timeout dsn"

section \<open>The stages of main\<close>

definition prefixed :: "string \<Rightarrow> string option \<Rightarrow> string option" where
  "prefixed msg e = map_option (\<lambda>s. msg @ s) e"

text \<open>The environment, the logger, tracing and the metrics registries.\<close>

definition observability_stage :: "libraries \<Rightarrow> environ \<Rightarrow> unit proc" where
  "observability_stage L env =
     (let appEnv = envOr env ''APP_ENV'' ''dev'' in
      proc_then (panic_on (validateRequiredEnv env appEnv))
        (proc_then (panic_on (prefixed ''init logger: '' (li_NewLogger L appEnv)))
          (proc_then (emit TracingOn)
            (emit MetricsRegistered))))"

text \<open>The pool and the migrations, which get a minute.\<close>

definition service_name :: "environ \<Rightarrow> string" where
  "service_name env = envOr env ''APP_NAME'' ''catalog-admin-config''"

definition pool_settings :: "libraries \<Rightarrow> environ \<Rightarrow> pool_config" where
  "pool_settings L env =
     \<lparr>pc_DSN = DSNFromEnv (li_ConfigFromEnv L) env, pc_Scope = ot_tracer (NewOTelTracer id (service_name env))\<rparr>"

lemma pool_settings_DSN [simp]: "pc_DSN (pool_settings L env) = DSNFromEnv (li_ConfigFromEnv L) env"
  by (simp add: pool_settings_def)

definition database_stage :: "libraries \<Rightarrow> environ \<Rightarrow> unit proc" where
  "database_stage L env =
     (let appEnv = envOr env ''APP_ENV'' ''dev'';
          warnings = snd (li_ConfigFromEnv L env);
          pgCfg = pool_settings L env;
          migrationDSN = MigrationDSNFromEnv (li_ConfigFromEnv L) env
      in proc_then (emit_all (map (\<lambda>_. Log Warn ''postgres config warning'') warnings))
        (proc_then (panic_on (validatePostgresConfig appEnv (pc_DSN pgCfg) warnings))
          (proc_then (panic_on (prefixed ''connect to postgres: '' (li_NewPool L pgCfg)))
            (proc_then (emit (PoolOpened pgCfg))
              (proc_then (defer_call DeferPool)
                (proc_then (defer_call DeferBackground)
                  (proc_then (defer_call DeferMigration)
                    (proc_then (panic_on (prefixed ''domain migrations: '' (RunMigrations (li_Up L) (seconds 60) migrationDSN)))
                      (emit (MigrationsRun migrationDSN))))))))))"

text \<open>The cache, the repositories, the services and the router.\<close>

definition log_event :: "log_line \<Rightarrow> event" where
  "log_event l = (case l of LogWarn m \<Rightarrow> Log Warn m | LogError m \<Rightarrow> Log Error m)"

definition compose_stage :: "libraries \<Rightarrow> ext \<Rightarrow> environ \<Rightarrow> router_config proc" where
  "compose_stage L X env =
     proc_then (emit (CacheOpened (Cache_New (li_ParseURL L) (envOr env ''VALKEY_URL'' ''localhost:6379''))))
       (proc_then (defer_call DeferCache)
         (proc_then (emit_all (map log_event (snd (catalogTTLSeconds env))))
           (proc_then (emit_all (map (Log Warn) (docs_warnings (docs_from_env env))))
             (return (compose X env)))))"

text \<open>The two servers, and the deadline that the router sets for a request.\<close>

definition api_server :: "environ \<Rightarrow> http_server" where
  "api_server env =
     \<lparr>hs_Addr = '':'' @ envOr env ''APP_PORT'' ''8081'', hs_ReadTimeout = seconds 15, hs_ReadHeaderTimeout = 0,
      hs_WriteTimeout = seconds 35, hs_IdleTimeout = seconds 60\<rparr>"

definition metrics_server :: "environ \<Rightarrow> http_server" where
  "metrics_server env =
     \<lparr>hs_Addr = '':'' @ envOr env ''METRICS_PORT'' ''9090'', hs_ReadTimeout = 0, hs_ReadHeaderTimeout = seconds 5,
      hs_WriteTimeout = 0, hs_IdleTimeout = 0\<rparr>"

definition request_timeout :: duration where
  "request_timeout = seconds 30"

lemma replies_outlast_requests: "sint request_timeout < sint (hs_WriteTimeout (api_server env))"
  by (simp add: request_timeout_def api_server_def seconds_def)

text \<open>
  The two server goroutines until the signal, in the order the scheduler lets them get on: the goroutine
  of the metrics server logs that it starts, and then a server listens or fails. A listener that fails is logged and the process goes on
  waiting; a panic is logged and ends the process at once.
\<close>

fun servers_run :: "environ \<Rightarrow> server_event list \<Rightarrow> unit proc" where
  "servers_run env [] = return ()"
| "servers_run env (e # es) =
     (case e of
        ApiListens \<Rightarrow>
          proc_then (emit (ListeningApi (api_server env))) (servers_run env es)
      | MetricsStarts \<Rightarrow> proc_then (emit (Log Info ''metrics server starting'')) (servers_run env es)
      | MetricsListens \<Rightarrow> proc_then (emit (ListeningMetrics (metrics_server env))) (servers_run env es)
      | ApiFails m \<Rightarrow> proc_then (emit (Log Error ''server error'')) (servers_run env es)
      | MetricsFails m \<Rightarrow> proc_then (emit (Log Error ''metrics server error'')) (servers_run env es)
      | ApiPanics \<Rightarrow> proc_then (emit (Log Error ''panic in server goroutine'')) (stop_with (Exit 1))
      | MetricsPanics \<Rightarrow> proc_then (emit (Log Error ''panic in server goroutine'')) (stop_with (Exit 1)))"

definition serve_stage :: "libraries \<Rightarrow> environ \<Rightarrow> unit proc" where
  "serve_stage L env = proc_then (emit (Log Info ''service starting'')) (servers_run env (li_Servers L))"

definition shutdown_stage :: "libraries \<Rightarrow> unit proc" where
  "shutdown_stage L =
     proc_then (emit (Log Info (''shutdown signal received '' @ em_dash @ '' draining'')))
       (proc_then (defer_call DeferShutdown)
         (proc_then (emit_all (ApiShutdown # log_failure ''HTTP server shutdown error'' (li_ShutdownApi L (seconds 30))))
           (proc_then (defer_call DeferShutdown)
             (proc_then (emit_all (MetricsShutdown # log_failure ''metrics server shutdown error'' (li_ShutdownMetrics L (seconds 30))))
               (emit_all ([BackgroundCancelled, TracingStopped, LoggerFlushed]
                          @ log_failure ''logger/tracer flush error'' (li_Flush L)))))))"

definition main_body :: "libraries \<Rightarrow> ext \<Rightarrow> environ \<Rightarrow> unit proc" where
  "main_body L X env =
     proc_then (observability_stage L env)
       (proc_then (database_stage L env)
         (proc_then (compose_stage L X env)
           (proc_then (serve_stage L env) (shutdown_stage L))))"

definition main_run :: "libraries \<Rightarrow> ext \<Rightarrow> environ \<Rightarrow> event list" where
  "main_run L X env =
     (case main_body L X env \<lparr>pr_trace = [], pr_defers = []\<rparr> of
        (Inr _, p) \<Rightarrow> pr_trace p @ unwind L p
      | (Inl (Panic m), p) \<Rightarrow> pr_trace p @ unwind L p @ [Crashed m]
      | (Inl (Exit n), p) \<Rightarrow> pr_trace p @ [Exited n])"


section \<open>The trace of a run\<close>

named_theorems proc_defs "the combinators of a process"

declare proc_bind_def [proc_defs] proc_then_def [proc_defs] return_def [proc_defs] emit_def [proc_defs]
  emit_all_def [proc_defs] defer_call_def [proc_defs] stop_with_def [proc_defs] panic_on_def [proc_defs]

fun server_trace :: "environ \<Rightarrow> server_event list \<Rightarrow> event list" where
  "server_trace env [] = []"
| "server_trace env (e # es) =
     (case e of
        ApiListens \<Rightarrow> ListeningApi (api_server env) # server_trace env es
      | MetricsStarts \<Rightarrow> Log Info ''metrics server starting'' # server_trace env es
      | MetricsListens \<Rightarrow> ListeningMetrics (metrics_server env) # server_trace env es
      | ApiFails m \<Rightarrow> Log Error ''server error'' # server_trace env es
      | MetricsFails m \<Rightarrow> Log Error ''metrics server error'' # server_trace env es
      | _ \<Rightarrow> [Log Error ''panic in server goroutine''])"

definition server_panics :: "server_event list \<Rightarrow> bool" where
  "server_panics es \<longleftrightarrow> ApiPanics \<in> set es \<or> MetricsPanics \<in> set es"

lemma servers_run_eq:
  "servers_run env es p =
     (if server_panics es then Inl (Exit 1) else Inr (), p\<lparr>pr_trace := pr_trace p @ server_trace env es\<rparr>)"
proof (induction es arbitrary: p)
  case (Cons e es)
  then show ?case by (cases e) (simp_all add: proc_defs server_panics_def)
qed (simp add: proc_defs server_panics_def)

definition boot_trace :: "libraries \<Rightarrow> environ \<Rightarrow> event list" where
  "boot_trace L env =
     [TracingOn, MetricsRegistered]
   @ map (\<lambda>_. Log Warn ''postgres config warning'') (snd (li_ConfigFromEnv L env))
   @ [PoolOpened (pool_settings L env), MigrationsRun (MigrationDSNFromEnv (li_ConfigFromEnv L) env),
      CacheOpened (Cache_New (li_ParseURL L) (envOr env ''VALKEY_URL'' ''localhost:6379''))]
   @ map log_event (snd (catalogTTLSeconds env))
   @ map (Log Warn) (docs_warnings (docs_from_env env))
   @ [Log Info ''service starting'']"

definition shutdown_trace :: "libraries \<Rightarrow> event list" where
  "shutdown_trace L =
     [Log Info (''shutdown signal received '' @ em_dash @ '' draining''), ApiShutdown]
   @ log_failure ''HTTP server shutdown error'' (li_ShutdownApi L (seconds 30))
   @ [MetricsShutdown]
   @ log_failure ''metrics server shutdown error'' (li_ShutdownMetrics L (seconds 30))
   @ [BackgroundCancelled, TracingStopped, LoggerFlushed]
   @ log_failure ''logger/tracer flush error'' (li_Flush L)
   @ [ShutdownCancelled, ShutdownCancelled, CacheClosed]
   @ log_failure ''valkey close error'' (li_CacheClose L)
   @ [MigrationCancelled, BackgroundCancelled, PoolClosed]"

text \<open>The stages written out: every run is one of these traces.\<close>

lemma main_run_eq:
  "main_run L X env =
     (case validateRequiredEnv env (envOr env ''APP_ENV'' ''dev'') of Some m \<Rightarrow> [Crashed m] | None \<Rightarrow>
      case li_NewLogger L (envOr env ''APP_ENV'' ''dev'') of Some m \<Rightarrow> [Crashed (''init logger: '' @ m)] | None \<Rightarrow>
      let up = [TracingOn, MetricsRegistered]
               @ map (\<lambda>_. Log Warn ''postgres config warning'') (snd (li_ConfigFromEnv L env));
          cfg = pool_settings L env in
      case validatePostgresConfig (envOr env ''APP_ENV'' ''dev'') (pc_DSN cfg) (snd (li_ConfigFromEnv L env)) of
        Some m \<Rightarrow> up @ [Crashed m] | None \<Rightarrow>
      case li_NewPool L cfg of Some m \<Rightarrow> up @ [Crashed (''connect to postgres: '' @ m)] | None \<Rightarrow>
      case li_Up L (seconds 60) (MigrationDSNFromEnv (li_ConfigFromEnv L) env) of
        Some m \<Rightarrow> up @ [PoolOpened cfg, MigrationCancelled, BackgroundCancelled, PoolClosed,
                        Crashed (''domain migrations: '' @ m)] | None \<Rightarrow>
      if server_panics (li_Servers L)
      then boot_trace L env @ server_trace env (li_Servers L) @ [Exited 1]
      else boot_trace L env @ server_trace env (li_Servers L) @ shutdown_trace L)"
  unfolding main_run_def main_body_def observability_stage_def database_stage_def compose_stage_def serve_stage_def
    shutdown_stage_def Let_def RunMigrations_def runMigrationsFrom_def prefixed_def unwind_def
  by (simp add: proc_defs servers_run_eq boot_trace_def shutdown_trace_def del: append_Cons split: option.split)


section \<open>When the service listens, and what it releases\<close>

lemma startup_iff_validated:
  "startup X C env = Inr cfg \<longleftrightarrow>
     cfg = compose X env \<and> validateRequiredEnv env (envOr env ''APP_ENV'' ''dev'') = None
   \<and> validatePostgresConfig (envOr env ''APP_ENV'' ''dev'') (DSNFromEnv C env) (snd (C env)) = None"
  by (auto simp: startup_def Let_def split: option.splits)

lemma log_event_not_listening: "log_event l \<noteq> ListeningApi a"
  by (simp add: log_event_def split: log_line.split)

lemma boot_not_listening: "ListeningApi a \<notin> set (boot_trace L env)"
  using log_event_not_listening [of _ a] by (auto simp: boot_trace_def) (metis log_event_not_listening)

lemma shutdown_not_listening: "ListeningApi a \<notin> set (shutdown_trace L)"
  by (simp add: shutdown_trace_def log_failure_def split: option.split)

lemma server_trace_listening: "ListeningApi a \<in> set (server_trace env es) \<Longrightarrow> a = api_server env"
  by (induction es) (auto split: server_event.splits)

lemma split_after_prefix: "xs @ ys = pre @ x # post \<Longrightarrow> x \<notin> set xs \<Longrightarrow> \<exists>us. pre = xs @ us"
  by (auto simp: append_eq_append_conv2 Cons_eq_append_conv append_eq_Cons_conv)

text \<open>
  C38. The API listens only when the service is ready to serve: whatever the libraries do, before the
  first connection is accepted the startup checks have passed, the pool is open on the application's
  connection string and every migration has run on the migration one, within a minute; it listens on
  the configured port, and leaves a reply more time than the router leaves a request, so that the answer
  to one that runs into its deadline can still be written.
\<close>

theorem api_listens_only_when_ready:
  assumes run: "main_run L X env = pre @ ListeningApi a # post"
  shows "startup X (li_ConfigFromEnv L) env = Inr (compose X env)
       \<and> PoolOpened (pool_settings L env) \<in> set pre
       \<and> li_Up L (seconds 60) (MigrationDSNFromEnv (li_ConfigFromEnv L) env) = None
       \<and> MigrationsRun (MigrationDSNFromEnv (li_ConfigFromEnv L) env) \<in> set pre
       \<and> hs_Addr a = '':'' @ envOr env ''APP_PORT'' ''8081''
       \<and> sint request_timeout < sint (hs_WriteTimeout a)"
proof -
  have "ListeningApi a \<in> set (main_run L X env)" by (simp add: run)
  then have up: "validateRequiredEnv env (envOr env ''APP_ENV'' ''dev'') = None"
      "validatePostgresConfig (envOr env ''APP_ENV'' ''dev'') (DSNFromEnv (li_ConfigFromEnv L) env) (snd (li_ConfigFromEnv L env)) = None"
      "li_Up L (seconds 60) (MigrationDSNFromEnv (li_ConfigFromEnv L) env) = None"
    and a: "ListeningApi a \<in> set (server_trace env (li_Servers L))"
    and t: "\<exists>rest. main_run L X env = boot_trace L env @ rest"
    using boot_not_listening shutdown_not_listening by (auto simp: main_run_eq Let_def split: option.splits if_splits)
  from t run obtain us where "pre = boot_trace L env @ us" using split_after_prefix [OF _ boot_not_listening] by metis
  then show ?thesis
    using up server_trace_listening [OF a] replies_outlast_requests [of env]
    by (simp add: startup_iff_validated api_server_def) (simp add: boot_trace_def)
qed

definition sample_libraries :: "server_event list \<Rightarrow> libraries" where
  "sample_libraries evs =
     \<lparr>li_NewLogger = (\<lambda>_. None), li_ConfigFromEnv = (\<lambda>env. (''postgres://db/catalog'', [])), li_NewPool = (\<lambda>_. None),
      li_Up = (\<lambda>_ _. None), li_ParseURL = (\<lambda>_. None), li_CacheClose = None, li_Servers = evs,
      li_ShutdownApi = (\<lambda>_. Some ''deadline''), li_ShutdownMetrics = (\<lambda>_. None), li_Flush = None\<rparr>"

lemma sample_libraries_simps [simp]:
  "li_NewLogger (sample_libraries evs) e = None" "li_NewPool (sample_libraries evs) cfg = None"
  "li_ConfigFromEnv (sample_libraries evs) = (\<lambda>env. (''postgres://db/catalog'', []))"
  "li_Up (sample_libraries evs) t d = None" "li_Servers (sample_libraries evs) = evs"
  by (simp_all add: sample_libraries_def)

lemma sample_startup: "startup ext_ref (\<lambda>env. (''postgres://db/catalog'', [])) (prod_env ''rediss://cache:6379'')
    = Inr (compose ext_ref (prod_env ''rediss://cache:6379''))"
  by (simp add: startup_def validateRequiredEnv_def validatePostgresConfig_def missing_env_def missing_postgres_def
      prod_env_def DSNFromEnv_def ApplyStatementTimeout_def envOr_def is_prod_def has_prefix_def Let_def
      split: option.split)

lemma sample_main_run:
  "main_run (sample_libraries evs) ext_ref (prod_env ''rediss://cache:6379'') =
     boot_trace (sample_libraries evs) (prod_env ''rediss://cache:6379'')
     @ server_trace (prod_env ''rediss://cache:6379'') evs
     @ (if server_panics evs then [Exited 1] else shutdown_trace (sample_libraries evs))"
  using sample_startup by (simp add: startup_iff_validated main_run_eq Let_def)

lemma api_listens_only_when_ready_witness:
  "startup ext_ref (\<lambda>env. (''postgres://db/catalog'', [])) (prod_env ''rediss://cache:6379'')
     = Inr (compose ext_ref (prod_env ''rediss://cache:6379''))
   \<and> ListeningApi (api_server (prod_env ''rediss://cache:6379'')) \<in> set (main_run (sample_libraries [ApiListens]) ext_ref (prod_env ''rediss://cache:6379''))"
proof -
  have "main_run (sample_libraries [ApiListens]) ext_ref (prod_env ''rediss://cache:6379'') =
      boot_trace (sample_libraries [ApiListens]) (prod_env ''rediss://cache:6379'')
      @ ListeningApi (api_server (prod_env ''rediss://cache:6379'')) # shutdown_trace (sample_libraries [ApiListens])"
    unfolding sample_main_run by (simp add: server_panics_def)
  from api_listens_only_when_ready [OF this] this show ?thesis by (simp add: sample_libraries_def)
qed

definition holds_resource :: "event \<Rightarrow> bool" where
  "holds_resource e =
     (case e of PoolOpened _ \<Rightarrow> True | PoolClosed \<Rightarrow> True | CacheOpened _ \<Rightarrow> True | CacheClosed \<Rightarrow> True
      | ApiShutdown \<Rightarrow> True | MetricsShutdown \<Rightarrow> True | _ \<Rightarrow> False)"

lemma holds_resource_simps [simp]:
  "filter holds_resource (log_failure m e) = []" "\<not> holds_resource (log_event l)" "filter holds_resource (server_trace env es) = []"
  "filter holds_resource (map (\<lambda>w. Log Warn m) ws) = []" "filter holds_resource (map log_event ls) = []"
  "filter holds_resource (map (Log Warn) ms) = []"
proof -
  show l: "\<not> holds_resource (log_event l)" for l by (simp add: holds_resource_def log_event_def split: log_line.split)
  show "filter holds_resource (log_failure m e) = []" by (simp add: holds_resource_def log_failure_def split: option.split)
  show "filter holds_resource (server_trace env es) = []"
    by (induction es) (auto simp: holds_resource_def split: server_event.split)
  show "filter holds_resource (map (\<lambda>w. Log Warn m) ws) = []" by (induction ws) (simp_all add: holds_resource_def)
  show "filter holds_resource (map log_event ls) = []" using l by (induction ls) simp_all
  show "filter holds_resource (map (Log Warn) ms) = []" by (induction ms) (simp_all add: holds_resource_def)
qed

text \<open>
  C39. What main opens it closes, on every path on which the process is not killed by a panic of a
  server goroutine: a start that fails before the pool leaves nothing open, one that fails after it
  closes the pool, and a run that ends with the signal stops the API, then the metrics server, and
  only then closes the cache and the pool, even when a listener has failed or a shutdown has reported
  an error.
\<close>

theorem resources_released_in_order:
  assumes "\<not> server_panics (li_Servers L)"
  shows "filter holds_resource (main_run L X env) \<in>
     {[],
      [PoolOpened (pool_settings L env), PoolClosed],
      [PoolOpened (pool_settings L env),
       CacheOpened (Cache_New (li_ParseURL L) (envOr env ''VALKEY_URL'' ''localhost:6379'')),
       ApiShutdown, MetricsShutdown, CacheClosed, PoolClosed]}"
proof -
  have [simp]: "holds_resource (PoolOpened d)" "holds_resource PoolClosed" "holds_resource (CacheOpened c)" "holds_resource CacheClosed"
    "holds_resource ApiShutdown" "holds_resource MetricsShutdown" "\<not> holds_resource (Crashed m)" "\<not> holds_resource TracingOn"
    "\<not> holds_resource MetricsRegistered" "\<not> holds_resource (MigrationsRun m)" "\<not> holds_resource MigrationCancelled"
    "\<not> holds_resource BackgroundCancelled" "\<not> holds_resource (Log l m)" "\<not> holds_resource TracingStopped"
    "\<not> holds_resource LoggerFlushed" "\<not> holds_resource ShutdownCancelled" for d c m l
    by (simp_all add: holds_resource_def)
  show ?thesis
    using assms by (simp add: main_run_eq Let_def boot_trace_def shutdown_trace_def split: option.split)
qed

lemma closed_member: "f \<in> {[], [a, p], [a, c, s, m, d, p]} \<Longrightarrow> f \<noteq> [] \<Longrightarrow> p \<in> set f"
  by auto

lemma resources_released_in_order_witness:
  "PoolClosed \<in> set (main_run (sample_libraries [ApiFails ''bind'', MetricsStarts, MetricsListens]) ext_ref (prod_env ''rediss://cache:6379''))"
proof -
  let ?L = "sample_libraries [ApiFails ''bind'', MetricsStarts, MetricsListens]" and ?env = "prod_env ''rediss://cache:6379''"
  let ?d = "pool_settings ?L ?env"
  have "PoolOpened ?d \<in> set (main_run ?L ext_ref ?env)" unfolding sample_main_run by (simp add: boot_trace_def)
  then have "filter holds_resource (main_run ?L ext_ref ?env) \<noteq> []"
    unfolding filter_empty_conv holds_resource_def by force
  moreover have no: "\<not> server_panics (li_Servers ?L)" by (simp add: sample_libraries_def server_panics_def)
  ultimately have "PoolClosed \<in> set (filter holds_resource (main_run ?L ext_ref ?env))"
    using closed_member [OF resources_released_in_order [OF no, of ext_ref ?env]] by blast
  then show ?thesis by simp
qed

end
