(* ===== verification/Spec2Isabelle.thy ===== *)
theory Spec2Isabelle
  imports Reference_Server Staleness Served_Runs Plan_Limits Request_Parameters Metrics_Properties Lifecycle
begin

text \<open>
  The catalog and admin configuration service (iam-catalog-admin, Go). It keeps two catalogs in
  PostgreSQL, the departments and the three plan tiers, lets operators change them over HTTP under an
  optimistic lock, and serves them to the other services through a cache in Valkey that is only
  advisory. This library models the service from the environment and main down to the SQL statements
  with their triggers and constraints, and proves what its endpoints answer and what they leave behind.

  \<^bold>\<open>The program and its theories.\<close> Paths are under src/; a definition has the name of the Go function
  or method it translates, with the type in front of a method (\<open>DepartmentService_Patch\<close>).

  \<^item> Prelude, Json_Model: the Go standard library the code uses (strings, strconv, encoding/json) and
    lemmas on tables kept as lists of keyed rows.
  \<^item> Domain (internal/core/domain, pkg/requestctx): entities, the patch with its tri-state limits, the
    sentinels and DomainError, the caller's identity. Extern: the libraries as a record of functions
    with the documented behaviour \<open>ext_ok\<close> and an instance \<open>ext_ref\<close> that satisfies it.
  \<^item> Catalog_Db, Plans_Db (migrations/000001_init_schema.up.sql and the statements of the repositories):
    the tables, CHECK and UNIQUE constraints, triggers, grants, seed rows.
  \<^item> Metrics (outbound/metrics): the collectors, their registration and their series. World: the state of the running service, which is the tables, the
    keyspace of the cache, the clock, the supply of UUIDs, the counters and the histogram of durations,
    the log, and a schedule of faults for the coming transactions and cache calls.
  \<^item> Pg_Adapter, Department_Repo, Plan_Repo (outbound/postgres): the transaction wrapper, the error
    translation, and the repositories with their generated UPDATE statements.
  \<^item> Ports (internal/core/port), Valkey_Cache (outbound/valkey), Snapshots: the interfaces as records of
    functions, their contracts as locales, the cache adapter, and the JSON that is cached.
  \<^item> Department_Service, Plan_Service (internal/core/service): read-through listings, writes that
    invalidate, and the validation of patches.
  \<^item> Http_Core, Middleware, Department_Handler, Plan_Handler, Router (inbound/http): requests, responses,
    the error path, the chain of middleware, the handlers CAT-1 to CAT-7, CAT-I1 and CAT-I2, the route
    table, the probes, the request metrics and the documentation surface with its headers, its gate and
    the two assets it overrides. \<open>serve\<close> is the whole server.
  \<^item> Config, Lifecycle (cmd/catalog-admin-config, outbound/postgres/db.go, migrate.go): the environment,
    the startup checks, connection strings, the composition, and one run of main with its deferred
    calls, its two servers and their settings, and its shutdown with its budgets. Observability
    (outbound/postgres/logger.go, otel_tracer.go): the adapters that lend the logger and the tracer to
    the database library.

  \<^bold>\<open>How the proofs are organised.\<close>

  \<^item> Interfaces are locales: \<open>snapshot_cache\<close> and \<open>advisory_cache\<close> (Ports) are what the services rely on in
    a cache, interpreted on the Valkey adapter and on both catalogs; \<open>handler_contract\<close>,
    \<open>chain_contract\<close>, \<open>service_contract\<close> and \<open>server_contract\<close> (Handler_Contracts) say what a relation
    between the states before and after a request has to satisfy so that the whole server keeps it.
    Interpretations: the tables only evolve by the steps of an abstract machine (Evolution,
    Running_Service), both cached catalogs stay coherent (Coherence, Running_Coherence), and a request
    without the right to write keeps the tables (Http_Properties).
  \<^item> Requests: histories of requests and faults as a reachability relation, and the invariants of every
    reachable state: well-formed tables, system departments protected, nothing deleted, and a version
    that identifies the content of its row.
  \<^item> Write_Properties: the repository updates refine abstract updates of a row; from that, what CAT-1,
    CAT-2 and CAT-5 answer in every case, that a stale version is always refused, and that the version a
    conflict reports is the one to retry with. Plan_Limits follows the tri-state limits of CAT-5 from the
    JSON of the request to the row.
  \<^item> Simulation, Reference_Server: two servers side by side. A relation that the service operations of two
    configurations keep, with equal results, is kept by the whole chain of middleware and handlers, which
    then answer alike. It is interpreted on the server main composes and on a reference server that has
    no cache, no transactions and no SQL: in calm surroundings every sequence of requests gets the same
    answers and leaves the same tables.
  \<^item> Cache_Properties: the cached JSON reads back, listings are current after quiet histories, a broken
    cache changes no answer, entries expire, writes drop their own entry only.
  \<^item> Shared_Catalog, Catalogs, Interleaving: the port calls of concurrent requests on both catalogs
    interleave freely, and other transactions commit between the UPDATE that matched no row and the read
    that explains why. The locale \<open>catalog_provider\<close> is proved once for a catalog and interpreted on the
    departments and on the plans: a cached row is still an ancestor of a row of the table and its version
    a sound lock, and a refusal tells the truth.
  \<^item> Served_Runs: the bridge between the two views. Whatever request the server serves, what it does to
    the shared state is a run of the port calls of the interleaving model that leaves nothing in flight
    (another interpretation of \<open>server_contract\<close>). And the race the service has, in general form: a
    listing between whose read of the table and whose store a patch is served makes the cache go back to
    the old table until the entry expires, although nothing fails.
  \<^item> Staleness: the same requests with the time of their arrival, none of which makes a call after its
    deadline. The locale \<open>timed_provider\<close> extends the one above by the age of what is cached: it is the
    table of one moment of the run, at most the time to live and one deadline ago.
  \<^item> Http_Properties: which requests can write, who reaches which route, error bodies and statuses,
    probes, the documentation gate. Metrics_Properties: what the counters count.
  \<^item> Api_Contract, Request_Contract, Request_Parameters (docs/swagger/docs.go): the published answers,
    request bodies and parameters of each endpoint, that every answer of a handler conforms to its schema,
    that every documented body is bound as it is written, and that a handler reads nothing else.
  \<^item> Config_Properties, Lifecycle: the environments the service starts in, the numbers it reads, that it
    listens only when ready, and that it releases what it opened in order.
  \<^item> Samples, Dispatch: concrete worlds and requests, which the witnesses run through the server.

  \<^bold>\<open>Modelling choices.\<close> Strings are byte strings. Durations are 64-bit words, with time.Second multiplied
  in modulo 2 to the 64; Go's int is an \<open>int\<close> whose range \<open>int64_ok\<close> is part of the invariants and of the
  decoders; the int4 columns refuse values beyond 32 bits as PostgreSQL does. Errors are sums. There is no
  fuel: every loop of the program is a structural or a measured recursion, the only measured ones being
  the formatting and the parsing of numbers and durations. A fault can end a transaction when it begins,
  at its statement or at its commit (with the commit lost, or done and its acknowledgement lost), and a
  cache call with or without its effect; a body longer than 1 MiB without a Content-Length is what the
  reader returns before it fails (\<open>CutBody\<close> if no document is complete by then); a theorem that quantifies over the state quantifies over these.
  A transaction is one statement, with in one case a read after it. In the repositories and the server it
  runs at once, which is what it does when nothing comes between its statements (\<open>dept_two_phases\<close>,
  \<open>plan_two_phases\<close>); Interleaving takes the two statements apart. The level is read committed, where the
  read sees what has been committed since the UPDATE. In Staleness a call that its deadline cuts off is a
  request that is abandoned; that its command does not take effect later is what the model assumes there. How long a request takes is an argument of the
  metrics middleware, as the clock stands still while a request is served.

  \<^bold>\<open>Not modelled.\<close> The timeout and the observability middleware of gincommon, which pass requests
  through, and with them the 504 of a request that overruns its deadline (the deadline itself is compared
  with the settings of the server in Lifecycle); panics of handlers, which the recovery of gincommon
  answers and which skip the counting of the request; response headers outside the documentation surface; the
  text of log lines beyond their message; listeners and signals themselves; the library's migration
  runner and the export of traces; the style sheet and the script of the documentation page, which are
  fixed texts for a browser and arguments here; the descriptions and the security section of the
  OpenAPI document; tests and seeding tools. The code of gin, gincommon, pgcommon, pgx, go-redis and
  google/uuid is an argument.
\<close>

end
